(* ===== verification/Prelude.thy ===== *)
theory Prelude
  imports Complex_Main "HOL-Library.AList" "HOL-Library.Multiset" "HOL-Library.Product_Lexorder"
begin

text \<open>
  Shared material of the development: the Python-level vocabulary (dates, decimal quantities,
  exceptions, results), tables as lists of rows with the few query shapes the services use
  (\<^verbatim>\<open>filter_by(..).first()\<close>, \<^verbatim>\<open>get(pk)\<close>, attribute assignment on a loaded row), dictionaries as
  association lists in insertion order, and the generic state-machine locale that carries every
  reachability argument.
\<close>

named_theorems db_simps \<open>projections of rows and tables after an update\<close>
named_theorems frame_simps \<open>tables an operation leaves alone\<close>

section \<open>Python values\<close>

text \<open>
  \<^verbatim>\<open>decimal.Decimal\<close> quantities are exact rationals. A \<^verbatim>\<open>datetime.date\<close> is its proleptic ordinal
  (\<^verbatim>\<open>date.toordinal()\<close>), so \<^verbatim>\<open>date.min\<close> is 1 and \<^verbatim>\<open>date.max\<close> is 3652059; a naive
  \<^verbatim>\<open>datetime\<close> is a number of microseconds.
\<close>

type_synonym qty = rat
type_synonym date = int
type_synonym datetime = int

definition date_min :: date where
  "date_min = 1"

definition date_max :: date where
  "date_max = 3652059"

definition hours :: "int \<Rightarrow> int" where
  "hours h = h * 3600000000"

text \<open>Exceptions that reach a caller, by class; the text of the message is not kept.\<close>

datatype exc =
    ValueError
  | TypeError
  | AttributeError
  | OptimisticLock
  | IntegrityError
  | InvalidOperation
  | AssertionError
  | NotFound404
  | Forbidden403
  | BadRequest400
  | DataError
  | InvalidRequest

text \<open>Truthiness of a nullable integer and of a nullable string (\<^verbatim>\<open>if x:\<close>).\<close>

fun truthy_int :: "int option \<Rightarrow> bool" where
  "truthy_int None = False"
| "truthy_int (Some n) = (n \<noteq> 0)"

fun truthy_str :: "string option \<Rightarrow> bool" where
  "truthy_str None = False"
| "truthy_str (Some s) = (s \<noteq> [])"

section \<open>Tables\<close>

text \<open>
  \<open>upd_where\<close> assigns to the attributes of the loaded rows selected by a predicate;
  the query side is the library's \<open>find\<close> (first row) and \<open>filter\<close> (all rows).
\<close>

definition upd_where :: "('r \<Rightarrow> bool) \<Rightarrow> ('r \<Rightarrow> 'r) \<Rightarrow> 'r list \<Rightarrow> 'r list" where
  "upd_where P f rows = map (\<lambda>r. if P r then f r else r) rows"

lemma upd_where_Nil [simp]: "upd_where P f [] = []"
  by (simp add: upd_where_def)

lemma upd_where_Cons [simp]:
  "upd_where P f (r # rows) = (if P r then f r else r) # upd_where P f rows"
  by (simp add: upd_where_def)

lemma length_upd_where [simp]: "length (upd_where P f rows) = length rows"
  by (simp add: upd_where_def)

lemma set_upd_where: "set (upd_where P f rows) = (\<lambda>r. if P r then f r else r) ` set rows"
  by (simp add: upd_where_def)

lemma upd_where_none: "(\<And>r. r \<in> set rows \<Longrightarrow> \<not> P r) \<Longrightarrow> upd_where P f rows = rows"
  by (induction rows) auto

lemma map_upd_where_same:
  "(\<And>r. P r \<Longrightarrow> g (f r) = g r) \<Longrightarrow> map g (upd_where P f rows) = map g rows"
  by (induction rows) auto

lemma upd_where_upd_where_same:
  "(\<And>r. P r \<Longrightarrow> P (f r)) \<Longrightarrow> upd_where P g (upd_where P f rows) = upd_where P (g \<circ> f) rows"
  by (induction rows) auto

lemma upd_where_commute:
  assumes "\<And>r. P r \<Longrightarrow> Q r \<Longrightarrow> False"
    and "\<And>r. P r \<Longrightarrow> \<not> Q (f r)" and "\<And>r. Q r \<Longrightarrow> \<not> P (g r)"
  shows "upd_where P f (upd_where Q g rows) = upd_where Q g (upd_where P f rows)"
proof (induction rows)
  case (Cons r rows)
  then show ?case using assms(1) [of r] assms(2) [of r] assms(3) [of r] by auto
qed simp

lemma sum_list_upd_where_other:
  "(\<And>r. P r \<Longrightarrow> g (f r) = g r) \<Longrightarrow> sum_list (map g (upd_where P f rows)) = sum_list (map g rows)"
  by (simp add: map_upd_where_same)

lemma filter_upd_where:
  "(\<And>r. P r \<Longrightarrow> Q (f r) = Q r) \<Longrightarrow> filter Q (upd_where P f rows) = upd_where P f (filter Q rows)"
  by (induction rows) auto

lemma find_Some_set: "find P xs = Some x \<Longrightarrow> x \<in> set xs \<and> P x"
  by (induction xs) (auto split: if_splits)

lemma find_None_set: "find P xs = None \<longleftrightarrow> (\<forall>x \<in> set xs. \<not> P x)"
  by (induction xs) auto

lemma find_key_absent: "k \<notin> key ` set xs \<Longrightarrow> find (\<lambda>x. key x = k) xs = None"
  by (auto simp: find_None_set)

lemma find_map_key:
  "(\<And>x. key (f x) = key x) \<Longrightarrow> find (\<lambda>x. key x = k) (map f xs) = map_option f (find (\<lambda>x. key x = k) xs)"
  by (induction xs) auto

lemma find_cong_pred: "(\<And>x. x \<in> set xs \<Longrightarrow> P x = Q x) \<Longrightarrow> find P xs = find Q xs"
  by (induction xs) auto

text \<open>
  The interface between a table and its clients: a primary key and a way of writing to a row
  that keeps the key. Every keyed table of the data model interprets it.
\<close>

locale keyed_rows =
  fixes key :: "'r \<Rightarrow> 'k"
    and wr :: "'v \<Rightarrow> 'r \<Rightarrow> 'r"
  assumes key_wr: "key (wr v r) = key r"
begin

lemma find_upd_same:
  "find (\<lambda>r. key r = k) (upd_where (\<lambda>r. key r = k) (wr v) rows)
     = map_option (wr v) (find (\<lambda>r. key r = k) rows)"
  by (induction rows) (auto simp: key_wr)

lemma find_upd_other:
  "k \<noteq> k' \<Longrightarrow> find (\<lambda>r. key r = k') (upd_where (\<lambda>r. key r = k) (wr v) rows)
     = find (\<lambda>r. key r = k') rows"
  by (induction rows) (auto simp: key_wr)

lemma keys_upd: "map key (upd_where (\<lambda>r. key r = k) (wr v) rows) = map key rows"
  by (rule map_upd_where_same) (simp add: key_wr)

lemma distinct_upd:
  "distinct (map key rows) \<Longrightarrow> distinct (map key (upd_where (\<lambda>r. key r = k) (wr v) rows))"
  by (simp add: keys_upd)

lemma upd_commute:
  "k \<noteq> k' \<Longrightarrow> upd_where (\<lambda>r. key r = k) (wr v) (upd_where (\<lambda>r. key r = k') (wr v') rows)
     = upd_where (\<lambda>r. key r = k') (wr v') (upd_where (\<lambda>r. key r = k) (wr v) rows)"
  by (rule upd_where_commute) (auto simp: key_wr)

lemma find_unique:
  "distinct (map key rows) \<Longrightarrow> r \<in> set rows \<Longrightarrow> find (\<lambda>x. key x = key r) rows = Some r"
  by (induction rows) (auto simp: image_iff)

lemma upd_found:
  assumes "distinct (map key rows)" and "find (\<lambda>r. key r = k) rows = Some r" and "f r = g r"
  shows "upd_where (\<lambda>r. key r = k) f rows = upd_where (\<lambda>r. key r = k) g rows"
proof -
  have "f x = g x" if "x \<in> set rows" "key x = k" for x
    using find_unique [OF assms(1) that(1)] that(2) assms(2,3) by simp
  then show ?thesis by (simp add: upd_where_def)
qed

lemma find_conj_key:
  "distinct (map key rows) \<Longrightarrow> find (\<lambda>r. key r = k \<and> P r) rows =
     (case find (\<lambda>r. key r = k) rows of None \<Rightarrow> None | Some r \<Rightarrow> if P r then Some r else None)"
proof (induction rows)
  case (Cons a rows)
  show ?case
  proof (cases "key a = k")
    case True
    from Cons.prems have "key a \<notin> key ` set rows" by simp
    with True have "\<forall>r \<in> set rows. key r \<noteq> k" by (metis imageI)
    then have "find (\<lambda>r. key r = k) rows = None" "find (\<lambda>r. key r = k \<and> P r) rows = None"
      by (simp_all add: find_None_set)
    with True show ?thesis by simp
  qed (use Cons in simp)
qed simp

lemma upd_set_iff:
  assumes "distinct (map key rows)" and "find (\<lambda>r. key r = k) rows = Some r"
  shows "set (upd_where (\<lambda>r. key r = k) (wr v) rows) = insert (wr v r) (set rows - {r})"
proof -
  have r: "r \<in> set rows" "key r = k" using find_Some_set [OF assms(2)] by auto
  have uniq: "(key x = k) = (x = r)" if "x \<in> set rows" for x
  proof
    assume "key x = k"
    then have "find (\<lambda>r. key r = k) rows = Some x" using find_unique [OF assms(1) that] by simp
    then show "x = r" using assms(2) by simp
  qed (use r in simp)
  have "set (upd_where (\<lambda>r. key r = k) (wr v) rows) = (\<lambda>x. if x = r then wr v x else x) ` set rows"
    unfolding set_upd_where by (rule image_cong) (auto simp: uniq)
  also have "\<dots> = insert (wr v r) (set rows - {r})"
    using r(1) by auto
  finally show ?thesis .
qed

end

section \<open>Dictionaries in insertion order\<close>

text \<open>
  A Python \<^verbatim>\<open>dict\<close> keeps the position of a key that is assigned again, which is what
  \<open>AList.update\<close> does. \<open>dict_get\<close> is \<^verbatim>\<open>d.get(k, default)\<close>.
\<close>

type_synonym ('k, 'v) dict = "('k \<times> 'v) list"

definition dict_get :: "('k, 'v) dict \<Rightarrow> 'k \<Rightarrow> 'v \<Rightarrow> 'v" where
  "dict_get d k dflt = (case map_of d k of None \<Rightarrow> dflt | Some v \<Rightarrow> v)"

lemma dict_get_update [simp]:
  "dict_get (AList.update k v d) k' x = (if k' = k then v else dict_get d k' x)"
  by (simp add: dict_get_def update_conv')

lemma dict_get_Nil [simp]: "dict_get [] k x = x"
  by (simp add: dict_get_def)

lemma dict_get_Cons [simp]: "dict_get ((k', v) # d) k x = (if k' = k then v else dict_get d k x)"
  by (simp add: dict_get_def)

lemma set_dict_update: "set (AList.update k v d) \<subseteq> insert (k, v) (set d)"
  by (induction d) auto

lemma dict_get_not_in: "k \<notin> fst ` set d \<Longrightarrow> dict_get d k x = x"
  by (simp add: dict_get_def map_of_eq_None_iff [symmetric])

section \<open>Folding a fallible step over a list\<close>

text \<open>A loop whose body may return early with an error.\<close>

fun fold_result :: "('a \<Rightarrow> 's \<Rightarrow> 'e + 's) \<Rightarrow> 'a list \<Rightarrow> 's \<Rightarrow> 'e + 's" where
  "fold_result f [] s = Inr s"
| "fold_result f (x # xs) s = (case f x s of Inl e \<Rightarrow> Inl e | Inr s' \<Rightarrow> fold_result f xs s')"

lemma fold_result_append:
  "fold_result f (xs @ ys) s =
     (case fold_result f xs s of Inl e \<Rightarrow> Inl e | Inr s' \<Rightarrow> fold_result f ys s')"
  by (induction xs arbitrary: s) (auto split: sum.splits)

lemma fold_result_invariant:
  assumes "fold_result f xs s = Inr s'" and "I s"
    and "\<And>x t t'. x \<in> set xs \<Longrightarrow> I t \<Longrightarrow> f x t = Inr t' \<Longrightarrow> I t'"
  shows "I s'"
  using assms
proof (induction xs arbitrary: s)
  case Nil
  then show ?case by simp
next
  case (Cons x xs)
  then obtain t where t: "f x s = Inr t" and rest: "fold_result f xs t = Inr s'"
    by (auto split: sum.splits)
  from Cons.prems(2) Cons.prems(3) [OF _ _ t] have "I t" by simp
  moreover have "\<And>y u u'. y \<in> set xs \<Longrightarrow> I u \<Longrightarrow> f y u = Inr u' \<Longrightarrow> I u'"
    by (rule Cons.prems(3)) auto
  ultimately show ?case by (rule Cons.IH [OF rest])
qed

text \<open>Reading off the session a run ends in.\<close>

lemma run_result: "\<not> isl x \<Longrightarrow> fst (projr x) = a \<Longrightarrow> x = Inr (a, snd (projr x))"
  by (cases x) auto

section \<open>State machines\<close>

text \<open>
  Reachability and invariants, once: a client gives its initial states, its step relation and an
  inductive invariant, and obtains the invariant in every reachable state.
\<close>

inductive reach :: "('s \<Rightarrow> bool) \<Rightarrow> ('s \<Rightarrow> 's \<Rightarrow> bool) \<Rightarrow> 's \<Rightarrow> bool"
  for init :: "'s \<Rightarrow> bool" and step :: "'s \<Rightarrow> 's \<Rightarrow> bool" where
  reach_init: "init s \<Longrightarrow> reach init step s"
| reach_step: "reach init step s \<Longrightarrow> step s t \<Longrightarrow> reach init step t"

locale invariant_system =
  fixes init :: "'s \<Rightarrow> bool"
    and step :: "'s \<Rightarrow> 's \<Rightarrow> bool"
    and inv :: "'s \<Rightarrow> bool"
  assumes inv_init: "init s \<Longrightarrow> inv s"
    and inv_step: "inv s \<Longrightarrow> step s t \<Longrightarrow> inv t"
begin

lemma reach_inv: "reach init step s \<Longrightarrow> inv s"
  by (induction rule: reach.induct) (auto intro: inv_init inv_step)

lemma steps_inv: "step\<^sup>*\<^sup>* s t \<Longrightarrow> inv s \<Longrightarrow> inv t"
  by (induction rule: rtranclp_induct) (auto intro: inv_step)

end

end
