(* ===== verification/Models.thy ===== *)
theory Models
  imports Prelude
begin

text \<open>
  The data model of \<^verbatim>\<open>app/db/models.py\<close>: one record per mapped class, one table per record in the
  session state \<open>db\<close>, and the well-formedness of stock rows that the database's check
  constraints state. Field names carry a two-letter prefix for their table; relationship
  attributes become look-ups on the other table. Nullable columns are options.

  The columns of \<^verbatim>\<open>relief_request.items\<close> and \<^verbatim>\<open>relief_pkg.items\<close> are reached through the foreign
  key (\<open>rqst_items_of\<close>, \<open>pkg_items_of\<close>). A row changed through the ORM has its
  \<^verbatim>\<open>version_nbr\<close> raised by one when the code did not assign it (\<^verbatim>\<open>setup_optimistic_locking\<close> gives every
  class with that column a \<^verbatim>\<open>version_id_col\<close>): \<open>orm_row\<close>, \<open>orm_batch\<close>, \<open>orm_inventory\<close> and \<open>orm_pkg\<close>
  write that out.
\<close>

section \<open>Users and roles\<close>

record role =
  ro_id :: int
  ro_code :: string
  ro_name :: string

record permission =
  pe_id :: int
  pe_resource :: string
  pe_action :: string

record user =
  us_user_id :: int
  us_email :: string
  us_user_name :: string
  us_first_name :: "string option"
  us_last_name :: "string option"
  us_is_active :: bool
  us_agency_id :: "int option"
  us_lock_until_at :: "datetime option"
  us_roles :: "role list"
  us_warehouses :: "int list"
  us_password_hash :: string
  us_full_name :: "string option"
  us_organization :: "string option"
  us_job_title :: "string option"
  us_phone :: "string option"
  us_timezone :: string
  us_language :: string
  us_notification_preferences :: "string option"
  us_mfa_enabled :: bool
  us_password_changed_at :: "datetime option"
  us_create_dtime :: datetime

definition is_locked :: "datetime \<Rightarrow> user \<Rightarrow> bool" where
  "is_locked now u = (case us_lock_until_at u of None \<Rightarrow> False | Some t \<Rightarrow> now < t)"

section \<open>Catalogue, warehouses and stock\<close>

text \<open>
  The columns that most master tables share: who created and changed a row and when, its version,
  and the address block of a party.
\<close>

record audited =
  au_create_by_id :: string
  au_create_dtime :: datetime
  au_update_by_id :: string
  au_update_dtime :: datetime
  au_version_nbr :: int

record party = audited +
  pa_address1_text :: string
  pa_address2_text :: "string option"
  pa_parish_code :: string
  pa_contact_name :: string
  pa_phone_no :: string
  pa_email_text :: "string option"

record custodian = party +
  cu_custodian_id :: int
  cu_custodian_name :: string

record warehouse = party +
  wh_warehouse_id :: int
  wh_warehouse_name :: string
  wh_warehouse_type :: string
  wh_custodian_id :: int
  wh_status_code :: string
  wh_reason_desc :: "string option"

record agency = party +
  ag_agency_id :: int
  ag_agency_name :: string
  ag_agency_type :: string
  ag_ineligible_event_id :: "int option"
  ag_warehouse_id :: "int option"
  ag_status_code :: string

record donor = audited +
  dr_donor_id :: int
  dr_donor_code :: string
  dr_donor_name :: string
  dr_org_type_desc :: "string option"
  dr_address1_text :: string
  dr_address2_text :: "string option"
  dr_country_id :: int
  dr_phone_no :: string
  dr_email_text :: "string option"

record event = audited +
  ev_event_id :: int
  ev_event_type :: string
  ev_start_date :: date
  ev_event_name :: string
  ev_event_desc :: string
  ev_impact_desc :: string
  ev_status_code :: string
  ev_closed_date :: "date option"
  ev_reason_desc :: "string option"

record unitofmeasure = audited +
  um_uom_code :: string
  um_uom_desc :: string
  um_comments_text :: "string option"
  um_status_code :: string

record itemcatg = audited +
  ic_category_id :: int
  ic_category_code :: string
  ic_category_desc :: string
  ic_comments_text :: "string option"
  ic_status_code :: string

record item = audited +
  it_item_id :: int
  it_item_code :: string
  it_item_name :: string
  it_sku_code :: string
  it_category_id :: int
  it_item_desc :: string
  it_reorder_qty :: qty
  it_default_uom_code :: string
  it_units_size_vary_flag :: bool
  it_usage_desc :: "string option"
  it_storage_desc :: "string option"
  it_is_batched_flag :: bool
  it_can_expire_flag :: bool
  it_issuance_order :: string
  it_comments_text :: "string option"
  it_status_code :: string

text \<open>The ORM raises the version of a changed row (\<^verbatim>\<open>setup_optimistic_locking\<close>).\<close>

definition orm_row :: "'a audited_scheme \<Rightarrow> 'a audited_scheme \<Rightarrow> 'a audited_scheme" where
  "orm_row old new = (if new = old then old else new\<lparr>au_version_nbr := au_version_nbr old + 1\<rparr>)"

record inventory =
  iv_inventory_id :: int
  iv_item_id :: int
  iv_usable_qty :: qty
  iv_reserved_qty :: qty
  iv_defective_qty :: qty
  iv_expired_qty :: qty
  iv_uom_code :: string
  iv_status_code :: string
  iv_create_by_id :: string
  iv_create_dtime :: datetime
  iv_update_by_id :: string
  iv_update_dtime :: datetime
  iv_version_nbr :: int

record itembatch =
  bt_batch_id :: int
  bt_inventory_id :: int
  bt_item_id :: int
  bt_batch_no :: "string option"
  bt_batch_date :: "date option"
  bt_expiry_date :: "date option"
  bt_usable_qty :: qty
  bt_reserved_qty :: qty
  bt_defective_qty :: qty
  bt_expired_qty :: qty
  bt_uom_code :: string
  bt_size_spec :: "string option"
  bt_avg_unit_value :: qty
  bt_status_code :: string
  bt_comments_text :: "string option"
  bt_create_by_id :: "string option"
  bt_create_dtime :: datetime
  bt_update_by_id :: "string option"
  bt_update_dtime :: datetime
  bt_version_nbr :: int

definition available_qty :: "itembatch \<Rightarrow> qty" where
  "available_qty b = bt_usable_qty b - bt_reserved_qty b"

definition is_expired :: "date \<Rightarrow> itembatch \<Rightarrow> bool" where
  "is_expired today b = (case bt_expiry_date b of None \<Rightarrow> False | Some d \<Rightarrow> d < today)"

section \<open>Relief requests, packages, locks\<close>

record reliefrqst_item_status =
  rs_status_code :: string
  rs_status_desc :: string
  rs_item_qty_rule :: string
  rs_active_flag :: bool

record reliefrqst =
  rq_reliefrqst_id :: int
  rq_agency_id :: int
  rq_request_date :: date
  rq_eligible_event_id :: "int option"
  rq_urgency_ind :: string
  rq_rqst_notes_text :: "string option"
  rq_status_code :: int
  rq_status_reason_desc :: "string option"
  rq_create_by_id :: string
  rq_create_dtime :: datetime
  rq_review_by_id :: "string option"
  rq_review_dtime :: "datetime option"
  rq_action_by_id :: "string option"
  rq_action_dtime :: "datetime option"
  rq_version_nbr :: int

record reliefrqst_item =
  ri_reliefrqst_id :: int
  ri_item_id :: int
  ri_request_qty :: qty
  ri_issue_qty :: qty
  ri_urgency_ind :: string
  ri_rqst_reason_desc :: "string option"
  ri_required_by_date :: "date option"
  ri_status_code :: string
  ri_status_reason_desc :: "string option"
  ri_action_by_id :: "string option"
  ri_action_dtime :: "datetime option"
  ri_version_nbr :: int

record fulfillment_lock =
  lk_reliefrqst_id :: int
  lk_fulfiller_user_id :: int
  lk_fulfiller_email :: string
  lk_acquired_at :: datetime
  lk_expires_at :: "datetime option"

record reliefpkg =
  pk_reliefpkg_id :: int
  pk_agency_id :: int
  pk_to_inventory_id :: int
  pk_reliefrqst_id :: int
  pk_start_date :: date
  pk_dispatch_dtime :: "datetime option"
  pk_status_code :: string
  pk_create_by_id :: string
  pk_create_dtime :: datetime
  pk_update_by_id :: string
  pk_update_dtime :: "datetime option"
  pk_verify_by_id :: "string option"
  pk_verify_dtime :: "datetime option"
  pk_received_by_id :: "string option"
  pk_received_dtime :: "datetime option"
  pk_version_nbr :: int

record reliefpkg_item =
  pi_reliefpkg_id :: int
  pi_fr_inventory_id :: int
  pi_batch_id :: int
  pi_item_id :: int
  pi_item_qty :: qty
  pi_uom_code :: string
  pi_create_by_id :: string
  pi_create_dtime :: datetime
  pi_update_by_id :: string
  pi_update_dtime :: datetime
  pi_version_nbr :: int

record dbintake =
  dq_reliefpkg_id :: int
  dq_inventory_id :: int
  dq_intake_date :: date
  dq_comments_text :: "string option"
  dq_status_code :: string
  dq_update_by_id :: string
  dq_update_dtime :: "datetime option"
  dq_version_nbr :: int

record dbintake_item =
  di_reliefpkg_id :: int
  di_inventory_id :: int
  di_item_id :: int
  di_usable_qty :: qty
  di_defective_qty :: qty
  di_expired_qty :: qty

section \<open>Donations, donation intake and transfers\<close>

record donation =
  dn_donation_id :: int
  dn_donor_id :: int
  dn_donation_desc :: string
  dn_event_id :: int
  dn_custodian_id :: int
  dn_received_date :: date
  dn_status_code :: string
  dn_comments_text :: "string option"
  dn_create_by_id :: string
  dn_create_dtime :: datetime
  dn_update_by_id :: "string option"
  dn_update_dtime :: "datetime option"
  dn_verify_by_id :: "string option"
  dn_verify_dtime :: "datetime option"
  dn_version_nbr :: int

record donation_item =
  dm_donation_id :: int
  dm_item_id :: int
  dm_item_qty :: qty
  dm_uom_code :: string
  dm_location_name :: string
  dm_status_code :: string
  dm_comments_text :: "string option"
  dm_create_by_id :: string
  dm_create_dtime :: datetime
  dm_verify_by_id :: "string option"
  dm_verify_dtime :: "datetime option"
  dm_version_nbr :: int

record dnintake =
  dk_donation_id :: int
  dk_inventory_id :: int
  dk_intake_date :: date
  dk_comments_text :: "string option"
  dk_status_code :: string
  dk_create_by_id :: string
  dk_create_dtime :: datetime
  dk_update_by_id :: string
  dk_update_dtime :: "datetime option"
  dk_verify_by_id :: string
  dk_verify_dtime :: "datetime option"
  dk_version_nbr :: int

text \<open>The surrogate key \<^verbatim>\<open>intake_item_id\<close> is read by nobody and left out.\<close>

record dnintake_item =
  dj_donation_id :: int
  dj_inventory_id :: int
  dj_item_id :: int
  dj_batch_no :: "string option"
  dj_batch_date :: "date option"
  dj_expiry_date :: "date option"
  dj_uom_code :: string
  dj_avg_unit_value :: qty
  dj_usable_qty :: qty
  dj_defective_qty :: qty
  dj_expired_qty :: qty
  dj_status_code :: string
  dj_comments_text :: "string option"
  dj_create_by_id :: string
  dj_create_dtime :: datetime
  dj_update_by_id :: string
  dj_update_dtime :: datetime
  dj_version_nbr :: int

record transfer =
  tr_transfer_id :: int
  tr_fr_inventory_id :: int
  tr_to_inventory_id :: int
  tr_transfer_date :: date
  tr_status_code :: string

section \<open>Notifications\<close>

text \<open>
  The deep links that notifications carry (\<^verbatim>\<open>url_for(endpoint, id)\<close>), by endpoint. Titles and
  message texts are presentation and are not kept.
\<close>

datatype link =
    ReviewRequest int
  | PreparePackage int
  | ViewRequest int
  | ReviewApproval int
  | AwaitingDispatch
  | ApprovedForDispatch
  | DispatchReceivedDetails int

record notification =
  nt_id :: int
  nt_user_id :: int
  nt_reliefrqst_id :: "int option"
  nt_type :: string
  nt_status :: string
  nt_link_url :: link
  nt_is_archived :: bool
  nt_created_at :: datetime

section \<open>The session state\<close>

text \<open>
  One table per record. Of parishes and countries only the keys are read (as targets of foreign
  keys).
\<close>

record account_request =
  aq_request_id :: int
  aq_agency_name :: string
  aq_contact_name :: string
  aq_contact_phone :: string
  aq_contact_email :: string
  aq_reason_text :: string
  aq_status_code :: string
  aq_status_reason :: "string option"
  aq_created_by_id :: int
  aq_updated_by_id :: int
  aq_created_at :: datetime
  aq_version_nbr :: int

record account_request_audit =
  aa_request_id :: int
  aa_event_type :: string
  aa_event_notes :: string
  aa_actor_user_id :: int
  aa_event_dtime :: datetime

text \<open>The identity columns of the master tables.\<close>

record sequences =
  sq_user :: int
  sq_custodian :: int
  sq_warehouse :: int
  sq_agency :: int
  sq_donor :: int
  sq_event :: int
  sq_itemcatg :: int
  sq_item :: int
  sq_account_request :: int

record db =
  t_user :: "user list"
  t_role :: "role list"
  t_permission :: "permission list"
  t_role_permission :: "(int \<times> int) list"
  t_agency :: "agency list"
  t_warehouse :: "warehouse list"
  t_item :: "item list"
  t_inventory :: "inventory list"
  t_itembatch :: "itembatch list"
  t_rqstitem_status :: "reliefrqst_item_status list"
  t_reliefrqst :: "reliefrqst list"
  t_reliefrqst_item :: "reliefrqst_item list"
  t_fulfillment_lock :: "fulfillment_lock list"
  t_reliefpkg :: "reliefpkg list"
  t_reliefpkg_item :: "reliefpkg_item list"
  t_dbintake :: "dbintake list"
  t_dbintake_item :: "dbintake_item list"
  t_parish :: "string list"
  t_country :: "int list"
  t_donor :: "donor list"
  t_event :: "event list"
  t_custodian :: "custodian list"
  t_unitofmeasure :: "unitofmeasure list"
  t_itemcatg :: "itemcatg list"
  t_donation :: "donation list"
  t_donation_item :: "donation_item list"
  t_dnintake :: "dnintake list"
  t_dnintake_item :: "dnintake_item list"
  t_transfer :: "transfer list"
  t_account_request :: "account_request list"
  t_account_audit :: "account_request_audit list"
  t_notification :: "notification list"
  seqs :: sequences
  seq_reliefrqst :: int
  seq_reliefpkg :: int
  seq_itembatch :: int
  seq_donation :: int
  seq_notification :: int

text \<open>
  The request context: the calendar day, the Jamaica clock, the logged-in user, the process-wide
  cache of item statuses as the request finds it, and how Python prints a \<^verbatim>\<open>Decimal\<close> (the number of
  digits it carries is not kept in a rational).
\<close>

record env =
  en_today :: date
  en_now :: datetime
  en_user :: user
  en_status_cache :: "(string, string \<times> string) dict option"
  en_str_decimal :: "qty \<Rightarrow> string"

definition rqst_items_of :: "db \<Rightarrow> int \<Rightarrow> reliefrqst_item list" where
  "rqst_items_of s rid = filter (\<lambda>r. ri_reliefrqst_id r = rid) (t_reliefrqst_item s)"

definition pkgs_of :: "db \<Rightarrow> int \<Rightarrow> reliefpkg list" where
  "pkgs_of s rid = filter (\<lambda>p. pk_reliefrqst_id p = rid) (t_reliefpkg s)"

definition pkg_items_of :: "db \<Rightarrow> int \<Rightarrow> reliefpkg_item list" where
  "pkg_items_of s pid = filter (\<lambda>r. pi_reliefpkg_id r = pid) (t_reliefpkg_item s)"

definition get_item :: "db \<Rightarrow> int \<Rightarrow> item option" where
  "get_item s i = find (\<lambda>r. it_item_id r = i) (t_item s)"

definition get_batch :: "db \<Rightarrow> int \<Rightarrow> itembatch option" where
  "get_batch s bid = find (\<lambda>b. bt_batch_id b = bid) (t_itembatch s)"

definition get_rqst :: "db \<Rightarrow> int \<Rightarrow> reliefrqst option" where
  "get_rqst s rid = find (\<lambda>r. rq_reliefrqst_id r = rid) (t_reliefrqst s)"

definition first_pkg :: "db \<Rightarrow> int \<Rightarrow> reliefpkg option" where
  "first_pkg s rid = find (\<lambda>p. pk_reliefrqst_id p = rid) (t_reliefpkg s)"

section \<open>Writing to rows\<close>

definition orm_batch :: "itembatch \<Rightarrow> itembatch \<Rightarrow> itembatch" where
  "orm_batch old new = (if new = old then old else new\<lparr>bt_version_nbr := bt_version_nbr old + 1\<rparr>)"

definition orm_inventory :: "inventory \<Rightarrow> inventory \<Rightarrow> inventory" where
  "orm_inventory old new =
     (if new = old then old else new\<lparr>iv_version_nbr := iv_version_nbr old + 1\<rparr>)"

definition orm_pkg :: "reliefpkg \<Rightarrow> reliefpkg \<Rightarrow> reliefpkg" where
  "orm_pkg old new = (if new = old then old else new\<lparr>pk_version_nbr := pk_version_nbr old + 1\<rparr>)"

definition batch_set_qty :: "qty \<times> qty \<Rightarrow> itembatch \<Rightarrow> itembatch" where
  "batch_set_qty ur b = orm_batch b (b\<lparr>bt_usable_qty := fst ur, bt_reserved_qty := snd ur\<rparr>)"

definition inventory_set_qty :: "qty \<times> qty \<Rightarrow> inventory \<Rightarrow> inventory" where
  "inventory_set_qty ur v = orm_inventory v (v\<lparr>iv_usable_qty := fst ur, iv_reserved_qty := snd ur\<rparr>)"

lemma batch_set_qty_sel [simp, db_simps]:
  "bt_batch_id (batch_set_qty ur b) = bt_batch_id b"
  "bt_inventory_id (batch_set_qty ur b) = bt_inventory_id b"
  "bt_item_id (batch_set_qty ur b) = bt_item_id b"
  "bt_usable_qty (batch_set_qty ur b) = fst ur"
  "bt_reserved_qty (batch_set_qty ur b) = snd ur"
  "bt_status_code (batch_set_qty ur b) = bt_status_code b"
  "bt_expiry_date (batch_set_qty ur b) = bt_expiry_date b"
  "bt_batch_date (batch_set_qty ur b) = bt_batch_date b"
  "bt_batch_no (batch_set_qty ur b) = bt_batch_no b"
  "bt_uom_code (batch_set_qty ur b) = bt_uom_code b"
  by (cases b; auto simp: batch_set_qty_def orm_batch_def)+

lemma inventory_set_qty_sel [simp, db_simps]:
  "iv_inventory_id (inventory_set_qty ur v) = iv_inventory_id v"
  "iv_item_id (inventory_set_qty ur v) = iv_item_id v"
  "iv_usable_qty (inventory_set_qty ur v) = fst ur"
  "iv_reserved_qty (inventory_set_qty ur v) = snd ur"
  "iv_status_code (inventory_set_qty ur v) = iv_status_code v"
  by (cases v; auto simp: inventory_set_qty_def orm_inventory_def)+

lemma orm_pkg_sel [simp, db_simps]:
  "pk_reliefpkg_id (orm_pkg old new) = pk_reliefpkg_id new"
  "pk_reliefrqst_id (orm_pkg old new) = pk_reliefrqst_id new"
  "pk_status_code (orm_pkg old new) = pk_status_code new"
  "pk_dispatch_dtime (orm_pkg old new) = pk_dispatch_dtime new"
  "pk_verify_by_id (orm_pkg old new) = pk_verify_by_id new"
  "pk_received_dtime (orm_pkg old new) = pk_received_dtime new"
  by (auto simp: orm_pkg_def)

definition inventory_key :: "inventory \<Rightarrow> int \<times> int" where
  "inventory_key v = (iv_item_id v, iv_inventory_id v)"

text \<open>
  A batch is loaded by \<^verbatim>\<open>filter_by(batch_id=.., item_id=.., inventory_id=..)\<close>; the warehouse of
  the key is optional because callers may hold a key with a NULL warehouse, which no row matches.
\<close>

type_synonym bkey = "int \<times> int option \<times> int"

definition batch_key :: "itembatch \<Rightarrow> bkey" where
  "batch_key b = (bt_item_id b, Some (bt_inventory_id b), bt_batch_id b)"

definition find_batch :: "db \<Rightarrow> bkey \<Rightarrow> itembatch option" where
  "find_batch s k = find (\<lambda>b. batch_key b = k) (t_itembatch s)"

definition set_batch :: "bkey \<Rightarrow> qty \<times> qty \<Rightarrow> db \<Rightarrow> db" where
  "set_batch k ur s =
     s\<lparr>t_itembatch := upd_where (\<lambda>b. batch_key b = k) (batch_set_qty ur) (t_itembatch s)\<rparr>"

definition set_inventory :: "int \<times> int \<Rightarrow> qty \<times> qty \<Rightarrow> db \<Rightarrow> db" where
  "set_inventory k ur s =
     s\<lparr>t_inventory := upd_where (\<lambda>v. inventory_key v = k) (inventory_set_qty ur) (t_inventory s)\<rparr>"

lemma batch_key_set_qty [simp]: "batch_key (batch_set_qty ur b) = batch_key b"
  by (simp add: batch_key_def)

lemma inventory_key_set_qty [simp]: "inventory_key (inventory_set_qty ur v) = inventory_key v"
  by (simp add: inventory_key_def)

lemma batch_set_qty_same [simp]: "batch_set_qty (bt_usable_qty b, bt_reserved_qty b) b = b"
  by (simp add: batch_set_qty_def orm_batch_def)

lemma distinct_batch_key:
  "distinct (map bt_batch_id bs) \<Longrightarrow> distinct (map batch_key bs)"
  by (auto simp: distinct_map inj_on_def batch_key_def)

interpretation batch_rows: keyed_rows batch_key batch_set_qty
  by unfold_locales simp

interpretation inventory_rows: keyed_rows inventory_key inventory_set_qty
  by unfold_locales simp

lemma set_batch_tables [simp, frame_simps]:
  "t_inventory (set_batch k ur s) = t_inventory s"
  "t_reliefpkg (set_batch k ur s) = t_reliefpkg s"
  "t_reliefpkg_item (set_batch k ur s) = t_reliefpkg_item s"
  "t_reliefrqst (set_batch k ur s) = t_reliefrqst s"
  "t_reliefrqst_item (set_batch k ur s) = t_reliefrqst_item s"
  "t_fulfillment_lock (set_batch k ur s) = t_fulfillment_lock s"
  "t_warehouse (set_batch k ur s) = t_warehouse s"
  "t_item (set_batch k ur s) = t_item s"
  "t_user (set_batch k ur s) = t_user s"
  "t_notification (set_batch k ur s) = t_notification s"
  by (simp_all add: set_batch_def)

lemma set_inventory_tables [simp, frame_simps]:
  "t_itembatch (set_inventory k ur s) = t_itembatch s"
  "t_reliefpkg (set_inventory k ur s) = t_reliefpkg s"
  "t_reliefpkg_item (set_inventory k ur s) = t_reliefpkg_item s"
  "t_reliefrqst (set_inventory k ur s) = t_reliefrqst s"
  "t_reliefrqst_item (set_inventory k ur s) = t_reliefrqst_item s"
  "t_fulfillment_lock (set_inventory k ur s) = t_fulfillment_lock s"
  "t_warehouse (set_inventory k ur s) = t_warehouse s"
  "t_item (set_inventory k ur s) = t_item s"
  "t_user (set_inventory k ur s) = t_user s"
  "t_notification (set_inventory k ur s) = t_notification s"
  by (simp_all add: set_inventory_def)

lemma get_batch_set_inventory [simp]: "get_batch (set_inventory k ur s) bid = get_batch s bid"
  by (simp add: get_batch_def)

section \<open>Well-formed stock\<close>

text \<open>
  The check constraints on stock rows (\<^verbatim>\<open>c_itembatch_2a\<close>, \<^verbatim>\<open>c_itembatch_2b\<close> of the schema): usable
  stock is not negative, reserved stock lies between zero and the usable stock. \<open>stock_ok\<close>
  adds the primary keys.
\<close>

definition batch_ok :: "itembatch \<Rightarrow> bool" where
  "batch_ok b \<longleftrightarrow> 0 \<le> bt_reserved_qty b \<and> bt_reserved_qty b \<le> bt_usable_qty b"

definition stock_ok :: "db \<Rightarrow> bool" where
  "stock_ok s \<longleftrightarrow> (\<forall>b \<in> set (t_itembatch s). batch_ok b)
     \<and> distinct (map bt_batch_id (t_itembatch s))
     \<and> distinct (map inventory_key (t_inventory s))"

lemma stock_ok_get: "stock_ok s \<Longrightarrow> get_batch s bid = Some b \<Longrightarrow> batch_ok b"
  unfolding stock_ok_def get_batch_def by (meson find_Some_set)

lemma stock_ok_set_batch:
  assumes "stock_ok s" and "0 \<le> snd ur" and "snd ur \<le> fst ur"
  shows "stock_ok (set_batch k ur s)"
  using assms
  by (auto simp: stock_ok_def set_batch_def set_upd_where map_upd_where_same batch_ok_def)

lemma stock_ok_set_inventory: "stock_ok s \<Longrightarrow> stock_ok (set_inventory k ur s)"
  by (auto simp: stock_ok_def set_inventory_def inventory_rows.keys_upd)

end
