(* ===== verification/Example_Data.thy ===== *)
theory Example_Data
  imports Models
begin

text \<open>
  Concrete rows and small session states at which the hypotheses of the properties are
  discharged: one item stocked as two batches in one warehouse, and builders for the other rows.
\<close>

definition ex_role :: "int \<Rightarrow> string \<Rightarrow> role" where
  "ex_role i c = \<lparr>ro_id = i, ro_code = c, ro_name = c\<rparr>"

definition ex_user :: "int \<Rightarrow> string \<Rightarrow> role list \<Rightarrow> user" where
  "ex_user i n rs = \<lparr>us_user_id = i, us_email = n @ ''@odpem.gov'', us_user_name = n,
     us_first_name = Some n, us_last_name = Some n, us_is_active = True, us_agency_id = None,
     us_lock_until_at = None, us_roles = rs, us_warehouses = [], us_password_hash = [], us_full_name = None,
     us_organization = None, us_job_title = None, us_phone = None, us_timezone = ''America/Jamaica'',
     us_language = ''en'', us_notification_preferences = None, us_mfa_enabled = False,
     us_password_changed_at = None, us_create_dtime = 0\<rparr>"

definition ex_item :: "string \<Rightarrow> bool \<Rightarrow> item" where
  "ex_item ord e = \<lparr>au_create_by_id = ''CU'', au_create_dtime = 0, au_update_by_id = ''CU'', au_update_dtime = 0,
     au_version_nbr = 1, it_item_id = 1, it_item_code = ''RICE'', it_item_name = ''Rice'', it_sku_code = ''R1'',
     it_category_id = 1, it_item_desc = ''Rice'', it_reorder_qty = 1, it_default_uom_code = ''KG'',
     it_units_size_vary_flag = False, it_usage_desc = None, it_storage_desc = None, it_is_batched_flag = True,
     it_can_expire_flag = e, it_issuance_order = ord, it_comments_text = None, it_status_code = ''A''\<rparr>"

definition ex_warehouse :: warehouse where
  "ex_warehouse = \<lparr>au_create_by_id = ''CU'', au_create_dtime = 0, au_update_by_id = ''CU'', au_update_dtime = 0,
     au_version_nbr = 1, pa_address1_text = ''1 Haining Road'', pa_address2_text = None, pa_parish_code = ''01'',
     pa_contact_name = ''KEEPER'', pa_phone_no = ''+1 (876) 555-0100'', pa_email_text = None,
     wh_warehouse_id = 7, wh_warehouse_name = ''Central'', wh_warehouse_type = ''MAIN-HUB'', wh_custodian_id = 1,
     wh_status_code = ''A'', wh_reason_desc = None\<rparr>"

definition ex_custodian :: "int \<Rightarrow> string \<Rightarrow> custodian" where
  "ex_custodian i n = \<lparr>au_create_by_id = ''CU'', au_create_dtime = 0, au_update_by_id = ''CU'', au_update_dtime = 0,
     au_version_nbr = 1, pa_address1_text = ''1 Haining Road'', pa_address2_text = None, pa_parish_code = ''01'',
     pa_contact_name = ''KEEPER'', pa_phone_no = ''+1 (876) 555-0100'', pa_email_text = None,
     cu_custodian_id = i, cu_custodian_name = n\<rparr>"

definition ex_donor :: "int \<Rightarrow> string \<Rightarrow> donor" where
  "ex_donor i n = \<lparr>au_create_by_id = ''CU'', au_create_dtime = 0, au_update_by_id = ''CU'', au_update_dtime = 0,
     au_version_nbr = 1, dr_donor_id = i, dr_donor_code = n, dr_donor_name = n, dr_org_type_desc = None,
     dr_address1_text = ''1 Main Street'', dr_address2_text = None, dr_country_id = 388,
     dr_phone_no = ''+1 (876) 555-0100'', dr_email_text = None\<rparr>"

definition ex_event :: "int \<Rightarrow> string \<Rightarrow> event" where
  "ex_event i n = \<lparr>au_create_by_id = ''CU'', au_create_dtime = 0, au_update_by_id = ''CU'', au_update_dtime = 0,
     au_version_nbr = 1, ev_event_id = i, ev_event_type = ''STORM'', ev_start_date = 738900, ev_event_name = n,
     ev_event_desc = n, ev_impact_desc = n, ev_status_code = ''A'', ev_closed_date = None, ev_reason_desc = None\<rparr>"

definition ex_uom :: "string \<Rightarrow> unitofmeasure" where
  "ex_uom c = \<lparr>au_create_by_id = ''CU'', au_create_dtime = 0, au_update_by_id = ''CU'', au_update_dtime = 0,
     au_version_nbr = 1, um_uom_code = c, um_uom_desc = c, um_comments_text = None, um_status_code = ''A''\<rparr>"

definition ex_batch :: "int \<Rightarrow> date option \<Rightarrow> date option \<Rightarrow> qty \<Rightarrow> qty \<Rightarrow> itembatch" where
  "ex_batch i bd ed u r = \<lparr>bt_batch_id = i, bt_inventory_id = 7, bt_item_id = 1,
     bt_batch_no = None, bt_batch_date = bd, bt_expiry_date = ed, bt_usable_qty = u,
     bt_reserved_qty = r, bt_defective_qty = 0, bt_expired_qty = 0, bt_uom_code = ''KG'',
     bt_size_spec = None, bt_avg_unit_value = 1, bt_status_code = ''A'', bt_comments_text = None, bt_create_by_id = None,
     bt_create_dtime = 0, bt_update_by_id = None, bt_update_dtime = 0, bt_version_nbr = 1\<rparr>"

definition ex_inventory :: "qty \<Rightarrow> qty \<Rightarrow> inventory" where
  "ex_inventory u r = \<lparr>iv_inventory_id = 7, iv_item_id = 1, iv_usable_qty = u, iv_reserved_qty = r,
     iv_defective_qty = 0, iv_expired_qty = 0, iv_uom_code = ''KG'', iv_status_code = ''A'',
     iv_create_by_id = ''LO'', iv_create_dtime = 0, iv_update_by_id = ''LO'', iv_update_dtime = 0,
     iv_version_nbr = 1\<rparr>"

definition ex_rqst :: "int \<Rightarrow> int \<Rightarrow> reliefrqst" where
  "ex_rqst i st = \<lparr>rq_reliefrqst_id = i, rq_agency_id = 3, rq_request_date = 739000,
     rq_eligible_event_id = None, rq_urgency_ind = ''M'', rq_rqst_notes_text = None,
     rq_status_code = st, rq_status_reason_desc = None, rq_create_by_id = ''AG'',
     rq_create_dtime = 0, rq_review_by_id = None, rq_review_dtime = None, rq_action_by_id = None,
     rq_action_dtime = None, rq_version_nbr = 1\<rparr>"

definition ex_rqst_item :: "int \<Rightarrow> qty \<Rightarrow> qty \<Rightarrow> string \<Rightarrow> reliefrqst_item" where
  "ex_rqst_item r q iss st = \<lparr>ri_reliefrqst_id = r, ri_item_id = 1, ri_request_qty = q,
     ri_issue_qty = iss, ri_urgency_ind = ''M'', ri_rqst_reason_desc = None,
     ri_required_by_date = None, ri_status_code = st, ri_status_reason_desc = None,
     ri_action_by_id = None, ri_action_dtime = None, ri_version_nbr = 1\<rparr>"

definition ex_pkg :: "int \<Rightarrow> int \<Rightarrow> string \<Rightarrow> datetime option \<Rightarrow> reliefpkg" where
  "ex_pkg p r st dd = \<lparr>pk_reliefpkg_id = p, pk_agency_id = 3, pk_to_inventory_id = 1,
     pk_reliefrqst_id = r, pk_start_date = 739000, pk_dispatch_dtime = dd, pk_status_code = st,
     pk_create_by_id = ''LO'', pk_create_dtime = 0, pk_update_by_id = ''LO'',
     pk_update_dtime = Some 0, pk_verify_by_id = None, pk_verify_dtime = None,
     pk_received_by_id = None, pk_received_dtime = None, pk_version_nbr = 1\<rparr>"

definition ex_pkg_item :: "int \<Rightarrow> int \<Rightarrow> qty \<Rightarrow> reliefpkg_item" where
  "ex_pkg_item p b q = \<lparr>pi_reliefpkg_id = p, pi_fr_inventory_id = 7, pi_batch_id = b,
     pi_item_id = 1, pi_item_qty = q, pi_uom_code = ''KG'', pi_create_by_id = ''LO'',
     pi_create_dtime = 0, pi_update_by_id = ''LO'', pi_update_dtime = 0, pi_version_nbr = 1\<rparr>"

definition empty_db :: db where
  "empty_db = \<lparr>t_user = [], t_role = [], t_permission = [], t_role_permission = [], t_agency = [],
     t_warehouse = [], t_item = [], t_inventory = [], t_itembatch = [], t_rqstitem_status = [],
     t_reliefrqst = [], t_reliefrqst_item = [], t_fulfillment_lock = [], t_reliefpkg = [],
     t_reliefpkg_item = [], t_dbintake = [], t_dbintake_item = [], t_parish = [], t_country = [], t_donor = [], t_event = [],
     t_custodian = [], t_unitofmeasure = [], t_itemcatg = [], t_donation = [], t_donation_item = [], t_dnintake = [],
     t_dnintake_item = [], t_transfer = [], t_account_request = [], t_account_audit = [],
     t_notification = [], seqs = \<lparr>sq_user = 1, sq_custodian = 1, sq_warehouse = 1, sq_agency = 1, sq_donor = 1,
       sq_event = 1, sq_itemcatg = 1, sq_item = 1, sq_account_request = 1\<rparr>, seq_reliefrqst = 1, seq_reliefpkg = 1,
     seq_itembatch = 1, seq_donation = 1, seq_notification = 1\<rparr>"

text \<open>
  Item 1 issued in the given order; batch 10 expires before batch 11, both in warehouse 7.
\<close>

definition ex_stock :: "string \<Rightarrow> db" where
  "ex_stock ord = empty_db\<lparr>
     t_warehouse := [ex_warehouse], t_item := [ex_item ord True],
     t_inventory := [ex_inventory 15 2],
     t_itembatch := [ex_batch 11 (Some 738000) (Some 740000) 10 0,
                     ex_batch 10 (Some 738500) (Some 739500) 5 2]\<rparr>"

lemmas ex_simps = ex_role_def ex_user_def ex_item_def ex_warehouse_def ex_custodian_def
  ex_donor_def ex_event_def ex_uom_def ex_batch_def
  ex_inventory_def ex_rqst_def ex_rqst_item_def ex_pkg_def ex_pkg_item_def empty_db_def ex_stock_def

lemma ex_stock_ok: "stock_ok (ex_stock ord)"
  by (simp add: stock_ok_def ex_simps batch_ok_def inventory_key_def)

end
