(* ===== verification/Core_Utils.thy ===== *)
theory Core_Utils
  imports Example_Data
begin

text \<open>
  The small utilities of \<^verbatim>\<open>app/core\<close> and \<^verbatim>\<open>app/utils\<close>: the exception constructor of
  \<^verbatim>\<open>exceptions.py\<close>, the audit fields of \<^verbatim>\<open>audit.py\<close>, the labels of \<^verbatim>\<open>status.py\<close>, the time zone
  conversions of \<^verbatim>\<open>timezone.py\<close> and the phone numbers of \<^verbatim>\<open>phone_utils.py\<close>. Strings are Latin-1:
  a \<open>char\<close> is a code point below 256.
\<close>

section \<open>Strings\<close>

definition py_isspace :: "char \<Rightarrow> bool" where
  "py_isspace c \<longleftrightarrow> of_char c \<in> {9, 10, 11, 12, 13, 28, 29, 30, 31, 32, 133, 160 :: nat}"

definition py_strip :: "string \<Rightarrow> string" where
  "py_strip s = rev (dropWhile py_isspace (rev (dropWhile py_isspace s)))"

definition py_isdigit :: "char \<Rightarrow> bool" where
  "py_isdigit c \<longleftrightarrow> 48 \<le> (of_char c :: nat) \<and> (of_char c :: nat) \<le> 57"

text \<open>
  \<^verbatim>\<open>str.upper\<close> and \<^verbatim>\<open>str.lower\<close>, letter by letter. The sharp s, the micro sign and the y with
  diaeresis, whose capitals are outside Latin-1, stay as they are.
\<close>

definition upper_char :: "char \<Rightarrow> char" where
  "upper_char c =
     (let n = of_char c :: nat in
      if 97 \<le> n \<and> n \<le> 122 \<or> 224 \<le> n \<and> n \<le> 254 \<and> n \<noteq> 247 then char_of (n - 32) else c)"

definition lower_char :: "char \<Rightarrow> char" where
  "lower_char c =
     (let n = of_char c :: nat in
      if 65 \<le> n \<and> n \<le> 90 \<or> 192 \<le> n \<and> n \<le> 222 \<and> n \<noteq> 215 then char_of (n + 32) else c)"

definition py_upper :: "string \<Rightarrow> string" where
  "py_upper s = map upper_char s"

definition py_lower :: "string \<Rightarrow> string" where
  "py_lower s = map lower_char s"

section \<open>Exceptions\<close>

text \<open>
  \<^verbatim>\<open>OptimisticLockError(model_name, record_id, message=None)\<close>: the expression in a \<^verbatim>\<open>raise\<close>
  statement is evaluated first, so a call with too few positional arguments raises \<^verbatim>\<open>TypeError\<close>
  instead.
\<close>

definition OptimisticLockError :: "string list \<Rightarrow> exc" where
  "OptimisticLockError args = (if 2 \<le> length args \<and> length args \<le> 3 then OptimisticLock else TypeError)"

section \<open>Audit fields\<close>

definition audit_id :: "user \<Rightarrow> exc + string" where
  "audit_id u =
     (if us_user_name u = '''' \<or> py_strip (us_user_name u) = '''' then Inl ValueError
      else Inr (py_strip (py_upper (us_user_name u))))"

definition add_audit_fields_pkg_item ::
  "datetime \<Rightarrow> user \<Rightarrow> bool \<Rightarrow> reliefpkg_item \<Rightarrow> exc + reliefpkg_item" where
  "add_audit_fields_pkg_item now u is_new r =
     (case audit_id u of
        Inl e \<Rightarrow> Inl e
      | Inr a \<Rightarrow>
          let r1 = (if is_new
            then r\<lparr>pi_create_by_id := a, pi_create_dtime := now, pi_version_nbr := 1\<rparr> else r)
          in Inr (r1\<lparr>pi_update_by_id := a, pi_update_dtime := now\<rparr>))"

definition add_audit_fields_pkg :: "datetime \<Rightarrow> user \<Rightarrow> bool \<Rightarrow> reliefpkg \<Rightarrow> exc + reliefpkg" where
  "add_audit_fields_pkg now u is_new p =
     (case audit_id u of
        Inl e \<Rightarrow> Inl e
      | Inr a \<Rightarrow>
          let p1 = (if is_new
            then p\<lparr>pk_create_by_id := a, pk_create_dtime := now, pk_version_nbr := 1\<rparr> else p)
          in Inr (p1\<lparr>pk_update_by_id := a, pk_update_dtime := Some now\<rparr>))"

definition add_verify_fields_pkg :: "datetime \<Rightarrow> user \<Rightarrow> reliefpkg \<Rightarrow> exc + reliefpkg" where
  "add_verify_fields_pkg now u p =
     (case audit_id u of
        Inl e \<Rightarrow> Inl e
      | Inr a \<Rightarrow> Inr (p\<lparr>pk_verify_by_id := Some a, pk_verify_dtime := Some now\<rparr>))"

section \<open>Time zones\<close>

text \<open>
  A naive value is its number of microseconds; an aware value is the UTC instant it denotes.
  \<open>DateOnly\<close> is a \<^verbatim>\<open>date\<close> object, which the conversions return unchanged.
\<close>

datatype pydt = DateOnly date | Naive datetime | Aware datetime

definition jamaica_offset :: int where
  "jamaica_offset = hours (- 5)"

definition day_usec :: int where
  "day_usec = hours 24"

text \<open>\<open>now\<close> as a function of the UTC instant at which it is called.\<close>

definition jamaica_now :: "datetime \<Rightarrow> pydt" where
  "jamaica_now utc = Naive (utc + jamaica_offset)"

fun utc_to_jamaica :: "pydt option \<Rightarrow> pydt option" where
  "utc_to_jamaica None = None"
| "utc_to_jamaica (Some (DateOnly d)) = Some (DateOnly d)"
| "utc_to_jamaica (Some (Naive t)) = Some (Naive (t + jamaica_offset))"
| "utc_to_jamaica (Some (Aware t)) = Some (Naive (t + jamaica_offset))"

definition to_jamaica_time :: "pydt option \<Rightarrow> pydt option" where
  "to_jamaica_time dt = utc_to_jamaica dt"

definition datetime_to_jamaica :: "pydt option \<Rightarrow> pydt option" where
  "datetime_to_jamaica dt = (case dt of None \<Rightarrow> None | Some d \<Rightarrow> to_jamaica_time (Some d))"

fun make_aware :: "pydt \<Rightarrow> exc + pydt" where
  "make_aware (DateOnly d) = Inl AttributeError"
| "make_aware (Naive t) = Inr (Aware t)"
| "make_aware (Aware t) = Inr (Aware t)"

definition midnight :: "datetime \<Rightarrow> datetime" where
  "midnight t = t - t mod day_usec"

definition get_date_only :: "datetime \<Rightarrow> pydt option \<Rightarrow> exc + pydt" where
  "get_date_only utc dt =
     (case (case dt of None \<Rightarrow> Some (jamaica_now utc) | Some d \<Rightarrow> utc_to_jamaica (Some d)) of
        Some (Naive t) \<Rightarrow> Inr (Naive (midnight t))
      | Some (Aware t) \<Rightarrow> Inr (Aware (midnight t))
      | Some (DateOnly d) \<Rightarrow> Inl TypeError
      | None \<Rightarrow> Inl AttributeError)"

text \<open>What \<open>format_datetime\<close> hands to \<^verbatim>\<open>strftime\<close>; \<^verbatim>\<open>None\<close> is shown as the empty string.\<close>

definition displayed :: "pydt option \<Rightarrow> pydt option" where
  "displayed dt = (case dt of None \<Rightarrow> None | Some (DateOnly d) \<Rightarrow> Some (DateOnly d)
     | Some d \<Rightarrow> to_jamaica_time (Some d))"

section \<open>Phone numbers\<close>

definition phone_regex :: "(char \<Rightarrow> bool) list" where
  "phone_regex = [(\<lambda>c. c = CHR ''+''), (\<lambda>c. c = CHR ''1''), (\<lambda>c. c = CHR '' ''), (\<lambda>c. c = CHR ''('')]
     @ replicate 3 py_isdigit @ [(\<lambda>c. c = CHR '')''), (\<lambda>c. c = CHR '' '')]
     @ replicate 3 py_isdigit @ [(\<lambda>c. c = CHR ''-'')] @ replicate 4 py_isdigit"

definition re_match :: "(char \<Rightarrow> bool) list \<Rightarrow> string \<Rightarrow> bool" where
  "re_match ps s = list_all2 (\<lambda>p c. p c) ps s"

definition validate_phone_format :: "string option \<Rightarrow> bool" where
  "validate_phone_format p =
     (case p of None \<Rightarrow> False | Some s \<Rightarrow> s \<noteq> '''' \<and> re_match phone_regex (py_strip s))"

definition starts_with :: "string \<Rightarrow> string \<Rightarrow> bool" where
  "starts_with s pre = (take (length pre) s = pre)"

definition format_phone :: "string \<Rightarrow> string" where
  "format_phone digits =
     ''+1 ('' @ take 3 digits @ '') '' @ take 3 (drop 3 digits) @ ''-'' @ take 4 (drop 6 digits)"

definition normalize_phone_number :: "string option \<Rightarrow> string option" where
  "normalize_phone_number p =
     (case p of
        None \<Rightarrow> None
      | Some s \<Rightarrow>
          if s = '''' then None
          else let cleaned = py_strip s;
                   digits = filter py_isdigit cleaned;
                   digits = (if starts_with cleaned ''+1'' then (if length digits > 10 then drop 1 digits else digits)
                     else if starts_with cleaned ''1'' \<and> length digits = 11 then drop 1 digits
                     else digits)
               in if length digits \<noteq> 10 then None else Some (format_phone digits))"

definition get_phone_validation_error :: "string \<Rightarrow> string" where
  "get_phone_validation_error field_name = field_name @ '' must follow the format +1 (XXX) XXX-XXXX.''"

section \<open>Phone numbers: lemmas\<close>

lemma length10:
  "length xs = 10 \<longleftrightarrow> (\<exists>a b c d e f g h i j. xs = [a, b, c, d, e, f, g, h, i, j])"
  by (auto simp: eval_nat_numeral length_Suc_conv)

lemma digit_not_space: "py_isdigit c \<Longrightarrow> \<not> py_isspace c"
  by (auto simp: py_isdigit_def py_isspace_def)

text \<open>The normal form of ten digits.\<close>

lemma format_phone_10:
  "format_phone [a, b, c, d, e, f, g, h, i, j]
     = [CHR ''+'', CHR ''1'', CHR '' '', CHR ''('', a, b, c, CHR '')'', CHR '' '', d, e, f, CHR ''-'', g, h, i, j]"
  by (simp add: format_phone_def eval_nat_numeral)

lemma re_match_phone:
  "re_match phone_regex s \<longleftrightarrow> (\<exists>ds. length ds = 10 \<and> list_all py_isdigit ds \<and> s = format_phone ds)"
proof
  assume "re_match phone_regex s"
  then obtain a b c d e f g h i j where
    "s = format_phone [a, b, c, d, e, f, g, h, i, j]" "list_all py_isdigit [a, b, c, d, e, f, g, h, i, j]"
    unfolding re_match_def phone_regex_def
    by (auto simp: eval_nat_numeral list_all2_Cons1 format_phone_10 [symmetric])
  then show "\<exists>ds. length ds = 10 \<and> list_all py_isdigit ds \<and> s = format_phone ds"
    by (intro exI [of _ "[a, b, c, d, e, f, g, h, i, j]"]) simp
next
  assume "\<exists>ds. length ds = 10 \<and> list_all py_isdigit ds \<and> s = format_phone ds"
  then obtain a b c d e f g h i j where
    "s = format_phone [a, b, c, d, e, f, g, h, i, j]" "list_all py_isdigit [a, b, c, d, e, f, g, h, i, j]"
    by (auto simp: length10)
  then show "re_match phone_regex s"
    by (simp add: format_phone_10 re_match_def phone_regex_def numeral_3_eq_3 numeral_eq_Suc)
qed

lemma py_strip_id:
  assumes "xs \<noteq> []" and "\<not> py_isspace (hd xs)" and "\<not> py_isspace (last xs)"
  shows "py_strip xs = xs"
proof -
  have "dropWhile py_isspace xs = xs" using assms(1,2) by (cases xs) auto
  moreover have "dropWhile py_isspace (rev xs) = rev xs"
    using assms(1,3) by (cases "rev xs") (auto simp: hd_rev [symmetric])
  ultimately show ?thesis by (simp add: py_strip_def)
qed

lemma py_strip_idem: "py_strip (py_strip s) = py_strip s"
proof (cases "py_strip s = []")
  case True
  moreover have "py_strip [] = []" by (simp add: py_strip_def)
  ultimately show ?thesis by simp
next
  case False
  let ?l = "dropWhile py_isspace s"
  have rev: "rev (py_strip s) = dropWhile py_isspace (rev ?l)" by (simp add: py_strip_def)
  have "last (py_strip s) = hd (dropWhile py_isspace (rev ?l))" using False rev by (metis hd_rev)
  moreover have "dropWhile py_isspace (rev ?l) \<noteq> []" using False rev by (metis rev_is_Nil_conv)
  ultimately have last: "\<not> py_isspace (last (py_strip s))" using hd_dropWhile by metis
  have "\<exists>ys. rev ?l = ys @ dropWhile py_isspace (rev ?l)" by (metis takeWhile_dropWhile_id)
  then obtain ys where "rev ?l = ys @ rev (py_strip s)" using rev by metis
  then have "?l = py_strip s @ rev ys" by (metis rev_append rev_rev_ident)
  then have "hd (py_strip s) = hd ?l" "?l \<noteq> []" using False by (auto simp: hd_append)
  then have "\<not> py_isspace (hd (py_strip s))" using hd_dropWhile by metis
  with last False show ?thesis by (intro py_strip_id)
qed

lemma format_phone_facts:
  assumes "length ds = 10" and "list_all py_isdigit ds"
  shows "py_strip (format_phone ds) = format_phone ds"
    and "filter py_isdigit (format_phone ds) = CHR ''1'' # ds"
    and "starts_with (format_phone ds) ''+1''" and "format_phone ds \<noteq> []"
proof -
  from assms(1) obtain a b c d e f g h i j where ds: "ds = [a, b, c, d, e, f, g, h, i, j]"
    by (auto simp: length10)
  have "\<not> py_isspace j" using assms(2) digit_not_space by (simp add: ds)
  then show "py_strip (format_phone ds) = format_phone ds"
    by (intro py_strip_id) (simp_all add: ds format_phone_10 py_isspace_def)
  show "filter py_isdigit (format_phone ds) = CHR ''1'' # ds"
    using assms(2) unfolding ds format_phone_10 by (simp add: py_isdigit_def)
  show "starts_with (format_phone ds) ''+1''" "format_phone ds \<noteq> []"
    by (simp_all add: ds format_phone_10 starts_with_def)
qed

lemma normalize_format:
  assumes "length ds = 10" and "list_all py_isdigit ds"
  shows "normalize_phone_number (Some (format_phone ds)) = Some (format_phone ds)"
    and "validate_phone_format (Some (format_phone ds))"
  using format_phone_facts [OF assms] assms re_match_phone [of "format_phone ds"]
  by (auto simp: normalize_phone_number_def validate_phone_format_def Let_def)

lemma normalize_is_format:
  assumes "normalize_phone_number p = Some q"
  shows "\<exists>ds. length ds = 10 \<and> list_all py_isdigit ds \<and> q = format_phone ds"
proof -
  have all: "list_all py_isdigit (drop n (filter py_isdigit xs))" for n xs
    using set_drop_subset [of n "filter py_isdigit xs"] by (auto simp: list_all_iff)
  have all0: "list_all py_isdigit (filter py_isdigit xs)" for xs by (simp add: list_all_iff)
  obtain s where p: "p = Some s"
    using assms by (auto simp: normalize_phone_number_def split: option.splits)
  let ?ds = "filter py_isdigit (py_strip s)"
  have "\<exists>ds. (ds = ?ds \<or> ds = drop 1 ?ds) \<and> length ds = 10 \<and> q = format_phone ds"
    using assms by (auto simp: p normalize_phone_number_def Let_def split: if_splits)
  with all all0 show ?thesis by blast
qed

section \<open>Properties\<close>

text \<open>
  Phone normalisation is sound and idempotent: whatever it accepts is in the required format
  and is left alone by a second pass, and a number that already validates is only stripped.
\<close>

lemma phone_normal_form:
  "(normalize_phone_number p = Some q \<longrightarrow>
      validate_phone_format (Some q) \<and> normalize_phone_number (Some q) = Some q)
   \<and> (validate_phone_format (Some t) \<longrightarrow> normalize_phone_number (Some t) = Some (py_strip t))"
proof (intro conjI impI)
  assume "normalize_phone_number p = Some q"
  then obtain ds where ds: "length ds = 10" "list_all py_isdigit ds" "q = format_phone ds"
    using normalize_is_format by blast
  show "validate_phone_format (Some q)" "normalize_phone_number (Some q) = Some q"
    using normalize_format [OF ds(1,2)] ds(3) by auto
next
  assume v: "validate_phone_format (Some t)"
  then obtain ds where ds: "length ds = 10" "list_all py_isdigit ds" "py_strip t = format_phone ds"
    and t: "t \<noteq> []" by (auto simp: validate_phone_format_def re_match_phone)
  from t ds format_phone_facts [OF ds(1,2)] show "normalize_phone_number (Some t) = Some (py_strip t)"
    by (simp add: normalize_phone_number_def Let_def)
qed

text \<open>
  A number written with the country code but one digit short is not rejected: for every
  nine digits \<open>n\<close>, \<open>+1n\<close> is accepted with the country code taken as the first digit of the area
  code.
\<close>

lemma phone_short_number_accepted:
  assumes "length n = 9" and "list_all py_isdigit n"
  shows "normalize_phone_number (Some (''+1'' @ n)) = Some (format_phone (CHR ''1'' # n))"
proof -
  have f: "filter py_isdigit n = n" using assms(2) by (simp add: list_all_iff)
  obtain m x where m: "n = m @ [x]" using assms(1) by (metis length_0_conv rev_exhaust zero_neq_numeral)
  then have "\<not> py_isspace x" using assms(2) digit_not_space by simp
  then have "py_strip (''+1'' @ n) = ''+1'' @ n"
    by (intro py_strip_id) (simp_all add: m py_isspace_def)
  then show ?thesis
    using assms(1) f
    by (simp add: normalize_phone_number_def starts_with_def py_isdigit_def Let_def)
qed

text \<open>
  A timestamp taken from \<open>now\<close> and shown through \<open>format_datetime\<close> is displayed ten hours behind
  UTC, that is five hours before the Jamaica time at which it was taken: \<open>now\<close> already stores
  Jamaica time, and the display treats the stored value as UTC.
\<close>

lemma stored_now_shifted_twice:
  "displayed (Some (jamaica_now utc)) = Some (Naive (utc - hours 10))
   \<and> displayed (Some (jamaica_now utc)) \<noteq> Some (jamaica_now utc)"
  by (simp add: displayed_def to_jamaica_time_def jamaica_now_def jamaica_offset_def hours_def)

end
