(* ===== verification/Notifications.thy ===== *)
theory Notifications
  imports Example_Data
begin

text \<open>
  \<^verbatim>\<open>app/services/notification_service.py\<close>: creating in-app notifications for recipients found by
  role or by agency, and the operations a user performs on the own notifications (read, read all,
  count, list, delete, clear). A notification keeps its recipient, request, type, status, link and
  creation time.
\<close>

section \<open>Recipients\<close>

definition role_users :: "db \<Rightarrow> role \<Rightarrow> user list" where
  "role_users s r = filter (\<lambda>u. list_ex (\<lambda>x. ro_id x = ro_id r) (us_roles u)) (t_user s)"

definition dedup_users :: "user list \<Rightarrow> user list" where
  "dedup_users us = map snd (fold (\<lambda>u d. AList.update (us_user_id u) u d) us [])"

definition users_of_roles :: "db \<Rightarrow> string list \<Rightarrow> user list" where
  "users_of_roles s codes =
     concat (map (\<lambda>r. filter us_is_active (role_users s r))
       (filter (\<lambda>r. ro_code r \<in> set codes) (t_role s)))"

definition get_active_users_by_role_codes :: "db \<Rightarrow> string list \<Rightarrow> user list" where
  "get_active_users_by_role_codes s codes = dedup_users (users_of_roles s codes)"

definition get_agency_active_users :: "db \<Rightarrow> int \<Rightarrow> user list" where
  "get_agency_active_users s agency_id =
     filter (\<lambda>u. us_agency_id u = Some agency_id \<and> us_is_active u) (t_user s)"

section \<open>Creating notifications\<close>

definition create_notification ::
  "datetime \<Rightarrow> int \<Rightarrow> string \<Rightarrow> link \<Rightarrow> int option \<Rightarrow> db \<Rightarrow> db" where
  "create_notification now user_id ty url rid s =
     s\<lparr>t_notification := t_notification s @
         [\<lparr>nt_id = seq_notification s, nt_user_id = user_id, nt_reliefrqst_id = rid, nt_type = ty,
           nt_status = ''unread'', nt_link_url = url, nt_is_archived = False, nt_created_at = now\<rparr>],
       seq_notification := seq_notification s + 1\<rparr>"

text \<open>One notification per recipient, in the order of the list.\<close>

definition notify_each ::
  "datetime \<Rightarrow> string \<Rightarrow> (user \<Rightarrow> link) \<Rightarrow> int \<Rightarrow> user list \<Rightarrow> db \<Rightarrow> db" where
  "notify_each now ty url rid us s =
     fold (\<lambda>u. create_notification now (us_user_id u) ty (url u) (Some rid)) us s"

definition role_codes_of :: "user \<Rightarrow> string list" where
  "role_codes_of u = map ro_code (us_roles u)"

definition is_logistics_user :: "user \<Rightarrow> bool" where
  "is_logistics_user u =
     list_ex (\<lambda>c. c \<in> set [''LOGISTICS_OFFICER'', ''LOGISTICS_MANAGER'']) (role_codes_of u)"

definition create_relief_request_submitted_notification ::
  "datetime \<Rightarrow> int \<Rightarrow> user list \<Rightarrow> db \<Rightarrow> db" where
  "create_relief_request_submitted_notification now rid us =
     notify_each now ''reliefrqst_submitted'' (\<lambda>u. ReviewRequest rid) rid us"

definition create_relief_request_approved_notification ::
  "datetime \<Rightarrow> int \<Rightarrow> user list \<Rightarrow> db \<Rightarrow> db" where
  "create_relief_request_approved_notification now rid us =
     notify_each now ''reliefrqst_approved''
       (\<lambda>u. if is_logistics_user u then PreparePackage rid else ViewRequest rid) rid us"

definition create_relief_request_denied_notification ::
  "datetime \<Rightarrow> int \<Rightarrow> user list \<Rightarrow> db \<Rightarrow> db" where
  "create_relief_request_denied_notification now rid us =
     notify_each now ''reliefrqst_denied'' (\<lambda>u. ViewRequest rid) rid us"

definition create_package_ready_for_approval_notification ::
  "datetime \<Rightarrow> reliefpkg \<Rightarrow> user list \<Rightarrow> db \<Rightarrow> db" where
  "create_package_ready_for_approval_notification now p us =
     notify_each now ''package_ready_for_approval'' (\<lambda>u. ReviewApproval (pk_reliefrqst_id p))
       (pk_reliefrqst_id p) us"

definition create_package_approved_notification ::
  "datetime \<Rightarrow> reliefpkg \<Rightarrow> user list \<Rightarrow> db \<Rightarrow> db" where
  "create_package_approved_notification now p us =
     notify_each now ''package_approved''
       (\<lambda>u. if ''INVENTORY_CLERK'' \<in> set (role_codes_of u) then AwaitingDispatch
            else if is_logistics_user u then ApprovedForDispatch
            else ViewRequest (pk_reliefrqst_id p))
       (pk_reliefrqst_id p) us"

definition create_package_dispatched_notification ::
  "datetime \<Rightarrow> reliefpkg \<Rightarrow> user list \<Rightarrow> db \<Rightarrow> db" where
  "create_package_dispatched_notification now p us =
     notify_each now ''package_dispatched'' (\<lambda>u. ViewRequest (pk_reliefrqst_id p))
       (pk_reliefrqst_id p) us"

section \<open>A user's own notifications\<close>

definition own_notification :: "db \<Rightarrow> int \<Rightarrow> int \<Rightarrow> notification option" where
  "own_notification s nid uid =
     find (\<lambda>n. nt_id n = nid \<and> nt_user_id n = uid) (t_notification s)"

definition mark_as_read :: "int \<Rightarrow> int \<Rightarrow> db \<Rightarrow> bool \<times> db" where
  "mark_as_read nid uid s =
     (case own_notification s nid uid of
        None \<Rightarrow> (False, s)
      | Some n \<Rightarrow> (True, s\<lparr>t_notification :=
          upd_where (\<lambda>m. nt_id m = nid) (nt_status_update (\<lambda>_. ''read'')) (t_notification s)\<rparr>))"

definition mark_all_as_read :: "int \<Rightarrow> db \<Rightarrow> nat \<times> db" where
  "mark_all_as_read uid s =
     (let P = (\<lambda>n. nt_user_id n = uid \<and> nt_status n = ''unread'') in
      (length (filter P (t_notification s)),
       s\<lparr>t_notification := upd_where P (nt_status_update (\<lambda>_. ''read'')) (t_notification s)\<rparr>))"

definition get_unread_count :: "db \<Rightarrow> int \<Rightarrow> nat" where
  "get_unread_count s uid =
     length (filter (\<lambda>n. nt_user_id n = uid \<and> nt_status n = ''unread'' \<and> \<not> nt_is_archived n)
       (t_notification s))"

definition get_recent_notifications :: "db \<Rightarrow> int \<Rightarrow> nat option \<Rightarrow> notification list" where
  "get_recent_notifications s uid limit =
     (let ns = sort_key (\<lambda>n. - nt_created_at n)
            (filter (\<lambda>n. nt_user_id n = uid \<and> \<not> nt_is_archived n) (t_notification s))
      in case limit of None \<Rightarrow> ns | Some k \<Rightarrow> take k ns)"

definition delete_notification :: "int \<Rightarrow> int \<Rightarrow> db \<Rightarrow> bool \<times> db" where
  "delete_notification nid uid s =
     (case own_notification s nid uid of
        None \<Rightarrow> (False, s)
      | Some n \<Rightarrow> (True, s\<lparr>t_notification := filter (\<lambda>m. nt_id m \<noteq> nid) (t_notification s)\<rparr>))"

definition clear_all_notifications :: "int \<Rightarrow> db \<Rightarrow> nat \<times> db" where
  "clear_all_notifications uid s =
     (length (filter (\<lambda>n. nt_user_id n = uid) (t_notification s)),
      s\<lparr>t_notification := filter (\<lambda>n. nt_user_id n \<noteq> uid) (t_notification s)\<rparr>)"

section \<open>Lemmas\<close>

text \<open>Sending notifications leaves every other table alone.\<close>

definition same_but_notifications :: "db \<Rightarrow> db \<Rightarrow> bool" where
  "same_but_notifications s t \<longleftrightarrow>
     t = s\<lparr>t_notification := t_notification t, seq_notification := seq_notification t\<rparr>"

lemma same_refl [simp]: "same_but_notifications s s"
  by (simp add: same_but_notifications_def)

lemma same_trans:
  "same_but_notifications s t \<Longrightarrow> same_but_notifications t u \<Longrightarrow> same_but_notifications s u"
  unfolding same_but_notifications_def by (cases s; cases t; cases u) simp

lemma same_create: "same_but_notifications s (create_notification now uid ty url rid s)"
  by (simp add: same_but_notifications_def create_notification_def)

lemma same_notify_each: "same_but_notifications s (notify_each now ty url rid us s)"
  unfolding notify_each_def
  by (induction us arbitrary: s) (auto intro: same_trans [OF same_create])

lemma same_tables:
  assumes "same_but_notifications s t"
  shows "t_user t = t_user s" "t_role t = t_role s" "t_inventory t = t_inventory s"
    "t_itembatch t = t_itembatch s" "t_reliefrqst t = t_reliefrqst s"
    "t_reliefrqst_item t = t_reliefrqst_item s" "t_fulfillment_lock t = t_fulfillment_lock s"
    "t_reliefpkg t = t_reliefpkg s" "t_reliefpkg_item t = t_reliefpkg_item s"
    "t_item t = t_item s" "t_warehouse t = t_warehouse s" "t_dbintake_item t = t_dbintake_item s"
    "seq_reliefrqst t = seq_reliefrqst s" "seq_reliefpkg t = seq_reliefpkg s"
    "seq_itembatch t = seq_itembatch s" "t_rqstitem_status t = t_rqstitem_status s"
  by (subst assms [unfolded same_but_notifications_def]; simp)+

lemmas notify_tables [simp, frame_simps] = same_tables [OF same_notify_each]

lemma notify_each_rows:
  "map (\<lambda>n. (nt_user_id n, nt_reliefrqst_id n, nt_type n, nt_link_url n, nt_status n))
     (t_notification (notify_each now ty url rid us s))
   = map (\<lambda>n. (nt_user_id n, nt_reliefrqst_id n, nt_type n, nt_link_url n, nt_status n)) (t_notification s)
     @ map (\<lambda>u. (us_user_id u, Some rid, ty, url u, ''unread'')) us"
  unfolding notify_each_def
  by (induction us arbitrary: s) (auto simp: create_notification_def)

lemma dedup_users_ids:
  "distinct (map us_user_id (dedup_users us)) \<and> set (dedup_users us) \<subseteq> set us
   \<and> us_user_id ` set (dedup_users us) = us_user_id ` set us"
proof -
  let ?d = "fold (\<lambda>u d. AList.update (us_user_id u) u d) us"
  have own: "(\<forall>p \<in> set d. fst p = us_user_id (snd p)) \<Longrightarrow> \<forall>p \<in> set (?d d). fst p = us_user_id (snd p)" for d
  proof (induction us arbitrary: d)
    case (Cons u us)
    have "\<forall>p \<in> set (AList.update (us_user_id u) u d). fst p = us_user_id (snd p)"
      using Cons.prems set_dict_update [of "us_user_id u" u d] by auto
    from Cons.IH [OF this] show ?case by simp
  qed simp
  have "distinct (map fst d) \<Longrightarrow> distinct (map fst (?d d))" for d
    by (induction us arbitrary: d) (auto simp: distinct_update)
  then have dist: "distinct (map fst (?d []))" by simp
  have fsts: "map fst (?d []) = map us_user_id (dedup_users us)"
    using own [of "[]"] by (simp add: dedup_users_def)
  have "set (?d d) \<subseteq> set d \<union> (\<lambda>u. (us_user_id u, u)) ` set us" for d
  proof (induction us arbitrary: d)
    case (Cons u us)
    from Cons.IH [of "AList.update (us_user_id u) u d"] set_dict_update [of "us_user_id u" u d]
    show ?case by auto
  qed simp
  then have sub: "set (dedup_users us) \<subseteq> set us" by (fastforce simp: dedup_users_def)
  have "fst ` set (?d d) = fst ` set d \<union> us_user_id ` set us" for d
    by (induction us arbitrary: d) (auto simp: dom_update)
  then have "fst ` set (?d []) = us_user_id ` set us" by simp
  moreover have "fst ` set (?d []) = us_user_id ` set (dedup_users us)"
    using fsts by (metis list.set_map)
  ultimately show ?thesis using dist fsts sub by simp
qed

section \<open>Properties\<close>

text \<open>
  C40: a user's operations on notifications reach only the user's own rows. Reading one or all,
  deleting one and clearing all leave every other user's notifications as they are; after reading
  all nothing of the user's is unread, and after clearing nothing of the user's is left.
\<close>

theorem notifications_isolated:
  assumes "distinct (map nt_id (t_notification s))"
    and "s' \<in> {snd (mark_as_read nid uid s), snd (mark_all_as_read uid s), snd (delete_notification nid uid s),
      snd (clear_all_notifications uid s)}"
  shows "filter (\<lambda>n. nt_user_id n \<noteq> uid) (t_notification s') = filter (\<lambda>n. nt_user_id n \<noteq> uid) (t_notification s)
     \<and> get_unread_count (snd (mark_all_as_read uid s)) uid = 0
     \<and> get_recent_notifications (snd (clear_all_notifications uid s)) uid None = []"
proof -
  have own: "nt_user_id x = uid"
    if "own_notification s nid uid = Some n" "x \<in> set (t_notification s)" "nt_id x = nid" for n x
  proof -
    have "n \<in> set (t_notification s)" "nt_id n = nid" "nt_user_id n = uid"
      using find_Some_set [OF that(1) [unfolded own_notification_def]] by auto
    then show ?thesis using assms(1) that(2,3) by (auto simp: distinct_map inj_on_def)
  qed
  have upd: "filter (\<lambda>n. nt_user_id n \<noteq> uid) (upd_where Q (nt_status_update g) ns) = filter (\<lambda>n. nt_user_id n \<noteq> uid) ns"
    if "\<forall>x \<in> set ns. Q x \<longrightarrow> nt_user_id x = uid" for Q g and ns :: "notification list"
    using that by (induction ns) (auto simp: upd_where_def)
  have del: "filter (\<lambda>n. nt_user_id n \<noteq> uid) (filter Q ns) = filter (\<lambda>n. nt_user_id n \<noteq> uid) ns"
    if "\<forall>x \<in> set ns. \<not> Q x \<longrightarrow> nt_user_id x = uid" for Q and ns :: "notification list"
    using that by (induction ns) auto
  let ?others = "\<lambda>s. filter (\<lambda>n. nt_user_id n \<noteq> uid) (t_notification s)"
  have "?others (snd (mark_as_read nid uid s)) = ?others s"
    by (cases "own_notification s nid uid") (auto simp: mark_as_read_def intro!: upd own)
  moreover have "?others (snd (mark_all_as_read uid s)) = ?others s"
    by (auto simp: mark_all_as_read_def Let_def intro!: upd)
  moreover have "?others (snd (delete_notification nid uid s)) = ?others s"
    by (cases "own_notification s nid uid") (auto simp: delete_notification_def simp del: filter_filter intro!: del own)
  moreover have "?others (snd (clear_all_notifications uid s)) = ?others s"
    by (simp add: clear_all_notifications_def)
  ultimately have "?others s' = ?others s" using assms(2) by auto
  moreover have "filter (\<lambda>n. nt_user_id n = uid \<and> nt_status n = ''unread'' \<and> \<not> nt_is_archived n)
      (upd_where (\<lambda>n. nt_user_id n = uid \<and> nt_status n = ''unread'') (nt_status_update (\<lambda>_. ''read'')) ns) = []" for ns
    by (induction ns) (auto simp: upd_where_def)
  then have "get_unread_count (snd (mark_all_as_read uid s)) uid = 0"
    by (simp add: get_unread_count_def mark_all_as_read_def Let_def)
  moreover have "get_recent_notifications (snd (clear_all_notifications uid s)) uid None = []"
    by (simp add: get_recent_notifications_def clear_all_notifications_def filter_empty_conv)
  ultimately show ?thesis by blast
qed

theorem notifications_isolated_witness:
  "length (t_notification (snd (clear_all_notifications 1
     (create_notification 0 2 ''t'' AwaitingDispatch None (create_notification 0 1 ''t'' AwaitingDispatch None empty_db))))) = 1"
proof -
  let ?s = "create_notification 0 2 ''t'' AwaitingDispatch None (create_notification 0 1 ''t'' AwaitingDispatch None empty_db)"
  have "distinct (map nt_id (t_notification ?s))" by (simp add: create_notification_def empty_db_def)
  from notifications_isolated [OF this, of "snd (clear_all_notifications 1 ?s)" _ 1]
  have "filter (\<lambda>n. nt_user_id n \<noteq> 1) (t_notification (snd (clear_all_notifications 1 ?s)))
      = filter (\<lambda>n. nt_user_id n \<noteq> 1) (t_notification ?s)" by blast
  then show ?thesis by (simp add: create_notification_def empty_db_def clear_all_notifications_def)
qed

end
