(* ===== verification/Keyed_Loops.thy ===== *)
theory Keyed_Loops
  imports Models
begin

text \<open>
  The loop shape the stock services share: for every element of a collection, load the row with
  the element's key (\<^verbatim>\<open>filter_by(..).with_for_update().first()\<close>), fail, skip, or assign to its
  attributes. The locale \<open>keyed_loop\<close> proves once what such a loop computes: it succeeds exactly
  when every element passes its test against the table as it was before the loop, and then
  rewrites each row by the one element with its key. The result does not depend on the order of
  the elements, which Python leaves open when it iterates a \<^verbatim>\<open>set\<close>.
\<close>

definition result :: "'e + 'a \<Rightarrow> 'a option" where
  "result x = (case x of Inl e \<Rightarrow> None | Inr a \<Rightarrow> Some a)"

lemma result_simps [simp]:
  "result (Inl e) = None" "result (Inr a) = Some a"
  by (simp_all add: result_def)

lemma result_Some_iff: "result x = Some a \<longleftrightarrow> x = Inr a"
  by (cases x) auto

lemma result_None_iff: "result x = None \<longleftrightarrow> (\<exists>e. x = Inl e)"
  by (cases x) auto

lemma result_case:
  "result (case x of Inl e \<Rightarrow> Inl e | Inr a \<Rightarrow> f a) = Option.bind (result x) (\<lambda>a. result (f a))"
  by (cases x) auto

lemma result_two_loops:
  assumes "result x = (if A then Some s else None)" and "result (f s) = (if B then Some t else None)"
  shows "result (case x of Inl e \<Rightarrow> Inl e | Inr s' \<Rightarrow> f s') = (if A \<and> B then Some t else None)"
  using assms by (cases x) (auto split: if_splits)

text \<open>The element for a row: the first one with the row's key.\<close>

definition rewrite_row :: "('a \<Rightarrow> 'k) \<Rightarrow> ('r \<Rightarrow> 'k) \<Rightarrow> ('a \<Rightarrow> 'r \<Rightarrow> 'r) \<Rightarrow> 'a list \<Rightarrow> 'r \<Rightarrow> 'r" where
  "rewrite_row akey key wr xs r =
     (case find (\<lambda>a. akey a = key r) xs of None \<Rightarrow> r | Some a \<Rightarrow> wr a r)"

lemma rewrite_row_Nil [simp]: "rewrite_row akey key wr [] r = r"
  by (simp add: rewrite_row_def)

lemma find_distinct_key:
  "distinct (map akey xs) \<Longrightarrow> a \<in> set xs \<Longrightarrow> find (\<lambda>x. akey x = akey a) xs = Some a"
  by (induction xs) (auto simp: image_iff)

lemma find_key_set:
  assumes "distinct (map akey xs)" and "distinct (map akey ys)" and "set xs = set ys"
  shows "find (\<lambda>a. akey a = k) xs = find (\<lambda>a. akey a = k) ys"
proof (cases "find (\<lambda>a. akey a = k) xs")
  case None
  with assms(3) have "find (\<lambda>a. akey a = k) ys = None" by (simp add: find_None_set)
  with None show ?thesis by simp
next
  case (Some a)
  then have "a \<in> set ys" "akey a = k" using find_Some_set [OF Some] assms(3) by auto
  with find_distinct_key [OF assms(2)] Some show ?thesis by fastforce
qed

lemma rewrite_row_set:
  "distinct (map akey xs) \<Longrightarrow> distinct (map akey ys) \<Longrightarrow> set xs = set ys \<Longrightarrow>
     rewrite_row akey key wr xs = rewrite_row akey key wr ys"
  by (rule ext) (simp add: rewrite_row_def find_key_set [of akey xs ys])

locale keyed_loop =
  fixes key :: "'r \<Rightarrow> 'k"
    and akey :: "'a \<Rightarrow> 'k"
    and tab :: "'s \<Rightarrow> 'r list"
    and upd :: "('r list \<Rightarrow> 'r list) \<Rightarrow> 's \<Rightarrow> 's"
    and view :: "'s \<Rightarrow> 'v"
    and missing_ok :: "'a \<Rightarrow> bool"
    and ok :: "'v \<Rightarrow> 'a \<Rightarrow> 'r \<Rightarrow> bool"
    and wr :: "'v \<Rightarrow> 'a \<Rightarrow> 'r \<Rightarrow> 'r"
    and step :: "'a \<Rightarrow> 's \<Rightarrow> 'e + 's"
  assumes tab_upd: "tab (upd g s) = g (tab s)"
    and upd_upd: "upd g (upd h s) = upd (g \<circ> h) s"
    and upd_same: "upd (\<lambda>rows. rows) s = s"
    and upd_cong: "g (tab s) = h (tab s) \<Longrightarrow> upd g s = upd h s"
    and view_upd: "view (upd g s) = view s"
    and key_wr: "key (wr v a r) = key r"
    and step: "distinct (map key (tab s)) \<Longrightarrow> result (step a s) =
       (case find (\<lambda>r. key r = akey a) (tab s) of
          None \<Rightarrow> if missing_ok a then Some s else None
        | Some r \<Rightarrow> if ok (view s) a r
            then Some (upd (upd_where (\<lambda>r. key r = akey a) (wr (view s) a)) s) else None)"
begin

definition passes :: "'s \<Rightarrow> 'a \<Rightarrow> bool" where
  "passes s a = (case find (\<lambda>r. key r = akey a) (tab s) of
      None \<Rightarrow> missing_ok a | Some r \<Rightarrow> ok (view s) a r)"

definition rewritten :: "'s \<Rightarrow> 'a list \<Rightarrow> 's" where
  "rewritten s xs = upd (map (rewrite_row akey key (wr (view s)) xs)) s"

lemma rewritten_Nil: "rewritten s [] = s"
proof -
  have "map (rewrite_row akey key (wr (view s)) []) (tab s) = tab s" by (intro map_idI) simp
  then show ?thesis unfolding rewritten_def using upd_cong [of _ s "\<lambda>rows. rows"] by (simp add: upd_same)
qed

lemma key_rewrite_row: "key (rewrite_row akey key (wr v) xs r) = key r"
  by (auto simp: rewrite_row_def key_wr split: option.split)

lemma keys_rewritten: "map key (tab (rewritten s xs)) = map key (tab s)"
  by (simp add: rewritten_def tab_upd key_rewrite_row)

lemma step_result:
  assumes "distinct (map key (tab s))"
  shows "result (step a s) = (if passes s a then Some (rewritten s [a]) else None)"
proof (cases "find (\<lambda>r. key r = akey a) (tab s)")
  case None
  have "map (rewrite_row akey key (wr (view s)) [a]) (tab s) = tab s"
    using None by (intro map_idI) (auto simp: find_None_set rewrite_row_def)
  then have "rewritten s [a] = s"
    unfolding rewritten_def using upd_cong [of _ s "\<lambda>rows. rows"] by (simp add: upd_same)
  with None step [OF assms, of a] show ?thesis by (simp add: passes_def)
next
  case (Some r)
  have "rewritten s [a] = upd (upd_where (\<lambda>r. key r = akey a) (wr (view s) a)) s"
    unfolding rewritten_def upd_where_def by (intro upd_cong) (auto simp: rewrite_row_def)
  with Some step [OF assms, of a] show ?thesis by (simp add: passes_def)
qed

lemma rewritten_Cons:
  assumes "akey a \<notin> akey ` set xs"
  shows "rewritten (rewritten s [a]) xs = rewritten s (a # xs)"
proof -
  have "rewrite_row akey key (wr v) xs (rewrite_row akey key (wr v) [a] r)
      = rewrite_row akey key (wr v) (a # xs) r" for v r
  proof (cases "akey a = key r")
    case True
    then have "find (\<lambda>x. akey x = key r) xs = None" using assms by (force simp: find_None_set)
    with True show ?thesis by (simp add: rewrite_row_def key_wr)
  qed (simp add: rewrite_row_def)
  then show ?thesis by (simp add: rewritten_def upd_upd view_upd comp_def)
qed

lemma passes_after:
  assumes "akey a \<noteq> akey x"
  shows "passes (rewritten s [a]) x = passes s x"
proof -
  have "find (\<lambda>r. key r = akey x) (map (rewrite_row akey key (wr v) [a]) rows)
      = find (\<lambda>r. key r = akey x) rows" for v rows
    using assms by (induction rows) (auto simp: rewrite_row_def key_wr)
  then show ?thesis by (simp add: passes_def rewritten_def tab_upd view_upd split: option.split)
qed

theorem loop_result:
  assumes "distinct (map key (tab s))" and "distinct (map akey xs)"
  shows "result (fold_result step xs s)
     = (if \<forall>a \<in> set xs. passes s a then Some (rewritten s xs) else None)"
  using assms
proof (induction xs arbitrary: s)
  case Nil
  then show ?case by (simp add: rewritten_Nil)
next
  case (Cons a xs)
  have dist: "distinct (map key (tab (rewritten s [a])))" using Cons.prems(1) by (simp add: keys_rewritten)
  have a: "akey a \<notin> akey ` set xs" using Cons.prems(2) by simp
  have later: "passes (rewritten s [a]) x = passes s x" if "x \<in> set xs" for x
    using a that by (intro passes_after) auto
  show ?case
    using step_result [OF Cons.prems(1), of a] Cons.IH [OF dist] Cons.prems(2) later
      rewritten_Cons [OF a, of s]
    by (simp add: result_case split: if_splits)
qed

lemma loop_order:
  assumes "distinct (map key (tab s))" and "distinct (map akey xs)" and "distinct (map akey ys)"
    and "set xs = set ys"
  shows "result (fold_result step xs s) = result (fold_result step ys s)"
  using assms rewrite_row_set [OF assms(2-4), of key "wr (view s)"] by (simp add: loop_result rewritten_def)

end

end
