(* ===== verification/Relief_Request.thy ===== *)
theory Relief_Request
  imports Core_Utils Notifications Keyed_Loops
begin

text \<open>
  \<^verbatim>\<open>app/services/relief_request_service.py\<close>: the life cycle of a relief request from draft over
  submission and eligibility review to automatic closing. Every service is one definition; a
  service that reports failure returns \<open>(False, message)\<close> with the state it leaves, a raised
  exception is an \<open>Inl\<close>. The agency and eligibility part is a step relation whose reachable states
  satisfy the review and action constraints of the \<^verbatim>\<open>reliefrqst\<close> table.
\<close>

section \<open>Status codes\<close>

definition STATUS_DRAFT :: int where [simp]: "STATUS_DRAFT = 0"
definition STATUS_AWAITING_APPROVAL :: int where [simp]: "STATUS_AWAITING_APPROVAL = 1"
definition STATUS_CANCELLED :: int where [simp]: "STATUS_CANCELLED = 2"
definition STATUS_SUBMITTED :: int where [simp]: "STATUS_SUBMITTED = 3"
definition STATUS_DENIED :: int where [simp]: "STATUS_DENIED = 4"
definition STATUS_PART_FILLED :: int where [simp]: "STATUS_PART_FILLED = 5"
definition STATUS_CLOSED :: int where [simp]: "STATUS_CLOSED = 6"
definition STATUS_FILLED :: int where [simp]: "STATUS_FILLED = 7"
definition STATUS_INELIGIBLE :: int where [simp]: "STATUS_INELIGIBLE = 8"

definition PKG_STATUS_PENDING :: string where [simp]: "PKG_STATUS_PENDING = ''P''"
definition PKG_STATUS_DISPATCHED :: string where [simp]: "PKG_STATUS_DISPATCHED = ''D''"
definition PKG_STATUS_COMPLETED :: string where [simp]: "PKG_STATUS_COMPLETED = ''C''"

definition ITEM_STATUS_REQUESTED :: string where [simp]: "ITEM_STATUS_REQUESTED = ''R''"

definition get_workflow_steps :: "int \<Rightarrow> int \<times> string \<times> string" where
  "get_workflow_steps st =
     (if st = STATUS_DRAFT then (1, ''Prepare Request'', ''active'')
      else if st \<in> set [STATUS_AWAITING_APPROVAL, STATUS_SUBMITTED] then (2, ''Submitted to ODPEM'', ''active'')
      else if st = STATUS_PART_FILLED then (3, ''ODPEM Processing'', ''active'')
      else if st = STATUS_CLOSED then (4, ''Goods Dispatched'', ''active'')
      else if st = STATUS_FILLED then (5, ''Goods Received'', ''completed'')
      else (1, ''Unknown'', ''active''))"

datatype rq_msg =
    OnlyDraftSubmitted int
  | NoItems
  | NoPositiveItems
  | RequestSubmitted int
  | RequestNotFound
  | AlreadyClosed
  | PackagesPending nat
  | NotAllReceived
  | AutoClosed int
  | OnlyDraftDeleted
  | ItemNotInRequest
  | ItemRemoved
  | CannotReview int
  | DecisionRecorded
  | BadDecision
  | ReasonRequired
  | ReviewerNotFound string
  | MarkedIneligible int
  | MarkedEligible int
  | IneligibleNotProcessed
  | StatusNotProcessed int
  | CanProcess

section \<open>Drafting\<close>

definition find_user_by_email :: "db \<Rightarrow> string \<Rightarrow> user option" where
  "find_user_by_email s email = find (\<lambda>u. us_email u = email) (t_user s)"

definition create_draft_request ::
  "env \<Rightarrow> int \<Rightarrow> string \<Rightarrow> int option \<Rightarrow> string option \<Rightarrow> string \<Rightarrow> db \<Rightarrow> exc + reliefrqst \<times> db" where
  "create_draft_request e agency_id urgency event notes user_email s =
     (case find_user_by_email s user_email of
        None \<Rightarrow> Inl ValueError
      | Some u \<Rightarrow>
          let r = \<lparr>rq_reliefrqst_id = seq_reliefrqst s, rq_agency_id = agency_id,
                   rq_request_date = en_today e, rq_eligible_event_id = event, rq_urgency_ind = urgency,
                   rq_rqst_notes_text = notes, rq_status_code = STATUS_DRAFT,
                   rq_status_reason_desc = None, rq_create_by_id = us_user_name u,
                   rq_create_dtime = en_now e, rq_review_by_id = None, rq_review_dtime = None,
                   rq_action_by_id = None, rq_action_dtime = None, rq_version_nbr = 1\<rparr>
          in Inr (r, s\<lparr>t_reliefrqst := t_reliefrqst s @ [r], seq_reliefrqst := seq_reliefrqst s + 1\<rparr>))"

definition find_rqst_item :: "db \<Rightarrow> int \<Rightarrow> int \<Rightarrow> reliefrqst_item option" where
  "find_rqst_item s rid i =
     find (\<lambda>r. ri_reliefrqst_id r = rid \<and> ri_item_id r = i) (t_reliefrqst_item s)"

definition set_rqst_item :: "int \<Rightarrow> int \<Rightarrow> (reliefrqst_item \<Rightarrow> reliefrqst_item) \<Rightarrow> db \<Rightarrow> db" where
  "set_rqst_item rid i f s = s\<lparr>t_reliefrqst_item :=
     upd_where (\<lambda>r. ri_reliefrqst_id r = rid \<and> ri_item_id r = i) f (t_reliefrqst_item s)\<rparr>"

definition set_rqst :: "int \<Rightarrow> (reliefrqst \<Rightarrow> reliefrqst) \<Rightarrow> db \<Rightarrow> db" where
  "set_rqst rid f s = s\<lparr>t_reliefrqst := upd_where (\<lambda>r. rq_reliefrqst_id r = rid) f (t_reliefrqst s)\<rparr>"

definition add_or_update_request_item ::
  "int \<Rightarrow> int \<Rightarrow> qty \<Rightarrow> string \<Rightarrow> string option \<Rightarrow> date option \<Rightarrow> int option \<Rightarrow> db \<Rightarrow> exc + db" where
  "add_or_update_request_item rid i q urgency reason by_date current_version s =
     (case find_rqst_item s rid i of
        Some r \<Rightarrow>
          if current_version \<noteq> None \<and> Some (ri_version_nbr r) \<noteq> current_version
          then Inl (OptimisticLockError [''message''])
          else Inr (set_rqst_item rid i (\<lambda>r. r\<lparr>ri_request_qty := q, ri_urgency_ind := urgency,
            ri_rqst_reason_desc := reason, ri_required_by_date := by_date,
            ri_version_nbr := ri_version_nbr r + 1\<rparr>) s)
      | None \<Rightarrow>
          Inr (s\<lparr>t_reliefrqst_item := t_reliefrqst_item s @
            [\<lparr>ri_reliefrqst_id = rid, ri_item_id = i, ri_request_qty = q, ri_issue_qty = 0,
              ri_urgency_ind = urgency, ri_rqst_reason_desc = reason, ri_required_by_date = by_date,
              ri_status_code = ITEM_STATUS_REQUESTED, ri_status_reason_desc = None,
              ri_action_by_id = None, ri_action_dtime = None, ri_version_nbr = 1\<rparr>]\<rparr>))"

definition delete_request_item :: "int \<Rightarrow> int \<Rightarrow> db \<Rightarrow> (bool \<times> rq_msg) \<times> db" where
  "delete_request_item rid i s =
     (case get_rqst s rid of
        None \<Rightarrow> ((False, RequestNotFound), s)
      | Some r \<Rightarrow>
          if rq_status_code r \<noteq> STATUS_DRAFT then ((False, OnlyDraftDeleted), s)
          else case find_rqst_item s rid i of
              None \<Rightarrow> ((False, ItemNotInRequest), s)
            | Some _ \<Rightarrow> ((True, ItemRemoved), s\<lparr>t_reliefrqst_item :=
                filter (\<lambda>r. \<not> (ri_reliefrqst_id r = rid \<and> ri_item_id r = i)) (t_reliefrqst_item s)\<rparr>))"

section \<open>Submission\<close>

definition create_odpem_notifications :: "env \<Rightarrow> int \<Rightarrow> db \<Rightarrow> db" where
  "create_odpem_notifications e rid s =
     create_relief_request_submitted_notification (en_now e) rid
       (users_of_roles s [''ODPEM_DIR_PEOD'', ''ODPEM_DDG'', ''ODPEM_DG'']) s"

definition submit_request :: "env \<Rightarrow> int \<Rightarrow> int \<Rightarrow> db \<Rightarrow> exc + (bool \<times> rq_msg) \<times> db" where
  "submit_request e rid current_version s =
     (case get_rqst s rid of
        None \<Rightarrow> Inl NotFound404
      | Some r \<Rightarrow>
          if rq_status_code r \<noteq> STATUS_DRAFT then Inr ((False, OnlyDraftSubmitted (rq_status_code r)), s)
          else if rqst_items_of s rid = [] then Inr ((False, NoItems), s)
          else if filter (\<lambda>i. ri_request_qty i > 0) (rqst_items_of s rid) = []
            then Inr ((False, NoPositiveItems), s)
          else if rq_version_nbr r \<noteq> current_version then Inl (OptimisticLockError [''message''])
          else Inr ((True, RequestSubmitted rid), create_odpem_notifications e rid
            (set_rqst rid (\<lambda>r. r\<lparr>rq_status_code := STATUS_AWAITING_APPROVAL,
              rq_version_nbr := rq_version_nbr r + 1\<rparr>) s)))"

section \<open>Dispatch and closing\<close>

definition create_dispatch_notifications :: "env \<Rightarrow> reliefrqst \<Rightarrow> db \<Rightarrow> db" where
  "create_dispatch_notifications e r s =
     notify_each (en_now e) ''reliefrqst_dispatch'' (\<lambda>u. ViewRequest (rq_reliefrqst_id r))
       (rq_reliefrqst_id r) (get_agency_active_users s (rq_agency_id r)) s"

definition create_closure_notification :: "env \<Rightarrow> reliefrqst \<Rightarrow> db \<Rightarrow> db" where
  "create_closure_notification e r s =
     notify_each (en_now e) ''reliefrqst_closed'' (\<lambda>u. ViewRequest (rq_reliefrqst_id r))
       (rq_reliefrqst_id r) (get_agency_active_users s (rq_agency_id r)) s"

definition received_qty :: "db \<Rightarrow> int \<Rightarrow> int \<Rightarrow> qty" where
  "received_qty s rid i =
     sum_list (map di_usable_qty
       (filter (\<lambda>d. di_item_id d = i \<and> di_reliefpkg_id d \<in> pk_reliefpkg_id ` set (pkgs_of s rid))
         (t_dbintake_item s)))"

definition check_and_autoclose_request :: "env \<Rightarrow> int \<Rightarrow> db \<Rightarrow> (bool \<times> rq_msg) \<times> db" where
  "check_and_autoclose_request e rid s =
     (case get_rqst s rid of
        None \<Rightarrow> ((False, RequestNotFound), s)
      | Some r \<Rightarrow>
          if rq_status_code r = STATUS_FILLED then ((False, AlreadyClosed), s)
          else let pending = length (filter (\<lambda>p. pk_status_code p \<in> set [''P'', ''D'']) (pkgs_of s rid)) in
            if pending > 0 then ((False, PackagesPending pending), s)
            else if \<not> list_all (\<lambda>i. \<not> received_qty s rid (ri_item_id i) < ri_issue_qty i) (rqst_items_of s rid)
              then ((False, NotAllReceived), s)
            else ((True, AutoClosed rid), create_closure_notification e r
              (set_rqst rid (\<lambda>r. r\<lparr>rq_status_code := STATUS_FILLED,
                rq_version_nbr := rq_version_nbr r + 1\<rparr>) s)))"

section \<open>Eligibility review\<close>

definition urgency_rank :: "string \<Rightarrow> nat" where
  "urgency_rank u = (case u of [] \<Rightarrow> 0 | c # _ \<Rightarrow> of_char c)"

definition get_pending_eligibility_requests :: "db \<Rightarrow> reliefrqst list" where
  "get_pending_eligibility_requests s =
     sort_key (\<lambda>r. (rq_request_date r, - int (urgency_rank (rq_urgency_ind r))))
       (filter (\<lambda>r. rq_status_code r = STATUS_AWAITING_APPROVAL \<and> rq_review_by_id r = None) (t_reliefrqst s))"

record eligibility_details =
  ed_request :: reliefrqst
  ed_items :: "reliefrqst_item list"
  ed_decision_made :: bool
  ed_can_edit :: bool

definition get_request_eligibility_details :: "db \<Rightarrow> int \<Rightarrow> eligibility_details option" where
  "get_request_eligibility_details s rid =
     map_option (\<lambda>r.
       let decided = (rq_review_by_id r \<noteq> None \<or> rq_status_code r \<in> set [STATUS_INELIGIBLE, STATUS_DENIED])
       in \<lparr>ed_request = r, ed_items = rqst_items_of s rid, ed_decision_made = decided,
           ed_can_edit = (\<not> decided \<and> rq_status_code r = STATUS_AWAITING_APPROVAL)\<rparr>) (get_rqst s rid)"

definition create_ineligible_notification :: "env \<Rightarrow> reliefrqst \<Rightarrow> db \<Rightarrow> db" where
  "create_ineligible_notification e r s =
     notify_each (en_now e) ''reliefrqst_ineligible'' (\<lambda>u. ViewRequest (rq_reliefrqst_id r))
       (rq_reliefrqst_id r) (get_agency_active_users s (rq_agency_id r)) s"

definition create_eligible_notification :: "env \<Rightarrow> int \<Rightarrow> db \<Rightarrow> db" where
  "create_eligible_notification e rid s =
     create_relief_request_approved_notification (en_now e) rid
       (dedup_users (users_of_roles s [''LOGISTICS_OFFICER'', ''LOGISTICS_MANAGER''])) s"

definition blank :: "string option \<Rightarrow> bool" where
  "blank r = (case r of None \<Rightarrow> True | Some t \<Rightarrow> t = [] \<or> py_strip t = [])"

definition mark_ineligible :: "env \<Rightarrow> user \<Rightarrow> string option \<Rightarrow> reliefrqst \<Rightarrow> reliefrqst" where
  "mark_ineligible e u reason r = r\<lparr>rq_review_by_id := Some (us_user_name u),
     rq_review_dtime := Some (en_now e), rq_status_code := STATUS_INELIGIBLE,
     rq_status_reason_desc := map_option py_strip reason, rq_action_by_id := Some (us_user_name u),
     rq_action_dtime := Some (en_now e), rq_version_nbr := rq_version_nbr r + 1\<rparr>"

definition mark_eligible :: "env \<Rightarrow> user \<Rightarrow> reliefrqst \<Rightarrow> reliefrqst" where
  "mark_eligible e u r = r\<lparr>rq_review_by_id := Some (us_user_name u),
     rq_review_dtime := Some (en_now e), rq_status_code := STATUS_SUBMITTED,
     rq_version_nbr := rq_version_nbr r + 1\<rparr>"

definition submit_eligibility_decision ::
  "env \<Rightarrow> int \<Rightarrow> string \<Rightarrow> string option \<Rightarrow> string \<Rightarrow> db \<Rightarrow> exc + (bool \<times> rq_msg) \<times> db" where
  "submit_eligibility_decision e rid decision reason reviewer_email s =
     (case get_rqst s rid of
        None \<Rightarrow> Inl NotFound404
      | Some r \<Rightarrow>
          if rq_status_code r \<noteq> STATUS_AWAITING_APPROVAL then Inr ((False, CannotReview (rq_status_code r)), s)
          else if rq_review_by_id r \<noteq> None then Inr ((False, DecisionRecorded), s)
          else if decision \<notin> set [''Y'', ''N''] then Inr ((False, BadDecision), s)
          else if decision = ''N'' \<and> blank reason then Inr ((False, ReasonRequired), s)
          else case find_user_by_email s reviewer_email of
              None \<Rightarrow> Inr ((False, ReviewerNotFound reviewer_email), s)
            | Some u \<Rightarrow>
                if decision = ''N'' then
                  Inr ((True, MarkedIneligible rid), create_ineligible_notification e r
                    (set_rqst rid (mark_ineligible e u reason) s))
                else
                  Inr ((True, MarkedEligible rid), create_eligible_notification e rid
                    (set_rqst rid (mark_eligible e u) s)))"

definition can_process_request :: "int \<Rightarrow> db \<Rightarrow> bool \<times> rq_msg" where
  "can_process_request rid s =
     (case get_rqst s rid of
        None \<Rightarrow> (False, RequestNotFound)
      | Some r \<Rightarrow>
          if rq_status_code r = STATUS_INELIGIBLE then (False, IneligibleNotProcessed)
          else if rq_status_code r \<in> set [STATUS_CANCELLED, STATUS_DENIED]
            then (False, StatusNotProcessed (rq_status_code r))
          else (True, CanProcess))"

section \<open>Lemmas\<close>

lemma get_rqst_set_rqst:
  assumes "\<And>r. rq_reliefrqst_id (f r) = rq_reliefrqst_id r"
  shows "get_rqst (set_rqst rid f s) rid' = (if rid' = rid then map_option f (get_rqst s rid) else get_rqst s rid')"
proof -
  have "find (\<lambda>r. rq_reliefrqst_id r = rid') (upd_where (\<lambda>r. rq_reliefrqst_id r = rid) f rows)
      = (if rid' = rid then map_option f (find (\<lambda>r. rq_reliefrqst_id r = rid) rows)
         else find (\<lambda>r. rq_reliefrqst_id r = rid') rows)" for rows
    by (induction rows) (auto simp: assms)
  then show ?thesis unfolding get_rqst_def set_rqst_def by simp
qed

lemma get_rqst_cong: "t_reliefrqst s = t_reliefrqst t \<Longrightarrow> get_rqst s rid = get_rqst t rid"
  by (simp add: get_rqst_def)

lemma notification_tables [simp, frame_simps]:
  "t_reliefrqst (create_odpem_notifications e rid s) = t_reliefrqst s"
  "seq_reliefrqst (create_odpem_notifications e rid s) = seq_reliefrqst s"
  "t_reliefrqst (create_ineligible_notification e r s) = t_reliefrqst s"
  "seq_reliefrqst (create_ineligible_notification e r s) = seq_reliefrqst s"
  "t_reliefrqst (create_eligible_notification e rid s) = t_reliefrqst s"
  "seq_reliefrqst (create_eligible_notification e rid s) = seq_reliefrqst s"
  "t_reliefrqst (create_closure_notification e r s) = t_reliefrqst s"
  by (simp_all add: create_odpem_notifications_def create_relief_request_submitted_notification_def
      create_ineligible_notification_def create_eligible_notification_def
      create_relief_request_approved_notification_def create_closure_notification_def)

lemma set_rqst_sel [simp, frame_simps]:
  "t_reliefrqst_item (set_rqst rid f s) = t_reliefrqst_item s"
  "seq_reliefrqst (set_rqst rid f s) = seq_reliefrqst s"
  "t_user (set_rqst rid f s) = t_user s"
  "t_role (set_rqst rid f s) = t_role s"
  "t_reliefpkg (set_rqst rid f s) = t_reliefpkg s"
  "t_reliefpkg_item (set_rqst rid f s) = t_reliefpkg_item s"
  "t_itembatch (set_rqst rid f s) = t_itembatch s"
  "t_inventory (set_rqst rid f s) = t_inventory s"
  "t_notification (set_rqst rid f s) = t_notification s"
  by (simp_all add: set_rqst_def)

section \<open>The request table under the agency and eligibility services\<close>

text \<open>
  \<^verbatim>\<open>c_reliefrqst_4a\<close> and \<^verbatim>\<open>c_reliefrqst_5a\<close> of the schema: a reviewer is recorded exactly from status
  2 on, an actor exactly from status 4 on.
\<close>

definition rqst_row_ok :: "reliefrqst \<Rightarrow> bool" where
  "rqst_row_ok r \<longleftrightarrow> (rq_review_by_id r = None \<longleftrightarrow> rq_status_code r < 2)
     \<and> (rq_action_by_id r = None \<longleftrightarrow> rq_status_code r < 4)"

definition rqst_inv :: "db \<Rightarrow> bool" where
  "rqst_inv s \<longleftrightarrow> distinct (map rq_reliefrqst_id (t_reliefrqst s))
     \<and> (\<forall>r \<in> set (t_reliefrqst s). rq_reliefrqst_id r < seq_reliefrqst s \<and> rqst_row_ok r
          \<and> rq_status_code r \<in> {STATUS_DRAFT, STATUS_AWAITING_APPROVAL, STATUS_SUBMITTED, STATUS_INELIGIBLE})"

inductive request_step :: "db \<Rightarrow> db \<Rightarrow> bool" where
  step_create: "create_draft_request e a u ev n em s = Inr (r, s') \<Longrightarrow> request_step s s'"
| step_item: "add_or_update_request_item rid i q u rs d v s = Inr s' \<Longrightarrow> request_step s s'"
| step_delete: "delete_request_item rid i s = (res, s') \<Longrightarrow> request_step s s'"
| step_submit: "submit_request e rid v s = Inr (res, s') \<Longrightarrow> request_step s s'"
| step_decide: "submit_eligibility_decision e rid d rs em s = Inr (res, s') \<Longrightarrow> request_step s s'"

inductive_cases request_stepE: "request_step s s'"

lemma rqst_inv_same:
  "rqst_inv s \<Longrightarrow> t_reliefrqst s' = t_reliefrqst s \<Longrightarrow> seq_reliefrqst s' = seq_reliefrqst s \<Longrightarrow> rqst_inv s'"
  by (simp add: rqst_inv_def)

lemma rqst_inv_set:
  assumes "rqst_inv s" and "get_rqst s rid = Some r"
    and "\<And>r. rq_reliefrqst_id (f r) = rq_reliefrqst_id r" and "rqst_row_ok (f r)"
    and "rq_status_code (f r) \<in> {STATUS_DRAFT, STATUS_AWAITING_APPROVAL, STATUS_SUBMITTED, STATUS_INELIGIBLE}"
  shows "rqst_inv (set_rqst rid f s)"
proof -
  have only: "x = r" if "x \<in> set (t_reliefrqst s)" "rq_reliefrqst_id x = rid" for x
    using find_distinct_key [of rq_reliefrqst_id "t_reliefrqst s" x] that assms(1,2)
    by (simp add: rqst_inv_def get_rqst_def)
  have r: "r \<in> set (t_reliefrqst s)" using find_Some_set assms(2) by (fastforce simp: get_rqst_def)
  have "map rq_reliefrqst_id (t_reliefrqst (set_rqst rid f s)) = map rq_reliefrqst_id (t_reliefrqst s)"
    by (simp add: set_rqst_def map_upd_where_same assms(3))
  moreover have "x \<in> set (t_reliefrqst s) \<or> x = f r" if "x \<in> set (t_reliefrqst (set_rqst rid f s))" for x
    using that only by (auto simp: set_rqst_def set_upd_where split: if_splits)
  moreover have "rq_reliefrqst_id (f r) < seq_reliefrqst s" using assms(1,3) r by (simp add: rqst_inv_def)
  ultimately show ?thesis
    using assms(1,4,5) unfolding rqst_inv_def set_rqst_sel by metis
qed

lemma rqst_inv_submit: "rqst_inv s \<Longrightarrow> submit_request e rid v s = Inr (res, s') \<Longrightarrow> rqst_inv s'"
proof -
  assume inv: "rqst_inv s" and run: "submit_request e rid v s = Inr (res, s')"
  let ?f = "\<lambda>r. r\<lparr>rq_status_code := STATUS_AWAITING_APPROVAL, rq_version_nbr := rq_version_nbr r + 1\<rparr>"
  obtain r where r: "get_rqst s rid = Some r"
    using run by (auto simp: submit_request_def split: option.splits)
  then have "r \<in> set (t_reliefrqst s)" using find_Some_set by (fastforce simp: get_rqst_def)
  then have ok: "rqst_row_ok r" using inv by (simp add: rqst_inv_def)
  show ?thesis
  proof (cases "rq_status_code r = STATUS_DRAFT")
    case True
    with ok have "rqst_inv (set_rqst rid ?f s)"
      by (intro rqst_inv_set [OF inv r]) (simp_all add: rqst_row_ok_def)
    then have "rqst_inv (create_odpem_notifications e rid (set_rqst rid ?f s))"
      by (rule rqst_inv_same) simp_all
    with run r inv show ?thesis by (auto simp: submit_request_def split: if_splits)
  next
    case False
    with run r inv show ?thesis by (simp add: submit_request_def)
  qed
qed

lemma decision_cases:
  assumes "submit_eligibility_decision e rid d rs em s = Inr (res, s')" and "get_rqst s rid = Some r"
  obtains "fst res = False" "s' = s"
  | u where "fst res" "rq_status_code r = STATUS_AWAITING_APPROVAL" "rq_review_by_id r = None" "d = ''N''"
      "\<not> blank rs" "find_user_by_email s em = Some u"
      "s' = create_ineligible_notification e r (set_rqst rid (mark_ineligible e u rs) s)"
  | u where "fst res" "rq_status_code r = STATUS_AWAITING_APPROVAL" "rq_review_by_id r = None" "d = ''Y''"
      "find_user_by_email s em = Some u"
      "s' = create_eligible_notification e rid (set_rqst rid (mark_eligible e u) s)"
  using assms by (auto simp: submit_eligibility_decision_def split: option.splits if_splits)

lemma mark_sel [simp]:
  "rq_reliefrqst_id (mark_ineligible e u rs r) = rq_reliefrqst_id r"
  "rq_reliefrqst_id (mark_eligible e u r) = rq_reliefrqst_id r"
  "rq_status_code (mark_ineligible e u rs r) = STATUS_INELIGIBLE"
  "rq_status_code (mark_eligible e u r) = STATUS_SUBMITTED"
  by (simp_all add: mark_ineligible_def mark_eligible_def)

lemma get_rqst_set: "get_rqst s rid = Some r \<Longrightarrow> r \<in> set (t_reliefrqst s)"
  using find_Some_set by (fastforce simp: get_rqst_def)

lemma rqst_inv_decide:
  assumes inv: "rqst_inv s" and run: "submit_eligibility_decision e rid d rs em s = Inr (res, s')"
  shows "rqst_inv s'"
proof -
  obtain r where r: "get_rqst s rid = Some r"
    using run by (auto simp: submit_eligibility_decision_def split: option.splits)
  with inv have ok: "rqst_row_ok r" using get_rqst_set by (simp add: rqst_inv_def)
  from run r show ?thesis
  proof (cases rule: decision_cases)
    case (2 u)
    have "rqst_inv (set_rqst rid (mark_ineligible e u rs) s)"
      by (rule rqst_inv_set [OF inv r]) (simp_all add: rqst_row_ok_def mark_ineligible_def)
    then show ?thesis unfolding 2(7) by (rule rqst_inv_same) simp_all
  next
    case (3 u)
    have "rqst_inv (set_rqst rid (mark_eligible e u) s)"
      using ok 3(2) by (intro rqst_inv_set [OF inv r]) (simp_all add: rqst_row_ok_def mark_eligible_def)
    then show ?thesis unfolding 3(6) by (rule rqst_inv_same) simp_all
  qed (simp add: inv)
qed

lemma rqst_inv_step: "rqst_inv s \<Longrightarrow> request_step s s' \<Longrightarrow> rqst_inv s'"
proof (erule request_stepE)
  fix e a u ev n em r
  assume "rqst_inv s" "create_draft_request e a u ev n em s = Inr (r, s')"
  then show "rqst_inv s'"
    by (force simp: create_draft_request_def rqst_inv_def rqst_row_ok_def Let_def split: option.splits)
next
  fix rid i q u rs d v assume "rqst_inv s" "add_or_update_request_item rid i q u rs d v s = Inr s'"
  then show "rqst_inv s'"
    by (auto simp: add_or_update_request_item_def set_rqst_item_def intro: rqst_inv_same
        split: option.splits if_splits)
next
  fix rid i res assume "rqst_inv s" "delete_request_item rid i s = (res, s')"
  then show "rqst_inv s'"
    by (auto simp: delete_request_item_def intro: rqst_inv_same split: option.splits if_splits)
qed (rule rqst_inv_submit rqst_inv_decide; assumption)+

definition rqst_init :: "db \<Rightarrow> bool" where
  "rqst_init s \<longleftrightarrow> t_reliefrqst s = []"

interpretation request_flow: invariant_system rqst_init request_step rqst_inv
proof
  show "rqst_init s \<Longrightarrow> rqst_inv s" for s by (simp add: rqst_init_def rqst_inv_def)
  show "rqst_inv s \<Longrightarrow> request_step s t \<Longrightarrow> rqst_inv t" for s t by (rule rqst_inv_step)
qed

lemma users_of_roles_set_rqst [simp]: "users_of_roles (set_rqst rid f s) codes = users_of_roles s codes"
  by (simp add: users_of_roles_def role_users_def)


section \<open>Properties\<close>

definition ex_env :: env where
  "ex_env = \<lparr>en_today = 739000, en_now = hours 100, en_user = ex_user 1 ''LO'' [],
     en_status_cache = None, en_str_decimal = (\<lambda>q. ''0'')\<rparr>"

definition ex_draft_db :: db where
  "ex_draft_db = empty_db\<lparr>t_user := [ex_user 1 ''DG'' [ex_role 4 ''ODPEM_DG'']], t_role := [ex_role 4 ''ODPEM_DG''],
     t_reliefrqst := [ex_rqst 5 0], t_reliefrqst_item := [ex_rqst_item 5 10 0 ''R''], seq_reliefrqst := 6\<rparr>"

text \<open>
  C10: in every sequence of drafting, item edits, submissions and eligibility decisions, each
  request is DRAFT, AWAITING APPROVAL, SUBMITTED or INELIGIBLE, has a reviewer recorded exactly
  from status 2 on and an actor exactly from status 4 on (the schema's constraints 4a and 5a), and
  request numbers stay unique.
\<close>

theorem request_constraints:
  assumes "reach rqst_init request_step s" and "r \<in> set (t_reliefrqst s)"
  shows "rqst_row_ok r
     \<and> rq_status_code r \<in> {STATUS_DRAFT, STATUS_AWAITING_APPROVAL, STATUS_SUBMITTED, STATUS_INELIGIBLE}
     \<and> distinct (map rq_reliefrqst_id (t_reliefrqst s))"
  using request_flow.reach_inv [OF assms(1)] assms(2) by (simp add: rqst_inv_def)

theorem request_constraints_witness:
  "\<exists>s r. reach rqst_init request_step s \<and> r \<in> set (t_reliefrqst s) \<and> rqst_row_ok r"
proof -
  let ?s0 = "empty_db\<lparr>t_user := [ex_user 1 ''AG'' []]\<rparr>"
  obtain r s where run: "create_draft_request ex_env 3 ''H'' None None ''AG@odpem.gov'' ?s0 = Inr (r, s)"
    by (simp add: create_draft_request_def find_user_by_email_def ex_user_def Let_def)
  have "rqst_init ?s0" by (simp add: rqst_init_def empty_db_def)
  then have "reach rqst_init request_step s"
    by (rule reach_step [where step = request_step, OF reach_init]) (rule step_create [OF run])
  moreover have "r \<in> set (t_reliefrqst s)"
    using run by (auto simp: create_draft_request_def find_user_by_email_def ex_user_def Let_def)
  ultimately show ?thesis using request_constraints by blast
qed



text \<open>
  C37: an eligibility decision is taken at most once. A recorded decision makes the request
  SUBMITTED (eligible) or INELIGIBLE with a non-blank reason and records the reviewer; every later
  attempt on the same request, whatever the decision and the reviewer, is refused and changes
  nothing.
\<close>

theorem eligibility_decided_once:
  assumes "submit_eligibility_decision e rid d rs em s = Inr ((True, m), s1)"
  shows "(\<exists>r1. get_rqst s1 rid = Some r1 \<and> rq_review_by_id r1 \<noteq> None
        \<and> ((d = ''Y'' \<and> rq_status_code r1 = STATUS_SUBMITTED)
           \<or> (d = ''N'' \<and> rq_status_code r1 = STATUS_INELIGIBLE \<and> \<not> blank (rq_status_reason_desc r1))))
     \<and> (\<exists>m'. submit_eligibility_decision e' rid d' rs' em' s1 = Inr ((False, m'), s1))"
proof -
  obtain r where r: "get_rqst s rid = Some r"
    using assms by (auto simp: submit_eligibility_decision_def split: option.splits)
  have strip: "\<not> blank (map_option py_strip rs)" if "\<not> blank rs"
    using that py_strip_idem by (auto simp: blank_def split: option.splits)
  from assms r have "\<exists>r1. get_rqst s1 rid = Some r1 \<and> rq_review_by_id r1 \<noteq> None
        \<and> ((d = ''Y'' \<and> rq_status_code r1 = STATUS_SUBMITTED)
           \<or> (d = ''N'' \<and> rq_status_code r1 = STATUS_INELIGIBLE \<and> \<not> blank (rq_status_reason_desc r1)))"
  proof (cases rule: decision_cases)
    case (2 u)
    have "get_rqst s1 rid = get_rqst (set_rqst rid (mark_ineligible e u rs) s) rid"
      unfolding 2(7) by (rule get_rqst_cong) simp
    with r 2 strip show ?thesis by (simp add: get_rqst_set_rqst mark_ineligible_def)
  next
    case (3 u)
    have "get_rqst s1 rid = get_rqst (set_rqst rid (mark_eligible e u) s) rid"
      unfolding 3(6) by (rule get_rqst_cong) simp
    with r 3 show ?thesis by (simp add: get_rqst_set_rqst mark_eligible_def)
  qed simp
  then show ?thesis by (auto simp: submit_eligibility_decision_def)
qed

theorem eligibility_decided_once_witness:
  "\<exists>m s1 m'. submit_eligibility_decision ex_env 5 ''Y'' None ''DG@odpem.gov''
       (ex_draft_db\<lparr>t_reliefrqst := [ex_rqst 5 1]\<rparr>) = Inr ((True, m), s1)
     \<and> submit_eligibility_decision ex_env 5 ''N'' (Some ''late'') ''DG@odpem.gov'' s1 = Inr ((False, m'), s1)"
proof -
  obtain m s1 where run: "submit_eligibility_decision ex_env 5 ''Y'' None ''DG@odpem.gov''
       (ex_draft_db\<lparr>t_reliefrqst := [ex_rqst 5 1]\<rparr>) = Inr ((True, m), s1)"
    by (simp add: submit_eligibility_decision_def get_rqst_def find_user_by_email_def ex_draft_db_def ex_simps)
  with eligibility_decided_once [OF run] show ?thesis by blast
qed

text \<open>
  A stale version never surfaces as an optimistic-lock conflict: the exception is raised
  with one argument where its constructor needs two, so editing an item or submitting with an
  outdated version raises a \<^verbatim>\<open>TypeError\<close>.
\<close>

lemma stale_version_is_type_error:
  assumes "find_rqst_item s rid i = Some x" and "ri_version_nbr x \<noteq> v"
    and "get_rqst s rid = Some r" and "rq_status_code r = STATUS_DRAFT" and "rq_version_nbr r \<noteq> w"
    and "\<exists>i \<in> set (rqst_items_of s rid). 0 < ri_request_qty i"
  shows "add_or_update_request_item rid i q u rs d (Some v) s = Inl TypeError
     \<and> submit_request e rid w s = Inl TypeError"
  using assms
  by (auto simp: add_or_update_request_item_def submit_request_def OptimisticLockError_def filter_empty_conv)

text \<open>
  Automatic closing looks neither at the workflow status nor at whether anything was ever
  issued: a draft with no package and nothing issued is closed as FILLED, which leaves a FILLED
  request without a reviewer, against the schema's constraint 4a.
\<close>

lemma autoclose_closes_drafts:
  assumes "get_rqst s rid = Some r" and "rq_status_code r = STATUS_DRAFT" and "rq_review_by_id r = None"
    and "pkgs_of s rid = []" and "\<forall>i \<in> set (rqst_items_of s rid). ri_issue_qty i = 0"
  shows "\<exists>s' r'. check_and_autoclose_request e rid s = ((True, AutoClosed rid), s')
     \<and> get_rqst s' rid = Some r' \<and> rq_status_code r' = STATUS_FILLED \<and> \<not> rqst_row_ok r'"
proof -
  let ?f = "\<lambda>r. r\<lparr>rq_status_code := STATUS_FILLED, rq_version_nbr := rq_version_nbr r + 1\<rparr>"
  let ?s' = "create_closure_notification e r (set_rqst rid ?f s)"
  have "list_all (\<lambda>i. \<not> received_qty s rid (ri_item_id i) < ri_issue_qty i) (rqst_items_of s rid)"
    using assms(4,5) by (simp add: list_all_iff received_qty_def)
  then have run: "check_and_autoclose_request e rid s = ((True, AutoClosed rid), ?s')"
    using assms by (simp add: check_and_autoclose_request_def Let_def)
  have "get_rqst ?s' rid = get_rqst (set_rqst rid ?f s) rid" by (rule get_rqst_cong) simp
  then have "get_rqst ?s' rid = Some (?f r)" using assms(1) by (simp add: get_rqst_set_rqst)
  with run assms(3) show ?thesis by (simp add: rqst_row_ok_def)
qed

end
