(* ===== verification/Reservation.thy ===== *)
theory Reservation
  imports Keyed_Loops Example_Data
begin

text \<open>
  \<^verbatim>\<open>app/services/inventory_reservation_service.py\<close>: reserving, releasing and committing stock at
  batch and at warehouse level. Each service is a loop over batch rows followed by a loop that
  recomputes the warehouse rows from the batch sums; both are instances of \<open>keyed_loop\<close>. A failing
  service returns its error; what it left in the session is not kept, because every caller rolls
  the session back. Python's iteration over a \<^verbatim>\<open>set\<close> is modelled by a duplicate-free list, and
  the order is shown not to matter.
\<close>

section \<open>Current reservations of a request\<close>

definition get_current_reservations :: "db \<Rightarrow> int \<Rightarrow> (int \<times> int, qty) dict" where
  "get_current_reservations s rid =
     (case first_pkg s rid of
        None \<Rightarrow> []
      | Some p \<Rightarrow> fold (\<lambda>r d. if pi_item_qty r > 0
            then AList.update (pi_item_id r, pi_fr_inventory_id r) (pi_item_qty r) d else d)
          (pkg_items_of s (pk_reliefpkg_id p)) [])"

definition pkg_item_key :: "reliefpkg_item \<Rightarrow> bkey" where
  "pkg_item_key r = (pi_item_id r, Some (pi_fr_inventory_id r), pi_batch_id r)"

definition batch_reservations_of :: "reliefpkg_item list \<Rightarrow> (bkey, qty) dict" where
  "batch_reservations_of rows =
     fold (\<lambda>r d. if pi_item_qty r > 0 then AList.update (pkg_item_key r) (pi_item_qty r) d else d)
       rows []"

definition get_current_batch_reservations :: "db \<Rightarrow> int \<Rightarrow> (bkey, qty) dict" where
  "get_current_batch_reservations s rid =
     (case first_pkg s rid of
        None \<Rightarrow> []
      | Some p \<Rightarrow> batch_reservations_of (pkg_items_of s (pk_reliefpkg_id p)))"

section \<open>Reserving\<close>

record alloc_req =
  ar_item_id :: int
  ar_batch_id :: int
  ar_warehouse_id :: "int option"
  ar_allocated_qty :: qty

datatype res_error =
    NullInventory int
  | BatchMissing int int int
  | CannotReserve qty int qty
  | NoActiveInventory int int
  | ExceedsInventory int int
  | NoPackage
  | CommitBatchMissing int int
  | InsufficientStock "string option" qty qty

definition alloc_key :: "alloc_req \<Rightarrow> bkey" where
  "alloc_key a = (ar_item_id a, ar_warehouse_id a, ar_batch_id a)"

definition new_batch_reservations :: "alloc_req list \<Rightarrow> (bkey, qty) dict" where
  "new_batch_reservations allocs =
     fold (\<lambda>a d. if ar_allocated_qty a > 0 then AList.update (alloc_key a) (ar_allocated_qty a) d else d)
       allocs []"

definition affected_pairs :: "bkey list \<Rightarrow> (int \<times> int) list" where
  "affected_pairs ks =
     remdups (concat (map (\<lambda>(i, w, b). case w of None \<Rightarrow> [] | Some w \<Rightarrow> [(i, w)]) ks))"

definition batch_delta :: "(bkey, qty) dict \<Rightarrow> (bkey, qty) dict \<Rightarrow> bkey \<Rightarrow> qty" where
  "batch_delta old new k = dict_get new k 0 - dict_get old k 0"

fun reserve_batch :: "(bkey, qty) dict \<Rightarrow> (bkey, qty) dict \<Rightarrow> bkey \<Rightarrow> db \<Rightarrow> res_error + db" where
  "reserve_batch old new (i, None, bid) s = Inl (NullInventory bid)"
| "reserve_batch old new (i, Some w, bid) s =
     (let k = (i, Some w, bid); delta = batch_delta old new k in
      if delta = 0 then Inr s
      else case find_batch s k of
          None \<Rightarrow> if delta > 0 then Inl (BatchMissing bid i w) else Inr s
        | Some b \<Rightarrow>
            let reserved = bt_reserved_qty b + delta in
            if reserved < 0 then Inr (set_batch k (bt_usable_qty b, 0) s)
            else if reserved > bt_usable_qty b
              then Inl (CannotReserve delta bid (bt_usable_qty b - bt_reserved_qty b))
            else Inr (set_batch k (bt_usable_qty b, reserved) s))"

definition batches_at :: "itembatch list \<Rightarrow> int \<times> int \<Rightarrow> itembatch list" where
  "batches_at bs k = filter (\<lambda>b. bt_item_id b = fst k \<and> bt_inventory_id b = snd k) bs"

definition sum_reserved :: "itembatch list \<Rightarrow> int \<times> int \<Rightarrow> qty" where
  "sum_reserved bs k = sum_list (map bt_reserved_qty (batches_at bs k))"

definition sum_usable :: "itembatch list \<Rightarrow> int \<times> int \<Rightarrow> qty" where
  "sum_usable bs k = sum_list (map bt_usable_qty (batches_at bs k))"

definition find_active_inventory :: "db \<Rightarrow> int \<times> int \<Rightarrow> inventory option" where
  "find_active_inventory s k =
     find (\<lambda>v. inventory_key v = k \<and> iv_status_code v = ''A'') (t_inventory s)"

definition recalc_reserved :: "int \<times> int \<Rightarrow> db \<Rightarrow> res_error + db" where
  "recalc_reserved k s =
     (case find_active_inventory s k of
        None \<Rightarrow> Inl (NoActiveInventory (fst k) (snd k))
      | Some v \<Rightarrow>
          let reserved = sum_reserved (t_itembatch s) k in
          if reserved > iv_usable_qty v then Inl (ExceedsInventory (fst k) (snd k))
          else Inr (set_inventory k (iv_usable_qty v, reserved) s))"

definition reserve_run ::
  "(bkey, qty) dict \<Rightarrow> (bkey, qty) dict \<Rightarrow> bkey list \<Rightarrow> (int \<times> int) list \<Rightarrow> db \<Rightarrow> res_error + db" where
  "reserve_run old new all_batch_keys affected s =
     (case fold_result (reserve_batch old new) all_batch_keys s of
        Inl e \<Rightarrow> Inl e
      | Inr s' \<Rightarrow> fold_result recalc_reserved affected s')"

definition reserve_inventory ::
  "db \<Rightarrow> int \<Rightarrow> alloc_req list \<Rightarrow> (bkey, qty) dict option \<Rightarrow> res_error + db" where
  "reserve_inventory s rid allocs old_allocations =
     (let old = (case old_allocations of None \<Rightarrow> get_current_batch_reservations s rid | Some d \<Rightarrow> d);
          new = new_batch_reservations allocs;
          ks = remdups (map fst old @ map fst new)
      in reserve_run old new ks (affected_pairs ks) s)"

section \<open>Releasing\<close>

fun release_batch :: "bkey \<times> qty \<Rightarrow> db \<Rightarrow> res_error + db" where
  "release_batch (k, q) s =
     (if q > 0 then
        (case find_batch s k of
           None \<Rightarrow> Inr s
         | Some b \<Rightarrow> Inr (set_batch k (bt_usable_qty b, max 0 (bt_reserved_qty b - q)) s))
      else Inr s)"

definition release_recalc :: "int \<times> int \<Rightarrow> db \<Rightarrow> res_error + db" where
  "release_recalc k s =
     (case find_active_inventory s k of
        None \<Rightarrow> Inr s
      | Some v \<Rightarrow> Inr (set_inventory k (iv_usable_qty v, sum_reserved (t_itembatch s) k) s))"

definition release_all_reservations :: "db \<Rightarrow> int \<Rightarrow> res_error + db" where
  "release_all_reservations s rid =
     (let held = get_current_batch_reservations s rid
      in case fold_result release_batch held s of
           Inl e \<Rightarrow> Inl e
         | Inr s' \<Rightarrow> fold_result release_recalc
             (affected_pairs (map fst (filter (\<lambda>(k, q). q > 0) held))) s')"

section \<open>Committing\<close>

definition commit_batch :: "reliefpkg_item \<Rightarrow> db \<Rightarrow> res_error + db" where
  "commit_batch r s =
     (if pi_item_qty r > 0 then
        (case find_batch s (pkg_item_key r) of
           None \<Rightarrow> Inl (CommitBatchMissing (pi_batch_id r) (pi_item_id r))
         | Some b \<Rightarrow>
             if bt_usable_qty b < pi_item_qty r
             then Inl (InsufficientStock
               (map_option wh_warehouse_name
                 (find (\<lambda>w. wh_warehouse_id w = pi_fr_inventory_id r) (t_warehouse s)))
               (pi_item_qty r) (bt_usable_qty b))
             else Inr (set_batch (pkg_item_key r)
               (bt_usable_qty b - pi_item_qty r, max 0 (bt_reserved_qty b - pi_item_qty r)) s))
      else Inr s)"

definition commit_recalc :: "int \<times> int \<Rightarrow> db \<Rightarrow> res_error + db" where
  "commit_recalc k s =
     (case find (\<lambda>v. inventory_key v = k) (t_inventory s) of
        None \<Rightarrow> Inr s
      | Some v \<Rightarrow> Inr (set_inventory k
          (sum_usable (t_itembatch s) k, sum_reserved (t_itembatch s) k) s))"

definition commit_inventory :: "db \<Rightarrow> int \<Rightarrow> res_error + db" where
  "commit_inventory s rid =
     (case first_pkg s rid of
        None \<Rightarrow> Inl NoPackage
      | Some p \<Rightarrow>
          let rows = pkg_items_of s (pk_reliefpkg_id p)
          in case fold_result commit_batch rows s of
               Inl e \<Rightarrow> Inl e
             | Inr s' \<Rightarrow> fold_result commit_recalc
                 (affected_pairs (map pkg_item_key (filter (\<lambda>r. pi_item_qty r > 0) rows))) s')"

section \<open>The loops\<close>

definition reserve_missing_ok :: "(bkey, qty) dict \<Rightarrow> (bkey, qty) dict \<Rightarrow> bkey \<Rightarrow> bool" where
  "reserve_missing_ok old new k \<longleftrightarrow> fst (snd k) \<noteq> None \<and> batch_delta old new k \<le> 0"

definition reserve_ok :: "(bkey, qty) dict \<Rightarrow> (bkey, qty) dict \<Rightarrow> unit \<Rightarrow> bkey \<Rightarrow> itembatch \<Rightarrow> bool" where
  "reserve_ok old new u k b \<longleftrightarrow> batch_delta old new k = 0
     \<or> bt_reserved_qty b + batch_delta old new k < 0
     \<or> bt_reserved_qty b + batch_delta old new k \<le> bt_usable_qty b"

definition reserve_wr ::
  "(bkey, qty) dict \<Rightarrow> (bkey, qty) dict \<Rightarrow> unit \<Rightarrow> bkey \<Rightarrow> itembatch \<Rightarrow> itembatch" where
  "reserve_wr old new u k b =
     (if batch_delta old new k = 0 then b
      else batch_set_qty (bt_usable_qty b, max 0 (bt_reserved_qty b + batch_delta old new k)) b)"

lemma batch_table_laws:
  "t_itembatch (t_itembatch_update g s) = g (t_itembatch s)"
  "t_itembatch_update g (t_itembatch_update h s) = t_itembatch_update (g \<circ> h) s"
  "t_itembatch_update (\<lambda>rows. rows) s = s"
  "g (t_itembatch s) = h (t_itembatch s) \<Longrightarrow> t_itembatch_update g s = t_itembatch_update h s"
  by (cases s; simp)+

lemma inventory_table_laws:
  "t_inventory (t_inventory_update g s) = g (t_inventory s)"
  "t_inventory_update g (t_inventory_update h s) = t_inventory_update (g \<circ> h) s"
  "t_inventory_update (\<lambda>rows. rows) s = s"
  "g (t_inventory s) = h (t_inventory s) \<Longrightarrow> t_inventory_update g s = t_inventory_update h s"
  by (cases s; simp)+

lemma set_batch_upd:
  assumes "distinct (map batch_key (t_itembatch s))" and "find_batch s k = Some b"
    and "batch_set_qty ur b = g b"
  shows "set_batch k ur s = t_itembatch_update (upd_where (\<lambda>b. batch_key b = k) g) s"
  unfolding set_batch_def using assms
  by (intro batch_table_laws(4) batch_rows.upd_found) (simp_all add: find_batch_def)

lemma set_inventory_upd:
  assumes "distinct (map inventory_key (t_inventory s))"
    and "find (\<lambda>v. inventory_key v = k) (t_inventory s) = Some v"
    and "inventory_set_qty ur v = g v"
  shows "set_inventory k ur s = t_inventory_update (upd_where (\<lambda>v. inventory_key v = k) g) s"
  unfolding set_inventory_def using assms
  by (intro inventory_table_laws(4) inventory_rows.upd_found) simp_all

lemma no_change:
  assumes "distinct (map batch_key (t_itembatch s))" and "find_batch s k = Some b" and "g b = b"
  shows "t_itembatch_update (upd_where (\<lambda>b. batch_key b = k) g) s = s"
proof -
  have "upd_where (\<lambda>b. batch_key b = k) g (t_itembatch s)
      = upd_where (\<lambda>b. batch_key b = k) (\<lambda>b. b) (t_itembatch s)"
    by (rule batch_rows.upd_found [OF assms(1) assms(2) [unfolded find_batch_def]]) (simp add: assms(3))
  then have "upd_where (\<lambda>b. batch_key b = k) g (t_itembatch s) = t_itembatch s"
    by (simp add: upd_where_def)
  then have "t_itembatch_update (upd_where (\<lambda>b. batch_key b = k) g) s = t_itembatch_update (\<lambda>rows. rows) s"
    by (rule batch_table_laws(4))
  then show ?thesis by (simp only: batch_table_laws(3))
qed

lemma no_change_inventory:
  assumes "distinct (map inventory_key (t_inventory s))"
    and "find (\<lambda>v. inventory_key v = k) (t_inventory s) = Some v" and "g v = v"
  shows "t_inventory_update (upd_where (\<lambda>v. inventory_key v = k) g) s = s"
proof -
  have "upd_where (\<lambda>v. inventory_key v = k) g (t_inventory s)
      = upd_where (\<lambda>v. inventory_key v = k) (\<lambda>v. v) (t_inventory s)"
    by (rule inventory_rows.upd_found [OF assms(1,2)]) (simp add: assms(3))
  then have "upd_where (\<lambda>v. inventory_key v = k) g (t_inventory s) = t_inventory s"
    by (simp add: upd_where_def)
  then have "t_inventory_update (upd_where (\<lambda>v. inventory_key v = k) g) s
      = t_inventory_update (\<lambda>rows. rows) s"
    by (rule inventory_table_laws(4))
  then show ?thesis by (simp only: inventory_table_laws(3))
qed

lemma null_key_missing: "find_batch s (i, None, bid) = None"
  by (simp add: find_batch_def find_None_set batch_key_def)

lemma reserve_batch_result:
  assumes "distinct (map batch_key (t_itembatch s))"
  shows "result (reserve_batch old new k s) =
     (case find_batch s k of
        None \<Rightarrow> if reserve_missing_ok old new k then Some s else None
      | Some b \<Rightarrow> if reserve_ok old new () k b
          then Some (t_itembatch_update (upd_where (\<lambda>b. batch_key b = k) (reserve_wr old new () k)) s)
          else None)"
proof -
  obtain i w bid where k: "k = (i, w, bid)" by (rule prod_cases3)
  show ?thesis
  proof (cases "find_batch s k")
    case None
    then show ?thesis by (cases w) (auto simp: k reserve_missing_ok_def Let_def)
  next
    case (Some b)
    then obtain w' where w: "w = Some w'" by (cases w) (auto simp: k null_key_missing)
    have wr: "set_batch k (bt_usable_qty b, q) s
        = t_itembatch_update (upd_where (\<lambda>b. batch_key b = k) (reserve_wr old new () k)) s"
      if "batch_delta old new k \<noteq> 0" "q = max 0 (bt_reserved_qty b + batch_delta old new k)" for q
      using that by (intro set_batch_upd [OF assms Some]) (simp add: reserve_wr_def)
    have same: "t_itembatch_update (upd_where (\<lambda>b. batch_key b = k) (reserve_wr old new () k)) s = s"
      if "batch_delta old new k = 0"
      using that by (intro no_change [OF assms Some]) (simp add: reserve_wr_def)
    show ?thesis using wr same Some by (auto simp: k w reserve_ok_def Let_def)
  qed
qed

interpretation reserve_loop: keyed_loop batch_key "\<lambda>k. k" t_itembatch t_itembatch_update "\<lambda>s. ()"
  "reserve_missing_ok old new" "reserve_ok old new" "reserve_wr old new" "reserve_batch old new"
  for old new
  by (unfold_locales; (erule batch_table_laws(4) reserve_batch_result [unfolded find_batch_def]
      | rule batch_table_laws(1,2,3) | simp add: reserve_wr_def))

text \<open>The other five loops in the same form: test on a missing row, test on the row, write.\<close>

definition recalc_ok :: "itembatch list \<Rightarrow> int \<times> int \<Rightarrow> inventory \<Rightarrow> bool" where
  "recalc_ok bs k v \<longleftrightarrow> iv_status_code v = ''A'' \<and> sum_reserved bs k \<le> iv_usable_qty v"

definition recalc_wr :: "itembatch list \<Rightarrow> int \<times> int \<Rightarrow> inventory \<Rightarrow> inventory" where
  "recalc_wr bs k v = inventory_set_qty (iv_usable_qty v, sum_reserved bs k) v"

definition release_wr :: "unit \<Rightarrow> bkey \<times> qty \<Rightarrow> itembatch \<Rightarrow> itembatch" where
  "release_wr u kq b =
     (if snd kq > 0 then batch_set_qty (bt_usable_qty b, max 0 (bt_reserved_qty b - snd kq)) b else b)"

definition release_recalc_wr :: "itembatch list \<Rightarrow> int \<times> int \<Rightarrow> inventory \<Rightarrow> inventory" where
  "release_recalc_wr bs k v = (if iv_status_code v = ''A'' then recalc_wr bs k v else v)"

definition commit_ok :: "unit \<Rightarrow> reliefpkg_item \<Rightarrow> itembatch \<Rightarrow> bool" where
  "commit_ok u r b \<longleftrightarrow> pi_item_qty r > 0 \<longrightarrow> pi_item_qty r \<le> bt_usable_qty b"

definition commit_wr :: "unit \<Rightarrow> reliefpkg_item \<Rightarrow> itembatch \<Rightarrow> itembatch" where
  "commit_wr u r b =
     (if pi_item_qty r > 0
      then batch_set_qty (bt_usable_qty b - pi_item_qty r, max 0 (bt_reserved_qty b - pi_item_qty r)) b
      else b)"

definition commit_recalc_wr :: "itembatch list \<Rightarrow> int \<times> int \<Rightarrow> inventory \<Rightarrow> inventory" where
  "commit_recalc_wr bs k v = inventory_set_qty (sum_usable bs k, sum_reserved bs k) v"

lemma find_active_conv:
  "distinct (map inventory_key (t_inventory s)) \<Longrightarrow> find_active_inventory s k =
     (case find (\<lambda>v. inventory_key v = k) (t_inventory s) of
        None \<Rightarrow> None | Some v \<Rightarrow> if iv_status_code v = ''A'' then Some v else None)"
  unfolding find_active_inventory_def by (rule inventory_rows.find_conj_key)

lemma recalc_reserved_result:
  assumes "distinct (map inventory_key (t_inventory s))"
  shows "result (recalc_reserved k s) =
     (case find (\<lambda>v. inventory_key v = k) (t_inventory s) of
        None \<Rightarrow> if False then Some s else None
      | Some v \<Rightarrow> if recalc_ok (t_itembatch s) k v
          then Some (t_inventory_update
            (upd_where (\<lambda>v. inventory_key v = k) (recalc_wr (t_itembatch s) k)) s) else None)"
proof (cases "find (\<lambda>v. inventory_key v = k) (t_inventory s)")
  case (Some v)
  have "set_inventory k (iv_usable_qty v, sum_reserved (t_itembatch s) k) s
      = t_inventory_update (upd_where (\<lambda>v. inventory_key v = k) (recalc_wr (t_itembatch s) k)) s"
    by (intro set_inventory_upd [OF assms Some]) (simp add: recalc_wr_def)
  with Some show ?thesis
    by (simp add: recalc_reserved_def find_active_conv [OF assms] recalc_ok_def Let_def)
qed (simp add: recalc_reserved_def find_active_conv [OF assms])

lemma release_batch_result:
  assumes "distinct (map batch_key (t_itembatch s))"
  shows "result (release_batch kq s) =
     (case find_batch s (fst kq) of
        None \<Rightarrow> if True then Some s else None
      | Some b \<Rightarrow> if True
          then Some (t_itembatch_update (upd_where (\<lambda>b. batch_key b = fst kq) (release_wr () kq)) s)
          else None)"
proof (cases "find_batch s (fst kq)")
  case None
  then show ?thesis by (cases kq) simp
next
  case (Some b)
  show ?thesis
  proof (cases "snd kq > 0")
    case True
    have "set_batch (fst kq) (bt_usable_qty b, max 0 (bt_reserved_qty b - snd kq)) s
        = t_itembatch_update (upd_where (\<lambda>b. batch_key b = fst kq) (release_wr () kq)) s"
      using True by (intro set_batch_upd [OF assms Some]) (simp add: release_wr_def)
    with True Some show ?thesis by (cases kq) simp
  next
    case False
    then have "t_itembatch_update (upd_where (\<lambda>b. batch_key b = fst kq) (release_wr () kq)) s = s"
      by (intro no_change [OF assms Some]) (simp add: release_wr_def)
    with False Some show ?thesis by (cases kq) simp
  qed
qed

lemma release_recalc_result:
  assumes "distinct (map inventory_key (t_inventory s))"
  shows "result (release_recalc k s) =
     (case find (\<lambda>v. inventory_key v = k) (t_inventory s) of
        None \<Rightarrow> if True then Some s else None
      | Some v \<Rightarrow> if True
          then Some (t_inventory_update
            (upd_where (\<lambda>v. inventory_key v = k) (release_recalc_wr (t_itembatch s) k)) s) else None)"
proof (cases "find (\<lambda>v. inventory_key v = k) (t_inventory s)")
  case (Some v)
  have "iv_status_code v = ''A'' \<Longrightarrow> set_inventory k (iv_usable_qty v, sum_reserved (t_itembatch s) k) s
      = t_inventory_update (upd_where (\<lambda>v. inventory_key v = k) (release_recalc_wr (t_itembatch s) k)) s"
    by (intro set_inventory_upd [OF assms Some]) (simp add: release_recalc_wr_def recalc_wr_def)
  moreover have "iv_status_code v \<noteq> ''A'' \<Longrightarrow>
      t_inventory_update (upd_where (\<lambda>v. inventory_key v = k) (release_recalc_wr (t_itembatch s) k)) s = s"
    by (intro no_change_inventory [OF assms Some]) (simp add: release_recalc_wr_def)
  ultimately show ?thesis
    using Some by (simp add: release_recalc_def find_active_conv [OF assms])
qed (simp add: release_recalc_def find_active_conv [OF assms])

lemma commit_batch_result:
  assumes "distinct (map batch_key (t_itembatch s))"
  shows "result (commit_batch r s) =
     (case find_batch s (pkg_item_key r) of
        None \<Rightarrow> if \<not> pi_item_qty r > 0 then Some s else None
      | Some b \<Rightarrow> if commit_ok () r b
          then Some (t_itembatch_update (upd_where (\<lambda>b. batch_key b = pkg_item_key r) (commit_wr () r)) s)
          else None)"
proof (cases "find_batch s (pkg_item_key r)")
  case (Some b)
  have "set_batch (pkg_item_key r)
        (bt_usable_qty b - pi_item_qty r, max 0 (bt_reserved_qty b - pi_item_qty r)) s
      = t_itembatch_update (upd_where (\<lambda>b. batch_key b = pkg_item_key r) (commit_wr () r)) s"
    if "pi_item_qty r > 0"
    using that by (intro set_batch_upd [OF assms Some]) (simp add: commit_wr_def)
  moreover have "t_itembatch_update (upd_where (\<lambda>b. batch_key b = pkg_item_key r) (commit_wr () r)) s = s"
    if "\<not> pi_item_qty r > 0"
    using that by (intro no_change [OF assms Some]) (simp add: commit_wr_def)
  ultimately show ?thesis using Some by (auto simp: commit_batch_def commit_ok_def)
qed (simp add: commit_batch_def)

lemma commit_recalc_result:
  assumes "distinct (map inventory_key (t_inventory s))"
  shows "result (commit_recalc k s) =
     (case find (\<lambda>v. inventory_key v = k) (t_inventory s) of
        None \<Rightarrow> if True then Some s else None
      | Some v \<Rightarrow> if True
          then Some (t_inventory_update
            (upd_where (\<lambda>v. inventory_key v = k) (commit_recalc_wr (t_itembatch s) k)) s) else None)"
proof (cases "find (\<lambda>v. inventory_key v = k) (t_inventory s)")
  case (Some v)
  have "set_inventory k (sum_usable (t_itembatch s) k, sum_reserved (t_itembatch s) k) s
      = t_inventory_update (upd_where (\<lambda>v. inventory_key v = k) (commit_recalc_wr (t_itembatch s) k)) s"
    by (intro set_inventory_upd [OF assms Some]) (simp add: commit_recalc_wr_def)
  with Some show ?thesis by (simp add: commit_recalc_def)
qed (simp add: commit_recalc_def)

interpretation recalc_loop: keyed_loop inventory_key "\<lambda>k. k" t_inventory t_inventory_update t_itembatch
  "\<lambda>k. False" recalc_ok recalc_wr recalc_reserved
  by (unfold_locales; (erule inventory_table_laws(4) recalc_reserved_result
      | rule inventory_table_laws(1,2,3) | simp add: recalc_wr_def))

interpretation release_loop: keyed_loop batch_key fst t_itembatch t_itembatch_update "\<lambda>s. ()"
  "\<lambda>kq. True" "\<lambda>u kq b. True" release_wr release_batch
  by (unfold_locales; (erule batch_table_laws(4) release_batch_result [unfolded find_batch_def]
      | rule batch_table_laws(1,2,3) | simp add: release_wr_def))

interpretation release_recalc_loop: keyed_loop inventory_key "\<lambda>k. k" t_inventory t_inventory_update
  t_itembatch "\<lambda>k. True" "\<lambda>bs k v. True" release_recalc_wr release_recalc
  by (unfold_locales; (erule inventory_table_laws(4) release_recalc_result
      | rule inventory_table_laws(1,2,3) | simp add: release_recalc_wr_def recalc_wr_def))

interpretation commit_loop: keyed_loop batch_key pkg_item_key t_itembatch t_itembatch_update "\<lambda>s. ()"
  "\<lambda>r. \<not> pi_item_qty r > 0" commit_ok commit_wr commit_batch
  by (unfold_locales; (erule batch_table_laws(4) commit_batch_result [unfolded find_batch_def]
      | rule batch_table_laws(1,2,3) | simp add: commit_wr_def))

interpretation commit_recalc_loop: keyed_loop inventory_key "\<lambda>k. k" t_inventory t_inventory_update
  t_itembatch "\<lambda>k. True" "\<lambda>bs k v. True" commit_recalc_wr commit_recalc
  by (unfold_locales; (erule inventory_table_laws(4) commit_recalc_result
      | rule inventory_table_laws(1,2,3) | simp add: commit_recalc_wr_def))

section \<open>What reserving computes\<close>

text \<open>
  The specification of \<open>reserve_inventory\<close>, without loops: every batch moves by the difference
  between the new and the old allocation of its key, not below zero, and the touched warehouse
  rows are set to the sum of their batches. \<open>reserve_admissible\<close> is the exact condition of
  success.
\<close>

definition reservation_keys :: "(bkey, qty) dict \<Rightarrow> (bkey, qty) dict \<Rightarrow> bkey set" where
  "reservation_keys old new = fst ` set old \<union> fst ` set new"

definition pairs_of :: "bkey set \<Rightarrow> (int \<times> int) set" where
  "pairs_of K = {(i, w). \<exists>b. (i, Some w, b) \<in> K}"

definition reserve_effect :: "(bkey, qty) dict \<Rightarrow> (bkey, qty) dict \<Rightarrow> itembatch \<Rightarrow> itembatch" where
  "reserve_effect old new b =
     batch_set_qty (bt_usable_qty b, max 0 (bt_reserved_qty b + batch_delta old new (batch_key b))) b"

definition sync_pairs ::
  "(itembatch list \<Rightarrow> int \<times> int \<Rightarrow> inventory \<Rightarrow> inventory) \<Rightarrow> (int \<times> int) set \<Rightarrow> itembatch list
     \<Rightarrow> inventory \<Rightarrow> inventory" where
  "sync_pairs wr P bs v = (if inventory_key v \<in> P then wr bs (inventory_key v) v else v)"

definition reserved_state :: "(bkey, qty) dict \<Rightarrow> (bkey, qty) dict \<Rightarrow> db \<Rightarrow> db" where
  "reserved_state old new s =
     (let bs = map (reserve_effect old new) (t_itembatch s) in
      s\<lparr>t_itembatch := bs,
        t_inventory := map (sync_pairs recalc_wr (pairs_of (reservation_keys old new)) bs) (t_inventory s)\<rparr>)"

definition reserve_admissible :: "(bkey, qty) dict \<Rightarrow> (bkey, qty) dict \<Rightarrow> db \<Rightarrow> bool" where
  "reserve_admissible old new s \<longleftrightarrow>
     (\<forall>k \<in> reservation_keys old new. fst (snd k) \<noteq> None
        \<and> (batch_delta old new k > 0 \<longrightarrow> k \<in> batch_key ` set (t_itembatch s)))
   \<and> (\<forall>b \<in> set (t_itembatch s).
        bt_reserved_qty b + batch_delta old new (batch_key b) \<le> bt_usable_qty b)
   \<and> (\<forall>p \<in> pairs_of (reservation_keys old new). \<exists>v \<in> set (t_inventory s).
        inventory_key v = p \<and> recalc_ok (map (reserve_effect old new) (t_itembatch s)) p v)"

lemma set_affected_pairs: "set (affected_pairs ks) = pairs_of (set ks)"
  by (force simp: affected_pairs_def pairs_of_def split: option.splits)

lemma distinct_affected_pairs [simp]: "distinct (affected_pairs ks)"
  by (simp add: affected_pairs_def)

lemma find_eq_id: "find (\<lambda>k. k = x) ks = (if x \<in> set ks then Some x else None)"
  by (induction ks) auto

lemma delta_outside: "k \<notin> reservation_keys old new \<Longrightarrow> batch_delta old new k = 0"
  by (simp add: reservation_keys_def batch_delta_def dict_get_not_in)

lemma reserve_effect_sel [simp]:
  "batch_key (reserve_effect old new b) = batch_key b"
  "bt_item_id (reserve_effect old new b) = bt_item_id b"
  "bt_inventory_id (reserve_effect old new b) = bt_inventory_id b"
  "bt_batch_id (reserve_effect old new b) = bt_batch_id b"
  "bt_usable_qty (reserve_effect old new b) = bt_usable_qty b"
  "bt_reserved_qty (reserve_effect old new b)
     = max 0 (bt_reserved_qty b + batch_delta old new (batch_key b))"
  by (simp_all add: reserve_effect_def)

lemma reserve_effect_same:
  "batch_ok b \<Longrightarrow> batch_delta old new (batch_key b) = 0 \<Longrightarrow> reserve_effect old new b = b"
  by (simp add: reserve_effect_def batch_ok_def max_absorb2)

lemma rewrite_reserve:
  assumes "batch_ok b" and "set ks = reservation_keys old new"
  shows "rewrite_row (\<lambda>k. k) batch_key (reserve_wr old new ()) ks b = reserve_effect old new b"
proof (cases "batch_delta old new (batch_key b) = 0")
  case True
  then show ?thesis using assms
    by (auto simp: rewrite_row_def find_eq_id reserve_effect_same reserve_wr_def)
next
  case False
  with assms(2) delta_outside have "batch_key b \<in> set ks" by blast
  with False show ?thesis by (simp add: rewrite_row_def find_eq_id reserve_wr_def reserve_effect_def)
qed

lemma rewrite_pairs:
  "rewrite_row (\<lambda>k. k) inventory_key (wr bs) ks = sync_pairs wr (set ks) bs"
  by (rule ext) (simp add: rewrite_row_def find_eq_id sync_pairs_def)

lemma stock_ok_keys:
  "stock_ok s \<Longrightarrow> distinct (map batch_key (t_itembatch s))"
  "stock_ok s \<Longrightarrow> distinct (map inventory_key (t_inventory s))"
  by (simp_all add: stock_ok_def distinct_batch_key)

lemma find_key_iff:
  "distinct (map key rows) \<Longrightarrow> (case find (\<lambda>r. key r = k) rows of None \<Rightarrow> M | Some r \<Rightarrow> P r)
     \<longleftrightarrow> (k \<notin> key ` set rows \<and> M) \<or> (\<exists>r \<in> set rows. key r = k \<and> P r)"
proof (cases "find (\<lambda>r. key r = k) rows")
  case None
  then have "\<forall>r \<in> set rows. key r \<noteq> k" by (simp add: find_None_set)
  with None show ?thesis by auto
next
  case (Some r)
  assume dist: "distinct (map key rows)"
  have "x = r" if "x \<in> set rows" "key x = k" for x
    using find_distinct_key [OF dist that(1)] that(2) Some by simp
  with Some find_Some_set [OF Some] show ?thesis by auto
qed

lemma reserve_passes:
  assumes "stock_ok s"
  shows "(\<forall>k \<in> reservation_keys old new. reserve_loop.passes old new s k) \<longleftrightarrow>
     (\<forall>k \<in> reservation_keys old new. fst (snd k) \<noteq> None
        \<and> (batch_delta old new k > 0 \<longrightarrow> k \<in> batch_key ` set (t_itembatch s)))
   \<and> (\<forall>b \<in> set (t_itembatch s).
        bt_reserved_qty b + batch_delta old new (batch_key b) \<le> bt_usable_qty b)" (is "?L \<longleftrightarrow> ?N \<and> ?B")
proof -
  have ok: "reserve_ok old new () (batch_key b) b \<longleftrightarrow>
      bt_reserved_qty b + batch_delta old new (batch_key b) \<le> bt_usable_qty b"
    if "b \<in> set (t_itembatch s)" for b
  proof -
    have "batch_ok b" using assms that by (simp add: stock_ok_def)
    then show ?thesis by (auto simp: reserve_ok_def batch_ok_def)
  qed
  have pass: "reserve_loop.passes old new s k \<longleftrightarrow>
      (k \<notin> batch_key ` set (t_itembatch s) \<and> reserve_missing_ok old new k)
      \<or> (\<exists>b \<in> set (t_itembatch s). batch_key b = k \<and> reserve_ok old new () k b)" for k
    unfolding reserve_loop.passes_def using stock_ok_keys(1) [OF assms] by (rule find_key_iff)
  have live: "fst (snd (batch_key b)) \<noteq> None" for b by (simp add: batch_key_def)
  have uniq: "b = c" if "b \<in> set (t_itembatch s)" "c \<in> set (t_itembatch s)" "batch_key b = batch_key c" for b c
    using stock_ok_keys(1) [OF assms] that by (auto simp: distinct_map inj_on_def)
  have outside: "bt_reserved_qty b + batch_delta old new (batch_key b) \<le> bt_usable_qty b"
    if "b \<in> set (t_itembatch s)" "batch_key b \<notin> reservation_keys old new" for b
    using assms that delta_outside [OF that(2)] by (auto simp: stock_ok_def batch_ok_def)
  show ?thesis
  proof (intro iffI conjI ballI)
    fix k assume "?L" "k \<in> reservation_keys old new"
    then have k: "reserve_loop.passes old new s k" by (rule bspec)
    then show "fst (snd k) \<noteq> None" using live unfolding pass reserve_missing_ok_def by auto
    show "batch_delta old new k > 0 \<longrightarrow> k \<in> batch_key ` set (t_itembatch s)"
      using k unfolding pass reserve_missing_ok_def by auto
  next
    fix b assume L: "?L" and b: "b \<in> set (t_itembatch s)"
    show "bt_reserved_qty b + batch_delta old new (batch_key b) \<le> bt_usable_qty b"
    proof (cases "batch_key b \<in> reservation_keys old new")
      case True
      with L have "reserve_loop.passes old new s (batch_key b)" by (rule bspec)
      then obtain c where c: "c \<in> set (t_itembatch s)" "batch_key c = batch_key b"
        and ok_c: "reserve_ok old new () (batch_key b) c" unfolding pass using b by auto
      from ok_c uniq [OF c(1) b c(2)] ok [OF b] show ?thesis by simp
    qed (rule outside [OF b])
  next
    fix k assume R: "?N \<and> ?B" and k: "k \<in> reservation_keys old new"
    show "reserve_loop.passes old new s k"
    proof (cases "k \<in> batch_key ` set (t_itembatch s)")
      case True
      then obtain b where b: "b \<in> set (t_itembatch s)" "k = batch_key b" by blast
      with ok R have "reserve_ok old new () k b" by simp
      with b show ?thesis unfolding pass by (intro disjI2 bexI [of _ b]) simp_all
    next
      case False
      with R k show ?thesis unfolding pass reserve_missing_ok_def by (meson not_less)
    qed
  qed
qed

theorem reserve_run_spec:
  assumes "stock_ok s" and ks: "distinct ks" "set ks = reservation_keys old new"
    and ps: "distinct ps" "set ps = pairs_of (reservation_keys old new)"
  shows "result (reserve_run old new ks ps s)
     = (if reserve_admissible old new s then Some (reserved_state old new s) else None)"
proof -
  let ?bs = "map (reserve_effect old new) (t_itembatch s)"
  let ?s1 = "s\<lparr>t_itembatch := ?bs\<rparr>"
  have rw: "reserve_loop.rewritten old new s ks = ?s1"
  proof -
    have "map (rewrite_row (\<lambda>k. k) batch_key (reserve_wr old new ()) ks) (t_itembatch s) = ?bs"
      using assms(1) by (intro map_cong refl rewrite_reserve ks) (simp add: stock_ok_def)
    then show ?thesis unfolding reserve_loop.rewritten_def by (intro batch_table_laws(4))
  qed
  have first: "result (fold_result (reserve_batch old new) ks s)
      = (if \<forall>k \<in> reservation_keys old new. reserve_loop.passes old new s k then Some ?s1 else None)"
    using reserve_loop.loop_result [OF stock_ok_keys(1) [OF assms(1)], of ks] rw ks by simp
  have dist: "distinct (map inventory_key (t_inventory ?s1))" using stock_ok_keys(2) [OF assms(1)] by simp
  have pass: "recalc_loop.passes ?s1 p \<longleftrightarrow>
      (\<exists>v \<in> set (t_inventory s). inventory_key v = p \<and> recalc_ok ?bs p v)" for p
    unfolding recalc_loop.passes_def using find_key_iff [OF dist, where k = p and M = False] by simp
  have rw2: "recalc_loop.rewritten ?s1 ps = reserved_state old new s"
    unfolding recalc_loop.rewritten_def rewrite_pairs ps(2)
    by (simp add: reserved_state_def Let_def)
  have second: "result (fold_result recalc_reserved ps ?s1)
      = (if \<forall>p \<in> pairs_of (reservation_keys old new). \<exists>v \<in> set (t_inventory s).
           inventory_key v = p \<and> recalc_ok ?bs p v then Some (reserved_state old new s) else None)"
    using recalc_loop.loop_result [OF dist, of ps, unfolded ps(2) pass rw2] ps(1)
    by (simp only: map_ident)
  show ?thesis
    unfolding reserve_run_def reserve_admissible_def conj_assoc [symmetric]
      reserve_passes [OF assms(1), symmetric]
    by (rule result_two_loops [OF first]) (rule second)
qed

lemma reserve_inventory_spec:
  assumes "stock_ok s"
    and "old = (case oa of None \<Rightarrow> get_current_batch_reservations s rid | Some d \<Rightarrow> d)"
    and "new = new_batch_reservations allocs"
  shows "result (reserve_inventory s rid allocs oa)
     = (if reserve_admissible old new s then Some (reserved_state old new s) else None)"
  unfolding reserve_inventory_def Let_def assms(2,3) [symmetric]
  by (rule reserve_run_spec [OF assms(1)])
    (simp_all add: set_affected_pairs reservation_keys_def image_Un)

lemma reserve_inventory_Inr:
  assumes "stock_ok s" and "reserve_inventory s rid allocs (Some old) = Inr s'"
    and "new = new_batch_reservations allocs"
  shows "reserve_admissible old new s \<and> s' = reserved_state old new s"
proof -
  have "result (reserve_inventory s rid allocs (Some old))
      = (if reserve_admissible old new s then Some (reserved_state old new s) else None)"
    by (rule reserve_inventory_spec) (simp_all add: assms)
  with assms(2) show ?thesis by (simp split: if_splits)
qed

section \<open>The dictionaries built from package rows\<close>

lemma dict_fold_get:
  assumes "distinct (map K rows)"
  shows "dict_get (fold (\<lambda>r d. if P r then AList.update (K r) (v r) d else d) rows d) k x
     = (case find (\<lambda>r. K r = k) rows of
          None \<Rightarrow> dict_get d k x | Some r \<Rightarrow> if P r then v r else dict_get d k x)"
  using assms
proof (induction rows arbitrary: d)
  case (Cons r rows)
  show ?case
  proof (cases "K r = k")
    case True
    with Cons.prems have "find (\<lambda>r. K r = k) rows = None" by (intro find_key_absent) simp
    with True Cons show ?thesis by simp
  next
    case False
    then have "dict_get (AList.update (K r) (v r) d) k x = dict_get d k x" by simp
    with False Cons show ?thesis by (auto split: option.splits)
  qed
qed simp

lemma dict_fold_keys:
  "fst ` set (fold (\<lambda>r d. if P r then AList.update (K r) (v r) d else d) rows d)
     = fst ` set d \<union> K ` {r \<in> set rows. P r}"
  by (induction rows arbitrary: d) (auto simp: dom_update)

lemma dict_fold_distinct:
  "distinct (map fst d) \<Longrightarrow>
     distinct (map fst (fold (\<lambda>r d. if P r then AList.update (K r) (v r) d else d) rows d))"
  by (induction rows arbitrary: d) (auto simp: distinct_update)

lemma dict_fold_values:
  "(\<And>r. r \<in> set rows \<Longrightarrow> P r \<Longrightarrow> Q (v r)) \<Longrightarrow> \<forall>p \<in> set d. Q (snd p) \<Longrightarrow>
     \<forall>p \<in> set (fold (\<lambda>r d. if P r then AList.update (K r) (v r) d else d) rows d). Q (snd p)"
proof (induction rows arbitrary: d)
  case (Cons r rows)
  have start: "\<forall>p \<in> set (if P r then AList.update (K r) (v r) d else d). Q (snd p)"
    using Cons.prems set_dict_update [of "K r" "v r" d] by auto
  show ?case unfolding fold_simps by (rule Cons.IH [OF _ start]) (use Cons.prems(1) in simp)
qed simp

lemma batch_reservations_keys:
  "fst ` set (batch_reservations_of rows) = pkg_item_key ` {r \<in> set rows. pi_item_qty r > 0}"
  by (simp add: batch_reservations_of_def dict_fold_keys)

lemma batch_reservations_distinct: "distinct (map fst (batch_reservations_of rows))"
  by (simp add: batch_reservations_of_def dict_fold_distinct)

lemma batch_reservations_pos: "p \<in> set (batch_reservations_of rows) \<Longrightarrow> snd p > 0"
  using dict_fold_values [of rows "\<lambda>r. pi_item_qty r > 0" "\<lambda>q. q > 0" pi_item_qty "[]" pkg_item_key]
  by (simp add: batch_reservations_of_def)

lemma batch_reservations_get:
  "distinct (map pkg_item_key rows) \<Longrightarrow> dict_get (batch_reservations_of rows) k 0
     = (case find (\<lambda>r. pkg_item_key r = k) rows of None \<Rightarrow> 0 | Some r \<Rightarrow> max 0 (pi_item_qty r))"
  by (simp add: batch_reservations_of_def dict_fold_get max_def split: option.split)

lemma sum_filter_key:
  fixes q :: "'r \<Rightarrow> qty"
  assumes "distinct (map K rows)"
  shows "sum_list (map q (filter (\<lambda>r. K r = k) rows))
     = (case find (\<lambda>r. K r = k) rows of None \<Rightarrow> 0 | Some r \<Rightarrow> q r)"
  using assms
proof (induction rows)
  case (Cons r rows)
  show ?case
  proof (cases "K r = k")
    case True
    with Cons.prems have "find (\<lambda>r. K r = k) rows = None" by (intro find_key_absent) simp
    with True Cons show ?thesis by simp
  qed (use Cons in simp)
qed simp

text \<open>With non-negative quantities the dictionary holds the sum of the rows of each key.\<close>

lemma batch_reservations_sum:
  assumes "distinct (map pkg_item_key rows)" and "\<forall>r \<in> set rows. 0 \<le> pi_item_qty r"
  shows "dict_get (batch_reservations_of rows) k 0
     = sum_list (map pi_item_qty (filter (\<lambda>r. pkg_item_key r = k) rows))"
  using assms by (auto simp: batch_reservations_get sum_filter_key split: option.split dest!: find_Some_set)

section \<open>What releasing and committing compute\<close>

definition released_state :: "(bkey, qty) dict \<Rightarrow> db \<Rightarrow> db" where
  "released_state held s =
     (let bs = map (reserve_effect held []) (t_itembatch s) in
      s\<lparr>t_itembatch := bs,
        t_inventory := map (sync_pairs release_recalc_wr (pairs_of (fst ` set held)) bs) (t_inventory s)\<rparr>)"

definition commit_effect :: "(bkey, qty) dict \<Rightarrow> itembatch \<Rightarrow> itembatch" where
  "commit_effect held b =
     (let q = dict_get held (batch_key b) 0 in
      batch_set_qty (bt_usable_qty b - q, max 0 (bt_reserved_qty b - q)) b)"

definition committed_state :: "(bkey, qty) dict \<Rightarrow> db \<Rightarrow> db" where
  "committed_state held s =
     (let bs = map (commit_effect held) (t_itembatch s) in
      s\<lparr>t_itembatch := bs,
        t_inventory := map (sync_pairs commit_recalc_wr (pairs_of (fst ` set held)) bs) (t_inventory s)\<rparr>)"

text \<open>The primary key and the check constraint of \<^verbatim>\<open>reliefpkg_item\<close>.\<close>

definition pkg_items_ok :: "db \<Rightarrow> bool" where
  "pkg_items_ok s \<longleftrightarrow> distinct (map (\<lambda>r. (pi_reliefpkg_id r, pkg_item_key r)) (t_reliefpkg_item s))
     \<and> (\<forall>r \<in> set (t_reliefpkg_item s). 0 \<le> pi_item_qty r)"

lemma pkg_items_ok_rows:
  assumes "pkg_items_ok s"
  shows "distinct (map pkg_item_key (pkg_items_of s pid))"
    and "\<forall>r \<in> set (pkg_items_of s pid). 0 \<le> pi_item_qty r"
proof -
  have "inj_on pkg_item_key (set (pkg_items_of s pid))" and "distinct (pkg_items_of s pid)"
    using assms by (auto simp: pkg_items_ok_def pkg_items_of_def distinct_map inj_on_def)
  then show "distinct (map pkg_item_key (pkg_items_of s pid))" by (simp add: distinct_map)
  show "\<forall>r \<in> set (pkg_items_of s pid). 0 \<le> pi_item_qty r"
    using assms by (auto simp: pkg_items_ok_def pkg_items_of_def)
qed

lemma current_reservations_distinct:
  "distinct (map fst (get_current_batch_reservations s rid))"
  by (simp add: get_current_batch_reservations_def batch_reservations_distinct split: option.split)

lemma current_reservations_pos:
  "p \<in> set (get_current_batch_reservations s rid) \<Longrightarrow> snd p > 0"
  by (auto simp: get_current_batch_reservations_def dest: batch_reservations_pos split: option.splits)

lemma find_dict:
  "distinct (map fst d) \<Longrightarrow> find (\<lambda>p. fst p = k) d = map_option (Pair k) (map_of d k)"
  by (induction d) auto

lemma rewrite_release:
  assumes "batch_ok b" and "distinct (map fst held)" and "\<And>p. p \<in> set held \<Longrightarrow> snd p > 0"
  shows "rewrite_row fst batch_key (release_wr ()) held b = reserve_effect held [] b"
proof (cases "map_of held (batch_key b)")
  case None
  then show ?thesis using assms(1)
    by (simp add: rewrite_row_def find_dict [OF assms(2)] reserve_effect_same batch_delta_def dict_get_def)
next
  case (Some q)
  then have "q > 0" using assms(3) map_of_SomeD [OF Some] by fastforce
  with Some show ?thesis
    by (simp add: rewrite_row_def find_dict [OF assms(2)] release_wr_def reserve_effect_def
        batch_delta_def dict_get_def)
qed

theorem release_spec:
  assumes "stock_ok s"
  shows "release_all_reservations s rid = Inr (released_state (get_current_batch_reservations s rid) s)"
proof -
  let ?held = "get_current_batch_reservations s rid"
  let ?bs = "map (reserve_effect ?held []) (t_itembatch s)"
  let ?s1 = "s\<lparr>t_itembatch := ?bs\<rparr>"
  let ?ps = "affected_pairs (map fst (filter (\<lambda>(k, q). q > 0) ?held))"
  have "filter (\<lambda>(k, q). q > 0) ?held = ?held"
    using current_reservations_pos by (intro filter_True) force
  then have ps: "set ?ps = pairs_of (fst ` set ?held)" by (simp add: set_affected_pairs)
  have "map (rewrite_row fst batch_key (release_wr ()) ?held) (t_itembatch s) = ?bs"
    using assms by (intro map_cong refl rewrite_release current_reservations_distinct current_reservations_pos)
      (simp_all add: stock_ok_def)
  then have rw: "release_loop.rewritten s ?held = ?s1"
    unfolding release_loop.rewritten_def by (intro batch_table_laws(4))
  have first: "result (fold_result release_batch ?held s) = (if True then Some ?s1 else None)"
    using release_loop.loop_result [OF stock_ok_keys(1) [OF assms] current_reservations_distinct] rw
    by (simp add: release_loop.passes_def split: option.splits)
  have dist: "distinct (map inventory_key (t_inventory ?s1))" using stock_ok_keys(2) [OF assms] by simp
  have rw2: "release_recalc_loop.rewritten ?s1 ?ps = released_state ?held s"
    unfolding release_recalc_loop.rewritten_def rewrite_pairs ps
    by (simp add: released_state_def Let_def)
  have second: "result (fold_result release_recalc ?ps ?s1)
      = (if True then Some (released_state ?held s) else None)"
    using release_recalc_loop.loop_result [OF dist, of ?ps] rw2
    by (simp add: release_recalc_loop.passes_def split: option.splits)
  have "result (release_all_reservations s rid) = (if True \<and> True then Some (released_state ?held s) else None)"
    unfolding release_all_reservations_def Let_def
    by (rule result_two_loops [OF first]) (rule second)
  then show ?thesis by (simp add: result_Some_iff)
qed

definition commit_admissible :: "reliefpkg_item list \<Rightarrow> db \<Rightarrow> bool" where
  "commit_admissible rows s \<longleftrightarrow> (\<forall>r \<in> set rows. pi_item_qty r > 0 \<longrightarrow>
     (\<exists>b \<in> set (t_itembatch s). batch_key b = pkg_item_key r \<and> pi_item_qty r \<le> bt_usable_qty b))"

lemma commit_effect_sel [simp]:
  "batch_key (commit_effect held b) = batch_key b"
  "bt_item_id (commit_effect held b) = bt_item_id b"
  "bt_inventory_id (commit_effect held b) = bt_inventory_id b"
  "bt_batch_id (commit_effect held b) = bt_batch_id b"
  "bt_usable_qty (commit_effect held b) = bt_usable_qty b - dict_get held (batch_key b) 0"
  "bt_reserved_qty (commit_effect held b) = max 0 (bt_reserved_qty b - dict_get held (batch_key b) 0)"
  by (simp_all add: commit_effect_def Let_def)

lemma commit_effect_same:
  "batch_ok b \<Longrightarrow> dict_get held (batch_key b) 0 = 0 \<Longrightarrow> commit_effect held b = b"
  by (simp add: commit_effect_def batch_ok_def max_absorb2)

lemma rewrite_commit:
  assumes "batch_ok b" and "distinct (map pkg_item_key rows)"
  shows "rewrite_row pkg_item_key batch_key (commit_wr ()) rows b
     = commit_effect (batch_reservations_of rows) b"
proof (cases "find (\<lambda>r. pkg_item_key r = batch_key b) rows")
  case None
  then have "dict_get (batch_reservations_of rows) (batch_key b) 0 = 0"
    by (simp add: batch_reservations_get [OF assms(2)])
  with None assms(1) show ?thesis by (simp add: rewrite_row_def commit_effect_same)
next
  case (Some r)
  then have q: "dict_get (batch_reservations_of rows) (batch_key b) 0 = max 0 (pi_item_qty r)"
    by (simp add: batch_reservations_get [OF assms(2)])
  show ?thesis
  proof (cases "pi_item_qty r > 0")
    case True
    with Some q show ?thesis by (simp add: rewrite_row_def commit_wr_def commit_effect_def Let_def)
  next
    case False
    with q have "commit_effect (batch_reservations_of rows) b = b"
      by (intro commit_effect_same assms(1)) simp
    with Some False show ?thesis by (simp add: rewrite_row_def commit_wr_def)
  qed
qed

lemma commit_passes:
  assumes "stock_ok s"
  shows "(\<forall>r \<in> set rows. commit_loop.passes s r) \<longleftrightarrow> commit_admissible rows s"
proof -
  have "commit_loop.passes s r \<longleftrightarrow> (pkg_item_key r \<notin> batch_key ` set (t_itembatch s) \<and> \<not> pi_item_qty r > 0)
      \<or> (\<exists>b \<in> set (t_itembatch s). batch_key b = pkg_item_key r \<and> commit_ok () r b)" for r
    unfolding commit_loop.passes_def using stock_ok_keys(1) [OF assms] by (rule find_key_iff)
  then show ?thesis
    unfolding commit_admissible_def commit_ok_def by (intro ball_cong refl) force
qed

theorem commit_spec:
  assumes "stock_ok s" and "pkg_items_ok s" and "first_pkg s rid = Some p"
    and "rows = pkg_items_of s (pk_reliefpkg_id p)"
  shows "result (commit_inventory s rid) =
     (if commit_admissible rows s then Some (committed_state (batch_reservations_of rows) s) else None)"
proof -
  let ?held = "batch_reservations_of rows"
  let ?bs = "map (commit_effect ?held) (t_itembatch s)"
  let ?s1 = "s\<lparr>t_itembatch := ?bs\<rparr>"
  let ?ps = "affected_pairs (map pkg_item_key (filter (\<lambda>r. pi_item_qty r > 0) rows))"
  have dr: "distinct (map pkg_item_key rows)"
    unfolding assms(4) by (rule pkg_items_ok_rows(1) [OF assms(2)])
  have ps: "set ?ps = pairs_of (fst ` set ?held)"
    by (simp add: set_affected_pairs batch_reservations_keys)
  have "map (rewrite_row pkg_item_key batch_key (commit_wr ()) rows) (t_itembatch s) = ?bs"
    using assms(1) by (intro map_cong refl rewrite_commit dr) (simp add: stock_ok_def)
  then have rw: "commit_loop.rewritten s rows = ?s1"
    unfolding commit_loop.rewritten_def by (intro batch_table_laws(4))
  have first: "result (fold_result commit_batch rows s)
      = (if commit_admissible rows s then Some ?s1 else None)"
    using commit_loop.loop_result [OF stock_ok_keys(1) [OF assms(1)] dr] rw
    by (simp add: commit_passes [OF assms(1)])
  have dist: "distinct (map inventory_key (t_inventory ?s1))" using stock_ok_keys(2) [OF assms(1)] by simp
  have rw2: "commit_recalc_loop.rewritten ?s1 ?ps = committed_state ?held s"
    unfolding commit_recalc_loop.rewritten_def rewrite_pairs ps
    by (simp add: committed_state_def Let_def)
  have second: "result (fold_result commit_recalc ?ps ?s1)
      = (if True then Some (committed_state ?held s) else None)"
    using commit_recalc_loop.loop_result [OF dist, of ?ps] rw2
    by (simp add: commit_recalc_loop.passes_def split: option.splits)
  have "commit_inventory s rid = (case fold_result commit_batch rows s of
      Inl e \<Rightarrow> Inl e | Inr s' \<Rightarrow> fold_result commit_recalc ?ps s')"
    unfolding assms(4) by (simp add: commit_inventory_def assms(3) Let_def)
  then have "result (commit_inventory s rid)
      = (if commit_admissible rows s \<and> True then Some (committed_state ?held s) else None)"
    by (simp only:) (rule result_two_loops [OF first], rule second)
  then show ?thesis by simp
qed

lemma dict_get_nonneg:
  fixes d :: "('k, qty) dict"
  assumes "\<And>p. p \<in> set d \<Longrightarrow> snd p > 0"
  shows "0 \<le> dict_get d k 0"
proof (cases "map_of d k")
  case (Some q)
  with assms [OF map_of_SomeD [OF Some]] show ?thesis by (simp add: dict_get_def)
qed (simp add: dict_get_def)

section \<open>Invariants\<close>

text \<open>The documented consistency: each active warehouse row carries the sum of its batches.\<close>

definition warehouse_synced :: "db \<Rightarrow> bool" where
  "warehouse_synced s \<longleftrightarrow> (\<forall>v \<in> set (t_inventory s). iv_status_code v = ''A'' \<longrightarrow>
     iv_reserved_qty v = sum_reserved (t_itembatch s) (inventory_key v))"

text \<open>
  All three services rewrite the batches by some \<open>f\<close> and then synchronise the pairs of the keys
  \<open>K\<close> they touched; outside \<open>K\<close> the function \<open>f\<close> changes nothing.
\<close>

lemma batches_at_map:
  assumes "\<And>b. bt_item_id (f b) = bt_item_id b" and "\<And>b. bt_inventory_id (f b) = bt_inventory_id b"
  shows "batches_at (map f bs) p = map f (batches_at bs p)"
  by (simp add: batches_at_def filter_map comp_def assms)

lemma batches_at_untouched:
  assumes "\<And>b. bt_item_id (f b) = bt_item_id b" and "\<And>b. bt_inventory_id (f b) = bt_inventory_id b"
    and "\<And>b. b \<in> set bs \<Longrightarrow> batch_key b \<notin> K \<Longrightarrow> f b = b" and "p \<notin> pairs_of K"
  shows "batches_at (map f bs) p = batches_at bs p"
proof -
  have "f b = b" if "b \<in> set (batches_at bs p)" for b
  proof (rule assms(3))
    show "b \<in> set bs" using that by (simp add: batches_at_def)
    show "batch_key b \<notin> K"
    proof
      assume "batch_key b \<in> K"
      then have "(bt_item_id b, bt_inventory_id b) \<in> pairs_of K"
        by (auto simp: pairs_of_def batch_key_def)
      with that assms(4) show False by (cases p) (simp add: batches_at_def)
    qed
  qed
  then show ?thesis by (simp add: batches_at_map [of f, OF assms(1,2)] map_idI)
qed

lemma synced_after:
  assumes "warehouse_synced s"
    and f: "\<And>b. bt_item_id (f b) = bt_item_id b" "\<And>b. bt_inventory_id (f b) = bt_inventory_id b"
    and out: "\<And>b. b \<in> set (t_itembatch s) \<Longrightarrow> batch_key b \<notin> K \<Longrightarrow> f b = b"
    and wr: "\<And>bs k v. inventory_key (wr bs k v) = inventory_key v"
      "\<And>bs k v. iv_status_code (wr bs k v) = iv_status_code v"
      "\<And>bs k v. iv_status_code v = ''A'' \<Longrightarrow> iv_reserved_qty (wr bs k v) = sum_reserved bs k"
    and bs: "bs = map f (t_itembatch s)"
  shows "warehouse_synced (s\<lparr>t_itembatch := bs, t_inventory := map (sync_pairs wr (pairs_of K) bs) (t_inventory s)\<rparr>)"
  unfolding warehouse_synced_def
proof (intro ballI impI)
  fix v assume v: "v \<in> set (t_inventory (s\<lparr>t_itembatch := bs,
      t_inventory := map (sync_pairs wr (pairs_of K) bs) (t_inventory s)\<rparr>))" and act: "iv_status_code v = ''A''"
  then obtain v0 where v0: "v0 \<in> set (t_inventory s)" "v = sync_pairs wr (pairs_of K) bs v0" by auto
  have key: "inventory_key v = inventory_key v0" and act0: "iv_status_code v0 = ''A''"
    using act v0(2) by (auto simp: sync_pairs_def wr split: if_splits)
  have "iv_reserved_qty v = sum_reserved bs (inventory_key v)"
  proof (cases "inventory_key v0 \<in> pairs_of K")
    case True
    then show ?thesis using v0(2) key act0 by (simp add: sync_pairs_def wr)
  next
    case False
    then have "sum_reserved bs (inventory_key v0) = sum_reserved (t_itembatch s) (inventory_key v0)"
      unfolding bs sum_reserved_def by (simp add: batches_at_untouched [of f, OF f out])
    with False show ?thesis
      using v0 key act0 assms(1) by (simp add: sync_pairs_def warehouse_synced_def)
  qed
  then show "iv_reserved_qty v = sum_reserved (t_itembatch (s\<lparr>t_itembatch := bs,
      t_inventory := map (sync_pairs wr (pairs_of K) bs) (t_inventory s)\<rparr>)) (inventory_key v)" by simp
qed

lemma stock_ok_after:
  assumes "stock_ok s" and "\<And>b. b \<in> set (t_itembatch s) \<Longrightarrow> batch_ok (f b)"
    and "\<And>b. bt_batch_id (f b) = bt_batch_id b"
    and wr: "\<And>bs k v. inventory_key (wr bs k v) = inventory_key v"
  shows "stock_ok (s\<lparr>t_itembatch := map f (t_itembatch s),
     t_inventory := map (sync_pairs wr P bs) (t_inventory s)\<rparr>)"
proof -
  have "inventory_key (sync_pairs wr P bs v) = inventory_key v" for v by (simp add: sync_pairs_def wr)
  with assms show ?thesis by (simp add: stock_ok_def comp_def)
qed

lemma recalc_wr_sel [simp]:
  "inventory_key (recalc_wr bs k v) = inventory_key v"
  "iv_status_code (recalc_wr bs k v) = iv_status_code v"
  "iv_usable_qty (recalc_wr bs k v) = iv_usable_qty v"
  "iv_reserved_qty (recalc_wr bs k v) = sum_reserved bs k"
  by (simp_all add: recalc_wr_def)

lemma release_recalc_wr_sel [simp]:
  "inventory_key (release_recalc_wr bs k v) = inventory_key v"
  "iv_status_code (release_recalc_wr bs k v) = iv_status_code v"
  "iv_usable_qty (release_recalc_wr bs k v) = iv_usable_qty v"
  by (simp_all add: release_recalc_wr_def)

lemma commit_recalc_wr_sel [simp]:
  "inventory_key (commit_recalc_wr bs k v) = inventory_key v"
  "iv_status_code (commit_recalc_wr bs k v) = iv_status_code v"
  "iv_usable_qty (commit_recalc_wr bs k v) = sum_usable bs k"
  "iv_reserved_qty (commit_recalc_wr bs k v) = sum_reserved bs k"
  by (simp_all add: commit_recalc_wr_def)

lemma reserved_state_inv:
  assumes "stock_ok s" and "reserve_admissible old new s"
  shows "stock_ok (reserved_state old new s)"
    and "warehouse_synced s \<Longrightarrow> warehouse_synced (reserved_state old new s)"
proof -
  have ok: "batch_ok b" if "b \<in> set (t_itembatch s)" for b using assms(1) that by (simp add: stock_ok_def)
  have "batch_ok (reserve_effect old new b)" if "b \<in> set (t_itembatch s)" for b
    using ok [OF that] assms(2) that by (auto simp: batch_ok_def reserve_admissible_def)
  then show "stock_ok (reserved_state old new s)"
    unfolding reserved_state_def Let_def by (intro stock_ok_after [OF assms(1)]) simp_all
  show "warehouse_synced (reserved_state old new s)" if "warehouse_synced s"
    unfolding reserved_state_def Let_def
    by (rule synced_after [OF that, where f = "reserve_effect old new"])
      (simp_all add: reserve_effect_same ok delta_outside)
qed

lemma released_state_inv:
  assumes "stock_ok s" and "\<And>p. p \<in> set held \<Longrightarrow> snd p > 0"
  shows "stock_ok (released_state held s)"
    and "warehouse_synced s \<Longrightarrow> warehouse_synced (released_state held s)"
proof -
  have ok: "batch_ok b" if "b \<in> set (t_itembatch s)" for b using assms(1) that by (simp add: stock_ok_def)
  have q: "0 \<le> dict_get held k 0" for k by (rule dict_get_nonneg [OF assms(2)])
  have "batch_ok (reserve_effect held [] b)" if "b \<in> set (t_itembatch s)" for b
    using ok [OF that] q [of "batch_key b"] by (auto simp: batch_ok_def batch_delta_def)
  then show "stock_ok (released_state held s)"
    unfolding released_state_def Let_def by (intro stock_ok_after [OF assms(1)]) simp_all
  show "warehouse_synced (released_state held s)" if "warehouse_synced s"
    unfolding released_state_def Let_def
    by (rule synced_after [OF that, where f = "reserve_effect held []"])
      (simp_all add: reserve_effect_same ok delta_outside reservation_keys_def release_recalc_wr_def)
qed

lemma commit_fits:
  assumes "stock_ok s" and "distinct (map pkg_item_key rows)" and "commit_admissible rows s"
    and "b \<in> set (t_itembatch s)"
  shows "dict_get (batch_reservations_of rows) (batch_key b) 0 \<le> bt_usable_qty b"
proof -
  have b_ok: "batch_ok b" using assms(1,4) by (simp add: stock_ok_def)
  show ?thesis
  proof (cases "find (\<lambda>r. pkg_item_key r = batch_key b) rows")
    case None
    with b_ok show ?thesis by (auto simp: batch_reservations_get [OF assms(2)] batch_ok_def)
  next
    case (Some r)
    from find_Some_set [OF Some] have r: "r \<in> set rows" "pkg_item_key r = batch_key b" by auto
    show ?thesis
    proof (cases "pi_item_qty r > 0")
      case True
      with assms(3) r obtain c where c: "c \<in> set (t_itembatch s)" "batch_key c = batch_key b"
        "pi_item_qty r \<le> bt_usable_qty c" unfolding commit_admissible_def by auto
      have "c = b" using stock_ok_keys(1) [OF assms(1)] c(1,2) assms(4) by (auto simp: distinct_map inj_on_def)
      with c(3) Some True show ?thesis by (simp add: batch_reservations_get [OF assms(2)])
    next
      case False
      with Some b_ok show ?thesis by (auto simp: batch_reservations_get [OF assms(2)] batch_ok_def)
    qed
  qed
qed

lemma committed_state_inv:
  assumes "stock_ok s" and "distinct (map pkg_item_key rows)" and "commit_admissible rows s"
    and "held = batch_reservations_of rows"
  shows "stock_ok (committed_state held s)"
    and "warehouse_synced s \<Longrightarrow> warehouse_synced (committed_state held s)"
proof -
  have ok: "batch_ok b" if "b \<in> set (t_itembatch s)" for b using assms(1) that by (simp add: stock_ok_def)
  have q: "0 \<le> dict_get held k 0" for k
    unfolding assms(4) by (rule dict_get_nonneg) (rule batch_reservations_pos)
  have "batch_ok (commit_effect held b)" if "b \<in> set (t_itembatch s)" for b
    using ok [OF that] commit_fits [OF assms(1-3) that] assms(4) by (auto simp: batch_ok_def)
  then show "stock_ok (committed_state held s)"
    unfolding committed_state_def Let_def by (intro stock_ok_after [OF assms(1)]) simp_all
  show "warehouse_synced (committed_state held s)" if "warehouse_synced s"
    unfolding committed_state_def Let_def
    by (rule synced_after [OF that, where f = "commit_effect held"])
      (simp_all add: commit_effect_same ok dict_get_not_in)
qed

text \<open>Every committed quantity leaves exactly one batch.\<close>

lemma sum_indicator:
  fixes q :: qty
  shows "distinct (map K bs) \<Longrightarrow> k \<in> K ` set bs \<or> q = 0 \<Longrightarrow>
     sum_list (map (\<lambda>b. if K b = k then q else 0) bs) = q"
proof (induction bs)
  case (Cons b bs)
  show ?case
  proof (cases "K b = k")
    case True
    then have "k \<notin> K ` set bs" using Cons.prems(1) by auto
    then have "map (\<lambda>b. if K b = k then q else 0) bs = map (\<lambda>_. 0) bs" by auto
    then have "sum_list (map (\<lambda>b. if K b = k then q else 0) bs) = 0"
      by (simp only: sum_list_0)
    with True show ?thesis by simp
  next
    case False
    with Cons show ?thesis by auto
  qed
qed auto

lemma sum_exchange:
  fixes q :: "'r \<Rightarrow> qty"
  assumes "distinct (map K bs)" and "\<And>r. r \<in> set rows \<Longrightarrow> R r \<in> K ` set bs \<or> q r = 0"
  shows "sum_list (map (\<lambda>b. sum_list (map q (filter (\<lambda>r. R r = K b) rows))) bs) = sum_list (map q rows)"
  using assms(2)
proof (induction rows)
  case (Cons r rows)
  have "sum_list (map (\<lambda>b. sum_list (map q (filter (\<lambda>r. R r = K b) (r # rows)))) bs)
      = sum_list (map (\<lambda>b. (if K b = R r then q r else 0)
          + sum_list (map q (filter (\<lambda>r. R r = K b) rows))) bs)"
    by (intro arg_cong [where f = sum_list] map_cong) auto
  also have "\<dots> = q r + sum_list (map q rows)"
    using Cons sum_indicator [OF assms(1), of "R r" "q r"] by (simp add: sum_list_addf)
  finally show ?case by simp
qed simp

lemma new_reservations_pos: "p \<in> set (new_batch_reservations allocs) \<Longrightarrow> snd p > 0"
  using dict_fold_values [of allocs "\<lambda>a. ar_allocated_qty a > 0" "\<lambda>q. q > 0" ar_allocated_qty "[]" alloc_key]
  by (simp add: new_batch_reservations_def)

text \<open>Giving back exactly what was reserved restores every quantity.\<close>

lemma reserve_release_effect:
  "batch_ok b \<Longrightarrow> 0 \<le> dict_get new (batch_key b) 0 \<Longrightarrow>
     bt_reserved_qty (reserve_effect new [] (reserve_effect [] new b)) = bt_reserved_qty b"
  by (simp add: batch_delta_def batch_ok_def)

lemma synced_reserved:
  "warehouse_synced s \<Longrightarrow> v \<in> set (t_inventory s) \<Longrightarrow> iv_status_code v = ''A'' \<Longrightarrow>
     iv_reserved_qty v = sum_reserved (t_itembatch s) (inventory_key v)"
  by (simp add: warehouse_synced_def)

lemma sum_reserved_cong:
  assumes "\<And>b. b \<in> set bs \<Longrightarrow> bt_reserved_qty (f b) = bt_reserved_qty b"
    and "\<And>b. bt_item_id (f b) = bt_item_id b" and "\<And>b. bt_inventory_id (f b) = bt_inventory_id b"
  shows "sum_reserved (map f bs) k = sum_reserved bs k"
  unfolding sum_reserved_def batches_at_map [of f, OF assms(2,3)]
  by (intro arg_cong [where f = sum_list]) (auto simp: batches_at_def assms(1))

section \<open>Properties\<close>

definition ex_alloc :: "int \<Rightarrow> qty \<Rightarrow> alloc_req" where
  "ex_alloc b q = \<lparr>ar_item_id = 1, ar_batch_id = b, ar_warehouse_id = Some 7, ar_allocated_qty = q\<rparr>"

lemma ex_stock_synced: "warehouse_synced (ex_stock ord)"
  by (simp add: warehouse_synced_def sum_reserved_def batches_at_def inventory_key_def ex_simps)

lemmas ex_reserve_simps = reserve_inventory_def reserve_run_def new_batch_reservations_def
  batch_delta_def find_batch_def set_batch_def batch_key_def batch_set_qty_def orm_batch_def
  affected_pairs_def recalc_reserved_def find_active_inventory_def sum_reserved_def sum_usable_def
  batches_at_def set_inventory_def inventory_key_def inventory_set_qty_def orm_inventory_def
  alloc_key_def ex_alloc_def Let_def

text \<open>
  C2: reserving stock implements its loop-free specification: it succeeds exactly when every
  touched key has a warehouse, every increase finds its batch, no batch would be reserved beyond
  its usable quantity and every touched warehouse row is active and large enough; then each batch
  moves by the difference of its new and old allocation and the touched warehouse rows carry the
  batch sums. The order in which Python iterates its two sets does not matter.
\<close>

theorem reserve_refines:
  assumes "stock_ok s" and "new = new_batch_reservations allocs"
  shows "result (reserve_inventory s rid allocs (Some old))
       = (if reserve_admissible old new s then Some (reserved_state old new s) else None)
     \<and> (\<forall>ks ps. distinct ks \<and> set ks = reservation_keys old new \<and> distinct ps
          \<and> set ps = pairs_of (reservation_keys old new) \<longrightarrow>
          result (reserve_run old new ks ps s) = result (reserve_inventory s rid allocs (Some old)))"
proof -
  have spec: "result (reserve_inventory s rid allocs (Some old))
       = (if reserve_admissible old new s then Some (reserved_state old new s) else None)"
    by (rule reserve_inventory_spec [OF assms(1) _ assms(2)]) simp
  then show ?thesis using reserve_run_spec [OF assms(1)] by simp
qed

theorem reserve_refines_witness:
  "result (reserve_inventory (ex_stock ''FEFO'') 5 [ex_alloc 11 4] (Some []))
     = Some (reserved_state [] (new_batch_reservations [ex_alloc 11 4]) (ex_stock ''FEFO''))"
proof -
  have "result (reserve_inventory (ex_stock ''FEFO'') 5 [ex_alloc 11 4] (Some [])) \<noteq> None"
    by (simp add: ex_reserve_simps ex_simps)
  then show ?thesis
    using reserve_refines [OF ex_stock_ok refl, of _ 5 "[ex_alloc 11 4]" "[]"] by (simp split: if_splits)
qed



text \<open>
  A batch is never overbooked: if for some batch the increase from the old to the new
  allocation is larger than the batch's available quantity, the reservation is refused, whatever
  else the request allocates.
\<close>

lemma reserve_rejects_overbooking:
  assumes "stock_ok s" and "b \<in> set (t_itembatch s)"
    and "available_qty b < batch_delta old (new_batch_reservations allocs) (batch_key b)"
  shows "\<exists>e. reserve_inventory s rid allocs (Some old) = Inl e"
proof -
  have "\<not> reserve_admissible old (new_batch_reservations allocs) s"
    using assms(2,3) by (force simp: reserve_admissible_def available_qty_def)
  then have "result (reserve_inventory s rid allocs (Some old)) = None"
    using reserve_inventory_spec [OF assms(1), of old rid "Some old" _ allocs] by simp
  then show ?thesis by (simp add: result_None_iff)
qed

text \<open>
  C27: releasing never fails and gives back exactly what the request's package holds: each
  batch's reservation drops by the package's quantity for it (not below zero), usable quantities
  stay, and the stock invariants hold afterwards.
\<close>

theorem release_gives_back:
  assumes "stock_ok s" and "warehouse_synced s"
  shows "\<exists>s'. release_all_reservations s rid = Inr s' \<and> stock_ok s' \<and> warehouse_synced s'
     \<and> (\<forall>k. map_option (\<lambda>b. (bt_usable_qty b, bt_reserved_qty b)) (find_batch s' k)
          = map_option (\<lambda>b. (bt_usable_qty b,
              max 0 (bt_reserved_qty b - dict_get (get_current_batch_reservations s rid) k 0)))
              (find_batch s k))"
proof -
  let ?held = "get_current_batch_reservations s rid"
  let ?s' = "released_state ?held s"
  have "find_batch ?s' k = map_option (reserve_effect ?held []) (find_batch s k)" for k
    by (simp add: find_batch_def released_state_def Let_def find_map_key)
  moreover have "map_option (\<lambda>b. (bt_usable_qty b, bt_reserved_qty b))
        (map_option (reserve_effect ?held []) (find_batch s k))
      = map_option (\<lambda>b. (bt_usable_qty b, max 0 (bt_reserved_qty b - dict_get ?held k 0))) (find_batch s k)" for k
    by (cases "find_batch s k") (auto simp: find_batch_def batch_delta_def dest: find_Some_set)
  ultimately show ?thesis
    using release_spec [OF assms(1)] released_state_inv [OF assms(1) current_reservations_pos] assms(2)
    by (intro exI [of _ ?s']) simp
qed

theorem release_gives_back_witness:
  "\<exists>s'. release_all_reservations
     (ex_stock ''FEFO''\<lparr>t_reliefpkg := [ex_pkg 9 5 ''P'' None], t_reliefpkg_item := [ex_pkg_item 9 10 2]\<rparr>) 5 = Inr s'
   \<and> map_option bt_reserved_qty (find_batch s' (1, Some 7, 10)) = Some 0"
proof -
  let ?s = "ex_stock ''FEFO''\<lparr>t_reliefpkg := [ex_pkg 9 5 ''P'' None], t_reliefpkg_item := [ex_pkg_item 9 10 2]\<rparr>"
  have "stock_ok ?s" "warehouse_synced ?s"
    using ex_stock_ok [of "''FEFO''"] ex_stock_synced [of "''FEFO''"]
    by (simp_all add: stock_ok_def warehouse_synced_def)
  from release_gives_back [OF this, of 5] obtain s' where s': "release_all_reservations ?s 5 = Inr s'"
    and q: "map_option (\<lambda>b. (bt_usable_qty b, bt_reserved_qty b)) (find_batch s' (1, Some 7, 10))
      = map_option (\<lambda>b. (bt_usable_qty b,
          max 0 (bt_reserved_qty b - dict_get (get_current_batch_reservations ?s 5) (1, Some 7, 10) 0)))
        (find_batch ?s (1, Some 7, 10))" by blast
  have "map_option (\<lambda>b. (bt_usable_qty b, bt_reserved_qty b)) (find_batch s' (1, Some 7, 10)) = Some (5, 0)"
    unfolding q by (simp add: find_batch_def batch_key_def get_current_batch_reservations_def first_pkg_def
        batch_reservations_of_def pkg_items_of_def pkg_item_key_def ex_simps)
  with s' show ?thesis by auto
qed

text \<open>
  C16: reserve and release are inverse. Reserving allocations for a package that held nothing and
  then releasing, once the package rows record those allocations, succeeds and restores every
  usable and reserved quantity of every batch and of every active warehouse row.
\<close>

theorem reserve_release_roundtrip:
  assumes "stock_ok s" and "warehouse_synced s"
    and "reserve_inventory s rid allocs (Some []) = Inr s1"
    and "s2 = s1\<lparr>t_reliefpkg := pkgs, t_reliefpkg_item := rows\<rparr>"
    and "get_current_batch_reservations s2 rid = new_batch_reservations allocs"
  shows "\<exists>s3. release_all_reservations s2 rid = Inr s3
     \<and> map (\<lambda>b. (batch_key b, bt_usable_qty b, bt_reserved_qty b)) (t_itembatch s3)
       = map (\<lambda>b. (batch_key b, bt_usable_qty b, bt_reserved_qty b)) (t_itembatch s)
     \<and> (\<forall>v \<in> set (t_inventory s3). iv_status_code v = ''A'' \<longrightarrow>
          iv_reserved_qty v = sum_reserved (t_itembatch s) (inventory_key v))"
proof -
  let ?new = "new_batch_reservations allocs"
  let ?f = "\<lambda>b. reserve_effect ?new [] (reserve_effect [] ?new b)"
  from reserve_inventory_Inr [OF assms(1,3) refl]
  have adm: "reserve_admissible [] ?new s" and s1: "s1 = reserved_state [] ?new s" by auto
  note inv1 = reserved_state_inv [OF assms(1) adm, folded s1]
  have s2: "stock_ok s2" "warehouse_synced s2"
    using inv1 assms(2) by (simp_all add: assms(4) stock_ok_def warehouse_synced_def)
  let ?s3 = "released_state ?new s2"
  have run: "release_all_reservations s2 rid = Inr ?s3" using release_spec [OF s2(1)] assms(5) by simp
  have synced: "warehouse_synced ?s3" by (rule released_state_inv(2) [OF s2(1) new_reservations_pos s2(2)])
  have bs: "t_itembatch ?s3 = map ?f (t_itembatch s)"
    by (simp add: released_state_def reserved_state_def assms(4) s1 Let_def)
  have q: "bt_reserved_qty (?f b) = bt_reserved_qty b" if "b \<in> set (t_itembatch s)" for b
    using assms(1) that dict_get_nonneg [OF new_reservations_pos]
    by (intro reserve_release_effect) (auto simp: stock_ok_def)
  have "sum_reserved (t_itembatch ?s3) k = sum_reserved (t_itembatch s) k" for k
    unfolding bs using q by (rule sum_reserved_cong) simp_all
  then show ?thesis
    using run synced q by (intro exI [of _ ?s3]) (simp add: bs warehouse_synced_def del: reserve_effect_sel(6))
qed

theorem reserve_release_roundtrip_witness:
  "\<exists>s1 s3. reserve_inventory (ex_stock ''FEFO'') 5 [ex_alloc 11 4] (Some []) = Inr s1
   \<and> release_all_reservations
       (s1\<lparr>t_reliefpkg := [ex_pkg 9 5 ''P'' None], t_reliefpkg_item := [ex_pkg_item 9 11 4]\<rparr>) 5 = Inr s3
   \<and> map (\<lambda>b. (batch_key b, bt_usable_qty b, bt_reserved_qty b)) (t_itembatch s3)
     = [((1, Some 7, 11), 10, 0), ((1, Some 7, 10), 5, 2)]"
proof -
  obtain s1 where s1: "reserve_inventory (ex_stock ''FEFO'') 5 [ex_alloc 11 4] (Some []) = Inr s1"
    by (simp add: ex_reserve_simps ex_simps)
  let ?s2 = "s1\<lparr>t_reliefpkg := [ex_pkg 9 5 ''P'' None], t_reliefpkg_item := [ex_pkg_item 9 11 4]\<rparr>"
  have held: "get_current_batch_reservations ?s2 5 = new_batch_reservations [ex_alloc 11 4]"
    by (simp add: get_current_batch_reservations_def first_pkg_def batch_reservations_of_def pkg_items_of_def
        pkg_item_key_def ex_reserve_simps ex_simps)
  have "map (\<lambda>b. (batch_key b, bt_usable_qty b, bt_reserved_qty b)) (t_itembatch (ex_stock ''FEFO''))
      = [((1, Some 7, 11), 10, 0), ((1, Some 7, 10), 5, 2)]"
    by (simp add: batch_key_def ex_simps)
  with reserve_release_roundtrip [OF ex_stock_ok ex_stock_synced s1 refl held] s1 show ?thesis by auto
qed

text \<open>
  C4: committing a package conserves stock. A successful commit takes out of the usable stock
  exactly the sum of the package's quantities, each from its own batch; the stock invariants are
  kept; and where a batch's reservation covers the package's quantity, what is available to others
  is the same as before.
\<close>

theorem commit_conserves:
  assumes "stock_ok s" and "warehouse_synced s" and "pkg_items_ok s"
    and "first_pkg s rid = Some p" and "rows = pkg_items_of s (pk_reliefpkg_id p)"
    and "commit_inventory s rid = Inr s'"
  shows "stock_ok s' \<and> warehouse_synced s'
     \<and> sum_list (map bt_usable_qty (t_itembatch s'))
       = sum_list (map bt_usable_qty (t_itembatch s)) - sum_list (map pi_item_qty rows)
     \<and> t_itembatch s' = map (commit_effect (batch_reservations_of rows)) (t_itembatch s)
     \<and> (\<forall>b \<in> set (t_itembatch s).
          dict_get (batch_reservations_of rows) (batch_key b) 0 \<le> bt_reserved_qty b \<longrightarrow>
          available_qty (commit_effect (batch_reservations_of rows) b) = available_qty b)"
proof -
  let ?held = "batch_reservations_of rows"
  have adm: "commit_admissible rows s" and s': "s' = committed_state ?held s"
    using commit_spec [OF assms(1,3,4,5)] assms(6) by (auto split: if_splits)
  note rows = pkg_items_ok_rows [OF assms(3), of "pk_reliefpkg_id p", folded assms(5)]
  have q: "dict_get ?held k 0 = sum_list (map pi_item_qty (filter (\<lambda>r. pkg_item_key r = k) rows))" for k
    by (rule batch_reservations_sum [OF rows])
  have bs: "t_itembatch s' = map (commit_effect ?held) (t_itembatch s)"
    by (simp add: s' committed_state_def Let_def)
  have stored: "pkg_item_key r \<in> batch_key ` set (t_itembatch s) \<or> pi_item_qty r = 0" if "r \<in> set rows" for r
    using adm rows(2) that unfolding commit_admissible_def by (metis imageI order_le_less)
  have "sum_list (map (\<lambda>b. dict_get ?held (batch_key b) 0) (t_itembatch s)) = sum_list (map pi_item_qty rows)"
    unfolding q by (rule sum_exchange [OF stock_ok_keys(1) [OF assms(1)] stored])
  then have "sum_list (map bt_usable_qty (t_itembatch s'))
       = sum_list (map bt_usable_qty (t_itembatch s)) - sum_list (map pi_item_qty rows)"
    by (simp add: bs comp_def sum_list_subtractf)
  moreover have "\<forall>b \<in> set (t_itembatch s). dict_get ?held (batch_key b) 0 \<le> bt_reserved_qty b \<longrightarrow>
      available_qty (commit_effect ?held b) = available_qty b" by (simp add: available_qty_def)
  ultimately show ?thesis
    using committed_state_inv [OF assms(1) rows(1) adm refl] assms(2) bs s' by simp
qed

theorem commit_conserves_witness:
  "\<exists>s'. commit_inventory
     (ex_stock ''FEFO''\<lparr>t_reliefpkg := [ex_pkg 9 5 ''P'' None], t_reliefpkg_item := [ex_pkg_item 9 10 2]\<rparr>) 5 = Inr s'
   \<and> sum_list (map bt_usable_qty (t_itembatch s')) = 13"
proof -
  let ?s = "ex_stock ''FEFO''\<lparr>t_reliefpkg := [ex_pkg 9 5 ''P'' None], t_reliefpkg_item := [ex_pkg_item 9 10 2]\<rparr>"
  have ok: "stock_ok ?s" "warehouse_synced ?s" "pkg_items_ok ?s"
    using ex_stock_ok [of "''FEFO''"] ex_stock_synced [of "''FEFO''"]
    by (simp_all add: stock_ok_def warehouse_synced_def pkg_items_ok_def ex_pkg_item_def)
  have p: "first_pkg ?s 5 = Some (ex_pkg 9 5 ''P'' None)" by (simp add: first_pkg_def ex_pkg_def)
  obtain s' where s': "commit_inventory ?s 5 = Inr s'"
    by (simp add: commit_inventory_def first_pkg_def pkg_items_of_def commit_batch_def commit_recalc_def
        pkg_item_key_def ex_reserve_simps ex_simps)
  have "sum_list (map bt_usable_qty (t_itembatch s')) = sum_list (map bt_usable_qty (t_itembatch ?s))
      - sum_list (map pi_item_qty (pkg_items_of ?s (pk_reliefpkg_id (ex_pkg 9 5 ''P'' None))))"
    using commit_conserves [OF ok p refl s'] by blast
  then have "sum_list (map bt_usable_qty (t_itembatch s')) = 13"
    by (simp add: pkg_items_of_def ex_simps)
  with s' show ?thesis by blast
qed

text \<open>
  C28: committing is all or nothing: it fails exactly when the request has no package, or some
  positive line of the package has no batch or more than the batch's usable quantity.
\<close>

theorem commit_fails_iff:
  assumes "stock_ok s" and "pkg_items_ok s"
  shows "(\<exists>e. commit_inventory s rid = Inl e) \<longleftrightarrow>
     (case first_pkg s rid of None \<Rightarrow> True
      | Some p \<Rightarrow> \<exists>r \<in> set (pkg_items_of s (pk_reliefpkg_id p)). pi_item_qty r > 0 \<and>
          \<not> (\<exists>b \<in> set (t_itembatch s). batch_key b = pkg_item_key r \<and> pi_item_qty r \<le> bt_usable_qty b))"
proof (cases "first_pkg s rid")
  case None
  then show ?thesis by (simp add: commit_inventory_def)
next
  case (Some p)
  have "(\<exists>e. commit_inventory s rid = Inl e) \<longleftrightarrow> \<not> commit_admissible (pkg_items_of s (pk_reliefpkg_id p)) s"
    using commit_spec [OF assms Some refl] by (simp add: result_None_iff [symmetric])
  then show ?thesis by (simp add: Some commit_admissible_def)
qed

theorem commit_fails_iff_witness:
  "\<exists>e. commit_inventory
     (ex_stock ''FEFO''\<lparr>t_reliefpkg := [ex_pkg 9 5 ''P'' None], t_reliefpkg_item := [ex_pkg_item 9 10 6]\<rparr>) 5 = Inl e"
proof -
  let ?s = "ex_stock ''FEFO''\<lparr>t_reliefpkg := [ex_pkg 9 5 ''P'' None], t_reliefpkg_item := [ex_pkg_item 9 10 6]\<rparr>"
  have "stock_ok ?s" "pkg_items_ok ?s"
    using ex_stock_ok [of "''FEFO''"] by (simp_all add: stock_ok_def pkg_items_ok_def ex_pkg_item_def)
  from commit_fails_iff [OF this, of 5] show ?thesis
    by (simp add: first_pkg_def pkg_items_of_def batch_key_def pkg_item_key_def ex_simps)
qed

end
