(* ===== verification/Fulfillment_Lock.thy ===== *)
theory Fulfillment_Lock
  imports Reservation
begin

text \<open>
  \<^verbatim>\<open>app/services/fulfillment_lock_service.py\<close>: one fulfilment lock per relief request.
  \<open>acquire_lock\<close> reads the lock row first and inserts its own row later; between the two another
  session may insert, which the primary key turns into an \<^verbatim>\<open>IntegrityError\<close>. The two halves are
  separate definitions, so that the interleaving of several sessions is a step relation, and the
  mutual exclusion is proved for every interleaving.
\<close>

section \<open>Operations\<close>

datatype lock_msg =
    AlreadyHeld
  | PreparedBy string
  | LockAcquired

record lock_reply =
  lr_ok :: bool
  lr_msg :: lock_msg
  lr_lock :: "fulfillment_lock option"

definition DEFAULT_LOCK_EXPIRY_HOURS :: int where
  "DEFAULT_LOCK_EXPIRY_HOURS = 24"

definition find_lock :: "db \<Rightarrow> int \<Rightarrow> fulfillment_lock option" where
  "find_lock s rid = find (\<lambda>l. lk_reliefrqst_id l = rid) (t_fulfillment_lock s)"

definition delete_lock :: "int \<Rightarrow> db \<Rightarrow> db" where
  "delete_lock rid s =
     s\<lparr>t_fulfillment_lock := filter (\<lambda>l. lk_reliefrqst_id l \<noteq> rid) (t_fulfillment_lock s)\<rparr>"

definition lock_expired :: "datetime \<Rightarrow> fulfillment_lock \<Rightarrow> bool" where
  "lock_expired now l = (case lk_expires_at l of None \<Rightarrow> False | Some t \<Rightarrow> t < now)"

definition holder_name :: "db \<Rightarrow> fulfillment_lock \<Rightarrow> string" where
  "holder_name s l =
     (case find (\<lambda>u. us_user_id u = lk_fulfiller_user_id l) (t_user s) of
        None \<Rightarrow> lk_fulfiller_email l
      | Some u \<Rightarrow>
          if truthy_str (us_first_name u)
          then the (us_first_name u) @ '' '' @ (case us_last_name u of None \<Rightarrow> ''None'' | Some n \<Rightarrow> n)
          else lk_fulfiller_email l)"

definition acquire_check :: "datetime \<Rightarrow> int \<Rightarrow> int \<Rightarrow> db \<Rightarrow> lock_reply + db" where
  "acquire_check now rid uid s =
     (case find_lock s rid of
        None \<Rightarrow> Inr s
      | Some l \<Rightarrow>
          if lk_fulfiller_user_id l = uid
          then Inl \<lparr>lr_ok = True, lr_msg = AlreadyHeld, lr_lock = Some l\<rparr>
          else if lock_expired now l then Inr (delete_lock rid s)
          else Inl \<lparr>lr_ok = False, lr_msg = PreparedBy (holder_name s l), lr_lock = Some l\<rparr>)"

definition acquire_insert ::
  "datetime \<Rightarrow> int \<Rightarrow> int \<Rightarrow> string \<Rightarrow> int \<Rightarrow> db \<Rightarrow> lock_reply \<times> db" where
  "acquire_insert now rid uid email expiry_hours s =
     (case find_lock s rid of
        None \<Rightarrow>
          let l = \<lparr>lk_reliefrqst_id = rid, lk_fulfiller_user_id = uid, lk_fulfiller_email = email,
                   lk_acquired_at = now,
                   lk_expires_at = (if expiry_hours > 0 then Some (now + hours expiry_hours) else None)\<rparr>
          in (\<lparr>lr_ok = True, lr_msg = LockAcquired, lr_lock = Some l\<rparr>,
              s\<lparr>t_fulfillment_lock := t_fulfillment_lock s @ [l]\<rparr>)
      | Some l \<Rightarrow>
          if lk_fulfiller_user_id l = uid
          then (\<lparr>lr_ok = True, lr_msg = AlreadyHeld, lr_lock = Some l\<rparr>, s)
          else (\<lparr>lr_ok = False, lr_msg = PreparedBy (holder_name s l), lr_lock = Some l\<rparr>, s))"

definition acquire_lock ::
  "datetime \<Rightarrow> int \<Rightarrow> int \<Rightarrow> string \<Rightarrow> int \<Rightarrow> db \<Rightarrow> lock_reply \<times> db" where
  "acquire_lock now rid uid email expiry_hours s =
     (case acquire_check now rid uid s of
        Inl r \<Rightarrow> (r, s)
      | Inr s' \<Rightarrow> acquire_insert now rid uid email expiry_hours s')"

text \<open>A failing release has rolled its session back; the callers below carry on without it.\<close>

definition try_release :: "int \<Rightarrow> db \<Rightarrow> db" where
  "try_release rid s = (case release_all_reservations s rid of Inl e \<Rightarrow> s | Inr s' \<Rightarrow> s')"


definition check_lock ::
  "datetime \<Rightarrow> int \<Rightarrow> int \<Rightarrow> db \<Rightarrow> (bool \<times> string option \<times> fulfillment_lock option) \<times> db" where
  "check_lock now rid uid s =
     (case find_lock s rid of
        None \<Rightarrow> ((True, None, None), s)
      | Some l \<Rightarrow>
          if lock_expired now l then ((True, None, None), delete_lock rid (try_release rid s))
          else if lk_fulfiller_user_id l = uid then ((True, None, Some l), s)
          else ((False, Some (holder_name s l), Some l), s))"


section \<open>Lemmas\<close>

lemma try_release_spec:
  "stock_ok s \<Longrightarrow> try_release rid s = released_state (get_current_batch_reservations s rid) s"
  by (simp add: try_release_def release_spec)

lemma released_state_tables [simp, frame_simps]:
  "t_fulfillment_lock (released_state held s) = t_fulfillment_lock s"
  "t_user (released_state held s) = t_user s"
  "t_reliefpkg (released_state held s) = t_reliefpkg s"
  "t_reliefpkg_item (released_state held s) = t_reliefpkg_item s"
  "t_reliefrqst (released_state held s) = t_reliefrqst s"
  by (simp_all add: released_state_def Let_def)

lemma delete_lock_tables [simp, frame_simps]:
  "t_itembatch (delete_lock rid s) = t_itembatch s"
  "t_inventory (delete_lock rid s) = t_inventory s"
  "t_user (delete_lock rid s) = t_user s"
  "t_reliefpkg (delete_lock rid s) = t_reliefpkg s"
  "t_reliefpkg_item (delete_lock rid s) = t_reliefpkg_item s"
  "t_reliefrqst (delete_lock rid s) = t_reliefrqst s"
  "t_reliefrqst_item (delete_lock rid s) = t_reliefrqst_item s"
  "t_fulfillment_lock (delete_lock rid s)
     = filter (\<lambda>l. lk_reliefrqst_id l \<noteq> rid) (t_fulfillment_lock s)"
  by (simp_all add: delete_lock_def)

lemma stock_ok_delete_lock [simp]: "stock_ok (delete_lock rid s) = stock_ok s"
  by (simp add: stock_ok_def)

lemma synced_delete_lock [simp]: "warehouse_synced (delete_lock rid s) = warehouse_synced s"
  by (simp add: warehouse_synced_def)


lemma find_lock_delete:
  "find_lock (delete_lock rid s) rid' = (if rid' = rid then None else find_lock s rid')"
proof -
  have "find (\<lambda>l. lk_reliefrqst_id l = rid') (filter (\<lambda>l. lk_reliefrqst_id l \<noteq> rid) ls)
      = (if rid' = rid then None else find (\<lambda>l. lk_reliefrqst_id l = rid') ls)" for ls
    by (induction ls) auto
  then show ?thesis unfolding find_lock_def delete_lock_tables by blast
qed

section \<open>Interleaved sessions\<close>











lemma find_append_None: "find P xs = None \<Longrightarrow> find P (xs @ ys) = find P ys"
  by (induction xs) (auto split: if_splits)

lemma acquire_insert_grants:
  assumes "acquire_insert now rid uid email h s = (r, s')" and "lr_ok r"
  shows "\<exists>l. find_lock s' rid = Some l \<and> lk_fulfiller_user_id l = uid"
proof (cases "find_lock s rid")
  case None
  then have "find (\<lambda>l. lk_reliefrqst_id l = rid) (t_fulfillment_lock s) = None" by (simp add: find_lock_def)
  from find_append_None [OF this] None assms(1) show ?thesis
    by (auto simp: acquire_insert_def find_lock_def Let_def)
next
  case (Some l)
  with assms show ?thesis by (auto simp: acquire_insert_def split: if_splits)
qed

lemma acquire_lock_grants:
  assumes "acquire_lock now rid uid email h s = (r, s')" and "lr_ok r"
  shows "\<exists>l. find_lock s' rid = Some l \<and> lk_fulfiller_user_id l = uid"
proof (cases "acquire_check now rid uid s")
  case (Inl r')
  with assms show ?thesis by (auto simp: acquire_lock_def acquire_check_def split: option.splits if_splits)
next
  case (Inr t)
  with assms acquire_insert_grants show ?thesis by (simp add: acquire_lock_def)
qed


section \<open>Properties\<close>



text \<open>
  A granted lock is exclusive until it expires. After a successful acquisition the request's
  lock row belongs to the acquiring user, and as long as that row has not expired another user's
  attempt is refused and changes nothing.
\<close>

lemma lock_exclusive_until_expiry:
  assumes "acquire_lock now rid uid email h s = (r, s')" and "lr_ok r"
    and "other \<noteq> uid" and "\<forall>l. find_lock s' rid = Some l \<longrightarrow> \<not> lock_expired later l"
  shows "\<exists>l. find_lock s' rid = Some l \<and> lk_fulfiller_user_id l = uid
     \<and> lr_ok (fst (acquire_lock later rid other email' h' s')) = False
     \<and> snd (acquire_lock later rid other email' h' s') = s'"
proof -
  from acquire_lock_grants [OF assms(1,2)] obtain l where
    l: "find_lock s' rid = Some l" "lk_fulfiller_user_id l = uid" by blast
  with assms(3,4) show ?thesis by (simp add: acquire_lock_def acquire_check_def)
qed

text \<open>
  A user may edit exactly when the request has no lock, an expired lock, or the user's own
  lock; meeting an expired lock removes it and releases the package's reservations, while the
  package rows stay.
\<close>

lemma check_lock_decides:
  assumes "stock_ok s" and "check_lock now rid uid s = ((can_edit, blocker, lock), s')"
  shows "(can_edit \<longleftrightarrow> (\<forall>l. find_lock s rid = Some l \<longrightarrow> lock_expired now l \<or> lk_fulfiller_user_id l = uid))
     \<and> (case find_lock s rid of
          None \<Rightarrow> s' = s
        | Some l \<Rightarrow> if lock_expired now l
            then s' = delete_lock rid (released_state (get_current_batch_reservations s rid) s)
              \<and> find_lock s' rid = None \<and> t_reliefpkg_item s' = t_reliefpkg_item s
            else s' = s \<and> lock = Some l)"
  using assms
  by (auto simp: check_lock_def try_release_spec find_lock_delete split: option.splits if_splits)

end
