(* ===== verification/Item_Status.thy ===== *)
theory Item_Status
  imports Example_Data
begin

text \<open>
  \<^verbatim>\<open>app/services/item_status_service.py\<close>: the process-wide cache of active item statuses, the
  statuses a request item may take for an allocated quantity, and the validation of a status
  change. The cache is an explicit option; \<open>load_status_map\<close> returns the map it uses and the
  cache it leaves behind, and the other functions take that map.
\<close>

section \<open>The status cache\<close>

type_synonym status_map = "(string, string \<times> string) dict"

definition clear_status_cache :: "status_map option \<Rightarrow> status_map option" where
  "clear_status_cache c = None"

definition read_status_map :: "db \<Rightarrow> status_map" where
  "read_status_map s =
     fold (\<lambda>r d. AList.update (rs_status_code r) (rs_status_desc r, rs_item_qty_rule r) d)
       (filter rs_active_flag (t_rqstitem_status s)) []"

definition load_status_map :: "bool \<Rightarrow> status_map option \<Rightarrow> db \<Rightarrow> status_map \<times> status_map option" where
  "load_status_map force_reload c s =
     (let c1 = (if force_reload then clear_status_cache c else c);
          m = (case c1 of None \<Rightarrow> read_status_map s | Some m \<Rightarrow> m)
      in (m, Some m))"

section \<open>Allowed statuses\<close>

definition status_choices :: "qty \<Rightarrow> qty \<Rightarrow> bool \<Rightarrow> string \<times> string list" where
  "status_choices total_allocated requested_qty has_allocation_activity =
     (if total_allocated = 0 then
        (if \<not> has_allocation_activity then (''R'', [''R'', ''U'', ''D'', ''W''])
         else (''U'', [''U'', ''D'', ''W'']))
      else if total_allocated = requested_qty then (''F'', [''F''])
      else if total_allocated < requested_qty then (''P'', [''P'', ''L''])
      else (''F'', [''F'']))"

definition compute_allowed_statuses ::
  "status_map \<Rightarrow> string \<Rightarrow> qty \<Rightarrow> qty \<Rightarrow> bool \<Rightarrow> string \<times> string list" where
  "compute_allowed_statuses m current_status total_allocated requested_qty activity =
     (case status_choices total_allocated requested_qty activity of
        (auto_status, allowed) \<Rightarrow> (auto_status, filter (\<lambda>c. c \<in> fst ` set m) allowed))"

definition get_status_label :: "status_map \<Rightarrow> string \<Rightarrow> string" where
  "get_status_label m c = (case map_of m c of None \<Rightarrow> c | Some (desc, rule) \<Rightarrow> desc)"

datatype status_error =
    ZeroAllocation int "string list" string
  | FullAllocation int "string list" string
  | PartAllocation int "string list" string
  | ExceedsRequested int qty qty

definition validate_status_transition ::
  "status_map \<Rightarrow> int \<Rightarrow> string \<Rightarrow> string \<Rightarrow> qty \<Rightarrow> qty \<Rightarrow> bool \<Rightarrow> status_error + unit" where
  "validate_status_transition m item_id current_status new_status total_allocated requested_qty activity =
     (if current_status = new_status then Inr ()
      else let allowed = snd (compute_allowed_statuses m current_status total_allocated requested_qty activity)
        in if new_status \<notin> set allowed then
             (let names = map (get_status_label m) allowed; new_desc = get_status_label m new_status in
              if total_allocated = 0 then Inl (ZeroAllocation item_id names new_desc)
              else if total_allocated \<ge> requested_qty then Inl (FullAllocation item_id names new_desc)
              else Inl (PartAllocation item_id names new_desc))
           else Inr ())"

definition validate_quantity_limit :: "int \<Rightarrow> qty \<Rightarrow> qty \<Rightarrow> status_error + unit" where
  "validate_quantity_limit item_id total_allocated requested_qty =
     (if total_allocated > requested_qty then Inl (ExceedsRequested item_id total_allocated requested_qty)
      else Inr ())"

section \<open>The quantity rule of the database\<close>

text \<open>
  The check constraint \<^verbatim>\<open>c_reliefrqst_item_2a\<close> relates the status of a request item to its issued
  and requested quantities.
\<close>

definition item_qty_rule_ok :: "string \<Rightarrow> qty \<Rightarrow> qty \<Rightarrow> bool" where
  "item_qty_rule_ok st issued requested \<longleftrightarrow>
     (st \<in> {''R'', ''U'', ''W'', ''D''} \<and> issued = 0)
     \<or> (st \<in> {''P'', ''L''} \<and> issued < requested) \<or> (st = ''F'' \<and> issued = requested)"

definition ex_status_map :: status_map where
  "ex_status_map = map (\<lambda>c. (c, (c, ''EZ''))) [''R'', ''U'', ''W'', ''D'', ''P'', ''L'', ''F'']"

lemma choices_rule_ok:
  "0 \<le> q \<Longrightarrow> q \<le> requested \<Longrightarrow> st \<in> set (snd (status_choices q requested activity)) \<Longrightarrow>
     item_qty_rule_ok st q requested"
  by (auto simp: status_choices_def item_qty_rule_ok_def split: if_splits)

section \<open>Properties\<close>

text \<open>
  An accepted change of status fits the quantity rule of the database: when the allocated
  quantity is within the limit and the status really changes, the new status together with the
  allocated quantity satisfies \<^verbatim>\<open>c_reliefrqst_item_2a\<close>.
\<close>

lemma accepted_status_fits_rule:
  assumes "0 \<le> q" and "validate_quantity_limit i q requested = Inr ()"
    and "validate_status_transition m i cur st q requested activity = Inr ()" and "st \<noteq> cur"
  shows "item_qty_rule_ok st q requested"
proof -
  have "q \<le> requested" using assms(2) by (auto simp: validate_quantity_limit_def split: if_splits)
  moreover have "st \<in> set (snd (status_choices q requested activity))"
    using assms(3,4) by (auto simp: validate_status_transition_def compute_allowed_statuses_def Let_def
        split: if_splits prod.splits)
  ultimately show ?thesis using choices_rule_ok [OF assms(1)] by blast
qed

text \<open>
  Keeping the status is always accepted, also when it contradicts the allocation: for every
  positive allocation a request item may stay REQUESTED, although no status other than the ones
  for a positive quantity satisfies the quantity rule.
\<close>

lemma noop_transition_breaks_rule:
  assumes "0 < q"
  shows "validate_status_transition m i ''R'' ''R'' q requested activity = Inr ()
     \<and> \<not> item_qty_rule_ok ''R'' q requested"
  using assms by (simp add: validate_status_transition_def item_qty_rule_ok_def)

end
