(* ===== verification/Batch_Allocation.thy ===== *)
theory Batch_Allocation
  imports Example_Data
begin

text \<open>
  \<^verbatim>\<open>app/services/batch_allocation_service.py\<close>: which batches of an item may be issued, in which
  order (first expired first out, first in first out, last in first out), how a requested
  quantity is spread over them, how the batch drawer limits its list per warehouse, and the
  validation of a manual allocation. The greedy allocation is proved once for any issuing order
  in the locale \<open>issuance_policy\<close>, which the three orders of the code interpret.
\<close>

section \<open>Candidate batches\<close>

definition get_available_batches :: "db \<Rightarrow> int \<Rightarrow> int option \<Rightarrow> string option \<Rightarrow> itembatch list" where
  "get_available_batches s item_id warehouse_id required_uom =
     filter (\<lambda>b. bt_item_id b = item_id \<and> bt_status_code b = ''A''
        \<and> list_ex (\<lambda>v. iv_inventory_id v = bt_inventory_id b \<and> iv_item_id v = bt_item_id b
              \<and> iv_status_code v = ''A''
              \<and> list_ex (\<lambda>w. wh_warehouse_id w = iv_inventory_id v \<and> wh_status_code w = ''A'')
                  (t_warehouse s)) (t_inventory s)
        \<and> bt_usable_qty b > bt_reserved_qty b
        \<and> (truthy_int warehouse_id \<longrightarrow> warehouse_id = Some (bt_inventory_id b))
        \<and> (truthy_str required_uom \<longrightarrow> required_uom = Some (bt_uom_code b)))
       (t_itembatch s)"

section \<open>Issuing order\<close>

definition date_or :: "date \<Rightarrow> date option \<Rightarrow> date" where
  "date_or dflt d = (case d of None \<Rightarrow> dflt | Some x \<Rightarrow> x)"

definition unexpired :: "date \<Rightarrow> itembatch \<Rightarrow> bool" where
  "unexpired today b = (case bt_expiry_date b of None \<Rightarrow> True | Some d \<Rightarrow> d \<ge> today)"

definition active_batches :: "date \<Rightarrow> item \<Rightarrow> itembatch list \<Rightarrow> itembatch list" where
  "active_batches today it bs =
     filter (\<lambda>b. available_qty b > 0)
       (if it_can_expire_flag it then filter (unexpired today) bs else bs)"

definition drawer_fefo_key :: "itembatch \<Rightarrow> bool \<times> date \<times> date" where
  "drawer_fefo_key b =
     (bt_expiry_date b = None, date_or date_max (bt_expiry_date b), date_or date_max (bt_batch_date b))"

definition drawer_fifo_key :: "itembatch \<Rightarrow> date" where
  "drawer_fifo_key b = date_or date_min (bt_batch_date b)"

definition sort_batches_for_drawer :: "date \<Rightarrow> itembatch list \<Rightarrow> item \<Rightarrow> itembatch list" where
  "sort_batches_for_drawer today bs it =
     (let active = active_batches today it bs in
      if it_can_expire_flag it then sort_key drawer_fefo_key active
      else sort_key drawer_fifo_key active)"

definition fefo_key :: "itembatch \<Rightarrow> bool \<times> date \<times> date \<times> qty" where
  "fefo_key b =
     (bt_expiry_date b = None, date_or date_max (bt_expiry_date b),
      date_or date_max (bt_batch_date b), - available_qty b)"

definition lifo_key :: "itembatch \<Rightarrow> int \<times> qty" where
  "lifo_key b = (- date_or 0 (bt_batch_date b), - available_qty b)"

definition fifo_key :: "itembatch \<Rightarrow> date \<times> qty" where
  "fifo_key b = (date_or date_min (bt_batch_date b), - available_qty b)"

definition uses_fefo :: "item \<Rightarrow> bool" where
  "uses_fefo it \<longleftrightarrow> it_issuance_order it = ''FEFO'' \<and> it_can_expire_flag it"

definition sort_batches_by_allocation_rule :: "date \<Rightarrow> itembatch list \<Rightarrow> item \<Rightarrow> itembatch list" where
  "sort_batches_by_allocation_rule today bs it =
     (let active = active_batches today it bs in
      if uses_fefo it then sort_key fefo_key active
      else if it_issuance_order it = ''LIFO'' then sort_key lifo_key active
      else sort_key fifo_key active)"

section \<open>Automatic allocation\<close>

record allocation =
  al_batch_id :: int
  al_batch_no :: "string option"
  al_warehouse_id :: int
  al_warehouse_name :: "string option"
  al_inventory_id :: int
  al_batch_date :: "date option"
  al_expiry_date :: "date option"
  al_available_qty :: qty
  al_allocated_qty :: qty
  al_uom_code :: string
  al_size_spec :: "string option"

definition warehouse_name_of :: "db \<Rightarrow> int \<Rightarrow> string option" where
  "warehouse_name_of s w =
     map_option wh_warehouse_name (find (\<lambda>r. wh_warehouse_id r = w) (t_warehouse s))"

definition allocation_row :: "db \<Rightarrow> itembatch \<Rightarrow> qty \<Rightarrow> allocation" where
  "allocation_row s b q =
     \<lparr>al_batch_id = bt_batch_id b, al_batch_no = bt_batch_no b,
      al_warehouse_id = bt_inventory_id b,
      al_warehouse_name = warehouse_name_of s (bt_inventory_id b),
      al_inventory_id = bt_inventory_id b, al_batch_date = bt_batch_date b,
      al_expiry_date = bt_expiry_date b, al_available_qty = available_qty b,
      al_allocated_qty = q, al_uom_code = bt_uom_code b, al_size_spec = bt_size_spec b\<rparr>"

fun allocate_loop :: "db \<Rightarrow> qty \<Rightarrow> itembatch list \<Rightarrow> allocation list" where
  "allocate_loop s remaining [] = []"
| "allocate_loop s remaining (b # bs) =
     (if remaining \<le> 0 then []
      else let allocated = min (available_qty b) remaining in
        if allocated > 0 then allocation_row s b allocated # allocate_loop s (remaining - allocated) bs
        else allocate_loop s remaining bs)"

definition auto_allocate_batches :: "db \<Rightarrow> date \<Rightarrow> int \<Rightarrow> qty \<Rightarrow> int option \<Rightarrow> allocation list" where
  "auto_allocate_batches s today item_id requested_qty warehouse_id =
     (case get_item s item_id of
        None \<Rightarrow> []
      | Some it \<Rightarrow> allocate_loop s requested_qty
          (sort_batches_by_allocation_rule today (get_available_batches s item_id warehouse_id None) it))"

section \<open>Details and validation of one batch\<close>

record batch_details =
  bd_batch :: itembatch
  bd_warehouse_name :: "string option"
  bd_item_name :: "string option"
  bd_available_qty :: qty
  bd_is_expired :: bool

definition get_batch_details :: "db \<Rightarrow> date \<Rightarrow> int \<Rightarrow> batch_details option" where
  "get_batch_details s today batch_id =
     map_option (\<lambda>b. \<lparr>bd_batch = b,
         bd_warehouse_name = warehouse_name_of s (bt_inventory_id b),
         bd_item_name = map_option it_item_name (get_item s (bt_item_id b)),
         bd_available_qty = available_qty b,
         bd_is_expired = (case bt_expiry_date b of None \<Rightarrow> False | Some d \<Rightarrow> d < today)\<rparr>)
       (get_batch s batch_id)"

datatype alloc_error =
    BatchNotFound int
  | WrongItem int int
  | BatchNotAvailable int string
  | BatchExpired int
  | NoInventory int
  | OnlyAvailable int qty qty
  | NonPositiveQty

definition validate_batch_allocation ::
  "db \<Rightarrow> date \<Rightarrow> int \<Rightarrow> int \<Rightarrow> qty \<Rightarrow> qty \<Rightarrow> alloc_error + unit" where
  "validate_batch_allocation s today batch_id item_id allocated_qty current_allocated_qty =
     (case get_batch s batch_id of
        None \<Rightarrow> Inl (BatchNotFound batch_id)
      | Some b \<Rightarrow>
          if bt_item_id b \<noteq> item_id then Inl (WrongItem batch_id item_id)
          else if bt_status_code b \<noteq> ''A'' then Inl (BatchNotAvailable batch_id (bt_status_code b))
          else if (case bt_expiry_date b of None \<Rightarrow> False | Some d \<Rightarrow> d < today)
            then Inl (BatchExpired batch_id)
          else let available = bt_usable_qty b - (bt_reserved_qty b - current_allocated_qty) in
            if allocated_qty > available then
              (if available \<le> 0 then Inl (NoInventory batch_id)
               else Inl (OnlyAvailable batch_id available allocated_qty))
            else if allocated_qty \<le> 0 then Inl NonPositiveQty
            else Inr ())"

section \<open>Grouping by warehouse\<close>

fun group_by_warehouse ::
  "(int, itembatch list) dict \<Rightarrow> itembatch list \<Rightarrow> (int, itembatch list) dict" where
  "group_by_warehouse d [] = d"
| "group_by_warehouse d (b # bs) =
     group_by_warehouse
       (AList.update (bt_inventory_id b) (dict_get d (bt_inventory_id b) [] @ [b]) d) bs"

definition get_batches_by_warehouse :: "db \<Rightarrow> date \<Rightarrow> int \<Rightarrow> (int, itembatch list) dict" where
  "get_batches_by_warehouse s today item_id =
     (let batches = get_available_batches s item_id None None in
      group_by_warehouse []
        (case get_item s item_id of
           None \<Rightarrow> batches
         | Some it \<Rightarrow> sort_batches_by_allocation_rule today batches it))"

section \<open>The batch drawer\<close>

definition calc_available_qty :: "(int, qty) dict \<Rightarrow> itembatch \<Rightarrow> qty" where
  "calc_available_qty current b =
     bt_usable_qty b - (bt_reserved_qty b - dict_get current (bt_batch_id b) 0)"

fun drawer_groups ::
  "(int, qty) dict \<Rightarrow> int list \<Rightarrow> (int, itembatch list \<times> qty) dict \<Rightarrow> itembatch list
     \<Rightarrow> (int, itembatch list \<times> qty) dict" where
  "drawer_groups current ids d [] = d"
| "drawer_groups current ids d (b # bs) =
     (let g = dict_get d (bt_inventory_id b) ([], 0);
          available = calc_available_qty current b in
      drawer_groups current ids
        (AList.update (bt_inventory_id b)
          (if available \<le> 0 \<and> bt_batch_id b \<notin> set ids then g
           else (fst g @ [b], snd g + max 0 available)) d) bs)"

fun limit_warehouse ::
  "(itembatch \<Rightarrow> qty) \<Rightarrow> int list \<Rightarrow> qty \<Rightarrow> qty \<Rightarrow> bool \<Rightarrow> itembatch list \<Rightarrow> itembatch list" where
  "limit_warehouse calc ids remaining cumulative fulfilled [] = []"
| "limit_warehouse calc ids remaining cumulative fulfilled (b # bs) =
     (let cumulative' = cumulative + calc b in
      if bt_batch_id b \<in> set ids then
        b # limit_warehouse calc ids remaining cumulative' (fulfilled \<or> cumulative' \<ge> remaining) bs
      else if \<not> fulfilled then
        b # limit_warehouse calc ids remaining cumulative' (cumulative' \<ge> remaining) bs
      else limit_warehouse calc ids remaining cumulative fulfilled bs)"

definition get_limited_batches_for_drawer ::
  "db \<Rightarrow> date \<Rightarrow> int \<Rightarrow> qty \<Rightarrow> string option \<Rightarrow> int list \<Rightarrow> (int, qty) dict
     \<Rightarrow> itembatch list \<times> qty \<times> qty" where
  "get_limited_batches_for_drawer s today item_id remaining required_uom ids current =
     (case get_item s item_id of
        None \<Rightarrow> ([], 0, remaining)
      | Some it \<Rightarrow>
          let groups = filter (\<lambda>(w, g). snd g > 0)
                (drawer_groups current ids [] (get_available_batches s item_id None required_uom));
              limited = concat (map (\<lambda>(w, g).
                limit_warehouse (calc_available_qty current) ids remaining 0 False
                  (sort_batches_for_drawer today (fst g) it)) groups);
              cumulative = sum_list (map (calc_available_qty current) limited)
          in (limited, cumulative, max 0 (remaining - cumulative)))"

section \<open>Priority groups\<close>

definition priority_key :: "item \<Rightarrow> itembatch \<Rightarrow> date option list" where
  "priority_key it b =
     (if uses_fefo it then [bt_expiry_date b, bt_batch_date b] else [bt_batch_date b])"

fun priority_loop ::
  "item \<Rightarrow> nat \<Rightarrow> date option list option \<Rightarrow> itembatch list \<Rightarrow> (itembatch \<times> nat) list" where
  "priority_loop it gid prev [] = []"
| "priority_loop it gid prev (b # bs) =
     (let k = priority_key it b;
          gid' = (if prev \<noteq> None \<and> Some k \<noteq> prev then gid + 1 else gid)
      in (b, gid') # priority_loop it gid' (Some k) bs)"

definition assign_priority_groups :: "itembatch list \<Rightarrow> item \<Rightarrow> (itembatch \<times> nat) list" where
  "assign_priority_groups batches it = priority_loop it 0 None batches"

section \<open>Issuing order: lemmas\<close>

lemma set_available_batches:
  "b \<in> set (get_available_batches s i w u) \<Longrightarrow>
     b \<in> set (t_itembatch s) \<and> bt_item_id b = i \<and> available_qty b > 0"
  by (auto simp: get_available_batches_def available_qty_def)

lemma active_batches_mset:
  "mset (active_batches today it bs)
     = filter_mset (\<lambda>b. available_qty b > 0 \<and> (it_can_expire_flag it \<longrightarrow> unexpired today b)) (mset bs)"
  by (auto simp: active_batches_def filter_filter_mset conj_commute)

lemma set_active_batches:
  "set (active_batches today it bs)
     = {b \<in> set bs. available_qty b > 0 \<and> (it_can_expire_flag it \<longrightarrow> unexpired today b)}"
  by (auto simp: active_batches_def)

lemma mset_sort_rule [simp]:
  "mset (sort_batches_by_allocation_rule today bs it) = mset (active_batches today it bs)"
  by (simp add: sort_batches_by_allocation_rule_def Let_def)

lemma set_sort_rule [simp]:
  "set (sort_batches_by_allocation_rule today bs it) = set (active_batches today it bs)"
  by (metis mset_eq_setD mset_sort_rule)

lemma mset_sort_drawer [simp]:
  "mset (sort_batches_for_drawer today bs it) = mset (active_batches today it bs)"
  by (simp add: sort_batches_for_drawer_def Let_def)

lemma set_sort_drawer [simp]:
  "set (sort_batches_for_drawer today bs it) = set (active_batches today it bs)"
  by (metis mset_eq_setD mset_sort_drawer)



section \<open>Greedy allocation: lemmas\<close>

abbreviation alloc_total :: "allocation list \<Rightarrow> qty" where
  "alloc_total as \<equiv> sum_list (map al_allocated_qty as)"

abbreviation stock_total :: "itembatch list \<Rightarrow> qty" where
  "stock_total bs \<equiv> sum_list (map available_qty bs)"

lemma allocation_row_sel [simp]:
  "al_batch_id (allocation_row s b q) = bt_batch_id b"
  "al_allocated_qty (allocation_row s b q) = q"
  "al_available_qty (allocation_row s b q) = available_qty b"
  by (simp_all add: allocation_row_def)

lemma allocate_loop_stop [simp]: "r \<le> 0 \<Longrightarrow> allocate_loop s r bs = []"
  by (cases bs) auto

lemma allocate_loop_append:
  "allocate_loop s r (xs @ ys)
     = allocate_loop s r xs @ allocate_loop s (r - alloc_total (allocate_loop s r xs)) ys"
  by (induction xs arbitrary: r) (auto simp: Let_def algebra_simps)

lemma allocate_loop_total:
  assumes "\<And>b. b \<in> set bs \<Longrightarrow> available_qty b > 0" and "0 \<le> r"
  shows "alloc_total (allocate_loop s r bs) = min r (stock_total bs)"
  using assms
proof (induction bs arbitrary: r)
  case Nil
  then show ?case by simp
next
  case (Cons b bs)
  have pos: "available_qty b > 0" and nn: "0 \<le> stock_total bs"
    using Cons.prems(1) by (auto intro!: sum_list_nonneg simp: less_imp_le)
  have "alloc_total (allocate_loop s (r - min (available_qty b) r) bs)
      = min (r - min (available_qty b) r) (stock_total bs)"
    using Cons by simp
  then show ?case using pos nn Cons.prems(2) by (auto simp: Let_def min_def split: if_splits)
qed

lemma allocate_loop_row:
  "a \<in> set (allocate_loop s r bs) \<Longrightarrow>
     \<exists>b \<in> set bs. \<exists>q. a = allocation_row s b q \<and> 0 < q \<and> q \<le> available_qty b \<and> q \<le> r"
proof (induction bs arbitrary: r)
  case (Cons b bs)
  show ?case
  proof (cases "r \<le> 0")
    case False
    let ?q = "min (available_qty b) r"
    consider "?q > 0" "a = allocation_row s b ?q"
      | "?q > 0" "a \<in> set (allocate_loop s (r - ?q) bs)"
      | "\<not> ?q > 0" "a \<in> set (allocate_loop s r bs)"
      using Cons.prems False by (auto simp: Let_def split: if_splits)
    then show ?thesis
    proof cases
      case 1
      then show ?thesis by (intro bexI [of _ b] exI [of _ ?q]) auto
    next
      case 2
      from Cons.IH [OF 2(2)] obtain b' q where
        "b' \<in> set bs" "a = allocation_row s b' q" "0 < q" "q \<le> available_qty b'" "q \<le> r - ?q" by blast
      with 2(1) show ?thesis by (intro bexI [of _ b'] exI [of _ q]) auto
    next
      case 3
      from Cons.IH [OF 3(2)] show ?thesis by auto
    qed
  qed (use Cons.prems in simp)
qed simp

lemma allocate_loop_ids: "al_batch_id ` set (allocate_loop s r bs) \<subseteq> bt_batch_id ` set bs"
proof
  fix i assume "i \<in> al_batch_id ` set (allocate_loop s r bs)"
  then obtain a where a: "a \<in> set (allocate_loop s r bs)" "i = al_batch_id a" by auto
  from allocate_loop_row [OF a(1)] obtain b q where "b \<in> set bs" "a = allocation_row s b q" by blast
  with a(2) show "i \<in> bt_batch_id ` set bs" by simp
qed


text \<open>While less than the request has been served, every batch so far has been used up.\<close>

lemma allocate_loop_prefix_full:
  assumes "\<And>b. b \<in> set bs \<Longrightarrow> available_qty b > 0" and "alloc_total (allocate_loop s r bs) < r"
    and "b \<in> set bs"
  shows "allocation_row s b (available_qty b) \<in> set (allocate_loop s r bs)"
  using assms
proof (induction bs arbitrary: r)
  case (Cons c bs)
  have pos: "available_qty c > 0" using Cons.prems(1) by simp
  have r: "0 < r"
  proof (rule ccontr)
    assume "\<not> 0 < r"
    with Cons.prems(2) show False by simp
  qed
  let ?q = "min (available_qty c) r"
  have rest: "alloc_total (allocate_loop s (r - ?q) bs) < r - ?q"
    using Cons.prems(2) pos r by (auto simp: Let_def min_def split: if_splits)
  have nn: "0 \<le> alloc_total (allocate_loop s (r - ?q) bs)"
    using allocate_loop_row [of _ s "r - ?q" bs] by (intro sum_list_nonneg) fastforce
  from rest nn have full: "?q = available_qty c" by linarith
  show ?case
  proof (cases "b = c")
    case True
    with pos r full show ?thesis by (simp add: Let_def)
  next
    case False
    with Cons.prems(3) have "b \<in> set bs" by simp
    with Cons.IH [OF _ rest] Cons.prems(1)
    have "allocation_row s b (available_qty b) \<in> set (allocate_loop s (r - ?q) bs)" by simp
    with pos r show ?thesis by (simp add: Let_def)
  qed
qed simp

text \<open>
  The contract of an issuing order: a permutation of the active batches that is sorted by some
  key. Any order that satisfies it makes the greedy allocation exhaust earlier batches first.
\<close>

locale issuance_policy =
  fixes order :: "itembatch list \<Rightarrow> itembatch list"
    and key :: "itembatch \<Rightarrow> 'k :: linorder"
    and eligible :: "itembatch \<Rightarrow> bool"
  assumes perm: "mset (order bs) = filter_mset eligible (mset bs)"
    and ordered: "sorted (map key (order bs))"
    and in_stock: "eligible b \<Longrightarrow> available_qty b > 0"
begin

lemma set_order: "set (order bs) = {b \<in> set bs. eligible b}"
  by (metis perm set_mset_filter set_mset_mset)

lemma order_pos: "b \<in> set (order bs) \<Longrightarrow> available_qty b > 0"
  by (simp add: set_order in_stock)

lemma total_served:
  "0 \<le> r \<Longrightarrow> alloc_total (allocate_loop s r (order bs)) = min r (stock_total (filter eligible bs))"
proof -
  assume r: "0 \<le> r"
  have "mset (map available_qty (order bs)) = mset (map available_qty (filter eligible bs))"
    by (simp add: perm)
  then have "stock_total (order bs) = stock_total (filter eligible bs)"
    by (metis sum_mset_sum_list)
  with allocate_loop_total [of "order bs" r s] order_pos r show ?thesis by simp
qed

lemma earlier_batches_exhausted:
  assumes dist: "distinct (map bt_batch_id bs)"
    and b: "b \<in> set bs" "eligible b" and c: "c \<in> set bs" and before: "key b < key c"
    and served: "a \<in> set (allocate_loop s r (order bs))" "al_batch_id a = bt_batch_id c"
  shows "allocation_row s b (available_qty b) \<in> set (allocate_loop s r (order bs))"
proof -
  have inj: "x = y" if "x \<in> set bs" "y \<in> set bs" "bt_batch_id x = bt_batch_id y" for x y
    using dist that by (auto simp: distinct_map inj_on_def)
  from allocate_loop_row [OF served(1)] obtain c' q where
    c': "c' \<in> set (order bs)" "a = allocation_row s c' q" by blast
  have "c' = c" using c' c served(2) by (intro inj) (simp_all add: set_order)
  with c' have c_in: "c \<in> set (order bs)" by simp
  have b_in: "b \<in> set (order bs)" using b by (simp add: set_order)
  from c_in obtain pre post where split: "order bs = pre @ c # post" by (meson split_list)
  have "b \<in> set pre"
  proof (rule ccontr)
    assume "b \<notin> set pre"
    with b_in split before have "b \<in> set post" by auto
    with ordered [of bs] split before show False by (auto simp: sorted_append)
  qed
  have "distinct (map bt_batch_id (order bs))"
  proof -
    have "mset (map bt_batch_id (order bs)) = mset (map bt_batch_id (filter eligible bs))"
      by (simp add: perm)
    with dist show ?thesis by (metis distinct_map_filter mset_eq_imp_distinct_iff)
  qed
  then have "bt_batch_id c \<notin> bt_batch_id ` set pre" using split by auto
  then have "a \<notin> set (allocate_loop s r pre)"
    using served(2) allocate_loop_ids [of s r pre] by (metis imageI subsetD)
  with served(1) split have later:
    "a \<in> set (allocate_loop s (r - alloc_total (allocate_loop s r pre)) (c # post))"
    by (simp only: allocate_loop_append set_append) blast
  then have "alloc_total (allocate_loop s r pre) < r"
    by (cases "r - alloc_total (allocate_loop s r pre) \<le> 0") auto
  moreover have "available_qty x > 0" if "x \<in> set pre" for x
    using that split by (intro order_pos [of x bs]) simp
  ultimately have "allocation_row s b (available_qty b) \<in> set (allocate_loop s r pre)"
    using \<open>b \<in> set pre\<close> by (intro allocate_loop_prefix_full)
  with split show ?thesis by (simp only: allocate_loop_append set_append) blast
qed

end

definition eligible_on :: "date \<Rightarrow> bool \<Rightarrow> itembatch \<Rightarrow> bool" where
  "eligible_on today can_expire b \<longleftrightarrow> available_qty b > 0 \<and> (can_expire \<longrightarrow> unexpired today b)"

lemma eligible_on_pos: "eligible_on today e b \<Longrightarrow> available_qty b > 0"
  by (simp add: eligible_on_def)

definition keep_eligible :: "date \<Rightarrow> bool \<Rightarrow> itembatch list \<Rightarrow> itembatch list" where
  "keep_eligible today can_expire = filter (eligible_on today can_expire)"

interpretation fefo: issuance_policy
  "\<lambda>bs. sort_key fefo_key (keep_eligible today e bs)" fefo_key "eligible_on today e" for today e
  by unfold_locales (auto simp: keep_eligible_def dest: eligible_on_pos)

interpretation lifo: issuance_policy
  "\<lambda>bs. sort_key lifo_key (keep_eligible today e bs)" lifo_key "eligible_on today e" for today e
  by unfold_locales (auto simp: keep_eligible_def dest: eligible_on_pos)

interpretation fifo: issuance_policy
  "\<lambda>bs. sort_key fifo_key (keep_eligible today e bs)" fifo_key "eligible_on today e" for today e
  by unfold_locales (auto simp: keep_eligible_def dest: eligible_on_pos)

lemma active_batches_eligible:
  "active_batches today it bs = keep_eligible today (it_can_expire_flag it) bs"
  by (auto simp: active_batches_def keep_eligible_def eligible_on_def intro!: filter_cong)

lemmas sort_rule_policies =
  sort_batches_by_allocation_rule_def Let_def active_batches_eligible

text \<open>\<open>issued_before it b c\<close>: the item's issuing order puts \<open>b\<close> strictly before \<open>c\<close>.\<close>

definition issued_before :: "item \<Rightarrow> itembatch \<Rightarrow> itembatch \<Rightarrow> bool" where
  "issued_before it b c =
     (if uses_fefo it then fefo_key b < fefo_key c
      else if it_issuance_order it = ''LIFO'' then lifo_key b < lifo_key c
      else fifo_key b < fifo_key c)"

lemma distinct_available:
  "stock_ok s \<Longrightarrow> distinct (map bt_batch_id (get_available_batches s i w u))"
  by (simp add: stock_ok_def get_available_batches_def distinct_map_filter)

lemma auto_allocate_some:
  "get_item s i = Some it \<Longrightarrow> auto_allocate_batches s today i r w
     = allocate_loop s r (sort_batches_by_allocation_rule today (get_available_batches s i w None) it)"
  by (simp add: auto_allocate_batches_def)

section \<open>Grouping and drawer: lemmas\<close>

lemma group_by_warehouse_get:
  "dict_get (group_by_warehouse d bs) w []
     = dict_get d w [] @ filter (\<lambda>b. bt_inventory_id b = w) bs"
  by (induction bs arbitrary: d) auto

abbreviation drawer_kept :: "(int, qty) dict \<Rightarrow> int list \<Rightarrow> int \<Rightarrow> itembatch list \<Rightarrow> itembatch list" where
  "drawer_kept current ids w \<equiv>
     filter (\<lambda>b. bt_inventory_id b = w \<and> (calc_available_qty current b > 0 \<or> bt_batch_id b \<in> set ids))"

lemma drawer_groups_get:
  "dict_get (drawer_groups current ids d bs) w ([], 0)
     = (fst (dict_get d w ([], 0)) @ drawer_kept current ids w bs,
        snd (dict_get d w ([], 0))
          + sum_list (map (\<lambda>b. max 0 (calc_available_qty current b)) (drawer_kept current ids w bs)))"
  by (induction bs arbitrary: d) (auto simp: Let_def not_le)

lemma drawer_groups_distinct:
  "distinct (map fst d) \<Longrightarrow> distinct (map fst (drawer_groups current ids d bs))"
  by (induction bs arbitrary: d) (auto simp: Let_def distinct_update)

lemma drawer_groups_mem:
  assumes "(w, g) \<in> set (drawer_groups current ids [] bs)"
  shows "fst g = drawer_kept current ids w bs"
proof -
  have "map_of (drawer_groups current ids [] bs) w = Some g"
    using assms drawer_groups_distinct [of "[]"] by (simp add: map_of_is_SomeI)
  then have "g = dict_get (drawer_groups current ids [] bs) w ([], 0)" by (simp add: dict_get_def)
  then show ?thesis by (simp add: drawer_groups_get)
qed

lemma set_limit_warehouse:
  "set (limit_warehouse calc ids r cum ful bs) \<subseteq> set bs"
  by (induction bs arbitrary: cum ful) (auto simp: Let_def)

text \<open>A warehouse that can cover the remaining quantity does so within its limited list.\<close>

lemma limit_warehouse_covers:
  assumes "\<And>b. b \<in> set bs \<Longrightarrow> calc b \<ge> 0" and "ful \<longrightarrow> r \<le> cum"
    and "r \<le> cum + sum_list (map calc bs)"
  shows "r \<le> cum + sum_list (map calc (limit_warehouse calc ids r cum ful bs))"
  using assms
proof (induction bs arbitrary: cum ful)
  case (Cons b bs)
  have nn: "0 \<le> sum_list (map calc (limit_warehouse calc ids r c f bs))" for c f
    using Cons.prems(1) set_limit_warehouse [of calc ids r c f bs] by (intro sum_list_nonneg) auto
  show ?case
  proof (cases "bt_batch_id b \<in> set ids \<or> \<not> ful")
    case True
    let ?cum = "cum + calc b"
    have "r \<le> ?cum + sum_list (map calc (limit_warehouse calc ids r ?cum f bs))"
      if "f \<longrightarrow> r \<le> ?cum" for f
      using that Cons.prems by (intro Cons.IH) (auto simp: add.assoc)
    moreover have "0 \<le> calc b" using Cons.prems(1) by simp
    ultimately show ?thesis using True Cons.prems(2)
      by (auto simp: Let_def add.assoc)
  next
    case False
    with Cons.prems(2) nn [of cum ful] show ?thesis by (auto simp: Let_def)
  qed
qed simp

text \<open>
  Early stopping: a batch that is not already allocated is listed only while the batches listed
  before it do not cover the remaining quantity.
\<close>

lemma limit_warehouse_minimal:
  assumes "limit_warehouse calc ids r cum ful bs = xs @ b # ys" and "bt_batch_id b \<notin> set ids"
    and "\<not> ful \<longrightarrow> cum < r" and "\<And>b. b \<in> set bs \<Longrightarrow> calc b \<ge> 0"
  shows "cum + sum_list (map calc xs) < r"
  using assms
proof (induction bs arbitrary: cum ful xs)
  case (Cons c bs)
  let ?cum = "cum + calc c"
  show ?case
  proof (cases "bt_batch_id c \<in> set ids \<or> \<not> ful")
    case listed: True
    obtain f where f: "limit_warehouse calc ids r cum ful (c # bs)
        = c # limit_warehouse calc ids r ?cum f bs" and f_r: "\<not> f \<longrightarrow> ?cum < r"
      and f_ful: "ful \<longrightarrow> f"
      using listed by (cases "bt_batch_id c \<in> set ids") (auto simp: Let_def not_le)
    show ?thesis
    proof (cases xs)
      case Nil
      with Cons.prems(1,2,3) f listed show ?thesis by auto
    next
      case (Cons x xs')
      with \<open>limit_warehouse calc ids r cum ful (c # bs) = xs @ b # ys\<close> f
      have x: "x = c" and tl: "limit_warehouse calc ids r ?cum f bs = xs' @ b # ys" by auto
      from Cons.IH [OF tl \<open>bt_batch_id b \<notin> set ids\<close> f_r] Cons.prems(4)
      have "?cum + sum_list (map calc xs') < r" by simp
      with Cons x show ?thesis by (simp add: add.assoc)
    qed
  next
    case False
    with Cons.prems have "limit_warehouse calc ids r cum ful bs = xs @ b # ys" by (simp add: Let_def)
    with Cons.IH [OF this Cons.prems(2,3)] Cons.prems(4) show ?thesis by simp
  qed
qed simp

lemma calc_available_ge:
  "(\<And>q. q \<in> snd ` set current \<Longrightarrow> 0 \<le> q) \<Longrightarrow> available_qty b \<le> calc_available_qty current b"
proof -
  assume nn: "\<And>q. q \<in> snd ` set current \<Longrightarrow> 0 \<le> q"
  have "0 \<le> dict_get current (bt_batch_id b) 0"
    using nn by (auto simp: dict_get_def split: option.split dest!: map_of_SomeD) force
  then show ?thesis by (simp add: calc_available_qty_def available_qty_def)
qed

lemma calc_pos_available:
  assumes "\<forall>q \<in> snd ` set current. 0 \<le> q" and "b \<in> set (get_available_batches s i w u)"
  shows "0 < calc_available_qty current b"
proof -
  have "available_qty b \<le> calc_available_qty current b"
    by (rule calc_available_ge) (use assms(1) in auto)
  with set_available_batches [OF assms(2)] show ?thesis by linarith
qed

lemma sum_sort_drawer:
  "sum_list (map f (sort_batches_for_drawer today bs it)) = sum_list (map f (active_batches today it bs))"
  for f :: "itembatch \<Rightarrow> qty"
  by (metis mset_map mset_sort_drawer sum_mset_sum_list)

lemma sort_drawer_Nil [simp]: "sort_batches_for_drawer today [] it = []"
  by (simp add: sort_batches_for_drawer_def active_batches_def Let_def)

lemma active_filter_warehouse:
  "filter (\<lambda>b. bt_inventory_id b = w) (active_batches today it bs)
     = active_batches today it (filter (\<lambda>b. bt_inventory_id b = w) bs)"
  by (auto simp: active_batches_def conj_ac)

lemma active_batches_Nil [simp]: "active_batches today it [] = []"
  by (simp add: active_batches_def)

lemma sum_concat_member:
  fixes f :: "'b \<Rightarrow> qty"
  assumes "x \<in> set xs" and "\<forall>b \<in> set (concat (map h xs)). 0 \<le> f b"
  shows "sum_list (map f (h x)) \<le> sum_list (map f (concat (map h xs)))"
proof -
  obtain ys zs where xs: "xs = ys @ x # zs" using assms(1) by (auto simp: in_set_conv_decomp)
  have "0 \<le> sum_list (map f (concat (map h ys)))" "0 \<le> sum_list (map f (concat (map h zs)))"
    using assms(2) unfolding xs by (auto simp: ball_Un intro!: sum_list_nonneg)
  then show ?thesis by (simp add: xs)
qed

lemma dict_get_member: "dict_get d k x \<noteq> x \<Longrightarrow> (k, dict_get d k x) \<in> set d"
  by (auto simp: dict_get_def split: option.splits dest: map_of_SomeD)

text \<open>The group of a warehouse holds all its candidates when the released quantities are not negative.\<close>

lemma drawer_group_of:
  assumes "\<forall>q \<in> snd ` set current. 0 \<le> q" and "cand = get_available_batches s i None uom"
    and "here = filter (\<lambda>b. bt_inventory_id b = w) cand" and "here \<noteq> []"
  shows "\<exists>g. (w, g) \<in> set (filter (\<lambda>(w, g). snd g > 0) (drawer_groups current ids [] cand)) \<and> fst g = here"
proof -
  let ?g = "dict_get (drawer_groups current ids [] cand) w ([], 0)"
  have pos: "0 < calc_available_qty current b" if "b \<in> set cand" for b
    using calc_pos_available [OF assms(1)] that assms(2) by blast
  have "drawer_kept current ids w cand = here"
    unfolding assms(3) using pos by (intro filter_cong) auto
  then have fst_g: "fst ?g = here"
    and snd_g: "snd ?g = sum_list (map (\<lambda>b. max 0 (calc_available_qty current b)) here)"
    by (simp_all add: drawer_groups_get)
  obtain b bs where bs: "here = b # bs" using assms(4) by (cases here) auto
  have "b \<in> set here" using bs by simp
  then have "0 < max 0 (calc_available_qty current b)" using pos assms(3) by auto
  moreover have "0 \<le> sum_list (map (\<lambda>b. max 0 (calc_available_qty current b)) bs)"
    by (intro sum_list_nonneg) auto
  ultimately have snd_pos: "0 < snd ?g" by (simp add: snd_g bs)
  then have "?g \<noteq> ([], 0)" by auto
  then have "(w, ?g) \<in> set (drawer_groups current ids [] cand)" by (rule dict_get_member)
  with snd_pos have "(w, ?g) \<in> set (filter (\<lambda>(w, g). snd g > 0) (drawer_groups current ids [] cand))"
    by (simp only: set_filter mem_Collect_eq split_conv)
  with fst_g show ?thesis by blast
qed

text \<open>Every listed batch is a candidate, so it has a positive effective availability.\<close>

lemma drawer_listed:
  "get_limited_batches_for_drawer s today i r uom ids current = (limited, tot, short) \<Longrightarrow>
     set limited \<subseteq> set (get_available_batches s i None uom)"
proof -
  assume a: "get_limited_batches_for_drawer s today i r uom ids current = (limited, tot, short)"
  have "set (limit_warehouse c ids r 0 False (sort_batches_for_drawer today (fst g) it))
      \<subseteq> set (get_available_batches s i None uom)"
    if "(v, g) \<in> set (drawer_groups current ids [] (get_available_batches s i None uom))" for c it v g
    using set_limit_warehouse [of c ids r 0 False "sort_batches_for_drawer today (fst g) it"]
      drawer_groups_mem [OF that] by (auto simp: set_active_batches)
  with a show ?thesis
    by (auto simp: get_limited_batches_for_drawer_def Let_def split: option.splits) blast
qed

lemma filter_concat_other:
  assumes "\<And>v g b. (v, g) \<in> set gs \<Longrightarrow> b \<in> set (h g) \<Longrightarrow> K b = v" and "w \<notin> fst ` set gs"
  shows "filter (\<lambda>b. K b = w) (concat (map (\<lambda>(v, g). h g) gs)) = []"
proof -
  have "K b \<noteq> w" if "(v, g) \<in> set gs" "b \<in> set (h g)" for v g b
    using assms(1) [OF that] assms(2) that(1) by force
  then show ?thesis by (auto simp: filter_empty_conv)
qed

text \<open>When each group only holds rows of its own key, selecting a key selects its group.\<close>

lemma filter_concat_group:
  assumes "distinct (map fst gs)" and "(w, g) \<in> set gs"
    and own: "\<And>v g b. (v, g) \<in> set gs \<Longrightarrow> b \<in> set (h g) \<Longrightarrow> K b = v"
  shows "filter (\<lambda>b. K b = w) (concat (map (\<lambda>(v, g). h g) gs)) = h g"
  using assms
proof (induction gs)
  case (Cons p gs)
  obtain v g' where p: "p = (v, g')" by force
  have K: "K b = v" if "b \<in> set (h g')" for b using Cons.prems(3) [of v g' b] p that by simp
  have own': "\<And>v g b. (v, g) \<in> set gs \<Longrightarrow> b \<in> set (h g) \<Longrightarrow> K b = v"
    by (rule Cons.prems(3)) auto
  show ?case
  proof (cases "v = w")
    case True
    with Cons.prems(1) p have nin: "w \<notin> fst ` set gs" by simp
    then have "(w, g) \<notin> set gs" by force
    with Cons.prems(2) p have "g = g'" by simp
    moreover have "filter (\<lambda>b. K b = w) (h g') = h g'" using K True by (intro filter_True) auto
    ultimately show ?thesis using filter_concat_other [OF own' nin] p by simp
  next
    case False
    with Cons.prems(2) p have "(w, g) \<in> set gs" by simp
    with Cons.IH [OF _ this own'] Cons.prems(1)
    have "filter (\<lambda>b. K b = w) (concat (map (\<lambda>(v, g). h g) gs)) = h g" by simp
    moreover have "filter (\<lambda>b. K b = w) (h g') = []" using K False by (auto simp: filter_empty_conv)
    ultimately show ?thesis using p by simp
  qed
qed simp

lemma drawer_warehouse_list:
  assumes "groups = filter (\<lambda>(w, g). snd g > 0) (drawer_groups current ids [] cand)"
    and "(w, g) \<in> set groups"
    and "L = (\<lambda>g. limit_warehouse c ids r 0 False (sort_batches_for_drawer today (fst g) it))"
  shows "filter (\<lambda>b. bt_inventory_id b = w) (concat (map (\<lambda>(v, g). L g) groups)) = L g"
proof (rule filter_concat_group)
  show "distinct (map fst groups)"
    unfolding assms(1) by (simp add: distinct_map_filter drawer_groups_distinct)
  show "(w, g) \<in> set groups" by (rule assms(2))
  fix v g b assume "(v, g) \<in> set groups" and b: "b \<in> set (L g)"
  then have "fst g = drawer_kept current ids v cand"
    unfolding assms(1) by (auto dest: drawer_groups_mem)
  moreover have "b \<in> set (fst g)"
    using b set_limit_warehouse unfolding assms(3) by (fastforce simp: set_active_batches)
  ultimately show "bt_inventory_id b = v" by auto
qed

section \<open>Priority groups: lemmas\<close>

lemma map_fst_priority_loop [simp]: "map fst (priority_loop it gid prev bs) = bs"
  by (induction bs arbitrary: gid prev) (auto simp: Let_def)

lemma length_priority_loop [simp]: "length (priority_loop it gid prev bs) = length bs"
  by (metis length_map map_fst_priority_loop)

lemma priority_loop_Suc:
  "Suc k < length bs \<Longrightarrow> snd (priority_loop it gid prev bs ! Suc k)
     = snd (priority_loop it gid prev bs ! k)
       + (if priority_key it (bs ! Suc k) = priority_key it (bs ! k) then 0 else 1)"
proof (induction bs arbitrary: gid prev k)
  case (Cons b bs)
  show ?case
  proof (cases k)
    case 0
    with Cons.prems obtain c cs where "bs = c # cs" by (cases bs) auto
    with 0 show ?thesis by (auto simp: Let_def)
  next
    case (Suc m)
    with Cons show ?thesis by (simp add: Let_def)
  qed
qed simp

text \<open>A counter that is raised exactly when the key changes labels the runs of equal keys.\<close>

lemma run_labels:
  fixes g :: "nat \<Rightarrow> nat" and K :: "nat \<Rightarrow> 'a"
  assumes step: "\<And>k. Suc k < n \<Longrightarrow> g (Suc k) = g k + (if K (Suc k) = K k then 0 else 1)"
    and "i \<le> j" and "j < n"
  shows "g i \<le> g j \<and> (g i = g j \<longleftrightarrow> (\<forall>k. i \<le> k \<longrightarrow> k \<le> j \<longrightarrow> K k = K i))"
  using assms(2,3)
proof (induction j)
  case 0
  then show ?case by simp
next
  case (Suc j)
  show ?case
  proof (cases "i = Suc j")
    case True
    then show ?thesis using le_antisym by blast
  next
    case False
    with Suc.prems have ij: "i \<le> j" "j < n" by auto
    let ?run = "\<forall>k. i \<le> k \<longrightarrow> k \<le> j \<longrightarrow> K k = K i"
    from Suc.IH [OF ij] have le: "g i \<le> g j" and eq: "g i = g j \<longleftrightarrow> ?run" by blast+
    have all: "(\<forall>k. i \<le> k \<longrightarrow> k \<le> Suc j \<longrightarrow> K k = K i) \<longleftrightarrow> ?run \<and> K (Suc j) = K i"
      by (metis Suc.prems(1) le_Suc_eq)
    have st: "g (Suc j) = g j + (if K (Suc j) = K j then 0 else 1)"
      using Suc.prems(2) by (rule step)
    have "g i = g (Suc j) \<longleftrightarrow> ?run \<and> K (Suc j) = K i"
    proof (cases "g i = g j")
      case True
      with eq have run: ?run by blast
      then have "K j = K i" using ij(1) by blast
      then have "g i = g (Suc j) \<longleftrightarrow> K (Suc j) = K i" using True st by simp
      with run show ?thesis by blast
    next
      case False
      with le st have "g i \<noteq> g (Suc j)" by simp
      with False eq show ?thesis by blast
    qed
    with all have "g i = g (Suc j) \<longleftrightarrow> (\<forall>k. i \<le> k \<longrightarrow> k \<le> Suc j \<longrightarrow> K k = K i)" by blast
    moreover have "g i \<le> g (Suc j)" using le st by simp
    ultimately show ?thesis by blast
  qed
qed

section \<open>Properties\<close>

text \<open>
  C3: automatic allocation serves exactly what can be served. For a non-negative request the
  quantities of the returned rows add up to the smaller of the request and the total available
  stock of the candidate batches (positive availability, not expired when the item can expire),
  whatever the item's issuing order.
\<close>

theorem auto_allocate_serves:
  assumes "get_item s i = Some it" and "0 \<le> requested"
  shows "alloc_total (auto_allocate_batches s today i requested w)
     = min requested (stock_total (filter (eligible_on today (it_can_expire_flag it))
         (get_available_batches s i w None)))"
  unfolding auto_allocate_some [OF assms(1)] sort_rule_policies
  using assms(2) by (simp add: fefo.total_served lifo.total_served fifo.total_served)

theorem auto_allocate_serves_witness:
  "alloc_total (auto_allocate_batches (ex_stock ''FEFO'') 739000 1 20 None) = 13"
proof -
  have it: "get_item (ex_stock ''FEFO'') 1 = Some (ex_item ''FEFO'' True)"
    by (simp add: get_item_def ex_simps)
  show ?thesis
    using auto_allocate_serves [OF it, of 20 739000 None]
    by (simp add: get_available_batches_def ex_simps eligible_on_def available_qty_def unexpired_def)
qed

text \<open>
  C12: automatic allocation respects the issuing order (FEFO for expirable FEFO items, LIFO, else
  FIFO): if a batch \<open>c\<close> receives any quantity, then every eligible candidate \<open>b\<close> that the order
  puts strictly before \<open>c\<close> is allocated in full.
\<close>

theorem auto_allocate_priority:
  assumes "stock_ok s" and "get_item s i = Some it"
    and "b \<in> set (get_available_batches s i w None)"
    and "c \<in> set (get_available_batches s i w None)"
    and "it_can_expire_flag it \<longrightarrow> unexpired today b" and "issued_before it b c"
    and "a \<in> set (auto_allocate_batches s today i requested w)" and "al_batch_id a = bt_batch_id c"
  shows "allocation_row s b (available_qty b) \<in> set (auto_allocate_batches s today i requested w)"
proof -
  have el: "eligible_on today (it_can_expire_flag it) b"
    using set_available_batches [OF assms(3)] assms(5) by (simp add: eligible_on_def)
  note hyps = distinct_available [OF assms(1)] assms(3) el assms(4)
  note served = assms(7) [unfolded auto_allocate_some [OF assms(2)] sort_rule_policies]
  show ?thesis
    unfolding auto_allocate_some [OF assms(2)] sort_rule_policies
    using fefo.earlier_batches_exhausted [OF hyps _ _ assms(8)]
      lifo.earlier_batches_exhausted [OF hyps _ _ assms(8)]
      fifo.earlier_batches_exhausted [OF hyps _ _ assms(8)] served assms(6)
    by (auto simp: issued_before_def split: if_splits)
qed

theorem auto_allocate_priority_witness:
  "allocation_row (ex_stock ''FEFO'') (ex_batch 10 (Some 738500) (Some 739500) 5 2) 3
     \<in> set (auto_allocate_batches (ex_stock ''FEFO'') 739000 1 4 None)"
proof -
  let ?s = "ex_stock ''FEFO''"
  let ?b = "ex_batch 10 (Some 738500) (Some 739500) 5 2"
  let ?c = "ex_batch 11 (Some 738000) (Some 740000) 10 0"
  have it: "get_item ?s 1 = Some (ex_item ''FEFO'' True)"
    by (simp add: get_item_def ex_simps)
  have b: "?b \<in> set (get_available_batches ?s 1 None None)"
    and c: "?c \<in> set (get_available_batches ?s 1 None None)"
    by (simp_all add: get_available_batches_def ex_simps)
  have live: "it_can_expire_flag (ex_item ''FEFO'' True) \<longrightarrow> unexpired 739000 ?b"
    by (simp add: unexpired_def ex_simps)
  have before: "issued_before (ex_item ''FEFO'' True) ?b ?c"
    by (simp add: issued_before_def uses_fefo_def fefo_key_def date_or_def ex_simps)
  have a: "allocation_row ?s ?c 1 \<in> set (auto_allocate_batches ?s 739000 1 4 None)"
    by (simp add: auto_allocate_batches_def get_item_def get_available_batches_def ex_simps
        sort_batches_by_allocation_rule_def uses_fefo_def active_batches_def unexpired_def
        available_qty_def fefo_key_def date_or_def Let_def)
  have "allocation_row ?s ?b (available_qty ?b) \<in> set (auto_allocate_batches ?s 739000 1 4 None)"
    by (rule auto_allocate_priority [OF ex_stock_ok it b c live before a]) simp
  then show ?thesis by (simp add: available_qty_def ex_simps)
qed



text \<open>
  The drawer covers what a warehouse can cover. If the not-expired available batches of some
  single warehouse, with the package's own allocations released, add up to at least the remaining
  quantity, then the batches the drawer lists add up to at least the remaining quantity and the
  reported shortfall is zero.
\<close>

lemma drawer_covers:
  assumes "get_item s i = Some it" and "\<forall>q \<in> snd ` set current. 0 \<le> q"
    and "0 < remaining"
    and "remaining \<le> sum_list (map (calc_available_qty current)
           (filter (\<lambda>b. bt_inventory_id b = w) (active_batches today it (get_available_batches s i None uom))))"
    and "get_limited_batches_for_drawer s today i remaining uom ids current = (limited, tot, shortfall)"
  shows "remaining \<le> tot \<and> shortfall = 0"
proof -
  let ?calc = "calc_available_qty current"
  let ?cand = "get_available_batches s i None uom"
  let ?here = "filter (\<lambda>b. bt_inventory_id b = w) ?cand"
  let ?groups = "filter (\<lambda>(w, g). snd g > 0) (drawer_groups current ids [] ?cand)"
  let ?lim = "\<lambda>g. limit_warehouse ?calc ids remaining 0 False (sort_batches_for_drawer today (fst g) it)"
  have pos: "0 < ?calc b" if "b \<in> set ?cand" for b using calc_pos_available [OF assms(2) that] .
  have limited: "limited = concat (map (\<lambda>(w, g). ?lim g) ?groups)"
    and tot: "tot = sum_list (map ?calc limited)" and short: "shortfall = max 0 (remaining - tot)"
    using assms(1,5) by (auto simp: get_limited_batches_for_drawer_def Let_def)
  have "?here \<noteq> []"
  proof
    assume "?here = []"
    with assms(3,4) show False by (simp add: active_filter_warehouse)
  qed
  then obtain g where g: "(w, g) \<in> set ?groups" "fst g = ?here"
    using drawer_group_of [OF assms(2) refl refl] by blast
  have "remaining \<le> 0 + sum_list (map ?calc (?lim g))"
  proof (rule limit_warehouse_covers)
    show "remaining \<le> 0 + sum_list (map ?calc (sort_batches_for_drawer today (fst g) it))"
      using assms(4) by (simp add: sum_sort_drawer active_filter_warehouse g(2))
  qed (use pos in \<open>auto simp: set_active_batches g(2) less_imp_le\<close>)
  moreover have "\<forall>b \<in> set limited. 0 \<le> ?calc b"
    using drawer_listed [OF assms(5)] pos by (auto intro: less_imp_le)
  then have "sum_list (map ?calc (?lim g)) \<le> tot"
    using sum_concat_member [OF g(1), of "\<lambda>(w, g). ?lim g" ?calc] unfolding tot limited by simp
  ultimately show ?thesis using short by auto
qed

text \<open>
  The drawer stops early. A batch that is not already allocated is listed only while the
  batches of the same warehouse listed before it do not yet cover the remaining quantity.
\<close>

lemma drawer_early_stop:
  assumes "\<forall>q \<in> snd ` set current. 0 \<le> q" and "0 < remaining"
    and "get_limited_batches_for_drawer s today i remaining uom ids current = (xs @ b # ys, tot, shortfall)"
    and "bt_batch_id b \<notin> set ids"
  shows "sum_list (map (calc_available_qty current)
     (filter (\<lambda>c. bt_inventory_id c = bt_inventory_id b) xs)) < remaining"
proof -
  let ?calc = "calc_available_qty current"
  let ?cand = "get_available_batches s i None uom"
  let ?groups = "filter (\<lambda>(w, g). snd g > 0) (drawer_groups current ids [] ?cand)"
  let ?own = "filter (\<lambda>c. bt_inventory_id c = bt_inventory_id b)"
  obtain it where it: "get_item s i = Some it"
    using assms(3) by (auto simp: get_limited_batches_for_drawer_def split: option.splits)
  let ?lim = "\<lambda>g. limit_warehouse ?calc ids remaining 0 False (sort_batches_for_drawer today (fst g) it)"
  have limited: "xs @ b # ys = concat (map (\<lambda>(w, g). ?lim g) ?groups)"
    using assms(3) it by (auto simp: get_limited_batches_for_drawer_def Let_def)
  then have "b \<in> set (concat (map (\<lambda>(w, g). ?lim g) ?groups))" by (metis in_set_conv_decomp)
  then obtain w g where wg: "(w, g) \<in> set ?groups" and bg: "b \<in> set (?lim g)" by auto
  note own = drawer_warehouse_list [OF refl wg refl, of ?calc remaining today it]
  have "b \<in> set (filter (\<lambda>b. bt_inventory_id b = w) (concat (map (\<lambda>(w, g). ?lim g) ?groups)))"
    using own bg by simp
  then have w: "bt_inventory_id b = w" by simp
  have "?lim g = ?own (xs @ b # ys)" using own unfolding w limited by simp
  then have split: "?lim g = ?own xs @ b # ?own ys" by simp
  have nn: "0 \<le> ?calc c" if "c \<in> set (sort_batches_for_drawer today (fst g) it)" for c
  proof -
    have "c \<in> set ?cand" using that wg drawer_groups_mem by (fastforce simp: set_active_batches)
    then show ?thesis using calc_pos_available [OF assms(1)] by (meson less_imp_le)
  qed
  show ?thesis using limit_warehouse_minimal [OF split assms(4) _ nn] assms(2) by simp
qed

text \<open>
  The drawer never lists a batch whose whole stock is reserved, not even one that is among
  the package's current allocations; the comment on the early filter promises the opposite for
  already allocated batches.
\<close>

lemma drawer_hides_reserved:
  assumes "bt_usable_qty b \<le> bt_reserved_qty b"
  shows "b \<notin> set (fst (get_limited_batches_for_drawer s today i remaining uom ids current))"
proof
  assume listed: "b \<in> set (fst (get_limited_batches_for_drawer s today i remaining uom ids current))"
  obtain limited tot short where
    run: "get_limited_batches_for_drawer s today i remaining uom ids current = (limited, tot, short)"
    by (rule prod_cases3)
  from listed run have "b \<in> set limited" by simp
  with drawer_listed [OF run] have "b \<in> set (get_available_batches s i None uom)" by (rule subsetD)
  from set_available_batches [OF this] assms show False by (simp add: available_qty_def)
qed

text \<open>
  Priority groups are the runs of equal rank. The list keeps its batches in order, group
  numbers never decrease, and two positions share a number exactly when every batch between them
  has the same priority key (expiry and batch date under FEFO, batch date otherwise).
\<close>

lemma priority_groups_are_runs:
  assumes "i \<le> j" and "j < length bs"
  shows "map fst (assign_priority_groups bs it) = bs
     \<and> snd (assign_priority_groups bs it ! i) \<le> snd (assign_priority_groups bs it ! j)
     \<and> (snd (assign_priority_groups bs it ! i) = snd (assign_priority_groups bs it ! j)
          \<longleftrightarrow> (\<forall>k. i \<le> k \<longrightarrow> k \<le> j \<longrightarrow> priority_key it (bs ! k) = priority_key it (bs ! i)))"
proof -
  let ?g = "\<lambda>k. snd (assign_priority_groups bs it ! k)"
  have "?g (Suc k) = ?g k + (if priority_key it (bs ! Suc k) = priority_key it (bs ! k) then 0 else 1)"
    if "Suc k < length bs" for k
    unfolding assign_priority_groups_def by (rule priority_loop_Suc [OF that])
  from run_labels [of "length bs" ?g "\<lambda>k. priority_key it (bs ! k)", OF this assms]
  show ?thesis by (simp only: assign_priority_groups_def map_fst_priority_loop simp_thms)
qed

text \<open>
  Manual allocation is accepted exactly for a stored, active, unexpired batch of the item
  and a positive quantity that fits into the stock not reserved by others; the package's own
  current allocation is given back before comparing.
\<close>

lemma validate_batch_allocation_iff:
  "validate_batch_allocation s today bid i q own = Inr () \<longleftrightarrow>
     (\<exists>b. get_batch s bid = Some b \<and> bt_item_id b = i \<and> bt_status_code b = ''A''
        \<and> \<not> is_expired today b \<and> 0 < q \<and> q \<le> available_qty b + own)"
  by (auto simp: validate_batch_allocation_def is_expired_def available_qty_def Let_def
      split: option.splits)

text \<open>
  Grouping by warehouse loses and invents nothing: under each warehouse stands exactly the
  sublist of its batches, in the item's issuing order.
\<close>

lemma by_warehouse_partition:
  assumes "get_item s i = Some it"
  shows "dict_get (get_batches_by_warehouse s today i) w []
     = filter (\<lambda>b. bt_inventory_id b = w)
         (sort_batches_by_allocation_rule today (get_available_batches s i None None) it)"
  using assms by (simp add: get_batches_by_warehouse_def group_by_warehouse_get Let_def)

end
