(* ===== verification/Rbac.thy ===== *)
theory Rbac
  imports Notifications
begin

text \<open>
  Access control: \<^verbatim>\<open>app/core/rbac.py\<close> (roles, agencies, warehouses, permissions),
  \<^verbatim>\<open>app/core/feature_registry.py\<close> (the table of features and the queries on it) and
  \<^verbatim>\<open>app/core/decorators.py\<close> (the route guards). The current user is an option, \<open>None\<close> being an
  anonymous visitor; a guard either sends to the login page, answers 403, or runs the route.
\<close>

section \<open>Roles and permissions\<close>

datatype guard = LoginRedirect | Forbidden | Granted

definition has_role :: "user option \<Rightarrow> string list \<Rightarrow> bool" where
  "has_role cu codes =
     (case cu of None \<Rightarrow> False | Some u \<Rightarrow> list_ex (\<lambda>c. c \<in> set (role_codes_of u)) codes)"

definition has_all_roles :: "user option \<Rightarrow> string list \<Rightarrow> bool" where
  "has_all_roles cu codes =
     (case cu of None \<Rightarrow> False | Some u \<Rightarrow> list_all (\<lambda>c. c \<in> set (role_codes_of u)) codes)"

definition role_required :: "string list \<Rightarrow> user option \<Rightarrow> guard" where
  "role_required codes cu =
     (case cu of
        None \<Rightarrow> LoginRedirect
      | Some u \<Rightarrow>
          if \<not> list_ex (\<lambda>c. c \<in> set (role_codes_of u)) codes then Forbidden else Granted)"

definition agency_user_required :: "user option \<Rightarrow> guard" where
  "agency_user_required cu =
     (case cu of
        None \<Rightarrow> LoginRedirect
      | Some u \<Rightarrow> if \<not> truthy_int (us_agency_id u) then Forbidden else Granted)"

definition is_agency_user :: "user option \<Rightarrow> bool" where
  "is_agency_user cu = (case cu of None \<Rightarrow> False | Some u \<Rightarrow> us_agency_id u \<noteq> None)"

definition can_access_relief_request :: "user option \<Rightarrow> reliefrqst \<Rightarrow> bool" where
  "can_access_relief_request cu r =
     (case cu of
        None \<Rightarrow> False
      | Some u \<Rightarrow>
          if has_role cu [''LOGISTICS_MANAGER'', ''LOGISTICS_OFFICER''] then True
          else if has_role cu [''ODPEM_DG'', ''ODPEM_DDG'', ''ODPEM_DIR_PEOD''] then True
          else if truthy_int (us_agency_id u) \<and> us_agency_id u = Some (rq_agency_id r) then True
          else False)"

definition has_warehouse_access :: "user option \<Rightarrow> int \<Rightarrow> bool" where
  "has_warehouse_access cu w =
     (case cu of
        None \<Rightarrow> False
      | Some u \<Rightarrow>
          if has_role cu [''SYSTEM_ADMINISTRATOR'', ''LOGISTICS_MANAGER''] then True
          else w \<in> set (us_warehouses u))"

definition get_user_role_codes :: "user option \<Rightarrow> string list" where
  "get_user_role_codes cu = (case cu of None \<Rightarrow> [] | Some u \<Rightarrow> role_codes_of u)"

definition get_user_role_names :: "user option \<Rightarrow> string list" where
  "get_user_role_names cu = (case cu of None \<Rightarrow> [] | Some u \<Rightarrow> map ro_name (us_roles u))"

definition is_admin :: "user option \<Rightarrow> bool" where
  "is_admin cu = has_role cu [''SYSTEM_ADMINISTRATOR'', ''SYS_ADMIN'']"

definition is_logistics_manager :: "user option \<Rightarrow> bool" where
  "is_logistics_manager cu = has_role cu [''LOGISTICS_MANAGER'']"

definition is_logistics_officer :: "user option \<Rightarrow> bool" where
  "is_logistics_officer cu = has_role cu [''LOGISTICS_OFFICER'']"

definition is_director_level :: "user option \<Rightarrow> bool" where
  "is_director_level cu = has_role cu [''ODPEM_DG'', ''ODPEM_DDG'', ''ODPEM_DIR_PEOD'']"

definition can_manage_users :: "user option \<Rightarrow> bool" where
  "can_manage_users cu = has_role cu [''SYSTEM_ADMINISTRATOR'', ''SYS_ADMIN'']"

definition can_view_reports :: "user option \<Rightarrow> bool" where
  "can_view_reports cu = (cu \<noteq> None)"

definition has_permission :: "db \<Rightarrow> user option \<Rightarrow> string \<Rightarrow> string \<Rightarrow> bool" where
  "has_permission s cu resource act =
     (case cu of
        None \<Rightarrow> False
      | Some u \<Rightarrow>
          let ids = map ro_id (us_roles u) in
          if ids = [] then False
          else 0 < length (filter (\<lambda>(p, role_id, perm_id). pe_id p = perm_id \<and> role_id \<in> set ids
                 \<and> pe_resource p = resource \<and> pe_action p = act)
               (List.product (t_permission s) (t_role_permission s))))"

definition permission_required :: "db \<Rightarrow> string \<Rightarrow> string \<Rightarrow> user option \<Rightarrow> guard" where
  "permission_required s resource act cu =
     (case cu of
        None \<Rightarrow> LoginRedirect
      | Some u \<Rightarrow> if \<not> has_permission s cu resource act then Forbidden else Granted)"

section \<open>The feature registry\<close>

text \<open>
  A feature of the registry with the attributes the queries read: key, roles, route, category,
  widget (\<open>None\<close> when missing or empty), navigation group (\<open>None\<close> when the entry has no such key)
  and priority. Texts and icons are presentation.
\<close>

record feature =
  ft_key :: string
  ft_roles :: "string list"
  ft_route :: string
  ft_category :: string
  ft_dashboard_widget :: "string option"
  ft_navigation_group :: "string option option"
  ft_priority :: int

definition feature ::
  "string \<Rightarrow> string list \<Rightarrow> string \<Rightarrow> string \<Rightarrow> string option \<Rightarrow> string option option \<Rightarrow> int \<Rightarrow> feature" where
  "feature k rs rt c w g p = \<lparr>ft_key = k, ft_roles = rs, ft_route = rt, ft_category = c,
     ft_dashboard_widget = w, ft_navigation_group = g, ft_priority = p\<rparr>"

definition FEATURES_operations :: "feature list" where
  "FEATURES_operations =
    [feature ''relief_request_tracking''
       [''AGENCY_DISTRIBUTOR'', ''AGENCY_SHELTER'']
       ''requests.list_requests'' ''relief_requests'' (Some ''my_requests_widget'') (Some (Some ''relief_requests'')) 9,
     feature ''eligibility_review''
       [''ODPEM_DG'', ''ODPEM_DDG'', ''ODPEM_DIR_PEOD'']
       ''eligibility.pending_list'' ''eligibility'' (Some ''pending_eligibility_widget'') (Some (Some ''eligibility'')) 20,
     feature ''director_dashboard''
       [''ODPEM_DG'', ''ODPEM_DDG'', ''ODPEM_DIR_PEOD'']
       ''director.dashboard'' ''eligibility'' (Some ''director_overview'') (Some (Some ''dashboard'')) 25,
     feature ''operations_dashboard''
       [''ODPEM_DG'', ''ODPEM_DDG'', ''ODPEM_DIR_PEOD'']
       ''operations_dashboard.index'' ''analytics'' None (Some (Some ''dashboard'')) 24,
     feature ''create_request_on_behalf''
       [''AGENCY_DISTRIBUTOR'', ''AGENCY_SHELTER'', ''LOGISTICS_OFFICER'', ''LOGISTICS_MANAGER'']
       ''requests.list_requests'' ''relief_requests'' None (Some (Some ''relief_requests'')) 10,
     feature ''package_preparation''
       [''LOGISTICS_OFFICER'', ''LOGISTICS_MANAGER'']
       ''packaging.pending_fulfillment'' ''packaging'' (Some ''pending_fulfillment_widget'') (Some (Some ''packaging'')) 15,
     feature ''dispatch_awaiting''
       [''INVENTORY_CLERK'']
       ''packaging.awaiting_dispatch'' ''packaging'' (Some ''awaiting_dispatch_widget'') (Some (Some ''packaging'')) 17,
     feature ''dispatch_received''
       [''LOGISTICS_OFFICER'', ''LOGISTICS_MANAGER'']
       ''packaging.dispatch_received'' ''packaging'' (Some ''dispatch_received_widget'') (Some (Some ''packaging'')) 19,
     feature ''inventory_view''
       [''LOGISTICS_OFFICER'', ''LOGISTICS_MANAGER'', ''INVENTORY_CLERK'', ''ODPEM_DG'',
        ''ODPEM_DDG'', ''ODPEM_DIR_PEOD'', ''SYSTEM_ADMINISTRATOR'']
       ''inventory.list_inventory'' ''inventory'' (Some ''inventory_summary_widget'') (Some (Some ''inventory'')) 12]"

definition FEATURES_master_data :: "feature list" where
  "FEATURES_master_data =
    [feature ''warehouse_management''
       [''CUSTODIAN'']
       ''warehouses.list_warehouses'' ''master_data'' None (Some (Some ''master_data'')) 5,
     feature ''item_category_management''
       [''CUSTODIAN'']
       ''item_categories.list_categories'' ''master_data'' None (Some (Some ''master_data'')) 4,
     feature ''uom_management''
       [''CUSTODIAN'']
       ''uom.list_uom'' ''master_data'' None (Some (Some ''master_data'')) 3,
     feature ''item_management''
       [''CUSTODIAN'']
       ''items.list_items'' ''master_data'' None (Some (Some ''master_data'')) 3,
     feature ''event_management''
       [''CUSTODIAN'']
       ''events.list_events'' ''master_data'' None (Some (Some ''master_data'')) 8,
     feature ''agency_management''
       [''CUSTODIAN'']
       ''agencies.list_agencies'' ''master_data'' None (Some (Some ''master_data'')) 6,
     feature ''donor_management''
       [''CUSTODIAN'']
       ''donors.list_donors'' ''master_data'' None (Some (Some ''master_data'')) 7,
     feature ''custodian_management''
       [''CUSTODIAN'']
       ''custodians.list_custodians'' ''master_data'' None (Some (Some ''master_data'')) 6,
     feature ''donation_management''
       [''LOGISTICS_OFFICER'', ''LOGISTICS_MANAGER'']
       ''donations.list_donations'' ''inventory'' None (Some (Some ''inventory'')) 3,
     feature ''donation_intake_management''
       [''LOGISTICS_OFFICER'', ''LOGISTICS_MANAGER'']
       ''donation_intake.list_intakes'' ''inventory'' None (Some (Some ''inventory'')) 4]"

definition FEATURES_support :: "feature list" where
  "FEATURES_support =
    [feature ''reports_main''
       [''LOGISTICS_OFFICER'', ''LOGISTICS_MANAGER'', ''ODPEM_DG'', ''ODPEM_DDG'',
        ''ODPEM_DIR_PEOD'', ''SYSTEM_ADMINISTRATOR'']
       ''reports.index'' ''reports'' None (Some (Some ''reports'')) 2,
     feature ''reports_inventory''
       [''LOGISTICS_OFFICER'', ''LOGISTICS_MANAGER'', ''ODPEM_DG'', ''ODPEM_DDG'',
        ''ODPEM_DIR_PEOD'', ''SYSTEM_ADMINISTRATOR'']
       ''reports.inventory_summary'' ''reports'' (Some ''inventory_report_link'') None 2,
     feature ''reports_donations''
       [''LOGISTICS_MANAGER'', ''ODPEM_DG'', ''ODPEM_DDG'', ''ODPEM_DIR_PEOD'',
        ''SYSTEM_ADMINISTRATOR'']
       ''reports.donations_summary'' ''reports'' (Some ''donation_report_link'') None 2,
     feature ''user_management''
       [''SYSTEM_ADMINISTRATOR'', ''CUSTODIAN'']
       ''user_admin.index'' ''admin'' None (Some (Some ''admin'')) 1,
     feature ''account_requests''
       [''SYSTEM_ADMINISTRATOR'']
       ''account_requests.list_requests'' ''admin'' (Some ''pending_account_requests'') (Some (Some ''admin'')) 1,
     feature ''notifications''
       [''LOGISTICS_OFFICER'', ''LOGISTICS_MANAGER'', ''ODPEM_DG'', ''ODPEM_DDG'',
        ''ODPEM_DIR_PEOD'', ''AGENCY_DISTRIBUTOR'', ''AGENCY_SHELTER'', ''INVENTORY_CLERK'',
        ''SYSTEM_ADMINISTRATOR'']
       ''notifications.index'' ''notifications'' None (Some (Some ''user'')) 30,
     feature ''logistics_dashboard''
       [''LOGISTICS_OFFICER'', ''LOGISTICS_MANAGER'']
       ''dashboard.index'' ''dashboard'' None (Some (Some ''dashboard'')) 100,
     feature ''agency_dashboard''
       [''AGENCY_DISTRIBUTOR'', ''AGENCY_SHELTER'']
       ''dashboard.index'' ''dashboard'' None (Some (Some ''dashboard'')) 100,
     feature ''admin_dashboard''
       [''SYSTEM_ADMINISTRATOR'']
       ''dashboard.index'' ''dashboard'' None (Some (Some ''dashboard'')) 100,
     feature ''lo_dashboard''
       [''LOGISTICS_OFFICER'']
       ''dashboard.lo_dashboard'' ''logistics'' (Some ''lo_overview'') (Some (Some ''logistics'')) 45]"


definition FEATURES :: "feature list" where
  "FEATURES = FEATURES_operations @ FEATURES_master_data @ FEATURES_support"

definition user_role_set :: "user option \<Rightarrow> string set" where
  "user_role_set cu = (case cu of None \<Rightarrow> {} | Some u \<Rightarrow> set (role_codes_of u))"

definition has_access :: "user option \<Rightarrow> string \<Rightarrow> bool" where
  "has_access cu k =
     (case find (\<lambda>f. ft_key f = k) FEATURES of
        None \<Rightarrow> False
      | Some f \<Rightarrow> list_ex (\<lambda>c. c \<in> user_role_set cu) (ft_roles f))"

definition get_accessible_features :: "user option \<Rightarrow> feature list" where
  "get_accessible_features cu =
     filter (\<lambda>f. list_ex (\<lambda>c. c \<in> user_role_set cu) (ft_roles f)) FEATURES"

definition by_priority :: "feature list \<Rightarrow> feature list" where
  "by_priority fs = sort_key (\<lambda>f. - ft_priority f) fs"

definition get_dashboard_features :: "user option \<Rightarrow> feature list" where
  "get_dashboard_features cu =
     by_priority (filter (\<lambda>f. ft_dashboard_widget f \<noteq> None) (get_accessible_features cu))"

definition get_navigation_features :: "user option \<Rightarrow> string option \<Rightarrow> feature list" where
  "get_navigation_features cu grp =
     by_priority
       (if truthy_str grp
        then filter (\<lambda>f. ft_navigation_group f = Some grp) (get_accessible_features cu)
        else filter (\<lambda>f. ft_navigation_group f \<noteq> None) (get_accessible_features cu))"

definition get_features_by_category :: "user option \<Rightarrow> string \<Rightarrow> feature list" where
  "get_features_by_category cu c = filter (\<lambda>f. ft_category f = c) (get_accessible_features cu)"

definition ROLE_PRIORITY :: "string list" where
  "ROLE_PRIORITY =
     [''SYSTEM_ADMINISTRATOR'', ''ODPEM_DG'', ''ODPEM_DDG'', ''ODPEM_DIR_PEOD'', ''CUSTODIAN'',
      ''LOGISTICS_MANAGER'', ''LOGISTICS_OFFICER'', ''INVENTORY_CLERK'', ''AGENCY_DISTRIBUTOR'',
      ''AGENCY_SHELTER'', ''AUDITOR'']"

text \<open>\<^verbatim>\<open>list(user_roles)[0]\<close> picks an element that Python does not fix; \<open>pick\<close> stands for it.\<close>

definition get_primary_role :: "(string set \<Rightarrow> string) \<Rightarrow> user option \<Rightarrow> string option" where
  "get_primary_role pick cu =
     (case find (\<lambda>r. r \<in> user_role_set cu) ROLE_PRIORITY of
        Some r \<Rightarrow> Some r
      | None \<Rightarrow> if user_role_set cu = {} then None else Some (pick (user_role_set cu)))"

section \<open>Route guards\<close>

definition feature_required :: "string \<Rightarrow> user option \<Rightarrow> guard" where
  "feature_required k cu =
     (case cu of
        None \<Rightarrow> LoginRedirect
      | Some u \<Rightarrow> if \<not> has_access cu k then Forbidden else Granted)"

definition any_feature_required :: "string list \<Rightarrow> user option \<Rightarrow> guard" where
  "any_feature_required ks cu =
     (case cu of
        None \<Rightarrow> LoginRedirect
      | Some u \<Rightarrow> if \<not> list_ex (has_access cu) ks then Forbidden else Granted)"

definition all_features_required :: "string list \<Rightarrow> user option \<Rightarrow> guard" where
  "all_features_required ks cu =
     (case cu of
        None \<Rightarrow> LoginRedirect
      | Some u \<Rightarrow> if \<not> list_all (has_access cu) ks then Forbidden else Granted)"

section \<open>Lemmas\<close>

lemmas FEATURES_defs = FEATURES_def FEATURES_operations_def FEATURES_master_data_def
  FEATURES_support_def feature_def



lemma has_role_iff:
  "has_role cu codes \<longleftrightarrow> (\<exists>u. cu = Some u \<and> (\<exists>x \<in> set (us_roles u). ro_code x \<in> set codes))"
  by (auto simp: has_role_def role_codes_of_def list_ex_iff split: option.splits)

section \<open>Properties\<close>



text \<open>
  No user can open the page that creates a relief request: its guard asks for the feature
  \<open>relief_request_creation\<close>, which the registry no longer contains, so every logged-in user is
  refused whatever the roles.
\<close>

lemma request_creation_locked:
  "feature_required ''relief_request_creation'' (Some u) = Forbidden"
  by (simp add: feature_required_def has_access_def FEATURES_defs)

text \<open>
  A relief request is visible exactly to logistics staff, to directors, and to the users of
  the agency it belongs to; an anonymous visitor sees none.
\<close>

lemma request_visibility:
  "can_access_relief_request cu r \<longleftrightarrow>
     (\<exists>u. cu = Some u \<and>
        ((\<exists>x \<in> set (us_roles u). ro_code x \<in> {''LOGISTICS_MANAGER'', ''LOGISTICS_OFFICER'', ''ODPEM_DG'',
            ''ODPEM_DDG'', ''ODPEM_DIR_PEOD''})
         \<or> (us_agency_id u = Some (rq_agency_id r) \<and> rq_agency_id r \<noteq> 0)))"
  by (cases cu) (auto simp: can_access_relief_request_def has_role_iff)

end
