(* ===== verification/Forms.thy ===== *)
theory Forms
  imports Core_Utils
begin

text \<open>
  What the route handlers share: the fields of a posted form after parsing, and how a handler of
  master or donation data ends. A field that is absent or empty is told apart from one that the
  parser (\<^verbatim>\<open>int\<close>, \<^verbatim>\<open>Decimal\<close>, \<^verbatim>\<open>strptime\<close>) refuses.
\<close>

text \<open>
  An integer field is absent, holds a text that \<^verbatim>\<open>int()\<close> refuses (the empty text included), or a
  number.
\<close>

datatype vfield = Missing | Text string | Number int

fun given :: "vfield \<Rightarrow> bool" where
  "given Missing = False"
| "given (Text t) = (t \<noteq> [])"
| "given (Number n) = True"

text \<open>A decimal and a date field: absent or empty, refused by the parser, or a value.\<close>

datatype qfield = NoQty | BadQty | Qty qty

datatype dfield = NoDate | BadDate | Day date

text \<open>
  How a handler ends: the transaction is committed; errors are collected and shown; a guard turns
  the user away; an exception is caught, rolled back and shown; or an exception that the handler
  does not catch reaches the server, which discards the session.
\<close>

datatype 'e reply =
    Saved
  | Invalid "'e list"
  | Refused
  | Caught exc
  | Crashed exc

text \<open>\<^verbatim>\<open>text.strip()\<close>, and \<^verbatim>\<open>text.upper() if text else None\<close> on a text already stripped.\<close>

definition upper_or_none :: "string \<Rightarrow> string option" where
  "upper_or_none t = (if t = [] then None else Some (py_upper t))"

end
