(* ===== verification/Packaging.thy ===== *)
theory Packaging
  imports Relief_Request Fulfillment_Lock Item_Status Batch_Allocation Rbac Forms
begin

text \<open>
  \<^verbatim>\<open>app/features/packaging.py\<close>, the handlers that change stock, packages and requests: the
  processing of the allocation form, saving a draft, submitting it to a logistics manager,
  approving and dispatching, direct dispatch and cancelling. The form is decoded at the boundary:
  for each requested item the batch quantities in the order of the sorted form keys, the chosen
  status and its reason, and the two version fields. Every handler is a function from the
  session to an outcome and the committed session; a handler that rolls back, or whose exception
  leaves the request, returns the session it was given.
\<close>

section \<open>The form\<close>

record pkg_form =
  fm_action :: "string option"
  fm_relief_request_version :: vfield
  fm_package_version :: vfield
  fm_batch_allocation :: "int \<Rightarrow> (int \<times> qty) list"
  fm_status :: "int \<Rightarrow> string option"
  fm_status_reason :: "int \<Rightarrow> string"

fun validate_version_nbr :: "string \<Rightarrow> vfield \<Rightarrow> int \<Rightarrow> exc + unit" where
  "validate_version_nbr entity_name Missing actual_version = Inl (OptimisticLockError [entity_name])"
| "validate_version_nbr entity_name (Text t) actual_version = Inl ValueError"
| "validate_version_nbr entity_name (Number n) actual_version =
     (if n \<noteq> actual_version then Inl (OptimisticLockError [entity_name]) else Inr ())"

text \<open>The package version is checked when there is a package and the field is given.\<close>

definition validate_pkg_version :: "vfield \<Rightarrow> reliefpkg option \<Rightarrow> exc + unit" where
  "validate_pkg_version v p =
     (case p of
        None \<Rightarrow> Inr ()
      | Some p \<Rightarrow> if given v then validate_version_nbr ''package'' v (pk_version_nbr p) else Inr ())"

section \<open>Processing the allocations\<close>

definition set_pkg :: "int \<Rightarrow> (reliefpkg \<Rightarrow> reliefpkg) \<Rightarrow> db \<Rightarrow> db" where
  "set_pkg pid f s =
     s\<lparr>t_reliefpkg := upd_where (\<lambda>p. pk_reliefpkg_id p = pid) (\<lambda>p. orm_pkg p (f p)) (t_reliefpkg s)\<rparr>"

definition new_pkg :: "env \<Rightarrow> reliefrqst \<Rightarrow> int \<Rightarrow> reliefpkg" where
  "new_pkg e r pid =
     \<lparr>pk_reliefpkg_id = pid, pk_agency_id = rq_agency_id r, pk_to_inventory_id = 1,
      pk_reliefrqst_id = rq_reliefrqst_id r, pk_start_date = en_today e, pk_dispatch_dtime = None,
      pk_status_code = ''P'', pk_create_by_id = us_user_name (en_user e), pk_create_dtime = en_now e,
      pk_update_by_id = us_user_name (en_user e), pk_update_dtime = Some (en_now e),
      pk_verify_by_id = None, pk_verify_dtime = None, pk_received_by_id = None,
      pk_received_dtime = None, pk_version_nbr = 1\<rparr>"

definition get_or_create_pkg :: "env \<Rightarrow> reliefrqst \<Rightarrow> db \<Rightarrow> reliefpkg \<times> db" where
  "get_or_create_pkg e r s =
     (case first_pkg s (rq_reliefrqst_id r) of
        Some p \<Rightarrow> (p, s)
      | None \<Rightarrow> let p = new_pkg e r (seq_reliefpkg s) in
          (p, s\<lparr>t_reliefpkg := t_reliefpkg s @ [p], seq_reliefpkg := seq_reliefpkg s + 1\<rparr>))"

definition existing_allocations_map :: "reliefpkg_item list \<Rightarrow> (bkey, qty) dict" where
  "existing_allocations_map rows =
     fold (\<lambda>r d. AList.update (pkg_item_key r) (pi_item_qty r) d) rows []"

text \<open>The composite primary key of a package item: package, item, warehouse and batch.\<close>

definition record_key :: "reliefpkg_item \<Rightarrow> int \<times> bkey" where
  "record_key r = (pi_reliefpkg_id r, pkg_item_key r)"

record pkg_line =
  pl_item_id :: int
  pl_batch_id :: int
  pl_inventory_id :: int
  pl_allocated_qty :: qty
  pl_uom_code :: string

definition line_key :: "pkg_line \<Rightarrow> bkey" where
  "line_key l = (pl_item_id l, Some (pl_inventory_id l), pl_batch_id l)"

text \<open>
  The batch quantities of one item: an unknown batch, or a positive quantity that the allocation
  service refuses, raises \<^verbatim>\<open>ValueError\<close>; what the package already holds of the batch is passed as
  the current allocation.
\<close>

fun item_lines ::
  "db \<Rightarrow> date \<Rightarrow> (bkey, qty) dict \<Rightarrow> int \<Rightarrow> (int \<times> qty) list \<Rightarrow> exc + pkg_line list" where
  "item_lines s today old i [] = Inr []"
| "item_lines s today old i ((batch_id, q) # rest) =
     (case get_batch s batch_id of
        None \<Rightarrow> Inl ValueError
      | Some b \<Rightarrow>
          if q > 0 \<and> validate_batch_allocation s today batch_id i q
               (dict_get old (i, Some (bt_inventory_id b), batch_id) 0) \<noteq> Inr ()
          then Inl ValueError
          else case item_lines s today old i rest of
              Inl x \<Rightarrow> Inl x
            | Inr ls \<Rightarrow> Inr (\<lparr>pl_item_id = i, pl_batch_id = batch_id, pl_inventory_id = bt_inventory_id b,
                pl_allocated_qty = q, pl_uom_code = bt_uom_code b\<rparr> # ls))"

definition alloc_reqs :: "pkg_line list \<Rightarrow> alloc_req list" where
  "alloc_reqs ls = map (\<lambda>l. \<lparr>ar_item_id = pl_item_id l, ar_batch_id = pl_batch_id l,
       ar_warehouse_id = Some (pl_inventory_id l), ar_allocated_qty = pl_allocated_qty l\<rparr>)
     (filter (\<lambda>l. pl_allocated_qty l > 0) ls)"

definition lines_total :: "pkg_line list \<Rightarrow> qty" where
  "lines_total ls = sum_list (map pl_allocated_qty ls)"

definition calculated_status :: "qty \<Rightarrow> qty \<Rightarrow> string" where
  "calculated_status total_allocated request_qty =
     (if total_allocated = 0 then ''R''
      else if total_allocated \<ge> request_qty then ''F'' else ''P'')"

definition requested_status :: "string option \<Rightarrow> qty \<Rightarrow> qty \<Rightarrow> string" where
  "requested_status form_status total_allocated request_qty =
     (case form_status of
        None \<Rightarrow> calculated_status total_allocated request_qty
      | Some st \<Rightarrow> if st = [] then calculated_status total_allocated request_qty else st)"

definition allows_partial :: "string option \<Rightarrow> bool" where
  "allows_partial form_status =
     (case form_status of None \<Rightarrow> False | Some st \<Rightarrow> st \<in> set [''U'', ''D'', ''W'', ''L'', ''P''])"

definition issue_qty_for :: "string \<Rightarrow> qty \<Rightarrow> qty \<Rightarrow> qty" where
  "issue_qty_for st total_allocated request_qty =
     (if st \<in> set [''R'', ''U'', ''W'', ''D''] then 0
      else if st \<in> set [''P'', ''L''] then min total_allocated (request_qty - 1 / 100)
      else if st = ''F'' then request_qty
      else total_allocated)"

definition reason_for :: "env \<Rightarrow> string \<Rightarrow> string \<Rightarrow> qty \<Rightarrow> qty \<Rightarrow> string option" where
  "reason_for e st custom_reason total_allocated request_qty =
     (if st \<in> set [''D'', ''L''] then
        (if custom_reason \<noteq> [] then Some custom_reason
         else if st = ''L'' then Some (''Allocated '' @ en_str_decimal e total_allocated @ '' of ''
           @ en_str_decimal e request_qty @ '' based on available stock'')
         else Some ''Item denied due to logistics constraints'')
      else None)"

definition fill_rqst_item :: "env \<Rightarrow> string \<Rightarrow> string \<Rightarrow> qty \<Rightarrow> reliefrqst_item \<Rightarrow> reliefrqst_item" where
  "fill_rqst_item e st custom_reason total_allocated i = i\<lparr>ri_status_code := st,
     ri_issue_qty := issue_qty_for st total_allocated (ri_request_qty i),
     ri_status_reason_desc := reason_for e st custom_reason total_allocated (ri_request_qty i),
     ri_action_by_id := (if st \<noteq> ''R'' then Some (us_user_name (en_user e)) else None),
     ri_action_dtime := (if st \<noteq> ''R'' then Some (en_now e) else None),
     ri_version_nbr := ri_version_nbr i + 1\<rparr>"

definition update_line :: "env \<Rightarrow> pkg_line \<Rightarrow> reliefpkg_item \<Rightarrow> reliefpkg_item" where
  "update_line e l r = r\<lparr>pi_item_qty := pl_allocated_qty l, pi_uom_code := pl_uom_code l,
     pi_update_by_id := us_user_name (en_user e), pi_update_dtime := en_now e,
     pi_version_nbr := pi_version_nbr r + 1\<rparr>"

definition new_line :: "env \<Rightarrow> int \<Rightarrow> pkg_line \<Rightarrow> reliefpkg_item" where
  "new_line e pid l =
     \<lparr>pi_reliefpkg_id = pid, pi_fr_inventory_id = pl_inventory_id l, pi_batch_id = pl_batch_id l,
      pi_item_id = pl_item_id l, pi_item_qty = pl_allocated_qty l, pi_uom_code = pl_uom_code l,
      pi_create_by_id = us_user_name (en_user e), pi_create_dtime = en_now e,
      pi_update_by_id = us_user_name (en_user e), pi_update_dtime = en_now e, pi_version_nbr = 1\<rparr>"

definition upsert_line ::
  "env \<Rightarrow> int \<Rightarrow> (int \<times> bkey) list \<Rightarrow> pkg_line \<Rightarrow> reliefpkg_item list \<Rightarrow> reliefpkg_item list" where
  "upsert_line e pid existing l rows =
     (if (pid, line_key l) \<in> set existing
      then upd_where (\<lambda>r. record_key r = (pid, line_key l)) (update_line e l) rows
      else rows @ [new_line e pid l])"

text \<open>
  One requested item of the loop. The loop threads the session, the allocations collected for
  the reservation service and the record keys it has processed.
\<close>

type_synonym alloc_state = "db \<times> alloc_req list \<times> (int \<times> bkey) list"

definition process_item ::
  "env \<Rightarrow> pkg_form \<Rightarrow> bool \<Rightarrow> int \<Rightarrow> reliefpkg_item list \<Rightarrow> reliefrqst_item \<Rightarrow> alloc_state \<Rightarrow> exc + alloc_state" where
  "process_item e f validate_complete pid rows i st =
     (case st of (s, news, processed) \<Rightarrow>
      let item_id = ri_item_id i; allocation_keys = fm_batch_allocation f item_id in
      case item_lines s (en_today e) (existing_allocations_map rows) item_id allocation_keys of
        Inl x \<Rightarrow> Inl x
      | Inr ls \<Rightarrow>
          let total_allocated = lines_total ls;
              status = requested_status (fm_status f item_id) total_allocated (ri_request_qty i);
              activity = (item_id \<in> pi_item_id ` set rows \<or> allocation_keys \<noteq> [])
          in if validate_quantity_limit item_id total_allocated (ri_request_qty i) \<noteq> Inr () then Inl ValueError
             else if validate_complete \<and> total_allocated < ri_request_qty i \<and> \<not> allows_partial (fm_status f item_id)
               then Inl ValueError
             else if validate_status_transition (fst (load_status_map False (en_status_cache e) s)) item_id
                 (ri_status_code i) status total_allocated (ri_request_qty i) activity \<noteq> Inr ()
               then Inl ValueError
             else Inr ((set_rqst_item (ri_reliefrqst_id i) item_id
                   (fill_rqst_item e status (py_strip (fm_status_reason f item_id)) total_allocated) s)
                 \<lparr>t_reliefpkg_item := fold (upsert_line e pid (map record_key rows)) ls (t_reliefpkg_item s)\<rparr>,
               news @ alloc_reqs ls, processed @ map (\<lambda>l. (pid, line_key l)) ls))"

definition delete_orphans :: "(int \<times> bkey) list \<Rightarrow> (int \<times> bkey) list \<Rightarrow> db \<Rightarrow> db" where
  "delete_orphans existing processed s =
     s\<lparr>t_reliefpkg_item := filter (\<lambda>r. \<not> (record_key r \<in> set existing \<and> record_key r \<notin> set processed))
         (t_reliefpkg_item s)\<rparr>"

definition process_allocations ::
  "env \<Rightarrow> pkg_form \<Rightarrow> bool \<Rightarrow> reliefrqst \<Rightarrow> db \<Rightarrow> exc + alloc_req list \<times> (bkey, qty) dict \<times> db" where
  "process_allocations e f validate_complete r s =
     (case get_or_create_pkg e r s of (p, s0) \<Rightarrow>
      let pid = pk_reliefpkg_id p; rows = pkg_items_of s0 pid in
      case fold_result (process_item e f validate_complete pid rows)
             (rqst_items_of s0 (rq_reliefrqst_id r)) (s0, [], []) of
        Inl x \<Rightarrow> Inl x
      | Inr (s1, news, processed) \<Rightarrow>
          Inr (news, existing_allocations_map rows, delete_orphans (map record_key rows) processed s1))"

section \<open>Preparing a package\<close>

text \<open>
  How a handler ends: the transaction is committed; an exception is caught, rolled back and
  shown; a failed reservation is rolled back and shown; a guard turns the user away; or an
  exception that the handler does not catch reaches the server, which discards the session.
\<close>

datatype outcome =
    Completed
  | Flashed exc
  | NotReserved res_error
  | Declined
  | Uncaught exc

definition part_filled :: "env \<Rightarrow> reliefrqst \<Rightarrow> reliefrqst" where
  "part_filled e r = r\<lparr>rq_status_code := STATUS_PART_FILLED,
     rq_action_by_id := Some (us_user_name (en_user e)), rq_action_dtime := Some (en_now e),
     rq_version_nbr := rq_version_nbr r + 1\<rparr>"

definition clear_verification :: "reliefpkg \<Rightarrow> reliefpkg" where
  "clear_verification p = p\<lparr>pk_verify_by_id := None, pk_verify_dtime := None\<rparr>"

definition save_draft :: "env \<Rightarrow> pkg_form \<Rightarrow> reliefrqst \<Rightarrow> db \<Rightarrow> outcome \<times> db" where
  "save_draft e f r s =
     (let rid = rq_reliefrqst_id r in
      case validate_version_nbr ''relief request'' (fm_relief_request_version f) (rq_version_nbr r) of
        Inl x \<Rightarrow> (Flashed x, s)
      | Inr _ \<Rightarrow>
      case validate_pkg_version (fm_package_version f) (first_pkg s rid) of
        Inl x \<Rightarrow> (Flashed x, s)
      | Inr _ \<Rightarrow>
      case process_allocations e f False r s of
        Inl x \<Rightarrow> (Flashed x, s)
      | Inr (news, old, s1) \<Rightarrow>
          let s2 = (case first_pkg s1 rid of
                None \<Rightarrow> s1 | Some p \<Rightarrow> set_pkg (pk_reliefpkg_id p) clear_verification s1)
          in case reserve_inventory (set_rqst rid (part_filled e) s2) rid news (Some old) of
               Inl m \<Rightarrow> (NotReserved m, s)
             | Inr s3 \<Rightarrow> (Completed, s3))"

text \<open>\<^verbatim>\<open>_submit_for_approval\<close> and \<^verbatim>\<open>_send_for_dispatch\<close> catch \<^verbatim>\<open>ValueError\<close> only.\<close>

definition catch_value_error :: "exc \<Rightarrow> outcome" where
  "catch_value_error x = (if x = ValueError then Flashed x else Uncaught x)"

definition submitted_to_lm :: "env \<Rightarrow> reliefpkg \<Rightarrow> reliefpkg" where
  "submitted_to_lm e p = p\<lparr>pk_status_code := PKG_STATUS_PENDING,
     pk_verify_by_id := Some ''__PENDING_LM__'', pk_verify_dtime := Some (en_now e),
     pk_update_by_id := us_user_name (en_user e), pk_update_dtime := Some (en_now e),
     pk_version_nbr := pk_version_nbr p + 1\<rparr>"

definition notify_lm :: "env \<Rightarrow> reliefpkg \<Rightarrow> db \<Rightarrow> db" where
  "notify_lm e p s =
     (let lm_users = get_active_users_by_role_codes s [''LM''] in
      if lm_users \<noteq> [] then create_package_ready_for_approval_notification (en_now e) p lm_users s else s)"

definition pending_of_other :: "env \<Rightarrow> reliefpkg \<Rightarrow> bool" where
  "pending_of_other e p \<longleftrightarrow>
     pk_status_code p = PKG_STATUS_PENDING \<and> pk_create_by_id p \<noteq> us_user_name (en_user e)"

definition submit_for_approval :: "env \<Rightarrow> pkg_form \<Rightarrow> reliefrqst \<Rightarrow> db \<Rightarrow> outcome \<times> db" where
  "submit_for_approval e f r s =
     (let rid = rq_reliefrqst_id r; existing_pkg = first_pkg s rid in
      if \<not> is_logistics_officer (Some (en_user e)) then (Declined, s)
      else case validate_version_nbr ''relief request'' (fm_relief_request_version f) (rq_version_nbr r) of
        Inl x \<Rightarrow> (catch_value_error x, s)
      | Inr _ \<Rightarrow>
      case validate_pkg_version (fm_package_version f) existing_pkg of
        Inl x \<Rightarrow> (catch_value_error x, s)
      | Inr _ \<Rightarrow>
      if (case existing_pkg of None \<Rightarrow> False | Some p \<Rightarrow> pending_of_other e p) then (Declined, s)
      else case process_allocations e f False r s of
        Inl x \<Rightarrow> (catch_value_error x, s)
      | Inr (news, old, s1) \<Rightarrow>
      case first_pkg s1 rid of
        None \<Rightarrow> (Flashed ValueError, s)
      | Some p \<Rightarrow>
      if (case existing_pkg of None \<Rightarrow> False | Some p0 \<Rightarrow> pk_version_nbr p \<noteq> pk_version_nbr p0)
           \<and> pending_of_other e p then (Declined, s)
      else case reserve_inventory (set_rqst rid (part_filled e)
             (set_pkg (pk_reliefpkg_id p) (submitted_to_lm e) s1)) rid news (Some old) of
        Inl m \<Rightarrow> (Flashed ValueError, s)
      | Inr s2 \<Rightarrow>
          (Completed,
           if (case existing_pkg of None \<Rightarrow> True | Some p0 \<Rightarrow> pk_status_code p0 \<noteq> PKG_STATUS_PENDING)
           then notify_lm e p s2 else s2))"

definition dispatched :: "env \<Rightarrow> reliefpkg \<Rightarrow> reliefpkg" where
  "dispatched e p = p\<lparr>pk_verify_by_id := Some (us_user_name (en_user e)), pk_verify_dtime := Some (en_now e),
     pk_status_code := PKG_STATUS_DISPATCHED, pk_dispatch_dtime := Some (en_now e),
     pk_update_by_id := us_user_name (en_user e), pk_update_dtime := Some (en_now e)\<rparr>"

definition agency_recipients :: "reliefrqst \<Rightarrow> db \<Rightarrow> user list" where
  "agency_recipients r s = (if rq_agency_id r \<noteq> 0 then get_agency_active_users s (rq_agency_id r) else [])"

definition send_for_dispatch :: "env \<Rightarrow> pkg_form \<Rightarrow> reliefrqst \<Rightarrow> db \<Rightarrow> outcome \<times> db" where
  "send_for_dispatch e f r s =
     (let rid = rq_reliefrqst_id r in
      if \<not> is_logistics_manager (Some (en_user e)) then (Declined, s)
      else case validate_version_nbr ''relief request'' (fm_relief_request_version f) (rq_version_nbr r) of
        Inl x \<Rightarrow> (catch_value_error x, s)
      | Inr _ \<Rightarrow>
      case validate_pkg_version (fm_package_version f) (first_pkg s rid) of
        Inl x \<Rightarrow> (catch_value_error x, s)
      | Inr _ \<Rightarrow>
      case process_allocations e f True r s of
        Inl x \<Rightarrow> (catch_value_error x, s)
      | Inr (news, old, s1) \<Rightarrow>
      case first_pkg s1 rid of
        None \<Rightarrow> (Flashed ValueError, s)
      | Some p \<Rightarrow>
      case commit_inventory (set_pkg (pk_reliefpkg_id p) (dispatched e) s1) rid of
        Inl m \<Rightarrow> (Flashed ValueError, s)
      | Inr s2 \<Rightarrow>
          let s3 = set_rqst rid (part_filled e) s2
          in (Completed, create_package_dispatched_notification (en_now e) p
                (agency_recipients r s3 @ get_active_users_by_role_codes s3 [''LOGISTICS_MANAGER'']) s3))"

text \<open>The POST part of the route: who may prepare, which requests, and the three actions.\<close>

definition prepare_package :: "env \<Rightarrow> pkg_form \<Rightarrow> int \<Rightarrow> db \<Rightarrow> exc + outcome \<times> db" where
  "prepare_package e f rid s =
     (if \<not> (is_logistics_officer (Some (en_user e)) \<or> is_logistics_manager (Some (en_user e)))
      then Inl Forbidden403
      else case get_rqst s rid of
        None \<Rightarrow> Inl NotFound404
      | Some r \<Rightarrow>
          if rq_status_code r \<notin> set [STATUS_SUBMITTED, STATUS_PART_FILLED] then Inr (Declined, s)
          else if fm_action f = Some ''save_draft'' then Inr (save_draft e f r s)
          else if fm_action f = Some ''submit_for_approval'' then Inr (submit_for_approval e f r s)
          else if fm_action f = Some ''send_for_dispatch'' then Inr (send_for_dispatch e f r s)
          else Inr (Declined, s))"

section \<open>Approving a package\<close>

definition pending_pkg :: "db \<Rightarrow> int \<Rightarrow> reliefpkg option" where
  "pending_pkg s rid = find (\<lambda>p. pk_status_code p = PKG_STATUS_PENDING) (pkgs_of s rid)"

definition drafted_by_lm :: "env \<Rightarrow> reliefpkg \<Rightarrow> reliefpkg" where
  "drafted_by_lm e p = p\<lparr>pk_status_code := PKG_STATUS_PENDING,
     pk_update_by_id := us_user_name (en_user e), pk_update_dtime := Some (en_now e),
     pk_version_nbr := pk_version_nbr p + 1\<rparr>"

definition save_draft_approval :: "env \<Rightarrow> pkg_form \<Rightarrow> reliefrqst \<Rightarrow> reliefpkg \<Rightarrow> db \<Rightarrow> outcome \<times> db" where
  "save_draft_approval e f r p s =
     (let rid = rq_reliefrqst_id r in
      case validate_version_nbr ''relief request'' (fm_relief_request_version f) (rq_version_nbr r) of
        Inl x \<Rightarrow> (Flashed x, s)
      | Inr _ \<Rightarrow>
      case validate_version_nbr ''package'' (fm_package_version f) (pk_version_nbr p) of
        Inl x \<Rightarrow> (Flashed x, s)
      | Inr _ \<Rightarrow>
      case process_allocations e f False r s of
        Inl x \<Rightarrow> (Flashed x, s)
      | Inr (news, old, s1) \<Rightarrow>
      case reserve_inventory (set_pkg (pk_reliefpkg_id p) (drafted_by_lm e) s1) rid news (Some old) of
        Inl m \<Rightarrow> (NotReserved m, s)
      | Inr s2 \<Rightarrow> (Completed, s2))"

definition pkg_item_total :: "reliefpkg_item list \<Rightarrow> int \<Rightarrow> qty" where
  "pkg_item_total rows i = sum_list (map pi_item_qty (filter (\<lambda>r. pi_item_id r = i) rows))"

definition all_items_unavailable :: "reliefrqst_item list \<Rightarrow> bool" where
  "all_items_unavailable items = list_all (\<lambda>i. ri_status_code i \<in> set [''U'', ''D'', ''W'']) items"

text \<open>
  The integrity checks before a dispatch: an empty package needs all items unavailable, each
  item's issue quantity must agree with its package rows up to one thousandth, and a dispatch
  with nothing allocated again needs all items unavailable.
\<close>

definition dispatch_checks :: "reliefpkg_item list \<Rightarrow> reliefrqst_item list \<Rightarrow> bool \<Rightarrow> bool" where
  "dispatch_checks rows items has_allocated_items \<longleftrightarrow>
     (rows = [] \<longrightarrow> all_items_unavailable items)
     \<and> list_all (\<lambda>i. let pkg_total = pkg_item_total rows (ri_item_id i) in
          \<not> (ri_issue_qty i > 0 \<and> pkg_total = 0) \<and> \<not> \<bar>ri_issue_qty i - pkg_total\<bar> > 1 / 1000) items
     \<and> (\<not> has_allocated_items \<longrightarrow> all_items_unavailable items)"

definition allocated_to :: "alloc_req list \<Rightarrow> int \<Rightarrow> qty" where
  "allocated_to news i = sum_list (map ar_allocated_qty (filter (\<lambda>a. ar_item_id a = i) news))"

definition set_issue_qtys :: "alloc_req list \<Rightarrow> int \<Rightarrow> db \<Rightarrow> db" where
  "set_issue_qtys news rid s =
     s\<lparr>t_reliefrqst_item := upd_where (\<lambda>i. ri_reliefrqst_id i = rid)
         (\<lambda>i. i\<lparr>ri_issue_qty := allocated_to news (ri_item_id i), ri_version_nbr := ri_version_nbr i + 1\<rparr>)
         (t_reliefrqst_item s)\<rparr>"

definition approve_and_dispatch :: "env \<Rightarrow> pkg_form \<Rightarrow> reliefrqst \<Rightarrow> reliefpkg \<Rightarrow> db \<Rightarrow> outcome \<times> db" where
  "approve_and_dispatch e f r p s =
     (let rid = rq_reliefrqst_id r; pid = pk_reliefpkg_id p in
      case validate_version_nbr ''relief request'' (fm_relief_request_version f) (rq_version_nbr r) of
        Inl x \<Rightarrow> (Flashed x, s)
      | Inr _ \<Rightarrow>
      case validate_version_nbr ''package'' (fm_package_version f) (pk_version_nbr p) of
        Inl x \<Rightarrow> (Flashed x, s)
      | Inr _ \<Rightarrow>
      case process_allocations e f False r s of
        Inl x \<Rightarrow> (Flashed x, s)
      | Inr (news, old, s1) \<Rightarrow>
      if \<not> dispatch_checks (pkg_items_of s1 pid) (rqst_items_of s1 rid)
             (list_ex (\<lambda>a. ar_allocated_qty a > 0) news) then (Flashed ValueError, s)
      else case commit_inventory (set_pkg pid (\<lambda>q. (dispatched e q)\<lparr>pk_version_nbr := pk_version_nbr q + 1\<rparr>)
             (set_issue_qtys news rid s1)) rid of
        Inl m \<Rightarrow> (Flashed ValueError, s)
      | Inr s2 \<Rightarrow>
          let s3 = set_rqst rid (part_filled e) s2
          in (Completed, create_package_approved_notification (en_now e) p
                (get_active_users_by_role_codes s3 [''LOGISTICS_OFFICER'', ''INVENTORY_CLERK'']
                 @ agency_recipients r s3) s3))"

definition approve_package :: "env \<Rightarrow> pkg_form \<Rightarrow> int \<Rightarrow> db \<Rightarrow> exc + outcome \<times> db" where
  "approve_package e f rid s =
     (if \<not> is_logistics_manager (Some (en_user e)) then Inl Forbidden403
      else case get_rqst s rid of
        None \<Rightarrow> Inl NotFound404
      | Some r \<Rightarrow>
      case pending_pkg s rid of
        None \<Rightarrow> Inr (Declined, s)
      | Some p \<Rightarrow>
          if pk_dispatch_dtime p \<noteq> None then Inr (Declined, s)
          else if fm_action f = Some ''save_draft'' then Inr (save_draft_approval e f r p s)
          else if fm_action f = Some ''approve_and_dispatch'' then Inr (approve_and_dispatch e f r p s)
          else Inr (Declined, s))"

text \<open>
  The older approval page dispatches the package as it stands, without a form of allocations;
  rejecting is not implemented in the source. Only \<^verbatim>\<open>ValueError\<close> is caught.
\<close>

definition review_and_dispatch :: "env \<Rightarrow> reliefrqst \<Rightarrow> reliefpkg \<Rightarrow> db \<Rightarrow> outcome \<times> db" where
  "review_and_dispatch e r p s =
     (let rid = rq_reliefrqst_id r; pid = pk_reliefpkg_id p in
      if \<not> dispatch_checks (pkg_items_of s pid) (rqst_items_of s rid)
             (list_ex (\<lambda>i. ri_issue_qty i > 0) (rqst_items_of s rid)) then (Flashed ValueError, s)
      else case commit_inventory (set_pkg pid (dispatched e) s) rid of
        Inl m \<Rightarrow> (Flashed ValueError, s)
      | Inr s2 \<Rightarrow>
          let s3 = set_rqst rid (part_filled e) s2
          in (Completed, create_package_approved_notification (en_now e) p
                (get_active_users_by_role_codes s3 [''LOGISTICS_OFFICER''] @ agency_recipients r s3) s3))"

definition review_approval :: "env \<Rightarrow> string option \<Rightarrow> int \<Rightarrow> db \<Rightarrow> exc + outcome \<times> db" where
  "review_approval e action rid s =
     (if \<not> is_logistics_manager (Some (en_user e)) then Inl Forbidden403
      else case get_rqst s rid of
        None \<Rightarrow> Inl NotFound404
      | Some r \<Rightarrow>
      case pending_pkg s rid of
        None \<Rightarrow> Inr (Declined, s)
      | Some p \<Rightarrow>
          if pk_dispatch_dtime p \<noteq> None then Inr (Declined, s)
          else if action = Some ''approve_and_dispatch'' then Inr (review_and_dispatch e r p s)
          else Inr (Declined, s))"

section \<open>Cancelling\<close>

definition cancel_preparation :: "int \<Rightarrow> db \<Rightarrow> outcome \<times> db" where
  "cancel_preparation rid s =
     (let s1 = (case first_pkg s rid of
            None \<Rightarrow> s
          | Some p \<Rightarrow> s\<lparr>t_reliefpkg_item :=
              filter (\<lambda>r. pi_reliefpkg_id r \<noteq> pk_reliefpkg_id p) (t_reliefpkg_item s)\<rparr>)
      in case release_all_reservations s1 rid of
           Inl m \<Rightarrow> (Completed, s1)
         | Inr s2 \<Rightarrow> (Completed, s2))"

end
