(* ===== verification/Packaging_Ledger.thy ===== *)
theory Packaging_Ledger
  imports Packaging
begin

text \<open>
  What the packaging handlers do to the books. The ledger says that the reserved quantity of each
  batch is the sum of what the pending packages hold of it. The rows that \<open>process_allocations\<close>
  leaves are computed once; each handler is then the reservation or commit specification applied
  to that state.
\<close>

section \<open>Package rows by key\<close>

definition row_qty :: "reliefpkg_item list \<Rightarrow> int \<times> bkey \<Rightarrow> qty" where
  "row_qty rows x = (case find (\<lambda>r. record_key r = x) rows of None \<Rightarrow> 0 | Some r \<Rightarrow> pi_item_qty r)"

definition line_qty :: "pkg_line list \<Rightarrow> bkey \<Rightarrow> qty" where
  "line_qty ls k = (case find (\<lambda>l. line_key l = k) ls of None \<Rightarrow> 0 | Some l \<Rightarrow> pl_allocated_qty l)"

lemma record_key_update_line [simp]: "record_key (update_line e l r) = record_key r"
  by (simp add: record_key_def pkg_item_key_def update_line_def)

lemma record_key_new_line [simp]: "record_key (new_line e pid l) = (pid, line_key l)"
  by (simp add: record_key_def pkg_item_key_def new_line_def line_key_def)

lemma line_rows_qty [simp]:
  "pi_item_qty (update_line e l r) = pl_allocated_qty l"
  "pi_item_qty (new_line e pid l) = pl_allocated_qty l"
  by (simp_all add: update_line_def new_line_def)

interpretation pkg_item_rows: keyed_rows record_key "\<lambda>x. update_line (fst x) (snd x)"
  by unfold_locales simp

lemma pkg_items_ok_alt:
  "pkg_items_ok s \<longleftrightarrow> distinct (map record_key (t_reliefpkg_item s))
     \<and> (\<forall>r \<in> set (t_reliefpkg_item s). 0 \<le> pi_item_qty r)"
  by (simp add: pkg_items_ok_def record_key_def [abs_def])

lemma row_qty_in: "distinct (map record_key rows) \<Longrightarrow> r \<in> set rows \<Longrightarrow> row_qty rows (record_key r) = pi_item_qty r"
  by (simp add: row_qty_def pkg_item_rows.find_unique)

lemma row_qty_absent: "x \<notin> record_key ` set rows \<Longrightarrow> row_qty rows x = 0"
  by (auto simp: row_qty_def split: option.splits dest!: find_Some_set)

lemma row_qty_nonneg: "(\<forall>r \<in> set rows. 0 \<le> pi_item_qty r) \<Longrightarrow> 0 \<le> row_qty rows x"
  by (auto simp: row_qty_def split: option.splits dest!: find_Some_set)

lemma row_qty_ok: "pkg_items_ok s \<Longrightarrow> 0 \<le> row_qty (t_reliefpkg_item s) x"
  by (rule row_qty_nonneg) (simp add: pkg_items_ok_def)

lemma row_qty_filter:
  "row_qty (filter (\<lambda>r. Q (record_key r)) rows) x = (if Q x then row_qty rows x else 0)"
  unfolding row_qty_def by (induction rows) auto

lemma row_qty_snoc: "record_key r \<notin> record_key ` set rows \<Longrightarrow>
   row_qty (rows @ [r]) x = (if x = record_key r then pi_item_qty r else row_qty rows x)"
  unfolding row_qty_def by (induction rows) (auto split: option.splits)

lemma line_qty_absent: "k \<notin> line_key ` set ls \<Longrightarrow> line_qty ls k = 0"
  by (auto simp: line_qty_def split: option.splits dest!: find_Some_set)

lemma line_qty_nonneg: "(\<forall>l \<in> set ls. 0 \<le> pl_allocated_qty l) \<Longrightarrow> 0 \<le> line_qty ls k"
  by (auto simp: line_qty_def split: option.splits dest!: find_Some_set)

text \<open>One upsert writes the line's quantity under the line's key and nothing else.\<close>

lemma upsert_row_qty:
  assumes "(pid, line_key l) \<in> set existing \<longleftrightarrow> (pid, line_key l) \<in> record_key ` set rows"
  shows "row_qty (upsert_line e pid existing l rows) x =
     (if x = (pid, line_key l) then pl_allocated_qty l else row_qty rows x)"
proof (cases "(pid, line_key l) \<in> set existing")
  case True
  with assms have "(pid, line_key l) \<in> record_key ` set rows" by simp
  then have "find (\<lambda>r. record_key r = (pid, line_key l)) rows \<noteq> None"
    unfolding find_None_set by auto
  then obtain r where r: "find (\<lambda>r. record_key r = (pid, line_key l)) rows = Some r" by blast
  show ?thesis using True r
    pkg_item_rows.find_upd_same [of "(pid, line_key l)" "(e, l)" rows]
    pkg_item_rows.find_upd_other [of "(pid, line_key l)" x "(e, l)" rows]
    by (auto simp: upsert_line_def row_qty_def)
next
  case False
  with assms show ?thesis by (simp add: upsert_line_def row_qty_snoc)
qed

lemma upsert_keys:
  assumes "(pid, line_key l) \<in> set existing \<longleftrightarrow> (pid, line_key l) \<in> record_key ` set rows"
  shows "record_key ` set (upsert_line e pid existing l rows) = insert (pid, line_key l) (record_key ` set rows)"
    and "distinct (map record_key rows) \<Longrightarrow> distinct (map record_key (upsert_line e pid existing l rows))"
  using assms pkg_item_rows.keys_upd [of "(pid, line_key l)" "(e, l)" rows]
  by (auto simp: upsert_line_def simp flip: set_map)

lemma upserts_rows:
  assumes "distinct (map line_key ls)" and "distinct (map record_key rows)"
    and "\<forall>l \<in> set ls. (pid, line_key l) \<in> set existing \<longleftrightarrow> (pid, line_key l) \<in> record_key ` set rows"
  shows "(\<forall>x. row_qty (fold (upsert_line e pid existing) ls rows) x =
      (if fst x = pid \<and> snd x \<in> line_key ` set ls then line_qty ls (snd x) else row_qty rows x))
    \<and> record_key ` set (fold (upsert_line e pid existing) ls rows)
      = record_key ` set rows \<union> Pair pid ` line_key ` set ls
    \<and> distinct (map record_key (fold (upsert_line e pid existing) ls rows))"
  using assms
proof (induction ls arbitrary: rows)
  case (Cons l ls)
  let ?rows = "upsert_line e pid existing l rows"
  have l: "(pid, line_key l) \<in> set existing \<longleftrightarrow> (pid, line_key l) \<in> record_key ` set rows"
    using Cons.prems(3) by simp
  have ds: "distinct (map line_key ls)" and new: "line_key l \<notin> line_key ` set ls"
    using Cons.prems(1) by auto
  have rest: "\<forall>m \<in> set ls. (pid, line_key m) \<in> set existing \<longleftrightarrow> (pid, line_key m) \<in> record_key ` set ?rows"
  proof
    fix m
    assume m: "m \<in> set ls"
    with new have "line_key m \<noteq> line_key l" by (metis imageI)
    then show "(pid, line_key m) \<in> set existing \<longleftrightarrow> (pid, line_key m) \<in> record_key ` set ?rows"
      using Cons.prems(3) m by (simp add: upsert_keys(1) [OF l])
  qed
  note IH = Cons.IH [OF ds upsert_keys(2) [OF l Cons.prems(2)] rest]
  have "row_qty (fold (upsert_line e pid existing) (l # ls) rows) x =
      (if fst x = pid \<and> snd x \<in> line_key ` set (l # ls) then line_qty (l # ls) (snd x) else row_qty rows x)" for x
    using IH new by (cases x) (auto simp: upsert_row_qty [OF l] line_qty_def)
  then show ?case using IH upsert_keys(1) [OF l] by auto
qed simp

section \<open>What processing the form computes\<close>

text \<open>
  \<open>form_ok\<close>: each batch occurs once per item and no quantity is negative. \<open>pkg_frame\<close>: only
  package items and request items differ.
\<close>

definition form_ok :: "pkg_form \<Rightarrow> bool" where
  "form_ok f \<longleftrightarrow> (\<forall>i. distinct (map fst (fm_batch_allocation f i))
     \<and> (\<forall>x \<in> set (fm_batch_allocation f i). 0 \<le> snd x))"

definition pkg_frame :: "db \<Rightarrow> db \<Rightarrow> bool" where
  "pkg_frame s s' \<longleftrightarrow>
     s' = s\<lparr>t_reliefpkg_item := t_reliefpkg_item s', t_reliefrqst_item := t_reliefrqst_item s'\<rparr>"

lemma pkg_frame_refl [simp]: "pkg_frame s s"
  by (simp add: pkg_frame_def)

lemma pkg_frame_trans: "pkg_frame s t \<Longrightarrow> pkg_frame t u \<Longrightarrow> pkg_frame s u"
  unfolding pkg_frame_def by (cases s; cases t; cases u) simp

lemma pkg_frame_tables:
  assumes "pkg_frame s t"
  shows "t_itembatch t = t_itembatch s" "t_inventory t = t_inventory s" "t_reliefpkg t = t_reliefpkg s"
    "t_reliefrqst t = t_reliefrqst s" "t_user t = t_user s" "t_role t = t_role s"
    "t_notification t = t_notification s" "seq_reliefpkg t = seq_reliefpkg s"
    "t_warehouse t = t_warehouse s" "t_rqstitem_status t = t_rqstitem_status s" "seq_itembatch t = seq_itembatch s"
  by (subst assms [unfolded pkg_frame_def]; simp)+

definition line_ok :: "db \<Rightarrow> pkg_line \<Rightarrow> bool" where
  "line_ok s l \<longleftrightarrow> (\<exists>b. get_batch s (pl_batch_id l) = Some b \<and> pl_inventory_id l = bt_inventory_id b
     \<and> (0 < pl_allocated_qty l \<longrightarrow> bt_item_id b = pl_item_id l))"

definition form_rows :: "pkg_form \<Rightarrow> int \<Rightarrow> (int \<times> int \<times> qty) list" where
  "form_rows f i = map (\<lambda>x. (i, x)) (fm_batch_allocation f i)"

definition line_row :: "pkg_line \<Rightarrow> int \<times> int \<times> qty" where
  "line_row l = (pl_item_id l, pl_batch_id l, pl_allocated_qty l)"

lemma item_lines_spec:
  "item_lines s d old i xs = Inr ls \<Longrightarrow> map line_row ls = map (\<lambda>x. (i, x)) xs \<and> list_all (line_ok s) ls"
proof (induction xs arbitrary: ls)
  case (Cons x xs)
  obtain bid q where x: "x = (bid, q)" by (cases x)
  from Cons.prems x obtain b ls' where b: "get_batch s bid = Some b"
    and val: "\<not> (q > 0 \<and> validate_batch_allocation s d bid i q
               (dict_get old (i, Some (bt_inventory_id b), bid) 0) \<noteq> Inr ())"
    and ls': "item_lines s d old i xs = Inr ls'"
    and ls: "ls = \<lparr>pl_item_id = i, pl_batch_id = bid, pl_inventory_id = bt_inventory_id b,
                pl_allocated_qty = q, pl_uom_code = bt_uom_code b\<rparr> # ls'"
    by (auto split: option.splits if_splits sum.splits)
  have "0 < q \<longrightarrow> bt_item_id b = i"
    using val b by (auto simp: validate_batch_allocation_def split: if_splits)
  with b have "line_ok s (hd ls)" by (simp add: ls line_ok_def)
  with Cons.IH [OF ls'] show ?case by (simp add: ls x line_row_def)
qed simp

lemma line_ok_cong: "t_itembatch s' = t_itembatch s \<Longrightarrow> line_ok s' = line_ok s"
  by (simp add: line_ok_def get_batch_def fun_eq_iff)

lemma process_item_spec:
  assumes "process_item e f vc pid rows i (s, news, pr) = Inr (s', news', pr')"
  shows "\<exists>ls. news' = news @ alloc_reqs ls \<and> pr' = pr @ map (\<lambda>l. (pid, line_key l)) ls
     \<and> t_reliefpkg_item s' = fold (upsert_line e pid (map record_key rows)) ls (t_reliefpkg_item s)
     \<and> pkg_frame s s' \<and> map line_row ls = form_rows f (ri_item_id i) \<and> list_all (line_ok s) ls"
proof -
  obtain ls where ls: "item_lines s (en_today e) (existing_allocations_map rows) (ri_item_id i)
      (fm_batch_allocation f (ri_item_id i)) = Inr ls"
    using assms by (auto simp: process_item_def Let_def split: sum.splits)
  have "news' = news @ alloc_reqs ls" "pr' = pr @ map (\<lambda>l. (pid, line_key l)) ls"
    "t_reliefpkg_item s' = fold (upsert_line e pid (map record_key rows)) ls (t_reliefpkg_item s)"
    "pkg_frame s s'"
    using assms ls by (auto simp: process_item_def Let_def pkg_frame_def set_rqst_item_def split: if_splits)
  with item_lines_spec [OF ls] show ?thesis unfolding form_rows_def by blast
qed

lemma alloc_reqs_append: "alloc_reqs (xs @ ys) = alloc_reqs xs @ alloc_reqs ys"
  by (simp add: alloc_reqs_def)

lemma process_items_spec:
  assumes "fold_result (process_item e f vc pid rows) items (s, news, pr) = Inr (s', news', pr')"
  shows "\<exists>ls. news' = news @ alloc_reqs ls \<and> pr' = pr @ map (\<lambda>l. (pid, line_key l)) ls
     \<and> t_reliefpkg_item s' = fold (upsert_line e pid (map record_key rows)) ls (t_reliefpkg_item s)
     \<and> pkg_frame s s' \<and> map line_row ls = concat (map (\<lambda>i. form_rows f (ri_item_id i)) items)
     \<and> list_all (line_ok s) ls"
  using assms
proof (induction items arbitrary: s news pr)
  case Nil
  then show ?case by (auto simp: alloc_reqs_def)
next
  case (Cons i items)
  then obtain s1 n1 p1 where one: "process_item e f vc pid rows i (s, news, pr) = Inr (s1, n1, p1)"
    and rest: "fold_result (process_item e f vc pid rows) items (s1, n1, p1) = Inr (s', news', pr')"
    by (auto split: sum.splits)
  from process_item_spec [OF one] obtain ls1 where
    1: "n1 = news @ alloc_reqs ls1" "p1 = pr @ map (\<lambda>l. (pid, line_key l)) ls1"
      "t_reliefpkg_item s1 = fold (upsert_line e pid (map record_key rows)) ls1 (t_reliefpkg_item s)"
      "pkg_frame s s1" "map line_row ls1 = form_rows f (ri_item_id i)" "list_all (line_ok s) ls1" by blast
  from Cons.IH [OF rest] obtain ls2 where
    2: "news' = n1 @ alloc_reqs ls2" "pr' = p1 @ map (\<lambda>l. (pid, line_key l)) ls2"
      "t_reliefpkg_item s' = fold (upsert_line e pid (map record_key rows)) ls2 (t_reliefpkg_item s1)"
      "pkg_frame s1 s'" "map line_row ls2 = concat (map (\<lambda>i. form_rows f (ri_item_id i)) items)"
      "list_all (line_ok s1) ls2" by blast
  have "line_ok s1 = line_ok s" by (rule line_ok_cong) (rule pkg_frame_tables [OF 1(4)])
  with 1 2 pkg_frame_trans [OF 1(4) 2(4)] show ?case
    by (intro exI [of _ "ls1 @ ls2"]) (simp add: alloc_reqs_append)
qed

section \<open>Well-formed packages\<close>

definition rqst_item_key :: "reliefrqst_item \<Rightarrow> int \<times> int" where
  "rqst_item_key i = (ri_reliefrqst_id i, ri_item_id i)"

text \<open>
  Primary and foreign keys: request items and packages are unique, package numbers come from the
  sequence, and package rows belong to packages already numbered.
\<close>

definition pkgs_ok :: "db \<Rightarrow> bool" where
  "pkgs_ok s \<longleftrightarrow> distinct (map pk_reliefpkg_id (t_reliefpkg s))
     \<and> (\<forall>p \<in> set (t_reliefpkg s). pk_reliefpkg_id p < seq_reliefpkg s)
     \<and> (\<forall>r \<in> set (t_reliefpkg_item s). pi_reliefpkg_id r < seq_reliefpkg s)
     \<and> distinct (map rqst_item_key (t_reliefrqst_item s))"

lemma distinct_rqst_items:
  assumes "distinct (map rqst_item_key (t_reliefrqst_item s))"
  shows "distinct (map ri_item_id (rqst_items_of s rid))"
proof -
  have "inj_on ri_item_id (set (rqst_items_of s rid))" and "distinct (rqst_items_of s rid)"
    using assms by (auto simp: rqst_items_of_def distinct_map inj_on_def rqst_item_key_def)
  then show ?thesis by (simp add: distinct_map)
qed

lemma process_items_keys:
  assumes "fold_result (process_item e f vc pid rows) items (s, news, pr) = Inr (s', news', pr')"
  shows "map rqst_item_key (t_reliefrqst_item s') = map rqst_item_key (t_reliefrqst_item s)"
proof -
  let ?I = "\<lambda>st. map rqst_item_key (t_reliefrqst_item (fst st)) = map rqst_item_key (t_reliefrqst_item s)"
  have keep: "map rqst_item_key (upd_where Q (fill_rqst_item e st c t) is) = map rqst_item_key is" for Q st c t "is"
    by (rule map_upd_where_same) (simp add: rqst_item_key_def fill_rqst_item_def)
  have "?I (s', news', pr')"
    by (rule fold_result_invariant [OF assms, where I = ?I])
      (auto simp: process_item_def Let_def set_rqst_item_def keep split: sum.splits if_splits)
  then show ?thesis by simp
qed

lemma form_rows_distinct:
  assumes "form_ok f" and "distinct (map ri_item_id items)"
  shows "distinct (map (\<lambda>x. (fst x, fst (snd x))) (concat (map (\<lambda>i. form_rows f (ri_item_id i)) items)))"
  using assms(2)
proof (induction items)
  case (Cons i items)
  have "distinct (map (\<lambda>x. (fst x, fst (snd x))) (form_rows f (ri_item_id i)))"
    using assms(1) by (auto simp: form_rows_def form_ok_def distinct_map inj_on_def comp_def)
  moreover have "fst x = ri_item_id i" if "x \<in> set (form_rows f (ri_item_id i))" for x
    using that by (auto simp: form_rows_def)
  moreover have "fst x \<in> ri_item_id ` set items"
    if "x \<in> set (concat (map (\<lambda>i. form_rows f (ri_item_id i)) items))" for x
    using that by (auto simp: form_rows_def)
  ultimately show ?case using Cons by fastforce
qed simp

lemma lines_ok:
  assumes "form_ok f" and "distinct (map ri_item_id items)"
    and "map line_row ls = concat (map (\<lambda>i. form_rows f (ri_item_id i)) items)"
  shows "distinct (map line_key ls)" and "\<forall>l \<in> set ls. 0 \<le> pl_allocated_qty l"
proof -
  have "map (\<lambda>x. (fst x, fst (snd x))) (map line_row ls) = map (\<lambda>k. (fst k, snd (snd k))) (map line_key ls)"
    by (simp add: line_row_def line_key_def)
  then have "distinct (map (\<lambda>k. (fst k, snd (snd k))) (map line_key ls))"
    using form_rows_distinct [OF assms(1,2)] assms(3) by simp
  then show "distinct (map line_key ls)" unfolding distinct_map [where xs = "map line_key ls"] by blast
  show "\<forall>l \<in> set ls. 0 \<le> pl_allocated_qty l"
  proof
    fix l
    assume "l \<in> set ls"
    then have "line_row l \<in> set (concat (map (\<lambda>i. form_rows f (ri_item_id i)) items))"
      unfolding assms(3) [symmetric] by simp
    then show "0 \<le> pl_allocated_qty l" using assms(1) by (fastforce simp: form_rows_def form_ok_def line_row_def)
  qed
qed

lemma find_pkg_rows:
  "find (\<lambda>r. pkg_item_key r = k) (filter (\<lambda>r. pi_reliefpkg_id r = pid) rows)
     = find (\<lambda>r. record_key r = (pid, k)) rows"
  by (induction rows) (auto simp: record_key_def)

lemma existing_map_get:
  assumes "pkg_items_ok s"
  shows "dict_get (existing_allocations_map (pkg_items_of s pid)) k 0 = row_qty (t_reliefpkg_item s) (pid, k)"
proof -
  have "dict_get (existing_allocations_map (pkg_items_of s pid)) k 0
      = (case find (\<lambda>r. pkg_item_key r = k) (pkg_items_of s pid) of None \<Rightarrow> 0 | Some r \<Rightarrow> pi_item_qty r)"
    using dict_fold_get [OF pkg_items_ok_rows(1) [OF assms, of pid], of "\<lambda>_. True" pi_item_qty "[]" k 0]
    by (simp add: existing_allocations_map_def split: option.splits)
  then show ?thesis unfolding pkg_items_of_def find_pkg_rows by (simp add: row_qty_def)
qed

lemma held_get:
  assumes "pkg_items_ok s"
  shows "dict_get (batch_reservations_of (pkg_items_of s pid)) k 0 = row_qty (t_reliefpkg_item s) (pid, k)"
  using row_qty_ok [OF assms, of "(pid, k)"] batch_reservations_get [OF pkg_items_ok_rows(1) [OF assms, of pid], of k]
  unfolding pkg_items_of_def find_pkg_rows by (simp add: row_qty_def split: option.splits)

lemma new_map_get:
  assumes "distinct (map line_key ls)" and "\<forall>l \<in> set ls. 0 \<le> pl_allocated_qty l"
  shows "dict_get (new_batch_reservations (alloc_reqs ls)) k 0 = line_qty ls k"
proof -
  let ?g = "\<lambda>l. \<lparr>ar_item_id = pl_item_id l, ar_batch_id = pl_batch_id l,
       ar_warehouse_id = Some (pl_inventory_id l), ar_allocated_qty = pl_allocated_qty l\<rparr>"
  have "fold (\<lambda>a d. if ar_allocated_qty a > 0 then AList.update (alloc_key a) (ar_allocated_qty a) d else d)
      (map ?g (filter (\<lambda>l. pl_allocated_qty l > 0) ls)) d
    = fold (\<lambda>l d. if pl_allocated_qty l > 0 then AList.update (line_key l) (pl_allocated_qty l) d else d) ls d" for d
    by (induction ls arbitrary: d) (auto simp: alloc_key_def line_key_def)
  then have "dict_get (new_batch_reservations (alloc_reqs ls)) k 0
      = (case find (\<lambda>l. line_key l = k) ls of None \<Rightarrow> 0
         | Some l \<Rightarrow> if pl_allocated_qty l > 0 then pl_allocated_qty l else 0)"
    unfolding new_batch_reservations_def alloc_reqs_def by (simp add: dict_fold_get [OF assms(1)] split: option.split)
  also have "\<dots> = line_qty ls k"
    using assms(2) by (auto simp: line_qty_def split: option.splits dest!: find_Some_set)
  finally show ?thesis .
qed

section \<open>The state after processing\<close>

text \<open>
  \<open>processed s rid p news old s'\<close>: the request's first package is \<open>p\<close>, found or just created;
  \<open>old\<close> and \<open>news\<close> are what its rows hold before and after; rows of other packages, packages and
  stock are as before.
\<close>

definition processed ::
  "db \<Rightarrow> int \<Rightarrow> reliefpkg \<Rightarrow> alloc_req list \<Rightarrow> (bkey, qty) dict \<Rightarrow> db \<Rightarrow> bool" where
  "processed s rid p news old s' \<longleftrightarrow>
     first_pkg s' rid = Some p
   \<and> (first_pkg s rid = Some p \<and> t_reliefpkg s' = t_reliefpkg s
      \<or> first_pkg s rid = None \<and> t_reliefpkg s' = t_reliefpkg s @ [p]
        \<and> pk_status_code p = ''P'' \<and> pk_reliefpkg_id p = seq_reliefpkg s)
   \<and> (\<forall>k. dict_get old k 0 = row_qty (t_reliefpkg_item s) (pk_reliefpkg_id p, k))
   \<and> (\<forall>k. dict_get (new_batch_reservations news) k 0 = row_qty (t_reliefpkg_item s') (pk_reliefpkg_id p, k))
   \<and> (\<forall>q k. q \<noteq> pk_reliefpkg_id p \<longrightarrow> row_qty (t_reliefpkg_item s') (q, k) = row_qty (t_reliefpkg_item s) (q, k))
   \<and> pkg_items_ok s' \<and> pkgs_ok s' \<and> t_itembatch s' = t_itembatch s \<and> t_inventory s' = t_inventory s
   \<and> t_user s' = t_user s \<and> t_role s' = t_role s \<and> t_notification s' = t_notification s"

lemma processedD:
  assumes "processed s rid p news old s'"
  shows "first_pkg s' rid = Some p"
    "dict_get old k 0 = row_qty (t_reliefpkg_item s) (pk_reliefpkg_id p, k)"
    "dict_get (new_batch_reservations news) k 0 = row_qty (t_reliefpkg_item s') (pk_reliefpkg_id p, k)"
    "q \<noteq> pk_reliefpkg_id p \<Longrightarrow> row_qty (t_reliefpkg_item s') (q, k) = row_qty (t_reliefpkg_item s) (q, k)"
    "pkg_items_ok s'" "pkgs_ok s'" "t_itembatch s' = t_itembatch s" "t_inventory s' = t_inventory s"
    "t_user s' = t_user s" "t_role s' = t_role s" "t_notification s' = t_notification s"
  using assms unfolding processed_def by blast+

lemma get_or_create_spec:
  assumes "get_or_create_pkg e r s = (p, s0)" and "pkgs_ok s"
  shows "first_pkg s0 (rq_reliefrqst_id r) = Some p \<and> pkgs_ok s0 \<and> pk_reliefpkg_id p < seq_reliefpkg s0
     \<and> (first_pkg s (rq_reliefrqst_id r) = Some p \<and> s0 = s
        \<or> first_pkg s (rq_reliefrqst_id r) = None \<and> p = new_pkg e r (seq_reliefpkg s)
          \<and> s0 = s\<lparr>t_reliefpkg := t_reliefpkg s @ [p], seq_reliefpkg := seq_reliefpkg s + 1\<rparr>)"
proof (cases "first_pkg s (rq_reliefrqst_id r)")
  case None
  have find: "find P xs = None \<Longrightarrow> P x \<Longrightarrow> find P (xs @ [x]) = Some x" for P and xs :: "reliefpkg list" and x
    by (induction xs) auto
  from None assms(1) have p: "p = new_pkg e r (seq_reliefpkg s)"
    and s0: "s0 = s\<lparr>t_reliefpkg := t_reliefpkg s @ [p], seq_reliefpkg := seq_reliefpkg s + 1\<rparr>"
    by (auto simp: get_or_create_pkg_def Let_def)
  have "first_pkg s0 (rq_reliefrqst_id r) = Some p"
    using None unfolding s0 first_pkg_def by (simp add: find p new_pkg_def)
  moreover have "pkgs_ok s0" using assms(2) by (fastforce simp: pkgs_ok_def s0 p new_pkg_def)
  ultimately show ?thesis using None s0 p by (simp add: new_pkg_def)
next
  case (Some q)
  then have "q \<in> set (t_reliefpkg s)" unfolding first_pkg_def by (meson find_Some_set)
  with Some assms show ?thesis by (auto simp: get_or_create_pkg_def pkgs_ok_def)
qed

lemma first_pkg_cong: "t_reliefpkg s = t_reliefpkg t \<Longrightarrow> first_pkg s rid = first_pkg t rid"
  by (simp add: first_pkg_def)

lemma processed_rows:
  assumes "pkg_items_ok s" and "distinct (map line_key ls)" and "\<forall>l \<in> set ls. 0 \<le> pl_allocated_qty l"
    and "existing = map record_key (pkg_items_of s pid)"
    and "R = filter (\<lambda>r. \<not> (record_key r \<in> set existing \<and> record_key r \<notin> set (map (\<lambda>l. (pid, line_key l)) ls)))
           (fold (upsert_line e pid existing) ls (t_reliefpkg_item s))"
  shows "row_qty R (q, k) = (if q = pid then line_qty ls k else row_qty (t_reliefpkg_item s) (q, k))"
    and "distinct (map record_key R)" and "\<forall>r \<in> set R. 0 \<le> pi_item_qty r"
    and "fst ` record_key ` set R \<subseteq> fst ` record_key ` set (t_reliefpkg_item s) \<union> {pid}"
proof -
  let ?rows = "t_reliefpkg_item s"
  have ex: "set existing = {x \<in> record_key ` set ?rows. fst x = pid}"
    unfolding assms(4) pkg_items_of_def by (auto simp: record_key_def)
  then have "\<forall>l \<in> set ls. (pid, line_key l) \<in> set existing \<longleftrightarrow> (pid, line_key l) \<in> record_key ` set ?rows"
    by auto
  note U = upserts_rows [OF assms(2) conjunct1 [OF assms(1) [unfolded pkg_items_ok_alt]] this, of e]
    and dist = assms(1) [unfolded pkg_items_ok_alt]
  have rq: "row_qty R (q, k) = (if q = pid then line_qty ls k else row_qty ?rows (q, k))" for q k
  proof -
    let ?P = "set (map (\<lambda>l. (pid, line_key l)) ls)"
    have "row_qty R (q, k) = (if \<not> ((q, k) \<in> set existing \<and> (q, k) \<notin> ?P)
        then row_qty (fold (upsert_line e pid existing) ls ?rows) (q, k) else 0)"
      unfolding assms(5) by (rule row_qty_filter [where Q = "\<lambda>x. \<not> (x \<in> set existing \<and> x \<notin> ?P)"])
    moreover have "row_qty (fold (upsert_line e pid existing) ls ?rows) (q, k)
        = (if q = pid \<and> k \<in> line_key ` set ls then line_qty ls k else row_qty ?rows (q, k))"
      using U [THEN conjunct1, THEN spec, of "(q, k)"] by (simp only: fst_conv snd_conv)
    moreover have "(q, k) \<in> ?P \<longleftrightarrow> q = pid \<and> k \<in> line_key ` set ls" by auto
    moreover have "(q, k) \<in> set existing \<longleftrightarrow> q = pid \<and> (q, k) \<in> record_key ` set ?rows" using ex by auto
    ultimately show ?thesis
      using line_qty_absent [of k ls] row_qty_absent [of "(q, k)" ?rows] by presburger
  qed
  then show "row_qty R (q, k) = (if q = pid then line_qty ls k else row_qty ?rows (q, k))" .
  show dR: "distinct (map record_key R)"
    unfolding assms(5) using U dist by (simp add: distinct_map_filter)
  show "\<forall>r \<in> set R. 0 \<le> pi_item_qty r"
  proof
    fix r
    assume r: "r \<in> set R"
    obtain q k where qk: "record_key r = (q, k)" by (cases "record_key r")
    have "0 \<le> row_qty R (q, k)"
      unfolding rq using line_qty_nonneg [OF assms(3)] row_qty_nonneg [of ?rows] dist by simp
    then show "0 \<le> pi_item_qty r" using row_qty_in [OF dR r] qk by simp
  qed
  let ?F = "fold (upsert_line e pid existing) ls ?rows"
  have "record_key ` set R \<subseteq> record_key ` set ?F" by (rule image_mono) (auto simp: assms(5))
  also have "\<dots> = record_key ` set ?rows \<union> Pair pid ` line_key ` set ls"
    by (rule U [THEN conjunct2, THEN conjunct1])
  finally have "fst ` record_key ` set R \<subseteq> fst ` (record_key ` set ?rows \<union> Pair pid ` line_key ` set ls)"
    by (rule image_mono)
  also have "\<dots> \<subseteq> fst ` record_key ` set ?rows \<union> {pid}" by (simp only: image_Un) (auto simp: image_image)
  finally show "fst ` record_key ` set R \<subseteq> fst ` record_key ` set ?rows \<union> {pid}" .
qed

lemma process_allocations_spec:
  assumes run: "process_allocations e f vc r s = Inr (news, old, s')"
    and ok: "pkg_items_ok s" "pkgs_ok s" "form_ok f"
  shows "\<exists>p. processed s (rq_reliefrqst_id r) p news old s'"
proof -
  let ?rid = "rq_reliefrqst_id r"
  obtain p s0 where gc: "get_or_create_pkg e r s = (p, s0)" by (cases "get_or_create_pkg e r s")
  let ?pid = "pk_reliefpkg_id p"
  let ?rows = "pkg_items_of s0 ?pid"
  note G = get_or_create_spec [OF gc ok(2)]
  have items: "t_reliefpkg_item s0 = t_reliefpkg_item s" "t_reliefrqst_item s0 = t_reliefrqst_item s"
      "t_itembatch s0 = t_itembatch s" "t_inventory s0 = t_inventory s" "t_user s0 = t_user s"
      "t_role s0 = t_role s" "t_notification s0 = t_notification s"
    using G by auto
  obtain s1 pr where loop: "fold_result (process_item e f vc ?pid ?rows) (rqst_items_of s0 ?rid) (s0, [], [])
        = Inr (s1, news, pr)"
    and old: "old = existing_allocations_map ?rows" and s': "s' = delete_orphans (map record_key ?rows) pr s1"
    using run gc by (auto simp: process_allocations_def Let_def split: sum.splits)
  from process_items_spec [OF loop] obtain ls where
    ls: "news = alloc_reqs ls" "pr = map (\<lambda>l. (?pid, line_key l)) ls"
      "t_reliefpkg_item s1 = fold (upsert_line e ?pid (map record_key ?rows)) ls (t_reliefpkg_item s0)"
      "pkg_frame s0 s1" "map line_row ls = concat (map (\<lambda>i. form_rows f (ri_item_id i)) (rqst_items_of s0 ?rid))"
    by auto
  have d0: "distinct (map rqst_item_key (t_reliefrqst_item s0))"
    using ok(2) by (simp add: pkgs_ok_def items)
  note L = lines_ok [OF ok(3) distinct_rqst_items [OF d0] ls(5)]
  have ok0: "pkg_items_ok s0" using ok(1) by (simp add: pkg_items_ok_def items)
  have R: "t_reliefpkg_item s' = filter (\<lambda>r. \<not> (record_key r \<in> set (map record_key ?rows)
        \<and> record_key r \<notin> set (map (\<lambda>l. (?pid, line_key l)) ls)))
      (fold (upsert_line e ?pid (map record_key ?rows)) ls (t_reliefpkg_item s0))"
    unfolding s' delete_orphans_def ls(2,3) by simp
  note P = processed_rows [OF ok0 L refl R]
  have fr: "t_reliefpkg s' = t_reliefpkg s0" "seq_reliefpkg s' = seq_reliefpkg s0" "t_itembatch s' = t_itembatch s0"
      "t_inventory s' = t_inventory s0" "t_reliefrqst_item s' = t_reliefrqst_item s1"
      "t_user s' = t_user s0" "t_role s' = t_role s0" "t_notification s' = t_notification s0"
    unfolding s' by (simp_all add: delete_orphans_def pkg_frame_tables [OF ls(4)])
  have "fst ` record_key ` set (t_reliefpkg_item s0) \<union> {?pid} \<subseteq> {..<seq_reliefpkg s0}"
    using G by (auto simp: pkgs_ok_def record_key_def)
  then have "fst ` record_key ` set (t_reliefpkg_item s') \<subseteq> {..<seq_reliefpkg s'}"
    using P(4) unfolding fr(2) by (rule order_trans [rotated])
  then have pids: "\<forall>x \<in> set (t_reliefpkg_item s'). pi_reliefpkg_id x < seq_reliefpkg s'"
    by (auto simp: image_subset_iff record_key_def)
  have "pkgs_ok s'"
    using G pids d0 process_items_keys [OF loop] unfolding pkgs_ok_def fr by simp
  moreover have "pkg_items_ok s'" unfolding pkg_items_ok_alt using P(2,3) by simp
  moreover have "first_pkg s' ?rid = Some p" using G first_pkg_cong [OF fr(1)] by simp
  ultimately have "processed s ?rid p news old s'"
    unfolding processed_def using G P(1) fr items existing_map_get [OF ok0] new_map_get [OF L] old ls(1)
    by (auto simp: new_pkg_def)
  then show ?thesis by blast
qed

section \<open>The ledger\<close>

definition pending_qty :: "db \<Rightarrow> bkey \<Rightarrow> qty" where
  "pending_qty s k = sum_list (map (\<lambda>p. if pk_status_code p = PKG_STATUS_PENDING
     then row_qty (t_reliefpkg_item s) (pk_reliefpkg_id p, k) else 0) (t_reliefpkg s))"

definition ledger_ok :: "db \<Rightarrow> bool" where
  "ledger_ok s \<longleftrightarrow> (\<forall>b \<in> set (t_itembatch s). bt_reserved_qty b = pending_qty s (batch_key b))"

definition books_ok :: "db \<Rightarrow> bool" where
  "books_ok s \<longleftrightarrow> stock_ok s \<and> warehouse_synced s \<and> pkg_items_ok s \<and> pkgs_ok s \<and> ledger_ok s"

definition pkg_head :: "reliefpkg \<Rightarrow> int \<times> int \<times> string" where
  "pkg_head p = (pk_reliefpkg_id p, pk_reliefrqst_id p, pk_status_code p)"

lemma pending_qty_cong:
  assumes "map pkg_head (t_reliefpkg s') = map pkg_head (t_reliefpkg s)"
    and "t_reliefpkg_item s' = t_reliefpkg_item s"
  shows "pending_qty s' k = pending_qty s k"
proof -
  have heads: "pending_qty t k = sum_list (map (\<lambda>h. if snd (snd h) = PKG_STATUS_PENDING
     then row_qty (t_reliefpkg_item t) (fst h, k) else 0) (map pkg_head (t_reliefpkg t)))" for t
    by (simp add: pending_qty_def pkg_head_def comp_def cong: if_cong)
  show ?thesis unfolding heads assms ..
qed

lemma sum_list_one_changed:
  fixes g g' :: "'a \<Rightarrow> qty"
  assumes "distinct (map K ps)" and "p \<in> set ps" and "\<And>q. q \<in> set ps \<Longrightarrow> K q \<noteq> K p \<Longrightarrow> g' q = g q"
  shows "sum_list (map g' ps) = sum_list (map g ps) - g p + g' p"
  using assms
proof (induction ps)
  case (Cons q ps)
  show ?case
  proof (cases "K q = K p")
    case True
    with Cons.prems(1,2) have "q = p" by (auto simp: image_iff)
    moreover have "sum_list (map g' ps) = sum_list (map g ps)"
      using Cons.prems(1,3) \<open>q = p\<close> by (intro arg_cong [where f = sum_list] map_cong) (auto simp: image_iff)
    ultimately show ?thesis by simp
  next
    case False
    then have "p \<in> set ps" using Cons.prems(2) by auto
    with Cons False show ?thesis by simp
  qed
qed simp

lemma row_qty_unnumbered: "pkgs_ok s \<Longrightarrow> seq_reliefpkg s \<le> pid \<Longrightarrow> row_qty (t_reliefpkg_item s) (pid, k) = 0"
  by (rule row_qty_absent) (auto simp: pkgs_ok_def record_key_def)

lemma processed_pending:
  assumes "processed s rid p news old s'" and "pkgs_ok s"
  shows "pending_qty s' k = pending_qty s k
     + (if pk_status_code p = ''P'' then dict_get (new_batch_reservations news) k 0 - dict_get old k 0 else 0)"
proof -
  let ?g = "\<lambda>t p. if pk_status_code p = ''P'' then row_qty (t_reliefpkg_item t) (pk_reliefpkg_id p, k) else 0"
  note old = processedD(2) [OF assms(1), of k] and new = processedD(3) [OF assms(1), of k]
  have other: "\<And>q. pk_reliefpkg_id q \<noteq> pk_reliefpkg_id p \<Longrightarrow> ?g s' q = ?g s q"
    using processedD(4) [OF assms(1)] by simp
  consider (found) "first_pkg s rid = Some p" "t_reliefpkg s' = t_reliefpkg s"
    | (created) "t_reliefpkg s' = t_reliefpkg s @ [p]" "pk_status_code p = ''P''" "pk_reliefpkg_id p = seq_reliefpkg s"
    using assms(1) unfolding processed_def by blast
  then show ?thesis
  proof cases
    case found
    then have "p \<in> set (t_reliefpkg s)" unfolding first_pkg_def by (meson find_Some_set)
    with assms(2) have "sum_list (map (?g s') (t_reliefpkg s)) = sum_list (map (?g s) (t_reliefpkg s)) - ?g s p + ?g s' p"
      by (intro sum_list_one_changed [where K = pk_reliefpkg_id] other) (auto simp: pkgs_ok_def)
    with found show ?thesis by (simp add: pending_qty_def old new)
  next
    case created
    have "sum_list (map (?g s') (t_reliefpkg s)) = sum_list (map (?g s) (t_reliefpkg s))"
      using assms(2) created(3)
      by (intro arg_cong [where f = sum_list] map_cong refl other) (auto simp: pkgs_ok_def)
    then show ?thesis
      using created old new row_qty_unnumbered [OF assms(2), of "pk_reliefpkg_id p" k]
      by (simp add: pending_qty_def)
  qed
qed

lemma pending_qty_ge:
  assumes "pkg_items_ok s" and "p \<in> set (t_reliefpkg s)" and "pk_status_code p = ''P''"
  shows "row_qty (t_reliefpkg_item s) (pk_reliefpkg_id p, k) \<le> pending_qty s k"
proof -
  let ?g = "\<lambda>p. if pk_status_code p = ''P'' then row_qty (t_reliefpkg_item s) (pk_reliefpkg_id p, k) else 0"
  have "?g p \<in> set (map ?g (t_reliefpkg s))" using assms(2) by (auto intro: rev_image_eqI)
  then have "?g p \<le> sum_list (map ?g (t_reliefpkg s))"
    by (rule member_le_sum_list) (auto simp: row_qty_ok [OF assms(1)])
  then show ?thesis using assms(3) by (simp add: pending_qty_def)
qed

section \<open>Steps that do not touch the books\<close>

definition book_eq :: "db \<Rightarrow> db \<Rightarrow> bool" where
  "book_eq s t \<longleftrightarrow> t_itembatch t = t_itembatch s \<and> t_inventory t = t_inventory s
     \<and> t_reliefpkg_item t = t_reliefpkg_item s \<and> map pkg_head (t_reliefpkg t) = map pkg_head (t_reliefpkg s)
     \<and> seq_reliefpkg t = seq_reliefpkg s
     \<and> map rqst_item_key (t_reliefrqst_item t) = map rqst_item_key (t_reliefrqst_item s)"

lemma book_eq_refl [simp]: "book_eq s s"
  by (simp add: book_eq_def)

lemma book_eq_trans: "book_eq s t \<Longrightarrow> book_eq t u \<Longrightarrow> book_eq s u"
  by (simp add: book_eq_def)

lemma pkg_ids_of_heads:
  assumes "map pkg_head ps = map pkg_head qs"
  shows "map pk_reliefpkg_id ps = map pk_reliefpkg_id qs"
proof -
  have ids: "map pk_reliefpkg_id xs = map fst (map pkg_head xs)" for xs by (simp add: pkg_head_def)
  show ?thesis unfolding ids assms ..
qed

lemma pkgs_ok_alt:
  "pkgs_ok s \<longleftrightarrow> distinct (map pk_reliefpkg_id (t_reliefpkg s))
     \<and> (\<forall>i \<in> set (map pk_reliefpkg_id (t_reliefpkg s)). i < seq_reliefpkg s)
     \<and> (\<forall>r \<in> set (t_reliefpkg_item s). pi_reliefpkg_id r < seq_reliefpkg s)
     \<and> distinct (map rqst_item_key (t_reliefrqst_item s))"
  by (simp add: pkgs_ok_def)

lemma book_eq_keeps:
  assumes "book_eq s t"
  shows "stock_ok t = stock_ok s" "warehouse_synced t = warehouse_synced s"
    "pkg_items_ok t = pkg_items_ok s" "pkgs_ok t = pkgs_ok s" "pending_qty t k = pending_qty s k"
    "ledger_ok t = ledger_ok s" "books_ok t = books_ok s"
proof -
  have eq: "t_itembatch t = t_itembatch s" "t_inventory t = t_inventory s" "t_reliefpkg_item t = t_reliefpkg_item s"
      "map pkg_head (t_reliefpkg t) = map pkg_head (t_reliefpkg s)" "seq_reliefpkg t = seq_reliefpkg s"
      "map rqst_item_key (t_reliefrqst_item t) = map rqst_item_key (t_reliefrqst_item s)"
    using assms by (simp_all add: book_eq_def)
  show 1: "stock_ok t = stock_ok s" and 2: "warehouse_synced t = warehouse_synced s" and 3: "pkg_items_ok t = pkg_items_ok s"
    by (simp_all add: stock_ok_def warehouse_synced_def pkg_items_ok_def eq)
  show 4: "pkgs_ok t = pkgs_ok s" unfolding pkgs_ok_alt eq pkg_ids_of_heads [OF eq(4)] ..
  have pend: "pending_qty t k = pending_qty s k" for k by (rule pending_qty_cong [OF eq(4,3)])
  then show "pending_qty t k = pending_qty s k" .
  show 5: "ledger_ok t = ledger_ok s" by (simp add: ledger_ok_def eq pend)
  show "books_ok t = books_ok s" by (simp add: books_ok_def 1 2 3 4 5)
qed

lemma book_eq_set_rqst: "book_eq s (set_rqst rid f s)"
  by (simp add: book_eq_def set_rqst_def)

lemma book_eq_notify: "book_eq s (notify_each now ty url rid us s)"
  by (simp add: book_eq_def)

lemma book_eq_set_issue: "book_eq s (set_issue_qtys news rid s)"
  unfolding book_eq_def set_issue_qtys_def
  by (simp, rule map_upd_where_same) (simp add: rqst_item_key_def)

lemma book_eq_set_pkg:
  assumes "\<And>p. p \<in> set (t_reliefpkg s) \<Longrightarrow> pk_reliefpkg_id p = pid \<Longrightarrow> pkg_head (f p) = pkg_head p"
  shows "book_eq s (set_pkg pid f s)"
proof -
  have "map pkg_head (upd_where (\<lambda>p. pk_reliefpkg_id p = pid) (\<lambda>p. orm_pkg p (f p)) (t_reliefpkg s))
      = map pkg_head (t_reliefpkg s)"
    using assms by (auto simp: upd_where_def pkg_head_def)
  then show ?thesis by (simp add: book_eq_def set_pkg_def)
qed

lemma pkg_unique:
  "pkgs_ok s \<Longrightarrow> p \<in> set (t_reliefpkg s) \<Longrightarrow> q \<in> set (t_reliefpkg s) \<Longrightarrow>
     pk_reliefpkg_id q = pk_reliefpkg_id p \<Longrightarrow> q = p"
  by (auto simp: pkgs_ok_def distinct_map inj_on_def)

lemma first_pkg_in: "first_pkg s rid = Some p \<Longrightarrow> p \<in> set (t_reliefpkg s) \<and> pk_reliefrqst_id p = rid"
  unfolding first_pkg_def by (meson find_Some_set)

text \<open>The head of the package with number \<open>pid\<close> does not change when its status stays.\<close>

lemma book_eq_set_first:
  assumes "pkgs_ok s" and "first_pkg s rid = Some p" and "pkg_head (f p) = pkg_head p"
  shows "book_eq s (set_pkg (pk_reliefpkg_id p) f s)"
proof (rule book_eq_set_pkg)
  fix q
  assume "q \<in> set (t_reliefpkg s)" and "pk_reliefpkg_id q = pk_reliefpkg_id p"
  then have "q = p" using pkg_unique [OF assms(1)] first_pkg_in [OF assms(2)] by blast
  then show "pkg_head (f q) = pkg_head q" using assms(3) by simp
qed

section \<open>Reserving and committing for a processed form\<close>

lemma pending_qty_nonneg:
  assumes "pkg_items_ok s"
  shows "0 \<le> pending_qty s k"
  unfolding pending_qty_def by (intro sum_list_nonneg) (auto simp: row_qty_ok [OF assms])

lemma reserve_books:
  assumes "books_ok s" and pr: "processed s rid p news old s1" and "pk_status_code p = ''P''"
    and "book_eq s1 s2" and run: "reserve_inventory s2 rid news (Some old) = Inr s3"
  shows "books_ok s3"
proof -
  let ?new = "new_batch_reservations news"
  have "stock_ok s1" "warehouse_synced s1"
    using assms(1) processedD(7,8) [OF pr] by (simp_all add: books_ok_def stock_ok_def warehouse_synced_def)
  then have ok2: "stock_ok s2" "warehouse_synced s2" by (simp_all add: book_eq_keeps [OF assms(4)])
  from reserve_inventory_Inr [OF ok2(1) run refl]
  have adm: "reserve_admissible old ?new s2" and s3: "s3 = reserved_state old ?new s2" by simp_all
  have rows: "t_reliefpkg_item s3 = t_reliefpkg_item s1" "map pkg_head (t_reliefpkg s3) = map pkg_head (t_reliefpkg s1)"
      "seq_reliefpkg s3 = seq_reliefpkg s1" "map rqst_item_key (t_reliefrqst_item s3) = map rqst_item_key (t_reliefrqst_item s1)"
    using assms(4) by (simp_all add: s3 reserved_state_def Let_def book_eq_def)
  have pok: "pkg_items_ok s3" "pkgs_ok s3"
    using processedD(5,6) [OF pr] unfolding pkg_items_ok_def pkgs_ok_alt rows pkg_ids_of_heads [OF rows(2)]
    by simp_all
  have pend: "pending_qty s3 k = pending_qty s k + batch_delta old ?new k" for k
    unfolding pending_qty_cong [OF rows(2,1)] using processed_pending [OF pr] assms(1,3)
    by (simp add: books_ok_def batch_delta_def)
  have "ledger_ok s3" unfolding ledger_ok_def
  proof
    fix c
    assume "c \<in> set (t_itembatch s3)"
    then obtain b where b: "b \<in> set (t_itembatch s)" and c: "c = reserve_effect old ?new b"
      using processedD(7) [OF pr] assms(4) by (auto simp: s3 reserved_state_def Let_def book_eq_def)
    then have "bt_reserved_qty b = pending_qty s (batch_key b)"
      using assms(1) by (simp add: books_ok_def ledger_ok_def)
    then show "bt_reserved_qty c = pending_qty s3 (batch_key c)"
      using pend [of "batch_key b"] pending_qty_nonneg [OF pok(1), of "batch_key b"] by (simp add: c)
  qed
  then show ?thesis
    using reserved_state_inv [OF ok2(1) adm] ok2(2) pok by (simp add: books_ok_def s3)
qed

section \<open>The handlers that keep a package pending\<close>

definition undispatched :: "db \<Rightarrow> int \<Rightarrow> bool" where
  "undispatched s rid = (case first_pkg s rid of None \<Rightarrow> True | Some p \<Rightarrow> pk_status_code p = PKG_STATUS_PENDING)"

lemma processed_undispatched:
  "processed s rid p news old s' \<Longrightarrow> undispatched s rid \<Longrightarrow> pk_status_code p = ''P''"
  unfolding processed_def undispatched_def by auto

lemma save_draft_completed:
  assumes "save_draft e f r s = (Completed, s')"
  obtains news old s1 where "process_allocations e f False r s = Inr (news, old, s1)"
    and "\<And>p. first_pkg s1 (rq_reliefrqst_id r) = Some p \<Longrightarrow> reserve_inventory (set_rqst (rq_reliefrqst_id r) (part_filled e)
      (set_pkg (pk_reliefpkg_id p) clear_verification s1)) (rq_reliefrqst_id r) news (Some old) = Inr s'"
  using assms unfolding save_draft_def Let_def
  by (auto split: sum.splits option.splits prod.splits)

lemma save_draft_books:
  assumes "books_ok s" and "form_ok f" and "undispatched s (rq_reliefrqst_id r)"
    and "save_draft e f r s = (Completed, s')"
  shows "books_ok s'"
proof -
  let ?rid = "rq_reliefrqst_id r"
  from save_draft_completed [OF assms(4)] obtain news old s1 where
    run: "process_allocations e f False r s = Inr (news, old, s1)"
    and res: "\<And>p. first_pkg s1 ?rid = Some p \<Longrightarrow> reserve_inventory (set_rqst ?rid (part_filled e)
      (set_pkg (pk_reliefpkg_id p) clear_verification s1)) ?rid news (Some old) = Inr s'" by blast
  from process_allocations_spec [OF run] assms(1,2) obtain p where pr: "processed s ?rid p news old s1"
    by (auto simp: books_ok_def)
  note first = processedD(1) [OF pr]
  have "book_eq s1 (set_pkg (pk_reliefpkg_id p) clear_verification s1)"
    by (rule book_eq_set_first [OF processedD(6) [OF pr] first]) (simp add: clear_verification_def pkg_head_def)
  from book_eq_trans [OF this book_eq_set_rqst] res [OF first]
  show ?thesis by (rule reserve_books [OF assms(1) pr processed_undispatched [OF pr assms(3)]])
qed

lemma book_eq_notify_lm: "book_eq s (notify_lm e p s)"
  by (simp add: notify_lm_def Let_def create_package_ready_for_approval_notification_def book_eq_notify)

lemma submit_for_approval_completed:
  assumes "submit_for_approval e f r s = (Completed, s')"
  obtains news old s1 p s2 where "process_allocations e f False r s = Inr (news, old, s1)"
    and "first_pkg s1 (rq_reliefrqst_id r) = Some p"
    and "reserve_inventory (set_rqst (rq_reliefrqst_id r) (part_filled e)
      (set_pkg (pk_reliefpkg_id p) (submitted_to_lm e) s1)) (rq_reliefrqst_id r) news (Some old) = Inr s2"
    and "s' = s2 \<or> s' = notify_lm e p s2"
  using assms unfolding submit_for_approval_def Let_def
  by (auto simp: catch_value_error_def split: sum.splits option.splits prod.splits if_splits)

lemma submit_for_approval_books:
  assumes "books_ok s" and "form_ok f" and "undispatched s (rq_reliefrqst_id r)"
    and "submit_for_approval e f r s = (Completed, s')"
  shows "books_ok s'"
proof -
  let ?rid = "rq_reliefrqst_id r"
  from submit_for_approval_completed [OF assms(4)] obtain news old s1 q s2 where
    run: "process_allocations e f False r s = Inr (news, old, s1)" and q: "first_pkg s1 ?rid = Some q"
    and res: "reserve_inventory (set_rqst ?rid (part_filled e)
      (set_pkg (pk_reliefpkg_id q) (submitted_to_lm e) s1)) ?rid news (Some old) = Inr s2"
    and s': "s' = s2 \<or> s' = notify_lm e q s2" .
  from process_allocations_spec [OF run] assms(1,2) obtain p where pr: "processed s ?rid p news old s1"
    by (auto simp: books_ok_def)
  have st: "pk_status_code p = ''P''" by (rule processed_undispatched [OF pr assms(3)])
  have qp: "q = p" using q processedD(1) [OF pr] by simp
  have "book_eq s1 (set_pkg (pk_reliefpkg_id p) (submitted_to_lm e) s1)"
    by (rule book_eq_set_first [OF processedD(6) [OF pr] processedD(1) [OF pr]])
      (simp add: submitted_to_lm_def pkg_head_def st)
  from book_eq_trans [OF this book_eq_set_rqst] res [unfolded qp]
  have "books_ok s2" by (rule reserve_books [OF assms(1) pr st])
  with s' show ?thesis using book_eq_keeps(7) [OF book_eq_notify_lm] by auto
qed

lemma save_draft_approval_completed:
  assumes "save_draft_approval e f r p s = (Completed, s')"
  obtains news old s1 where "process_allocations e f False r s = Inr (news, old, s1)"
    and "reserve_inventory (set_pkg (pk_reliefpkg_id p) (drafted_by_lm e) s1) (rq_reliefrqst_id r) news (Some old) = Inr s'"
  using assms unfolding save_draft_approval_def Let_def
  by (auto split: sum.splits option.splits prod.splits)

lemma save_draft_approval_books:
  assumes "books_ok s" and "form_ok f" and "first_pkg s (rq_reliefrqst_id r) = Some p"
    and "pk_status_code p = ''P''" and "save_draft_approval e f r p s = (Completed, s')"
  shows "books_ok s'"
proof -
  let ?rid = "rq_reliefrqst_id r"
  from save_draft_approval_completed [OF assms(5)] obtain news old s1 where
    run: "process_allocations e f False r s = Inr (news, old, s1)"
    and res: "reserve_inventory (set_pkg (pk_reliefpkg_id p) (drafted_by_lm e) s1) ?rid news (Some old) = Inr s'" .
  from process_allocations_spec [OF run] assms(1,2) obtain q where pr: "processed s ?rid q news old s1"
    by (auto simp: books_ok_def)
  then have qp: "q = p" using assms(3) unfolding processed_def by auto
  have "book_eq s1 (set_pkg (pk_reliefpkg_id p) (drafted_by_lm e) s1)"
    by (rule book_eq_set_first [OF processedD(6) [OF pr] processedD(1) [OF pr [unfolded qp]]])
      (simp add: drafted_by_lm_def pkg_head_def assms(4))
  from reserve_books [OF assms(1) pr [unfolded qp] assms(4) this res] show ?thesis .
qed

section \<open>Dispatching\<close>

lemma set_pkg_tables [simp, frame_simps]:
  "t_itembatch (set_pkg pid f s) = t_itembatch s" "t_inventory (set_pkg pid f s) = t_inventory s"
  "t_reliefpkg_item (set_pkg pid f s) = t_reliefpkg_item s" "t_reliefrqst_item (set_pkg pid f s) = t_reliefrqst_item s"
  "seq_reliefpkg (set_pkg pid f s) = seq_reliefpkg s"
  by (simp_all add: set_pkg_def)

text \<open>\<open>dispatches f\<close>: the update keeps a package's number and request and sets its status to D.\<close>

definition dispatches :: "(reliefpkg \<Rightarrow> reliefpkg) \<Rightarrow> bool" where
  "dispatches f \<longleftrightarrow> (\<forall>p. pkg_head (f p) = (pk_reliefpkg_id p, pk_reliefrqst_id p, PKG_STATUS_DISPATCHED))"

lemma dispatches_sel:
  assumes "dispatches f"
  shows "pk_reliefpkg_id (f p) = pk_reliefpkg_id p" "pk_reliefrqst_id (f p) = pk_reliefrqst_id p"
    "pk_status_code (f p) = ''D''"
  using assms by (simp_all add: dispatches_def pkg_head_def)

lemma dispatches_dispatched:
  "dispatches (dispatched e)" "dispatches (\<lambda>q. (dispatched e q)\<lparr>pk_version_nbr := pk_version_nbr q + 1\<rparr>)"
  by (simp_all add: dispatches_def dispatched_def pkg_head_def)

lemma set_pkg_ids:
  "dispatches f \<Longrightarrow> map pk_reliefpkg_id (t_reliefpkg (set_pkg pid f s)) = map pk_reliefpkg_id (t_reliefpkg s)"
  unfolding set_pkg_def by (simp, rule map_upd_where_same) (simp add: dispatches_sel)

lemma first_pkg_dispatched:
  assumes "dispatches f" and "first_pkg s rid = Some p"
  shows "first_pkg (set_pkg (pk_reliefpkg_id p) f s) rid = Some (orm_pkg p (f p))"
proof -
  have "find (\<lambda>p. pk_reliefrqst_id p = rid) (upd_where (\<lambda>q. pk_reliefpkg_id q = i) (\<lambda>q. orm_pkg q (f q)) ps)
      = map_option (\<lambda>q. if pk_reliefpkg_id q = i then orm_pkg q (f q) else q) (find (\<lambda>p. pk_reliefrqst_id p = rid) ps)"
    for i ps by (induction ps) (auto simp: dispatches_sel [OF assms(1)])
  then show ?thesis using assms(2) by (simp add: first_pkg_def set_pkg_def)
qed

lemma pending_dispatched:
  assumes "dispatches f" and "pkgs_ok s" and "p \<in> set (t_reliefpkg s)"
  shows "pending_qty (set_pkg (pk_reliefpkg_id p) f s) k = pending_qty s k
     - (if pk_status_code p = ''P'' then row_qty (t_reliefpkg_item s) (pk_reliefpkg_id p, k) else 0)"
proof -
  let ?g = "\<lambda>q. if pk_status_code q = ''P'' then row_qty (t_reliefpkg_item s) (pk_reliefpkg_id q, k) else 0"
  let ?h = "\<lambda>q. if pk_reliefpkg_id q = pk_reliefpkg_id p then 0 else ?g q"
  let ?u = "\<lambda>q. if pk_reliefpkg_id q = pk_reliefpkg_id p then orm_pkg q (f q) else q"
  have ps: "t_reliefpkg (set_pkg (pk_reliefpkg_id p) f s) = map ?u (t_reliefpkg s)"
    by (simp add: set_pkg_def upd_where_def)
  have "pending_qty (set_pkg (pk_reliefpkg_id p) f s) k = sum_list (map ?g (map ?u (t_reliefpkg s)))"
    unfolding pending_qty_def ps set_pkg_tables by simp
  also have "\<dots> = sum_list (map ?h (t_reliefpkg s))"
    unfolding map_map by (intro arg_cong [where f = sum_list] map_cong refl) (simp add: dispatches_sel [OF assms(1)])
  also have "\<dots> = sum_list (map ?g (t_reliefpkg s)) - ?g p + ?h p"
    using assms(2,3) by (intro sum_list_one_changed [where K = pk_reliefpkg_id]) (auto simp: pkgs_ok_def)
  finally show ?thesis by (simp add: pending_qty_def)
qed

lemma commit_inventory_Inr:
  assumes "stock_ok s" and "pkg_items_ok s" and "first_pkg s rid = Some p" and "commit_inventory s rid = Inr s'"
  shows "s' = committed_state (batch_reservations_of (pkg_items_of s (pk_reliefpkg_id p))) s
     \<and> commit_admissible (pkg_items_of s (pk_reliefpkg_id p)) s"
  using commit_spec [OF assms(1-3) refl] assms(4) by (simp split: if_splits)

text \<open>
  Dispatching the request's first package \<open>p\<close> from a well-formed state: the stock invariants
  survive, each batch loses the package's quantity from its usable and, down to zero, from its
  reserved stock, and the package no longer counts as pending.
\<close>

lemma dispatch_effect:
  assumes ok: "stock_ok s" "warehouse_synced s" "pkg_items_ok s" "pkgs_ok s"
    and first: "first_pkg s rid = Some p" and f: "dispatches f"
    and run: "commit_inventory (set_pkg (pk_reliefpkg_id p) f s) rid = Inr s'"
  shows "stock_ok s'" "warehouse_synced s'" "pkg_items_ok s'" "pkgs_ok s'"
    and "t_reliefpkg_item s' = t_reliefpkg_item s"
    and "\<exists>held. t_itembatch s' = map (commit_effect held) (t_itembatch s)
       \<and> (\<forall>k. dict_get held k 0 = row_qty (t_reliefpkg_item s) (pk_reliefpkg_id p, k))"
    and "pending_qty s' k = pending_qty s k
       - (if pk_status_code p = ''P'' then row_qty (t_reliefpkg_item s) (pk_reliefpkg_id p, k) else 0)"
proof -
  let ?t = "set_pkg (pk_reliefpkg_id p) f s"
  let ?rows = "pkg_items_of s (pk_reliefpkg_id p)"
  let ?held = "batch_reservations_of ?rows"
  have rows: "pkg_items_of ?t i = pkg_items_of s i" for i by (simp add: pkg_items_of_def)
  have ok': "stock_ok ?t" "warehouse_synced ?t" "pkg_items_ok ?t"
    using ok(1-3) by (simp_all add: stock_ok_def warehouse_synced_def pkg_items_ok_def)
  have "pk_reliefpkg_id (orm_pkg p (f p)) = pk_reliefpkg_id p" by (simp add: dispatches_sel [OF f])
  with commit_inventory_Inr [OF ok'(1,3) first_pkg_dispatched [OF f first] run]
  have s': "s' = committed_state ?held ?t" and adm: "commit_admissible ?rows ?t" by (simp_all add: rows)
  show "stock_ok s'" "warehouse_synced s'"
    using committed_state_inv [OF ok'(1) pkg_items_ok_rows(1) [OF ok(3)] adm refl] ok'(2) by (simp_all add: s')
  show "t_reliefpkg_item s' = t_reliefpkg_item s" by (simp add: s' committed_state_def Let_def)
  then show "pkg_items_ok s'" using ok(3) by (simp add: pkg_items_ok_def)
  show "pkgs_ok s'" using ok(4) set_pkg_ids [OF f]
    unfolding s' pkgs_ok_alt by (simp add: committed_state_def Let_def)
  show "\<exists>held. t_itembatch s' = map (commit_effect held) (t_itembatch s)
       \<and> (\<forall>k. dict_get held k 0 = row_qty (t_reliefpkg_item s) (pk_reliefpkg_id p, k))"
    using held_get [OF ok(3)] by (intro exI [of _ ?held]) (auto simp: s' committed_state_def Let_def)
  have "pending_qty s' k = pending_qty ?t k"
    by (rule pending_qty_cong) (simp_all add: s' committed_state_def Let_def)
  then show "pending_qty s' k = pending_qty s k
       - (if pk_status_code p = ''P'' then row_qty (t_reliefpkg_item s) (pk_reliefpkg_id p, k) else 0)"
    using pending_dispatched [OF f ok(4)] first_pkg_in [OF first] by simp
qed

end
