(* ===== verification/Donations.thy ===== *)
theory Donations
  imports Rbac Forms
begin

text \<open>
  \<^verbatim>\<open>app/features/donations.py\<close>: accepting a donation with its items, editing and deleting the
  header, and adding, editing and deleting items. Foreign and primary keys are checked when the
  session is flushed (\<open>IntegrityError\<close>). The handlers of a new donation catch every exception; the
  other handlers catch \<open>IntegrityError\<close> and stale rows only, so that a text that \<^verbatim>\<open>int\<close>,
  \<^verbatim>\<open>Decimal\<close> or \<^verbatim>\<open>strptime\<close> refuses reaches the server.
\<close>

section \<open>Forms and errors\<close>

record donation_header =
  df_donor_id :: vfield
  df_event_id :: vfield
  df_custodian_id :: vfield
  df_donation_desc :: string
  df_received_date :: dfield
  df_comments_text :: string

record donation_line =
  dl_item_num :: string
  dl_item_id :: vfield
  dl_quantity :: qfield
  dl_uom_id :: "string option"
  dl_item_comments :: string

record donation_form = donation_header +
  df_items :: "donation_line list"

record donation_edit_form = donation_header +
  df_version_nbr :: vfield
  df_status_code :: "string option"

record donation_item_form =
  dg_item_id :: vfield
  dg_version_nbr :: vfield
  dg_item_qty :: qfield
  dg_uom_code :: "string option"
  dg_location_name :: string
  dg_status_code :: "string option"
  dg_comments_text :: string

datatype dn_error =
    DonorRequired
  | EventRequired
  | CustodianRequired
  | DescriptionRequired
  | ReceivedDateRequired
  | ReceivedInFuture
  | StatusInvalid
  | LineQuantityRequired string
  | LineQuantityNotPositive string
  | LineQuantityInvalid string
  | LineUomRequired string
  | LineItemInvalid string
  | NoDonationItem
  | ItemRequired
  | QuantityRequired
  | QuantityNotPositive
  | UomRequired
  | LocationRequired
  | ItemTwice

definition required_errors :: "'a donation_header_scheme \<Rightarrow> dn_error list" where
  "required_errors f =
     (if given (df_donor_id f) then [] else [DonorRequired])
     @ (if given (df_event_id f) then [] else [EventRequired])
     @ (if given (df_custodian_id f) then [] else [CustodianRequired])
     @ (if py_strip (df_donation_desc f) = [] then [DescriptionRequired] else [])
     @ (if df_received_date f = NoDate then [ReceivedDateRequired] else [])"

definition future_errors :: "date \<Rightarrow> 'a donation_header_scheme \<Rightarrow> dn_error list" where
  "future_errors today f =
     (case df_received_date f of Day d \<Rightarrow> if d > today then [ReceivedInFuture] else [] | _ \<Rightarrow> [])"

definition line_errors :: "donation_line \<Rightarrow> dn_error list" where
  "line_errors l =
     (let n = dl_item_num l in
      if \<not> given (dl_item_id l) then []
      else (case dl_quantity l of
              NoQty \<Rightarrow> [LineQuantityRequired n]
            | BadQty \<Rightarrow> [LineQuantityInvalid n]
            | Qty q \<Rightarrow> if q \<le> 0 then [LineQuantityNotPositive n] else [])
        @ (if truthy_str (dl_uom_id l) then [] else [LineUomRequired n])
        @ (case dl_item_id l of Number i \<Rightarrow> [] | _ \<Rightarrow> [LineItemInvalid n]))"

text \<open>The entries of \<^verbatim>\<open>item_data\<close>: item, quantity, unit and comments of the lines with a numeric item.\<close>

fun line_data :: "donation_line \<Rightarrow> (int \<times> qty \<times> string \<times> string) list" where
  "line_data l =
     (case (dl_item_id l, dl_quantity l, dl_uom_id l) of
        (Number i, Qty q, Some u) \<Rightarrow> [(i, q, u, py_strip (dl_item_comments l))]
      | _ \<Rightarrow> [])"

definition has_item :: "donation_line \<Rightarrow> bool" where
  "has_item l = (case dl_item_id l of Number i \<Rightarrow> True | _ \<Rightarrow> False)"

section \<open>Rows\<close>

definition get_donation :: "db \<Rightarrow> int \<Rightarrow> donation option" where
  "get_donation s did = find (\<lambda>d. dn_donation_id d = did) (t_donation s)"

definition donation_items_of :: "db \<Rightarrow> int \<Rightarrow> donation_item list" where
  "donation_items_of s did = filter (\<lambda>m. dm_donation_id m = did) (t_donation_item s)"

definition donation_item_key :: "donation_item \<Rightarrow> int \<times> int" where
  "donation_item_key m = (dm_donation_id m, dm_item_id m)"

definition get_donation_item :: "db \<Rightarrow> int \<Rightarrow> int \<Rightarrow> donation_item option" where
  "get_donation_item s did i = find (\<lambda>m. donation_item_key m = (did, i)) (t_donation_item s)"

definition orm_donation :: "donation \<Rightarrow> donation \<Rightarrow> donation" where
  "orm_donation old new = (if new = old then old else new\<lparr>dn_version_nbr := dn_version_nbr old + 1\<rparr>)"

definition orm_donation_item :: "donation_item \<Rightarrow> donation_item \<Rightarrow> donation_item" where
  "orm_donation_item old new = (if new = old then old else new\<lparr>dm_version_nbr := dm_version_nbr old + 1\<rparr>)"

definition set_donation :: "int \<Rightarrow> (donation \<Rightarrow> donation) \<Rightarrow> db \<Rightarrow> db" where
  "set_donation did g s = s\<lparr>t_donation :=
     upd_where (\<lambda>d. dn_donation_id d = did) (\<lambda>d. orm_donation d (g d)) (t_donation s)\<rparr>"

definition header_fks :: "db \<Rightarrow> int \<Rightarrow> int \<Rightarrow> int \<Rightarrow> bool" where
  "header_fks s d v c \<longleftrightarrow> d \<in> dr_donor_id ` set (t_donor s) \<and> v \<in> ev_event_id ` set (t_event s)
     \<and> c \<in> cu_custodian_id ` set (t_custodian s)"

definition item_fks :: "db \<Rightarrow> int \<Rightarrow> string \<Rightarrow> bool" where
  "item_fks s i u \<longleftrightarrow> i \<in> it_item_id ` set (t_item s) \<and> u \<in> um_uom_code ` set (t_unitofmeasure s)"

definition new_donation ::
  "env \<Rightarrow> string \<Rightarrow> 'a donation_header_scheme \<Rightarrow> int \<Rightarrow> int \<Rightarrow> int \<Rightarrow> int \<Rightarrow> date \<Rightarrow> donation" where
  "new_donation e aid f did d v c day =
     \<lparr>dn_donation_id = did, dn_donor_id = d, dn_donation_desc = py_upper (py_strip (df_donation_desc f)),
      dn_event_id = v, dn_custodian_id = c, dn_received_date = day, dn_status_code = ''V'',
      dn_comments_text = upper_or_none (py_strip (df_comments_text f)), dn_create_by_id = aid,
      dn_create_dtime = en_now e, dn_update_by_id = Some aid, dn_update_dtime = Some (en_now e),
      dn_verify_by_id = Some (us_user_name (en_user e)), dn_verify_dtime = Some (en_now e),
      dn_version_nbr = 1\<rparr>"

definition new_donation_item ::
  "env \<Rightarrow> string \<Rightarrow> int \<Rightarrow> string \<Rightarrow> int \<times> qty \<times> string \<times> string \<Rightarrow> donation_item" where
  "new_donation_item e aid did loc x =
     (case x of (i, q, u, c) \<Rightarrow>
      \<lparr>dm_donation_id = did, dm_item_id = i, dm_item_qty = q, dm_uom_code = u, dm_location_name = loc,
       dm_status_code = ''V'', dm_comments_text = upper_or_none c, dm_create_by_id = aid,
       dm_create_dtime = en_now e, dm_verify_by_id = Some (us_user_name (en_user e)),
       dm_verify_dtime = Some (en_now e), dm_version_nbr = 1\<rparr>)"

section \<open>The header\<close>

definition may_manage_donations :: "env \<Rightarrow> bool" where
  "may_manage_donations e = (feature_required ''donation_management'' (Some (en_user e)) = Granted)"

definition donation_errors :: "date \<Rightarrow> donation_form \<Rightarrow> dn_error list" where
  "donation_errors today f =
     required_errors f @ future_errors today f @ concat (map line_errors (df_items f))
     @ (if list_ex has_item (df_items f) then [] else [NoDonationItem])"

definition store_donation :: "env \<Rightarrow> donation_form \<Rightarrow> db \<Rightarrow> dn_error reply \<times> db" where
  "store_donation e f s =
     (case (df_donor_id f, df_event_id f, df_custodian_id f, df_received_date f, audit_id (en_user e)) of
        (Number d, Number v, Number c, Day day, Inr aid) \<Rightarrow>
          let did = seq_donation s;
              items = map (new_donation_item e aid did ''DONATION RECEIVED'') (concat (map line_data (df_items f)))
          in if header_fks s d v c \<and> list_all (\<lambda>m. item_fks s (dm_item_id m) (dm_uom_code m)) items
                 \<and> distinct (map dm_item_id items)
             then (Saved, s\<lparr>t_donation := t_donation s @ [new_donation e aid f did d v c day],
               t_donation_item := t_donation_item s @ items, seq_donation := did + 1\<rparr>)
             else (Caught IntegrityError, s)
      | _ \<Rightarrow> (Caught ValueError, s))"

definition create_donation :: "env \<Rightarrow> donation_form \<Rightarrow> db \<Rightarrow> exc + dn_error reply \<times> db" where
  "create_donation e f s =
     (if \<not> may_manage_donations e then Inl Forbidden403
      else if df_received_date f = BadDate then Inr (Caught ValueError, s)
      else if donation_errors (en_today e) f \<noteq> [] then Inr (Invalid (donation_errors (en_today e) f), s)
      else Inr (store_donation e f s))"

text \<open>Verified and processed donations are read-only.\<close>

definition read_only :: "donation \<Rightarrow> bool" where
  "read_only d \<longleftrightarrow> dn_status_code d = ''V'' \<or> dn_status_code d = ''P''"

definition form_version :: "vfield \<Rightarrow> exc + int" where
  "form_version v = (case v of Missing \<Rightarrow> Inr 0 | Text t \<Rightarrow> Inl ValueError | Number n \<Rightarrow> Inr n)"

definition edited_donation ::
  "env \<Rightarrow> string \<Rightarrow> donation_edit_form \<Rightarrow> string \<Rightarrow> int \<Rightarrow> int \<Rightarrow> int \<Rightarrow> date \<Rightarrow> donation \<Rightarrow> donation" where
  "edited_donation e aid f st dr v c day d =
     (let d1 = d\<lparr>dn_donor_id := dr, dn_event_id := v, dn_custodian_id := c,
           dn_donation_desc := py_upper (py_strip (df_donation_desc f)), dn_received_date := day,
           dn_status_code := st, dn_comments_text := upper_or_none (py_strip (df_comments_text f)),
           dn_update_by_id := Some aid, dn_update_dtime := Some (en_now e)\<rparr>
      in if st = ''V'' then d1\<lparr>dn_verify_by_id := Some (us_user_name (en_user e)), dn_verify_dtime := Some (en_now e)\<rparr>
         else d1)"

definition edit_donation :: "env \<Rightarrow> donation_edit_form \<Rightarrow> int \<Rightarrow> db \<Rightarrow> exc + dn_error reply \<times> db" where
  "edit_donation e f did s =
     (if \<not> may_manage_donations e then Inl Forbidden403
      else case get_donation s did of
        None \<Rightarrow> Inl NotFound404
      | Some d \<Rightarrow>
      if read_only d then Inr (Refused, s)
      else case form_version (df_version_nbr f) of
        Inl x \<Rightarrow> Inr (Crashed x, s)
      | Inr n \<Rightarrow>
      if n \<noteq> dn_version_nbr d then Inr (Refused, s)
      else if df_received_date f = BadDate then Inr (Crashed ValueError, s)
      else let st = (case df_status_code f of None \<Rightarrow> [] | Some c \<Rightarrow> c);
               errors = required_errors f @ (if st \<in> set [''E'', ''V'', ''P''] then [] else [StatusInvalid])
                 @ future_errors (en_today e) f
      in if errors \<noteq> [] then Inr (Invalid errors, s)
      else case (df_donor_id f, df_event_id f, df_custodian_id f, df_received_date f, audit_id (en_user e)) of
        (Number dr, Number v, Number c, Day day, Inr aid) \<Rightarrow>
          if \<not> header_fks s dr v c then Inr (Caught IntegrityError, s)
          else Inr (Saved, set_donation did (edited_donation e aid f st dr v c day) s)
      | _ \<Rightarrow> Inr (Crashed ValueError, s))"

text \<open>
  Deleting a header that has intakes would blank a primary key of the intake rows, which the ORM
  refuses with \<open>AssertionError\<close>.
\<close>

definition delete_donation :: "env \<Rightarrow> int \<Rightarrow> db \<Rightarrow> exc + dn_error reply \<times> db" where
  "delete_donation e did s =
     (if \<not> may_manage_donations e then Inl Forbidden403
      else case get_donation s did of
        None \<Rightarrow> Inl NotFound404
      | Some d \<Rightarrow>
      if read_only d then Inr (Refused, s)
      else if donation_items_of s did \<noteq> [] then Inr (Refused, s)
      else if list_ex (\<lambda>k. dk_donation_id k = did) (t_dnintake s) then Inr (Crashed AssertionError, s)
      else Inr (Saved, s\<lparr>t_donation := filter (\<lambda>d. dn_donation_id d \<noteq> did) (t_donation s)\<rparr>))"

section \<open>Items\<close>

definition item_form_errors :: "donation_item_form \<Rightarrow> dn_error list" where
  "item_form_errors f =
     (case dg_item_qty f of NoQty \<Rightarrow> [QuantityRequired] | BadQty \<Rightarrow> [] | Qty q \<Rightarrow> if q \<le> 0 then [QuantityNotPositive] else [])
     @ (if truthy_str (dg_uom_code f) then [] else [UomRequired])
     @ (if py_strip (dg_location_name f) = [] then [LocationRequired] else [])"

definition add_donation_item :: "env \<Rightarrow> donation_item_form \<Rightarrow> int \<Rightarrow> db \<Rightarrow> exc + dn_error reply \<times> db" where
  "add_donation_item e f did s =
     (if \<not> may_manage_donations e then Inl Forbidden403
      else case get_donation s did of
        None \<Rightarrow> Inl NotFound404
      | Some d \<Rightarrow>
      if read_only d then Inr (Refused, s)
      else if dg_item_qty f = BadQty then Inr (Crashed InvalidOperation, s)
      else if given (dg_item_id f) \<and> (case dg_item_id f of Number i \<Rightarrow> False | _ \<Rightarrow> True) then Inr (Crashed ValueError, s)
      else let errors = (if given (dg_item_id f) then [] else [ItemRequired]) @ item_form_errors f
             @ (case dg_item_id f of Number i \<Rightarrow> if get_donation_item s did i \<noteq> None then [ItemTwice] else [] | _ \<Rightarrow> [])
      in if errors \<noteq> [] then Inr (Invalid errors, s)
      else case (dg_item_id f, dg_item_qty f, dg_uom_code f, audit_id (en_user e)) of
        (Number i, Qty q, Some u, Inr aid) \<Rightarrow>
          if \<not> item_fks s i u then Inr (Caught IntegrityError, s)
          else Inr (Saved, s\<lparr>t_donation_item := t_donation_item s @
            [new_donation_item e aid did (py_upper (py_strip (dg_location_name f)))
              (i, q, u, py_strip (dg_comments_text f))]\<rparr>)
      | _ \<Rightarrow> Inr (Crashed ValueError, s))"

definition edited_donation_item ::
  "env \<Rightarrow> donation_item_form \<Rightarrow> qty \<Rightarrow> string \<Rightarrow> string \<Rightarrow> donation_item \<Rightarrow> donation_item" where
  "edited_donation_item e f q u st m =
     (let m1 = m\<lparr>dm_item_qty := q, dm_uom_code := u, dm_location_name := py_upper (py_strip (dg_location_name f)),
           dm_status_code := st, dm_comments_text := upper_or_none (py_strip (dg_comments_text f))\<rparr>
      in if st = ''V'' then m1\<lparr>dm_verify_by_id := Some (us_user_name (en_user e)), dm_verify_dtime := Some (en_now e)\<rparr>
         else m1)"

definition edit_donation_item :: "env \<Rightarrow> donation_item_form \<Rightarrow> int \<Rightarrow> int \<Rightarrow> db \<Rightarrow> exc + dn_error reply \<times> db" where
  "edit_donation_item e f did i s =
     (if \<not> may_manage_donations e then Inl Forbidden403
      else case (get_donation s did, get_donation_item s did i) of
        (Some d, Some m) \<Rightarrow>
          if read_only d then Inr (Refused, s)
          else (case form_version (dg_version_nbr f) of
            Inl x \<Rightarrow> Inr (Crashed x, s)
          | Inr n \<Rightarrow>
          if n \<noteq> dm_version_nbr m then Inr (Refused, s)
          else if dg_item_qty f = BadQty then Inr (Crashed InvalidOperation, s)
          else let st = (case dg_status_code f of None \<Rightarrow> [] | Some c \<Rightarrow> c);
                   errors = item_form_errors f @ (if st \<in> set [''P'', ''V''] then [] else [StatusInvalid])
          in if errors \<noteq> [] then Inr (Invalid errors, s)
          else case (dg_item_qty f, dg_uom_code f, audit_id (en_user e)) of
            (Qty q, Some u, Inr aid) \<Rightarrow>
              if u \<notin> um_uom_code ` set (t_unitofmeasure s) then Inr (Caught IntegrityError, s)
              else Inr (Saved, s\<lparr>t_donation_item := upd_where (\<lambda>m. donation_item_key m = (did, i))
                (\<lambda>m. orm_donation_item m (edited_donation_item e f q u st m)) (t_donation_item s)\<rparr>)
          | _ \<Rightarrow> Inr (Crashed ValueError, s))
      | _ \<Rightarrow> Inl NotFound404)"

definition delete_donation_item :: "env \<Rightarrow> int \<Rightarrow> int \<Rightarrow> db \<Rightarrow> exc + dn_error reply \<times> db" where
  "delete_donation_item e did i s =
     (if \<not> may_manage_donations e then Inl Forbidden403
      else case (get_donation s did, get_donation_item s did i) of
        (Some d, Some m) \<Rightarrow>
          if read_only d then Inr (Refused, s)
          else if list_ex (\<lambda>j. dj_donation_id j = did \<and> dj_item_id j = i) (t_dnintake_item s)
            then Inr (Caught IntegrityError, s)
          else Inr (Saved, s\<lparr>t_donation_item := filter (\<lambda>m. donation_item_key m \<noteq> (did, i)) (t_donation_item s)\<rparr>)
      | _ \<Rightarrow> Inl NotFound404)"

end
