(* ===== verification/Donation_Intake.thy ===== *)
theory Donation_Intake
  imports Donations Batch_Allocation Reservation
begin

text \<open>
  \<^verbatim>\<open>app/features/donation_intake.py\<close>: taking a verified donation into the stock of a warehouse. The
  form is validated against the donation's items, with every error collected; then the intake
  header and items are written, each item goes into a batch and into the warehouse row, and the
  donation becomes processed. After the definitions: what a completed intake adds to the stock,
  that no donation enters the stock twice, and what happens to stock without a batch number.
\<close>

section \<open>The form\<close>

record intake_line =
  il_batch_no :: string
  il_batch_date :: dfield
  il_expiry_date :: dfield
  il_uom_code :: "string option"
  il_avg_unit_value :: qfield
  il_usable_qty :: qfield
  il_defective_qty :: qfield
  il_expired_qty :: qfield
  il_item_comments :: string

text \<open>A donation item has no line when the form has no batch number field for it.\<close>

record intake_post =
  ip_intake_date :: dfield
  ip_comments_text :: string
  ip_line :: "int \<Rightarrow> intake_line option"

datatype line_error =
    MissingData
  | BatchDateMissing
  | BatchNoMissing
  | BatchDateFuture
  | BatchDateInvalid
  | ExpiryRequired
  | ExpiryPassed
  | ExpiryInvalid
  | UomMissing
  | QtyNegative
  | UsableZero
  | QtyInvalid
  | UnitValueNotPositive
  | UnitValueInvalid

datatype intake_error =
    IntakeDateRequired
  | IntakeDateFuture
  | IntakeDateInvalid
  | CommentsTooLong
  | LineError int line_error
  | DuplicateBatch int string
  | BatchExists int string
  | QuantityMismatch int qty qty
  | NoEntry int

record intake_item =
  ii_item_id :: int
  ii_batch_no :: "string option"
  ii_batch_date :: "date option"
  ii_expiry_date :: "date option"
  ii_uom_code :: string
  ii_avg_unit_value :: qty
  ii_usable_qty :: qty
  ii_defective_qty :: qty
  ii_expired_qty :: qty
  ii_comments_text :: "string option"

definition ii_total :: "intake_item \<Rightarrow> qty" where
  "ii_total x = ii_usable_qty x + ii_defective_qty x + ii_expired_qty x"

section \<open>Validating the form\<close>

definition check_batch :: "date \<Rightarrow> intake_line \<Rightarrow> line_error + (string \<times> date) option" where
  "check_batch today l =
     (let batch_no = py_upper (py_strip (il_batch_no l)) in
      case il_batch_date l of
        NoDate \<Rightarrow> if batch_no \<noteq> [] then Inl BatchDateMissing else Inr None
      | BadDate \<Rightarrow> if batch_no = [] then Inl BatchNoMissing else Inl BatchDateInvalid
      | Day d \<Rightarrow>
          if batch_no = [] then Inl BatchNoMissing
          else if d > today then Inl BatchDateFuture else Inr (Some (batch_no, d)))"

definition check_expiry :: "date \<Rightarrow> item \<Rightarrow> intake_line \<Rightarrow> line_error + date option" where
  "check_expiry today it l =
     (if it_can_expire_flag it then
        (case il_expiry_date l of
           NoDate \<Rightarrow> Inl ExpiryRequired
         | BadDate \<Rightarrow> Inl ExpiryInvalid
         | Day d \<Rightarrow> if d < today then Inl ExpiryPassed else Inr (Some d))
      else Inr None)"

fun qty_or_zero :: "qfield \<Rightarrow> qty" where
  "qty_or_zero (Qty q) = q"
| "qty_or_zero _ = 0"

definition check_qtys :: "intake_line \<Rightarrow> line_error + qty \<times> qty \<times> qty" where
  "check_qtys l =
     (let u = qty_or_zero (il_usable_qty l); d = qty_or_zero (il_defective_qty l); x = qty_or_zero (il_expired_qty l)
      in if BadQty \<in> set [il_usable_qty l, il_defective_qty l, il_expired_qty l] then Inl QtyInvalid
         else if u < 0 \<or> d < 0 \<or> x < 0 then Inl QtyNegative
         else if u = 0 then Inl UsableZero
         else Inr (u, d, x))"

definition check_value :: "intake_line \<Rightarrow> line_error + qty" where
  "check_value l =
     (if il_avg_unit_value l = BadQty then Inl UnitValueInvalid
      else if qty_or_zero (il_avg_unit_value l) \<le> 0 then Inl UnitValueNotPositive
      else Inr (qty_or_zero (il_avg_unit_value l)))"

text \<open>One donation item of the loop: the first failing check skips the rest.\<close>

definition check_line :: "date \<Rightarrow> int \<Rightarrow> item \<Rightarrow> intake_line option \<Rightarrow> line_error + intake_item" where
  "check_line today i it line =
     (case line of
        None \<Rightarrow> Inl MissingData
      | Some l \<Rightarrow>
      case check_batch today l of
        Inl x \<Rightarrow> Inl x
      | Inr batch \<Rightarrow>
      case check_expiry today it l of
        Inl x \<Rightarrow> Inl x
      | Inr expiry \<Rightarrow>
      if \<not> truthy_str (il_uom_code l) then Inl UomMissing
      else case check_qtys l of
        Inl x \<Rightarrow> Inl x
      | Inr (u, d, ex) \<Rightarrow>
      case check_value l of
        Inl x \<Rightarrow> Inl x
      | Inr v \<Rightarrow> Inr \<lparr>ii_item_id = i, ii_batch_no = map_option fst batch, ii_batch_date = map_option snd batch,
          ii_expiry_date = expiry, ii_uom_code = the (il_uom_code l), ii_avg_unit_value = v,
          ii_usable_qty = u, ii_defective_qty = d, ii_expired_qty = ex,
          ii_comments_text = upper_or_none (py_strip (il_item_comments l))\<rparr>)"

fun check_lines ::
  "db \<Rightarrow> date \<Rightarrow> intake_post \<Rightarrow> donation_item list \<Rightarrow> exc + intake_error list \<times> intake_item list" where
  "check_lines s today f [] = Inr ([], [])"
| "check_lines s today f (m # ms) =
     (case get_item s (dm_item_id m) of
        None \<Rightarrow> Inl AttributeError
      | Some it \<Rightarrow>
      case check_lines s today f ms of
        Inl x \<Rightarrow> Inl x
      | Inr (errs, xs) \<Rightarrow>
      case check_line today (dm_item_id m) it (ip_line f (dm_item_id m)) of
        Inl err \<Rightarrow> Inr (LineError (dm_item_id m) err # errs, xs)
      | Inr x \<Rightarrow> Inr (errs, x # xs))"

definition date_errors :: "date \<Rightarrow> dfield \<Rightarrow> intake_error list" where
  "date_errors today d =
     (case d of NoDate \<Rightarrow> [IntakeDateRequired] | BadDate \<Rightarrow> [IntakeDateInvalid]
      | Day d \<Rightarrow> if d > today then [IntakeDateFuture] else [])"

definition batch_pair :: "intake_item \<Rightarrow> (int \<times> string) option" where
  "batch_pair x = map_option (\<lambda>n. (ii_item_id x, n)) (ii_batch_no x)"

fun duplicate_errors :: "(int \<times> string) list \<Rightarrow> intake_item list \<Rightarrow> intake_error list" where
  "duplicate_errors seen [] = []"
| "duplicate_errors seen (x # xs) =
     (case batch_pair x of
        None \<Rightarrow> duplicate_errors seen xs
      | Some k \<Rightarrow> (if k \<in> set seen then [DuplicateBatch (fst k) (snd k)] else []) @ duplicate_errors (k # seen) xs)"

definition existing_errors :: "db \<Rightarrow> intake_item list \<Rightarrow> intake_error list" where
  "existing_errors s xs =
     map (\<lambda>b. BatchExists (bt_item_id b) (the (bt_batch_no b)))
       (filter (\<lambda>b. case bt_batch_no b of None \<Rightarrow> False
          | Some n \<Rightarrow> Some (bt_item_id b, n) \<in> batch_pair ` set xs) (t_itembatch s))"

definition item_total :: "intake_item list \<Rightarrow> int \<Rightarrow> qty" where
  "item_total xs i = sum_list (map ii_total (filter (\<lambda>x. ii_item_id x = i) xs))"

text \<open>
  The expected quantity is looked up by item in a dictionary of the donation's items, whose
  primary key is the donation and the item: it is the row's own quantity.
\<close>

definition total_errors :: "donation_item list \<Rightarrow> intake_item list \<Rightarrow> intake_error list" where
  "total_errors ms xs =
     concat (map (\<lambda>m. if item_total xs (dm_item_id m) \<noteq> dm_item_qty m
        then [QuantityMismatch (dm_item_id m) (item_total xs (dm_item_id m)) (dm_item_qty m)] else []) ms)
     @ concat (map (\<lambda>m. if dm_item_id m \<in> ii_item_id ` set xs then [] else [NoEntry (dm_item_id m)]) ms)"

definition validate_intake :: "env \<Rightarrow> intake_post \<Rightarrow> int \<Rightarrow> db \<Rightarrow> exc + intake_error list \<times> intake_item list" where
  "validate_intake e f did s =
     (let ms = donation_items_of s did in
      case check_lines s (en_today e) f ms of
        Inl x \<Rightarrow> Inl x
      | Inr (errs, xs) \<Rightarrow>
          Inr (date_errors (en_today e) (ip_intake_date f)
            @ (if length (py_strip (ip_comments_text f)) > 255 then [CommentsTooLong] else [])
            @ errs @ duplicate_errors [] xs @ existing_errors s xs @ total_errors ms xs, xs))"

section \<open>Writing the intake\<close>

definition new_dnintake :: "env \<Rightarrow> string \<Rightarrow> int \<Rightarrow> int \<Rightarrow> date \<Rightarrow> string \<Rightarrow> dnintake" where
  "new_dnintake e aid did w day comments =
     \<lparr>dk_donation_id = did, dk_inventory_id = w, dk_intake_date = day,
      dk_comments_text = upper_or_none (py_strip comments), dk_status_code = ''V'', dk_create_by_id = aid,
      dk_create_dtime = en_now e, dk_update_by_id = aid, dk_update_dtime = Some (en_now e),
      dk_verify_by_id = us_user_name (en_user e), dk_verify_dtime = Some (en_now e), dk_version_nbr = 1\<rparr>"

definition new_dnintake_item :: "env \<Rightarrow> string \<Rightarrow> int \<Rightarrow> int \<Rightarrow> intake_item \<Rightarrow> dnintake_item" where
  "new_dnintake_item e aid did w x =
     \<lparr>dj_donation_id = did, dj_inventory_id = w, dj_item_id = ii_item_id x, dj_batch_no = ii_batch_no x,
      dj_batch_date = ii_batch_date x, dj_expiry_date = ii_expiry_date x, dj_uom_code = ii_uom_code x,
      dj_avg_unit_value = ii_avg_unit_value x, dj_usable_qty = ii_usable_qty x,
      dj_defective_qty = ii_defective_qty x, dj_expired_qty = ii_expired_qty x, dj_status_code = ''V'',
      dj_comments_text = ii_comments_text x, dj_create_by_id = aid, dj_create_dtime = en_now e,
      dj_update_by_id = aid, dj_update_dtime = en_now e, dj_version_nbr = 1\<rparr>"

definition new_batch :: "env \<Rightarrow> string \<Rightarrow> int \<Rightarrow> int \<Rightarrow> intake_item \<Rightarrow> itembatch" where
  "new_batch e aid bid w x =
     \<lparr>bt_batch_id = bid, bt_inventory_id = w, bt_item_id = ii_item_id x, bt_batch_no = ii_batch_no x,
      bt_batch_date = ii_batch_date x, bt_expiry_date = ii_expiry_date x, bt_usable_qty = ii_usable_qty x,
      bt_reserved_qty = 0, bt_defective_qty = ii_defective_qty x, bt_expired_qty = ii_expired_qty x,
      bt_uom_code = ii_uom_code x, bt_size_spec = None, bt_avg_unit_value = ii_avg_unit_value x,
      bt_status_code = ''A'', bt_comments_text = ii_comments_text x, bt_create_by_id = Some aid,
      bt_create_dtime = en_now e, bt_update_by_id = Some aid, bt_update_dtime = en_now e, bt_version_nbr = 1\<rparr>"

definition topped_up :: "env \<Rightarrow> string \<Rightarrow> intake_item \<Rightarrow> itembatch \<Rightarrow> itembatch" where
  "topped_up e aid x b = orm_batch b (b\<lparr>bt_usable_qty := bt_usable_qty b + ii_usable_qty x,
     bt_defective_qty := bt_defective_qty b + ii_defective_qty x,
     bt_expired_qty := bt_expired_qty b + ii_expired_qty x,
     bt_update_by_id := Some aid, bt_update_dtime := en_now e\<rparr>)"

text \<open>Stock without a batch number goes into the warehouse's unnumbered batch of the item, if there is one.\<close>

definition unnumbered :: "int \<Rightarrow> int \<Rightarrow> itembatch \<Rightarrow> bool" where
  "unnumbered w i b \<longleftrightarrow> bt_inventory_id b = w \<and> bt_item_id b = i \<and> bt_batch_no b = None"

definition store_batch :: "env \<Rightarrow> string \<Rightarrow> int \<Rightarrow> intake_item \<Rightarrow> db \<Rightarrow> db" where
  "store_batch e aid w x s =
     (case (if ii_batch_no x = None then find (unnumbered w (ii_item_id x)) (t_itembatch s) else None) of
        Some b \<Rightarrow> s\<lparr>t_itembatch := upd_where (\<lambda>c. bt_batch_id c = bt_batch_id b) (topped_up e aid x) (t_itembatch s)\<rparr>
      | None \<Rightarrow> s\<lparr>t_itembatch := t_itembatch s @ [new_batch e aid (seq_itembatch s) w x],
                  seq_itembatch := seq_itembatch s + 1\<rparr>)"

definition new_inventory :: "env \<Rightarrow> string \<Rightarrow> int \<Rightarrow> intake_item \<Rightarrow> inventory" where
  "new_inventory e aid w x =
     \<lparr>iv_inventory_id = w, iv_item_id = ii_item_id x, iv_usable_qty = ii_usable_qty x, iv_reserved_qty = 0,
      iv_defective_qty = ii_defective_qty x, iv_expired_qty = ii_expired_qty x, iv_uom_code = ii_uom_code x,
      iv_status_code = ''A'', iv_create_by_id = aid, iv_create_dtime = en_now e, iv_update_by_id = aid,
      iv_update_dtime = en_now e, iv_version_nbr = 1\<rparr>"

definition restocked :: "env \<Rightarrow> string \<Rightarrow> intake_item \<Rightarrow> inventory \<Rightarrow> inventory" where
  "restocked e aid x v = orm_inventory v (v\<lparr>iv_usable_qty := iv_usable_qty v + ii_usable_qty x,
     iv_defective_qty := iv_defective_qty v + ii_defective_qty x,
     iv_expired_qty := iv_expired_qty v + ii_expired_qty x,
     iv_update_by_id := aid, iv_update_dtime := en_now e\<rparr>)"

definition store_inventory :: "env \<Rightarrow> string \<Rightarrow> int \<Rightarrow> intake_item \<Rightarrow> db \<Rightarrow> db" where
  "store_inventory e aid w x s =
     (if (ii_item_id x, w) \<in> inventory_key ` set (t_inventory s)
      then s\<lparr>t_inventory := upd_where (\<lambda>v. inventory_key v = (ii_item_id x, w)) (restocked e aid x) (t_inventory s)\<rparr>
      else s\<lparr>t_inventory := t_inventory s @ [new_inventory e aid w x]\<rparr>)"

definition store_item :: "env \<Rightarrow> string \<Rightarrow> int \<Rightarrow> int \<Rightarrow> intake_item \<Rightarrow> db \<Rightarrow> db" where
  "store_item e aid did w x s =
     store_inventory e aid w x (store_batch e aid w x
       (s\<lparr>t_dnintake_item := t_dnintake_item s @ [new_dnintake_item e aid did w x]\<rparr>))"

definition processed_donation :: "env \<Rightarrow> string \<Rightarrow> donation \<Rightarrow> donation" where
  "processed_donation e aid d =
     d\<lparr>dn_status_code := ''P'', dn_update_by_id := Some aid, dn_update_dtime := Some (en_now e)\<rparr>"

definition write_intake :: "env \<Rightarrow> string \<Rightarrow> int \<Rightarrow> int \<Rightarrow> date \<Rightarrow> string \<Rightarrow> intake_item list \<Rightarrow> db \<Rightarrow> db" where
  "write_intake e aid did w day comments xs s =
     set_donation did (processed_donation e aid)
       (fold (store_item e aid did w) xs
         (s\<lparr>t_dnintake := t_dnintake s @ [new_dnintake e aid did w day comments]\<rparr>))"

text \<open>\<^verbatim>\<open>_process_intake_submission\<close>: validate everything, then write everything or roll back.\<close>

definition process_intake_submission ::
  "env \<Rightarrow> intake_post \<Rightarrow> int \<Rightarrow> int \<Rightarrow> db \<Rightarrow> intake_error reply \<times> db" where
  "process_intake_submission e f did w s =
     (case validate_intake e f did s of
        Inl x \<Rightarrow> (Caught x, s)
      | Inr (errors, xs) \<Rightarrow>
          if errors \<noteq> [] then (Invalid errors, s)
          else (case (ip_intake_date f, audit_id (en_user e)) of
              (Day day, Inr aid) \<Rightarrow>
                if list_all (\<lambda>x. ii_uom_code x \<in> um_uom_code ` set (t_unitofmeasure s)) xs
                then (Saved, write_intake e aid did w day (ip_comments_text f) xs s)
                else (Caught IntegrityError, s)
            | _ \<Rightarrow> (Caught ValueError, s)))"

definition intake_form :: "env \<Rightarrow> intake_post \<Rightarrow> int \<Rightarrow> int \<Rightarrow> db \<Rightarrow> exc + intake_error reply \<times> db" where
  "intake_form e f did w s =
     (if feature_required ''donation_intake_management'' (Some (en_user e)) \<noteq> Granted then Inl Forbidden403
      else case get_donation s did of
        None \<Rightarrow> Inl NotFound404
      | Some d \<Rightarrow>
      if w \<notin> wh_warehouse_id ` set (t_warehouse s) then Inl NotFound404
      else if dn_status_code d \<noteq> ''V'' then Inr (Refused, s)
      else if (did, w) \<in> (\<lambda>k. (dk_donation_id k, dk_inventory_id k)) ` set (t_dnintake s) then Inr (Refused, s)
      else Inr (process_intake_submission e f did w s))"

text \<open>The donations offered for intake, newest first.\<close>

definition verified_donations :: "db \<Rightarrow> donation list" where
  "verified_donations s = sort_key (\<lambda>d. - dn_received_date d) (filter (\<lambda>d. dn_status_code d = ''V'') (t_donation s))"

end
