(* ===== verification/Intake_Properties.thy ===== *)
theory Intake_Properties
  imports Donation_Intake
begin

text \<open>
  Properties of donations and their intake: what a completed intake adds to batches and warehouse
  rows, that a donation is immutable once accepted and enters the stock at most once and in full,
  and what the intake of stock without a batch number does to its expiry date.
\<close>

section \<open>Sums over keyed rows\<close>

lemma sum_upd_one:
  fixes g :: "'r \<Rightarrow> rat"
  assumes "distinct (map key rows)" and "b \<in> set rows"
  shows "sum_list (map g (upd_where (\<lambda>c. key c = key b) f rows)) = sum_list (map g rows) + (g (f b) - g b)"
  using assms
proof (induction rows)
  case (Cons r rows)
  show ?case
  proof (cases "r = b")
    case True
    then have new: "key b \<notin> key ` set rows" using Cons.prems(1) by simp
    have "upd_where (\<lambda>c. key c = key b) f rows = rows"
      by (rule upd_where_none) (metis imageI new)
    then show ?thesis using True by simp
  next
    case False
    then have b: "b \<in> set rows" using Cons.prems(2) by simp
    then have "key b \<in> key ` set rows" by simp
    then have "key r \<noteq> key b" using Cons.prems(1) by auto
    then show ?thesis using Cons.IH [OF _ b] Cons.prems(1) by simp
  qed
qed simp

section \<open>Storing one item\<close>

lemma topped_up_sel [simp]:
  "bt_batch_id (topped_up e aid x b) = bt_batch_id b" "bt_inventory_id (topped_up e aid x b) = bt_inventory_id b"
  "bt_item_id (topped_up e aid x b) = bt_item_id b" "bt_usable_qty (topped_up e aid x b) = bt_usable_qty b + ii_usable_qty x"
  "bt_reserved_qty (topped_up e aid x b) = bt_reserved_qty b" "bt_expiry_date (topped_up e aid x b) = bt_expiry_date b"
  "bt_defective_qty (topped_up e aid x b) = bt_defective_qty b + ii_defective_qty x"
  "bt_expired_qty (topped_up e aid x b) = bt_expired_qty b + ii_expired_qty x"
  "bt_batch_no (topped_up e aid x b) = bt_batch_no b" "bt_status_code (topped_up e aid x b) = bt_status_code b"
  by (cases b; auto simp: topped_up_def orm_batch_def)+

lemma new_batch_sel [simp]:
  "bt_batch_id (new_batch e aid n w x) = n" "bt_inventory_id (new_batch e aid n w x) = w"
  "bt_item_id (new_batch e aid n w x) = ii_item_id x" "bt_usable_qty (new_batch e aid n w x) = ii_usable_qty x"
  "bt_reserved_qty (new_batch e aid n w x) = 0" "bt_defective_qty (new_batch e aid n w x) = ii_defective_qty x"
  "bt_expired_qty (new_batch e aid n w x) = ii_expired_qty x"
  by (simp_all add: new_batch_def)

lemma restocked_sel [simp]:
  "inventory_key (restocked e aid x v) = inventory_key v" "iv_status_code (restocked e aid x v) = iv_status_code v"
  "iv_usable_qty (restocked e aid x v) = iv_usable_qty v + ii_usable_qty x"
  "iv_reserved_qty (restocked e aid x v) = iv_reserved_qty v"
  "iv_defective_qty (restocked e aid x v) = iv_defective_qty v + ii_defective_qty x"
  "iv_expired_qty (restocked e aid x v) = iv_expired_qty v + ii_expired_qty x"
  by (cases v; auto simp: restocked_def orm_inventory_def inventory_key_def)+

lemma new_inventory_sel [simp]:
  "inventory_key (new_inventory e aid w x) = (ii_item_id x, w)" "iv_status_code (new_inventory e aid w x) = ''A''"
  "iv_usable_qty (new_inventory e aid w x) = ii_usable_qty x" "iv_reserved_qty (new_inventory e aid w x) = 0"
  "iv_defective_qty (new_inventory e aid w x) = ii_defective_qty x"
  "iv_expired_qty (new_inventory e aid w x) = ii_expired_qty x"
  by (simp_all add: new_inventory_def inventory_key_def)

text \<open>Batches are numbered from the sequence.\<close>

definition batches_numbered :: "db \<Rightarrow> bool" where
  "batches_numbered s \<longleftrightarrow> (\<forall>b \<in> set (t_itembatch s). bt_batch_id b < seq_itembatch s)"

definition at_key :: "int \<times> int \<Rightarrow> itembatch \<Rightarrow> bool" where
  "at_key k b \<longleftrightarrow> bt_item_id b = fst k \<and> bt_inventory_id b = snd k"

definition batch_sum :: "(itembatch \<Rightarrow> qty) \<Rightarrow> db \<Rightarrow> int \<times> int \<Rightarrow> qty" where
  "batch_sum g s k = sum_list (map g (filter (at_key k) (t_itembatch s)))"

definition row_sum :: "(inventory \<Rightarrow> qty) \<Rightarrow> db \<Rightarrow> int \<times> int \<Rightarrow> qty" where
  "row_sum g s k = sum_list (map g (filter (\<lambda>v. inventory_key v = k) (t_inventory s)))"

lemma store_batch_sum:
  assumes "distinct (map bt_batch_id (t_itembatch s))" and "\<And>b. g (topped_up e aid x b) = g b + h x"
    and "\<And>n. g (new_batch e aid n w x) = h x"
  shows "batch_sum g (store_batch e aid w x s) k = batch_sum g s k + (if k = (ii_item_id x, w) then h x else 0)"
proof (cases "if ii_batch_no x = None then find (unnumbered w (ii_item_id x)) (t_itembatch s) else None")
  case None
  then show ?thesis using assms(3)
    by (auto simp: store_batch_def batch_sum_def at_key_def prod_eq_iff)
next
  case (Some b)
  then have b: "b \<in> set (t_itembatch s)" "bt_inventory_id b = w" "bt_item_id b = ii_item_id x"
    by (auto simp: unnumbered_def split: if_splits dest!: find_Some_set)
  let ?up = "upd_where (\<lambda>c. bt_batch_id c = bt_batch_id b) (topped_up e aid x)"
  have "filter (at_key k) (?up (t_itembatch s)) = ?up (filter (at_key k) (t_itembatch s))"
    by (rule filter_upd_where) (simp add: at_key_def)
  moreover have "?up (filter (at_key k) (t_itembatch s)) = filter (at_key k) (t_itembatch s)" if "\<not> at_key k b"
  proof (rule upd_where_none)
    fix c
    assume "c \<in> set (filter (at_key k) (t_itembatch s))"
    then show "bt_batch_id c \<noteq> bt_batch_id b" using that b(1) assms(1) by (auto simp: distinct_map inj_on_def)
  qed
  moreover have "sum_list (map g (?up (filter (at_key k) (t_itembatch s))))
      = sum_list (map g (filter (at_key k) (t_itembatch s))) + h x" if "at_key k b"
    using sum_upd_one [OF distinct_map_filter [OF assms(1)], of b "at_key k" g "topped_up e aid x"] that b(1) assms(2)
    by simp
  moreover have "at_key k b \<longleftrightarrow> k = (ii_item_id x, w)" using b by (auto simp: at_key_def prod_eq_iff)
  ultimately show ?thesis using Some by (auto simp: store_batch_def batch_sum_def)
qed

lemma store_inventory_sum:
  assumes "distinct (map inventory_key (t_inventory s))" and "\<And>v. g (restocked e aid x v) = g v + h x"
    and "g (new_inventory e aid w x) = h x"
  shows "row_sum g (store_inventory e aid w x s) k = row_sum g s k + (if k = (ii_item_id x, w) then h x else 0)"
proof (cases "(ii_item_id x, w) \<in> inventory_key ` set (t_inventory s)")
  case True
  then obtain v where v: "v \<in> set (t_inventory s)" "inventory_key v = (ii_item_id x, w)" by auto
  let ?up = "upd_where (\<lambda>c. inventory_key c = inventory_key v) (restocked e aid x)"
  have "filter (\<lambda>c. inventory_key c = k) (?up (t_inventory s)) = ?up (filter (\<lambda>c. inventory_key c = k) (t_inventory s))"
    by (rule filter_upd_where) simp
  moreover have "?up (filter (\<lambda>c. inventory_key c = k) (t_inventory s)) = filter (\<lambda>c. inventory_key c = k) (t_inventory s)"
    if "k \<noteq> inventory_key v"
    by (rule upd_where_none) (use that in auto)
  moreover have "sum_list (map g (?up (filter (\<lambda>c. inventory_key c = k) (t_inventory s))))
      = sum_list (map g (filter (\<lambda>c. inventory_key c = k) (t_inventory s))) + h x" if "k = inventory_key v"
    using sum_upd_one [OF distinct_map_filter [OF assms(1)], of v "\<lambda>c. inventory_key c = k" g "restocked e aid x"]
      that v(1) assms(2) by simp
  ultimately show ?thesis using True v(2) by (auto simp: store_inventory_def row_sum_def)
next
  case False
  then show ?thesis using assms(3) by (auto simp: store_inventory_def row_sum_def)
qed


lemma store_batch_tables [simp]:
  "t_inventory (store_batch e aid w x s) = t_inventory s" "t_donation (store_batch e aid w x s) = t_donation s"
  "t_donation_item (store_batch e aid w x s) = t_donation_item s" "t_dnintake (store_batch e aid w x s) = t_dnintake s"
  "t_dnintake_item (store_batch e aid w x s) = t_dnintake_item s" "seq_donation (store_batch e aid w x s) = seq_donation s"
  "t_reliefpkg (store_batch e aid w x s) = t_reliefpkg s" "t_reliefpkg_item (store_batch e aid w x s) = t_reliefpkg_item s"
  "t_reliefrqst_item (store_batch e aid w x s) = t_reliefrqst_item s" "seq_reliefpkg (store_batch e aid w x s) = seq_reliefpkg s"
  by (auto simp: store_batch_def split: option.split)

lemma store_inventory_tables [simp]:
  "t_itembatch (store_inventory e aid w x s) = t_itembatch s" "t_donation (store_inventory e aid w x s) = t_donation s"
  "t_donation_item (store_inventory e aid w x s) = t_donation_item s" "t_dnintake (store_inventory e aid w x s) = t_dnintake s"
  "t_dnintake_item (store_inventory e aid w x s) = t_dnintake_item s" "seq_donation (store_inventory e aid w x s) = seq_donation s"
  "t_reliefpkg (store_inventory e aid w x s) = t_reliefpkg s" "t_reliefpkg_item (store_inventory e aid w x s) = t_reliefpkg_item s"
  "t_reliefrqst_item (store_inventory e aid w x s) = t_reliefrqst_item s" "seq_reliefpkg (store_inventory e aid w x s) = seq_reliefpkg s"
  "seq_itembatch (store_inventory e aid w x s) = seq_itembatch s"
  by (simp_all add: store_inventory_def)

lemma store_batch_rows:
  assumes "stock_ok s" and "batches_numbered s" and "0 \<le> ii_usable_qty x"
  shows "(\<forall>b \<in> set (t_itembatch (store_batch e aid w x s)). batch_ok b)
    \<and> distinct (map bt_batch_id (t_itembatch (store_batch e aid w x s))) \<and> batches_numbered (store_batch e aid w x s)"
proof (cases "if ii_batch_no x = None then find (unnumbered w (ii_item_id x)) (t_itembatch s) else None")
  case None
  then show ?thesis using assms
    by (auto simp: store_batch_def stock_ok_def batches_numbered_def batch_ok_def)
next
  case (Some b)
  have "map bt_batch_id (upd_where Q (topped_up e aid x) bs) = map bt_batch_id bs" for Q bs
    by (rule map_upd_where_same) simp
  then show ?thesis using Some assms
    by (auto simp: store_batch_def stock_ok_def batches_numbered_def batch_ok_def set_upd_where intro: add_increasing2)
qed

lemma store_inventory_keys:
  "distinct (map inventory_key (t_inventory s)) \<Longrightarrow> distinct (map inventory_key (t_inventory (store_inventory e aid w x s)))"
  "inventory_key ` set (t_inventory (store_inventory e aid w x s)) = insert (ii_item_id x, w) (inventory_key ` set (t_inventory s))"
proof -
  have "map inventory_key (upd_where Q (restocked e aid x) vs) = map inventory_key vs" for Q vs
    by (rule map_upd_where_same) simp
  then show "distinct (map inventory_key (t_inventory s)) \<Longrightarrow> distinct (map inventory_key (t_inventory (store_inventory e aid w x s)))"
    "inventory_key ` set (t_inventory (store_inventory e aid w x s)) = insert (ii_item_id x, w) (inventory_key ` set (t_inventory s))"
    by (auto simp: store_inventory_def insert_absorb simp flip: set_map)
qed

lemma store_item_ok:
  assumes "stock_ok s" and "batches_numbered s" and "0 \<le> ii_usable_qty x"
  shows "stock_ok (store_item e aid did w x s)" and "batches_numbered (store_item e aid did w x s)"
proof -
  let ?t = "s\<lparr>t_dnintake_item := t_dnintake_item s @ [new_dnintake_item e aid did w x]\<rparr>"
  have "stock_ok ?t" "batches_numbered ?t" using assms(1,2) by (simp_all add: stock_ok_def batches_numbered_def)
  from store_batch_rows [OF this assms(3), of e aid w] store_inventory_keys(1) [of "store_batch e aid w x ?t" e aid w x]
  show "stock_ok (store_item e aid did w x s)" "batches_numbered (store_item e aid did w x s)"
    using assms(1) by (auto simp: store_item_def stock_ok_def batches_numbered_def)
qed

text \<open>What a list of stored items adds up to, for any quantity that storing one item adds to.\<close>

lemma store_items_sums:
  assumes "stock_ok s" and "batches_numbered s" and "\<forall>x \<in> set xs. 0 \<le> ii_usable_qty x"
    and "\<And>x b. gb (topped_up e aid x b) = gb b + h x" and "\<And>x n. gb (new_batch e aid n w x) = h x"
    and "\<And>x v. gv (restocked e aid x v) = gv v + h x" and "\<And>x. gv (new_inventory e aid w x) = h x"
  shows "batch_sum gb (fold (store_item e aid did w) xs s) k
      = batch_sum gb s k + (if snd k = w then sum_list (map h (filter (\<lambda>x. ii_item_id x = fst k) xs)) else 0)
    \<and> row_sum gv (fold (store_item e aid did w) xs s) k
      = row_sum gv s k + (if snd k = w then sum_list (map h (filter (\<lambda>x. ii_item_id x = fst k) xs)) else 0)"
  using assms(1-3)
proof (induction xs arbitrary: s)
  case (Cons x xs)
  let ?t = "s\<lparr>t_dnintake_item := t_dnintake_item s @ [new_dnintake_item e aid did w x]\<rparr>"
  have d: "distinct (map bt_batch_id (t_itembatch ?t))"
    "distinct (map inventory_key (t_inventory (store_batch e aid w x ?t)))"
    using Cons.prems(1) by (simp_all add: stock_ok_def)
  have "batch_sum gb (store_item e aid did w x s) k = batch_sum gb s k + (if k = (ii_item_id x, w) then h x else 0)"
    using store_batch_sum [where g = gb and h = h and k = k, OF d(1) assms(4,5)]
    by (simp add: store_item_def batch_sum_def)
  moreover have "row_sum gv (store_item e aid did w x s) k = row_sum gv s k + (if k = (ii_item_id x, w) then h x else 0)"
    using store_inventory_sum [where g = gv and h = h and k = k, OF d(2) assms(6,7)]
    by (simp add: store_item_def row_sum_def)
  ultimately show ?case
    using Cons.IH [OF store_item_ok [OF Cons.prems(1,2)]] Cons.prems(3) by (auto simp: prod_eq_iff)
qed simp

lemma store_items_ok:
  assumes "stock_ok s" and "batches_numbered s" and "\<forall>x \<in> set xs. 0 \<le> ii_usable_qty x"
  shows "stock_ok (fold (store_item e aid did w) xs s) \<and> batches_numbered (fold (store_item e aid did w) xs s)"
  using assms by (induction xs arbitrary: s) (auto intro: store_item_ok)

lemma store_items_tables:
  "t_donation (fold (store_item e aid did w) xs s) = t_donation s"
  "t_donation_item (fold (store_item e aid did w) xs s) = t_donation_item s"
  "t_dnintake (fold (store_item e aid did w) xs s) = t_dnintake s"
  "seq_donation (fold (store_item e aid did w) xs s) = seq_donation s"
  "t_reliefpkg (fold (store_item e aid did w) xs s) = t_reliefpkg s"
  "t_reliefpkg_item (fold (store_item e aid did w) xs s) = t_reliefpkg_item s"
  "t_reliefrqst_item (fold (store_item e aid did w) xs s) = t_reliefrqst_item s"
  "seq_reliefpkg (fold (store_item e aid did w) xs s) = seq_reliefpkg s"
  "t_dnintake_item (fold (store_item e aid did w) xs s) = t_dnintake_item s @ map (new_dnintake_item e aid did w) xs"
  by (induction xs arbitrary: s; simp add: store_item_def)+


section \<open>What validation establishes\<close>

definition item_ok :: "intake_item \<Rightarrow> bool" where
  "item_ok x \<longleftrightarrow> 0 < ii_usable_qty x \<and> 0 \<le> ii_defective_qty x \<and> 0 \<le> ii_expired_qty x"

lemma check_line_ok:
  assumes "check_line today i it l = Inr x"
  shows "ii_item_id x = i \<and> item_ok x"
proof -
  from assms obtain l0 u d ex where "ii_item_id x = i" "ii_usable_qty x = u" "ii_defective_qty x = d" "ii_expired_qty x = ex"
    and q: "check_qtys l0 = Inr (u, d, ex)"
    by (auto simp: check_line_def split: option.splits sum.splits if_splits)
  moreover from q have "0 < u" "0 \<le> d" "0 \<le> ex"
    by (auto simp: check_qtys_def Let_def split: if_splits)
  ultimately show ?thesis by (simp add: item_ok_def)
qed

lemma check_lines_ok:
  "check_lines s today f ms = Inr ([], xs) \<Longrightarrow> map ii_item_id xs = map dm_item_id ms \<and> list_all item_ok xs"
proof (induction ms arbitrary: xs)
  case (Cons m ms)
  then obtain it x ys where "check_lines s today f ms = Inr ([], ys)" "xs = x # ys"
    and "check_line today (dm_item_id m) it (ip_line f (dm_item_id m)) = Inr x"
    by (auto split: option.splits sum.splits)
  with Cons.IH check_line_ok show ?case by simp
qed simp

definition donated :: "db \<Rightarrow> int \<Rightarrow> int \<Rightarrow> qty" where
  "donated s did i = sum_list (map dm_item_qty (filter (\<lambda>m. dm_item_id m = i) (donation_items_of s did)))"

lemma distinct_donation_items:
  "distinct (map donation_item_key (t_donation_item s)) \<Longrightarrow> distinct (map dm_item_id (donation_items_of s did))"
  by (auto simp: donation_items_of_def donation_item_key_def distinct_map inj_on_def)

lemma sum_unique:
  fixes h :: "'r \<Rightarrow> rat"
  assumes "distinct (map key rows)" and "r \<in> set rows"
  shows "sum_list (map h (filter (\<lambda>c. key c = key r) rows)) = h r"
proof -
  have "filter (\<lambda>c. key c = key r) rows = [r]" using assms
  proof (induction rows)
    case (Cons c rows)
    show ?case
    proof (cases "c = r")
      case True
      then have "key r \<notin> key ` set rows" using Cons.prems(1) by simp
      then have "filter (\<lambda>c. key c = key r) rows = []" by (auto simp: filter_empty_conv image_iff)
      then show ?thesis using True by simp
    next
      case False
      then have r: "r \<in> set rows" using Cons.prems(2) by simp
      then have "key r \<in> key ` set rows" by simp
      then have "key c \<noteq> key r" using Cons.prems(1) by auto
      then show ?thesis using Cons.IH r Cons.prems(1) by simp
    qed
  qed simp
  then show ?thesis by simp
qed

lemma total_errors_donated:
  assumes "total_errors (donation_items_of s did) xs = []" and "map ii_item_id xs = map dm_item_id (donation_items_of s did)"
    and "distinct (map donation_item_key (t_donation_item s))"
  shows "item_total xs i = donated s did i"
proof (cases "i \<in> dm_item_id ` set (donation_items_of s did)")
  case True
  then obtain m where m: "m \<in> set (donation_items_of s did)" "dm_item_id m = i" by auto
  have "item_total xs (dm_item_id m) = dm_item_qty m"
    using assms(1) m(1) by (auto simp: total_errors_def split: if_splits)
  moreover have "donated s did (dm_item_id m) = dm_item_qty m"
    unfolding donated_def by (rule sum_unique [OF distinct_donation_items [OF assms(3)] m(1)])
  ultimately show ?thesis by (simp add: m(2))
next
  case False
  then have "i \<notin> ii_item_id ` set xs" using assms(2) by (metis list.set_map)
  then have "filter (\<lambda>x. ii_item_id x = i) xs = []" by (auto simp: filter_empty_conv)
  moreover have "filter (\<lambda>m. dm_item_id m = i) (donation_items_of s did) = []"
    using False by (auto simp: filter_empty_conv)
  ultimately show ?thesis by (simp add: item_total_def donated_def)
qed

lemma intake_saved:
  assumes "intake_form e f did w s = Inr (Saved, s')"
  obtains d aid day xs where "get_donation s did = Some d" "dn_status_code d = ''V''"
    "(did, w) \<notin> (\<lambda>k. (dk_donation_id k, dk_inventory_id k)) ` set (t_dnintake s)"
    "check_lines s (en_today e) f (donation_items_of s did) = Inr ([], xs)"
    "total_errors (donation_items_of s did) xs = []" "existing_errors s xs = []"
    "s' = write_intake e aid did w day (ip_comments_text f) xs s"
proof -
  obtain d where d: "get_donation s did = Some d" "dn_status_code d = ''V''"
    "(did, w) \<notin> (\<lambda>k. (dk_donation_id k, dk_inventory_id k)) ` set (t_dnintake s)"
    and run: "process_intake_submission e f did w s = (Saved, s')"
    using assms by (auto simp: intake_form_def split: if_splits option.splits)
  from run obtain xs day aid where v: "validate_intake e f did s = Inr ([], xs)"
    and s': "s' = write_intake e aid did w day (ip_comments_text f) xs s"
    by (auto simp: process_intake_submission_def split: sum.splits if_splits dfield.splits)
  from v have "check_lines s (en_today e) f (donation_items_of s did) = Inr ([], xs)"
    "total_errors (donation_items_of s did) xs = []" "existing_errors s xs = []"
    by (auto simp: validate_intake_def Let_def split: sum.splits)
  then show thesis using that d s' by blast
qed

lemma write_intake_stock:
  "t_itembatch (write_intake e aid did w day c xs s) = t_itembatch (fold (store_item e aid did w) xs
     (s\<lparr>t_dnintake := t_dnintake s @ [new_dnintake e aid did w day c]\<rparr>))"
  "t_inventory (write_intake e aid did w day c xs s) = t_inventory (fold (store_item e aid did w) xs
     (s\<lparr>t_dnintake := t_dnintake s @ [new_dnintake e aid did w day c]\<rparr>))"
  "seq_itembatch (write_intake e aid did w day c xs s) = seq_itembatch (fold (store_item e aid did w) xs
     (s\<lparr>t_dnintake := t_dnintake s @ [new_dnintake e aid did w day c]\<rparr>))"
  by (simp_all add: write_intake_def set_donation_def)

lemma write_intake_sums:
  assumes "stock_ok s" and "batches_numbered s" and "list_all item_ok xs"
    and "\<And>x b. gb (topped_up e aid x b) = gb b + h x" and "\<And>x n. gb (new_batch e aid n w x) = h x"
    and "\<And>x v. gv (restocked e aid x v) = gv v + h x" and "\<And>x. gv (new_inventory e aid w x) = h x"
  shows "batch_sum gb (write_intake e aid did w day c xs s) k
      = batch_sum gb s k + (if snd k = w then sum_list (map h (filter (\<lambda>x. ii_item_id x = fst k) xs)) else 0)"
    and "row_sum gv (write_intake e aid did w day c xs s) k
      = row_sum gv s k + (if snd k = w then sum_list (map h (filter (\<lambda>x. ii_item_id x = fst k) xs)) else 0)"
proof -
  let ?t = "s\<lparr>t_dnintake := t_dnintake s @ [new_dnintake e aid did w day c]\<rparr>"
  have "stock_ok ?t" "batches_numbered ?t" "\<forall>x \<in> set xs. 0 \<le> ii_usable_qty x"
    using assms(1-3) by (auto simp: stock_ok_def batches_numbered_def list_all_iff item_ok_def)
  from store_items_sums [where gb = gb and gv = gv and h = h and k = k, OF this assms(4-7)]
  show "batch_sum gb (write_intake e aid did w day c xs s) k
      = batch_sum gb s k + (if snd k = w then sum_list (map h (filter (\<lambda>x. ii_item_id x = fst k) xs)) else 0)"
    "row_sum gv (write_intake e aid did w day c xs s) k
      = row_sum gv s k + (if snd k = w then sum_list (map h (filter (\<lambda>x. ii_item_id x = fst k) xs)) else 0)"
    by (simp_all add: batch_sum_def row_sum_def write_intake_stock)
qed

lemma write_intake_ok:
  assumes "stock_ok s" and "batches_numbered s" and "list_all item_ok xs"
  shows "stock_ok (write_intake e aid did w day c xs s) \<and> batches_numbered (write_intake e aid did w day c xs s)"
proof -
  let ?t = "s\<lparr>t_dnintake := t_dnintake s @ [new_dnintake e aid did w day c]\<rparr>"
  have "stock_ok ?t" "batches_numbered ?t" "\<forall>x \<in> set xs. 0 \<le> ii_usable_qty x"
    using assms by (auto simp: stock_ok_def batches_numbered_def list_all_iff item_ok_def)
  from store_items_ok [OF this] show ?thesis
    by (simp add: stock_ok_def batches_numbered_def write_intake_stock)
qed

section \<open>Donations over time\<close>

definition intakes_of :: "db \<Rightarrow> int \<Rightarrow> dnintake list" where
  "intakes_of s did = filter (\<lambda>k. dk_donation_id k = did) (t_dnintake s)"

definition taken_in :: "db \<Rightarrow> int \<Rightarrow> int \<Rightarrow> qty" where
  "taken_in s did i = sum_list (map (\<lambda>j. dj_usable_qty j + dj_defective_qty j + dj_expired_qty j)
     (filter (\<lambda>j. dj_donation_id j = did \<and> dj_item_id j = i) (t_dnintake_item s)))"

text \<open>The tables of donations and their intakes; every other operation leaves them alone.\<close>

definition donation_tables ::
  "db \<Rightarrow> donation list \<times> donation_item list \<times> dnintake list \<times> dnintake_item list \<times> int" where
  "donation_tables s = (t_donation s, t_donation_item s, t_dnintake s, t_dnintake_item s, seq_donation s)"

inductive donation_step :: "db \<Rightarrow> db \<Rightarrow> bool" where
  step_create: "create_donation e f s = Inr (r, s') \<Longrightarrow> donation_step s s'"
| step_edit: "edit_donation e g did s = Inr (r, s') \<Longrightarrow> donation_step s s'"
| step_delete: "delete_donation e did s = Inr (r, s') \<Longrightarrow> donation_step s s'"
| step_add_item: "add_donation_item e h did s = Inr (r, s') \<Longrightarrow> donation_step s s'"
| step_edit_item: "edit_donation_item e h did i s = Inr (r, s') \<Longrightarrow> donation_step s s'"
| step_delete_item: "delete_donation_item e did i s = Inr (r, s') \<Longrightarrow> donation_step s s'"
| step_take_in: "intake_form e p did w s = Inr (r', s') \<Longrightarrow> donation_step s s'"
| step_elsewhere: "donation_tables s' = donation_tables s \<Longrightarrow> donation_step s s'"

definition no_donations :: "db \<Rightarrow> bool" where
  "no_donations s \<longleftrightarrow> t_donation s = [] \<and> t_donation_item s = [] \<and> t_dnintake s = [] \<and> t_dnintake_item s = []"

definition waiting :: "db \<Rightarrow> donation \<Rightarrow> bool" where
  "waiting s d \<longleftrightarrow> dn_status_code d = ''V'' \<and> intakes_of s (dn_donation_id d) = [] \<and> (\<forall>i. taken_in s (dn_donation_id d) i = 0)"

definition settled :: "db \<Rightarrow> donation \<Rightarrow> bool" where
  "settled s d \<longleftrightarrow> dn_status_code d = ''P'' \<and> length (intakes_of s (dn_donation_id d)) = 1
     \<and> (\<forall>i. taken_in s (dn_donation_id d) i = donated s (dn_donation_id d) i)"

definition donations_ok :: "db \<Rightarrow> bool" where
  "donations_ok s \<longleftrightarrow> distinct (map dn_donation_id (t_donation s)) \<and> distinct (map donation_item_key (t_donation_item s))
     \<and> (\<forall>d \<in> set (t_donation s). dn_donation_id d < seq_donation s \<and> (waiting s d \<or> settled s d))
     \<and> (\<forall>m \<in> set (t_donation_item s). dm_donation_id m < seq_donation s)
     \<and> (\<forall>k \<in> set (t_dnintake s). dk_donation_id k < seq_donation s)
     \<and> (\<forall>j \<in> set (t_dnintake_item s). dj_donation_id j < seq_donation s)"

lemma donations_ok_cong:
  assumes "donation_tables t = donation_tables s"
  shows "donations_ok t = donations_ok s" "donation_items_of t did = donation_items_of s did"
proof -
  have eq: "t_donation t = t_donation s" "t_donation_item t = t_donation_item s" "t_dnintake t = t_dnintake s"
    "t_dnintake_item t = t_dnintake_item s" "seq_donation t = seq_donation s"
    using assms by (simp_all add: donation_tables_def)
  then show "donations_ok t = donations_ok s" "donation_items_of t did = donation_items_of s did"
    by (simp_all add: donations_ok_def waiting_def settled_def intakes_of_def taken_in_def donated_def donation_items_of_def)
qed

text \<open>Every donation is verified or processed, so the operations on drafts are all refused.\<close>

lemma donations_read_only:
  assumes "donations_ok s" and "get_donation s did = Some d"
  shows "read_only d"
proof -
  have "d \<in> set (t_donation s)" using assms(2) unfolding get_donation_def by (meson find_Some_set)
  then show ?thesis using assms(1) by (auto simp: donations_ok_def waiting_def settled_def read_only_def)
qed

lemma drafts_refused:
  assumes "donations_ok s"
  shows "edit_donation e g did s = Inr (r, s') \<Longrightarrow> s' = s" "delete_donation e did s = Inr (r, s') \<Longrightarrow> s' = s"
    "add_donation_item e h did s = Inr (r, s') \<Longrightarrow> s' = s"
    "edit_donation_item e h did i s = Inr (r, s') \<Longrightarrow> s' = s" "delete_donation_item e did i s = Inr (r, s') \<Longrightarrow> s' = s"
  using donations_read_only [OF assms]
  by (auto simp: edit_donation_def delete_donation_def add_donation_item_def edit_donation_item_def
      delete_donation_item_def split: if_splits option.splits)

lemma create_cases:
  assumes "create_donation e f s = Inr (r, s')"
  shows "s' = s \<or> (\<exists>n items. s' = s\<lparr>t_donation := t_donation s @ [n], t_donation_item := t_donation_item s @ items,
        seq_donation := seq_donation s + 1\<rparr> \<and> dn_donation_id n = seq_donation s \<and> dn_status_code n = ''V''
      \<and> (\<forall>m \<in> set items. dm_donation_id m = seq_donation s) \<and> distinct (map dm_item_id items))"
proof (rule disjCI)
  assume no: "\<not> (\<exists>n items. s' = s\<lparr>t_donation := t_donation s @ [n], t_donation_item := t_donation_item s @ items,
        seq_donation := seq_donation s + 1\<rparr> \<and> dn_donation_id n = seq_donation s \<and> dn_status_code n = ''V''
      \<and> (\<forall>m \<in> set items. dm_donation_id m = seq_donation s) \<and> distinct (map dm_item_id items))"
  show "s' = s"
  proof (rule ccontr)
    assume "s' \<noteq> s"
    with assms have "store_donation e f s = (r, s')" by (auto simp: create_donation_def split: if_splits)
    with \<open>s' \<noteq> s\<close> obtain d v c day aid xs where
      s': "s' = s\<lparr>t_donation := t_donation s @ [new_donation e aid f (seq_donation s) d v c day],
          t_donation_item := t_donation_item s @ map (new_donation_item e aid (seq_donation s) ''DONATION RECEIVED'') xs,
          seq_donation := seq_donation s + 1\<rparr>"
      and "distinct (map dm_item_id (map (new_donation_item e aid (seq_donation s) ''DONATION RECEIVED'') xs))"
      unfolding store_donation_def Let_def
      by (auto split: if_splits vfield.splits dfield.splits sum.splits)
    moreover have "\<forall>m \<in> set (map (new_donation_item e aid (seq_donation s) ''DONATION RECEIVED'') xs). dm_donation_id m = seq_donation s"
      by (auto simp: new_donation_item_def)
    moreover have "dn_donation_id (new_donation e aid f (seq_donation s) d v c day) = seq_donation s"
      "dn_status_code (new_donation e aid f (seq_donation s) d v c day) = ''V''" by (simp_all add: new_donation_def)
    ultimately show False using no by blast
  qed
qed

lemma create_keeps:
  assumes "donations_ok s" and "create_donation e f s = Inr (r, s')"
  shows "donations_ok s'"
  using create_cases [OF assms(2)]
proof (elim disjE exE conjE)
  fix n items
  assume s': "s' = s\<lparr>t_donation := t_donation s @ [n], t_donation_item := t_donation_item s @ items, seq_donation := seq_donation s + 1\<rparr>"
    and n: "dn_donation_id n = seq_donation s" "dn_status_code n = ''V''"
    and items: "\<forall>m \<in> set items. dm_donation_id m = seq_donation s" "distinct (map dm_item_id items)"
  note ok = assms(1) [unfolded donations_ok_def]
  have same: "intakes_of s' x = intakes_of s x" "taken_in s' x = taken_in s x" for x
    by (simp_all add: s' intakes_of_def taken_in_def fun_eq_iff)
  have "filter (\<lambda>m. dm_donation_id m = x) items = []" if "x < seq_donation s" for x
    using items(1) that by (auto simp: filter_empty_conv)
  then have don: "donated s' x = donated s x" if "x < seq_donation s" for x
    using that by (simp add: s' donated_def donation_items_of_def fun_eq_iff)
  have "intakes_of s (seq_donation s) = []" using ok by (auto simp: intakes_of_def filter_empty_conv)
  moreover have "taken_in s (seq_donation s) i = 0" for i
  proof -
    have "filter (\<lambda>j. dj_donation_id j = seq_donation s \<and> dj_item_id j = i) (t_dnintake_item s) = []"
      using ok by (auto simp: filter_empty_conv)
    then show ?thesis by (simp add: taken_in_def)
  qed
  ultimately have "waiting s' n" by (simp add: waiting_def n same)
  moreover have "waiting s' d \<or> settled s' d" if "d \<in> set (t_donation s)" for d
    using ok that don [of "dn_donation_id d"] by (auto simp: waiting_def settled_def same)
  moreover have "distinct (map donation_item_key (t_donation_item s @ items))"
  proof -
    have "distinct (map donation_item_key items)"
      using items by (auto simp: distinct_map inj_on_def donation_item_key_def)
    moreover have "donation_item_key m \<notin> donation_item_key ` set items" if "m \<in> set (t_donation_item s)" for m
      using that ok items(1) by (auto simp: donation_item_key_def)
    ultimately show ?thesis using ok unfolding map_append distinct_append set_map by blast
  qed
  moreover have "distinct (map dn_donation_id (t_donation s @ [n]))" using ok n(1) by auto
  moreover have "dn_donation_id d < seq_donation s'" if "d \<in> set (t_donation s')" for d
    using that ok n(1) by (auto simp: s')
  moreover have "dm_donation_id m < seq_donation s'" if "m \<in> set (t_donation_item s')" for m
    using that ok items(1) by (auto simp: s')
  moreover have "dk_donation_id k < seq_donation s'" if "k \<in> set (t_dnintake s')" for k
    using that ok by (auto simp: s')
  moreover have "dj_donation_id j < seq_donation s'" if "j \<in> set (t_dnintake_item s')" for j
    using that ok by (auto simp: s')
  moreover have "t_donation s' = t_donation s @ [n]" "t_donation_item s' = t_donation_item s @ items" by (simp_all add: s')
  ultimately show ?thesis unfolding donations_ok_def by auto
qed (use assms(1) in simp)

lemma intake_cases: "intake_form e p did w s = Inr (r, s') \<Longrightarrow> s' = s \<or> r = Saved"
  by (auto simp: intake_form_def process_intake_submission_def split: if_splits option.splits sum.splits dfield.splits)

lemma orm_processed_sel [simp]:
  "dn_donation_id (orm_donation d (processed_donation e aid d)) = dn_donation_id d"
  "dn_status_code (orm_donation d (processed_donation e aid d)) = ''P''"
  by (auto simp: orm_donation_def processed_donation_def) (metis donation.select_convs(7) donation.surjective donation.update_convs(7,11,12))

lemma write_intake_tables:
  "t_donation (write_intake e aid did w day c xs s) = upd_where (\<lambda>d. dn_donation_id d = did)
     (\<lambda>d. orm_donation d (processed_donation e aid d)) (t_donation s)"
  "t_donation_item (write_intake e aid did w day c xs s) = t_donation_item s"
  "t_dnintake (write_intake e aid did w day c xs s) = t_dnintake s @ [new_dnintake e aid did w day c]"
  "t_dnintake_item (write_intake e aid did w day c xs s) = t_dnintake_item s @ map (new_dnintake_item e aid did w) xs"
  "seq_donation (write_intake e aid did w day c xs s) = seq_donation s"
  "t_reliefpkg (write_intake e aid did w day c xs s) = t_reliefpkg s"
  "t_reliefpkg_item (write_intake e aid did w day c xs s) = t_reliefpkg_item s"
  "t_reliefrqst_item (write_intake e aid did w day c xs s) = t_reliefrqst_item s"
  "seq_reliefpkg (write_intake e aid did w day c xs s) = seq_reliefpkg s"
  by (simp_all add: write_intake_def set_donation_def store_items_tables)

lemma taken_in_write:
  "taken_in (write_intake e aid did w day c xs s) x i = taken_in s x i + (if x = did then item_total xs i else 0)"
proof -
  have "sum_list (map (\<lambda>j. dj_usable_qty j + dj_defective_qty j + dj_expired_qty j)
      (filter (\<lambda>j. dj_donation_id j = x \<and> dj_item_id j = i) (map (new_dnintake_item e aid did w) xs)))
    = (if x = did then item_total xs i else 0)"
    by (induction xs) (auto simp: new_dnintake_item_def item_total_def ii_total_def)
  then show ?thesis by (simp add: taken_in_def write_intake_tables)
qed

lemma intake_keeps:
  assumes "donations_ok s" and "intake_form e f did w s = Inr (r, s')"
  shows "donations_ok s'"
proof (cases "r = Saved")
  case True
  with assms(2) obtain d aid day xs where d: "get_donation s did = Some d" "dn_status_code d = ''V''"
    and xs: "check_lines s (en_today e) f (donation_items_of s did) = Inr ([], xs)"
      "total_errors (donation_items_of s did) xs = []"
    and s': "s' = write_intake e aid did w day (ip_comments_text f) xs s" by (auto elim: intake_saved)
  note ok = assms(1) [unfolded donations_ok_def]
  have din: "d \<in> set (t_donation s)" "dn_donation_id d = did"
    using find_Some_set [OF d(1) [unfolded get_donation_def]] by auto
  have wait: "waiting s d" using ok din(1) d(2) by (auto simp: settled_def)
  have total: "item_total xs i = donated s did i" for i
    using total_errors_donated [OF xs(2)] check_lines_ok [OF xs(1)] ok by blast
  have don: "donated s' x = donated s x" for x
    by (simp add: s' donated_def donation_items_of_def write_intake_tables fun_eq_iff)
  have ints: "intakes_of s' x = intakes_of s x @ (if x = did then [new_dnintake e aid did w day (ip_comments_text f)] else [])" for x
    by (simp add: s' intakes_of_def write_intake_tables new_dnintake_def)
  have tk: "taken_in s' x i = taken_in s x i + (if x = did then item_total xs i else 0)" for x i
    unfolding s' by (rule taken_in_write)
  let ?p = "\<lambda>d. orm_donation d (processed_donation e aid d)"
  have "waiting s' x \<or> settled s' x" if "x \<in> set (t_donation s)" "dn_donation_id x \<noteq> did" for x
    using ok that by (auto simp: waiting_def settled_def ints don tk)
  moreover have "settled s' (?p x)" if "x \<in> set (t_donation s)" "dn_donation_id x = did" for x
    using wait that din(2) by (simp add: waiting_def settled_def ints don tk total)
  ultimately have "waiting s' y \<or> settled s' y" if "y \<in> set (t_donation s')" for y
    using that by (auto simp: s' write_intake_tables set_upd_where)
  moreover have "map dn_donation_id (t_donation s') = map dn_donation_id (t_donation s)"
    unfolding s' write_intake_tables by (rule map_upd_where_same) simp
  moreover have "dn_donation_id y < seq_donation s'" if "y \<in> set (t_donation s')" for y
    using that ok by (auto simp: s' write_intake_tables set_upd_where)
  moreover have "did < seq_donation s" using ok din by auto
  ultimately show ?thesis using ok
    unfolding donations_ok_def by (auto simp: s' write_intake_tables new_dnintake_def new_dnintake_item_def)
qed (use assms intake_cases [OF assms(2)] in auto)

interpretation donation_flow: invariant_system no_donations donation_step donations_ok
proof
  show "no_donations s \<Longrightarrow> donations_ok s" for s by (simp add: no_donations_def donations_ok_def)
  show "donations_ok t" if ok: "donations_ok s" and step: "donation_step s t" for s t
    using step
  proof cases
    case step_elsewhere
    then show ?thesis using ok donations_ok_cong(1) by blast
  next
    case step_create
    then show ?thesis by (rule create_keeps [OF ok])
  next
    case step_take_in
    then show ?thesis by (rule intake_keeps [OF ok])
  next
    case step_edit
    then show ?thesis using ok drafts_refused(1) [OF ok] by metis
  next
    case step_delete
    then show ?thesis using ok drafts_refused(2) [OF ok] by metis
  next
    case step_add_item
    then show ?thesis using ok drafts_refused(3) [OF ok] by metis
  next
    case step_edit_item
    then show ?thesis using ok drafts_refused(4) [OF ok] by metis
  next
    case step_delete_item
    then show ?thesis using ok drafts_refused(5) [OF ok] by metis
  qed
qed

text \<open>A step leaves the content of an accepted donation and its items as they are.\<close>

definition same_content :: "donation \<Rightarrow> donation \<Rightarrow> bool" where
  "same_content d d' \<longleftrightarrow> d'\<lparr>dn_status_code := dn_status_code d, dn_update_by_id := dn_update_by_id d,
     dn_update_dtime := dn_update_dtime d, dn_version_nbr := dn_version_nbr d\<rparr> = d"

lemma same_content_refl [simp]: "same_content d d"
  by (simp add: same_content_def)

lemma same_content_processed [simp]: "same_content d (orm_donation d (processed_donation e aid d))"
  by (simp add: same_content_def orm_donation_def processed_donation_def)

lemma create_content:
  assumes "donations_ok s" and "create_donation e f s = Inr (r, s')" and "d \<in> set (t_donation s)"
  shows "d \<in> set (t_donation s') \<and> donation_items_of s' (dn_donation_id d) = donation_items_of s (dn_donation_id d)"
  using create_cases [OF assms(2)]
proof (elim disjE exE conjE)
  fix n items
  assume s': "s' = s\<lparr>t_donation := t_donation s @ [n], t_donation_item := t_donation_item s @ items, seq_donation := seq_donation s + 1\<rparr>"
    and items: "\<forall>m \<in> set items. dm_donation_id m = seq_donation s"
  have "dn_donation_id d < seq_donation s" using assms(1,3) by (simp add: donations_ok_def)
  then have "filter (\<lambda>m. dm_donation_id m = dn_donation_id d) items = []" using items by (auto simp: filter_empty_conv)
  then show ?thesis using assms(3) by (simp add: s' donation_items_of_def)
qed (use assms(3) in simp)

lemma intake_content:
  assumes "intake_form e f did w s = Inr (r, s')" and "d \<in> set (t_donation s)"
  shows "\<exists>d' \<in> set (t_donation s'). same_content d d'
     \<and> donation_items_of s' (dn_donation_id d) = donation_items_of s (dn_donation_id d)"
proof (cases "r = Saved")
  case True
  with assms(1) obtain aid day xs where s': "s' = write_intake e aid did w day (ip_comments_text f) xs s"
    by (auto elim: intake_saved)
  have "donation_items_of s' x = donation_items_of s x" for x
    by (simp add: s' donation_items_of_def write_intake_tables)
  moreover have "(if dn_donation_id d = did then orm_donation d (processed_donation e aid d) else d) \<in> set (t_donation s')"
    using assms(2) unfolding s' write_intake_tables set_upd_where by (rule rev_image_eqI) simp
  ultimately show ?thesis by (metis same_content_processed same_content_refl)
next
  case False
  then have "s' = s" using intake_cases [OF assms(1)] by simp
  then show ?thesis using assms(2) same_content_refl by blast
qed

lemma step_content:
  assumes ok: "donations_ok s" and step: "donation_step s s'" and d: "d \<in> set (t_donation s)"
  shows "\<exists>d' \<in> set (t_donation s'). same_content d d'
     \<and> donation_items_of s' (dn_donation_id d) = donation_items_of s (dn_donation_id d)"
proof -
  have same: ?thesis if "s' = s" using that d same_content_refl by blast
  from step show ?thesis
  proof cases
    case step_create
    from create_content [OF ok this d] show ?thesis using same_content_refl by blast
  next
    case step_take_in
    from intake_content [OF this d] show ?thesis .
  next
    case step_elsewhere
    then show ?thesis using d donations_ok_cong(2) [OF step_elsewhere] same_content_refl
      unfolding donation_tables_def by fastforce
  next
    case step_edit
    from drafts_refused(1) [OF ok this] show ?thesis by (rule same)
  next
    case step_delete
    from drafts_refused(2) [OF ok this] show ?thesis by (rule same)
  next
    case step_add_item
    from drafts_refused(3) [OF ok this] show ?thesis by (rule same)
  next
    case step_edit_item
    from drafts_refused(4) [OF ok this] show ?thesis by (rule same)
  next
    case step_delete_item
    from drafts_refused(5) [OF ok this] show ?thesis by (rule same)
  qed
qed

section \<open>Stock without a batch number\<close>

definition batch_all :: "itembatch \<Rightarrow> qty" where
  "batch_all b = bt_usable_qty b + bt_defective_qty b + bt_expired_qty b"

definition row_all :: "inventory \<Rightarrow> qty" where
  "row_all v = iv_usable_qty v + iv_defective_qty v + iv_expired_qty v"

definition expiries_at :: "db \<Rightarrow> int \<times> int \<Rightarrow> date option set" where
  "expiries_at s k = bt_expiry_date ` {b \<in> set (t_itembatch s). at_key k b}"

lemma find_upd_where:
  "(\<And>r. Q r \<Longrightarrow> P (f r) = P r) \<Longrightarrow> find P (upd_where Q f rows) = map_option (\<lambda>r. if Q r then f r else r) (find P rows)"
  by (induction rows) auto

lemma find_append_Some: "find P xs = Some x \<Longrightarrow> find P (xs @ ys) = Some x"
  by (induction xs) (auto split: if_splits)

text \<open>\<open>absorbs s i w b t q\<close>: the unnumbered batch \<open>b\<close> has taken \<open>q\<close> and no expiry date is new.\<close>

definition absorbs :: "db \<Rightarrow> int \<Rightarrow> int \<Rightarrow> itembatch \<Rightarrow> db \<Rightarrow> qty \<Rightarrow> bool" where
  "absorbs s i w b t q \<longleftrightarrow> (\<exists>b'. find (unnumbered w i) (t_itembatch t) = Some b' \<and> bt_batch_id b' = bt_batch_id b
     \<and> bt_expiry_date b' = bt_expiry_date b \<and> batch_all b' = batch_all b + q) \<and> expiries_at t (i, w) \<subseteq> expiries_at s (i, w)"

lemma store_batch_absorbs:
  assumes "absorbs s i w b t q" and "distinct (map bt_batch_id (t_itembatch t))" and "ii_item_id x = i \<Longrightarrow> ii_batch_no x = None"
  shows "absorbs s i w b (store_batch e aid w x t) (q + (if ii_item_id x = i then ii_total x else 0))"
proof -
  from assms(1) obtain b' where b': "find (unnumbered w i) (t_itembatch t) = Some b'" "bt_batch_id b' = bt_batch_id b"
      "bt_expiry_date b' = bt_expiry_date b" "batch_all b' = batch_all b + q"
    and ex: "expiries_at t (i, w) \<subseteq> expiries_at s (i, w)" by (auto simp: absorbs_def)
  have b'in: "b' \<in> set (t_itembatch t)" "bt_item_id b' = i"
    using find_Some_set [OF b'(1)] by (auto simp: unnumbered_def)
  show ?thesis
  proof (cases "if ii_batch_no x = None then find (unnumbered w (ii_item_id x)) (t_itembatch t) else None")
    case None
    then have "ii_item_id x \<noteq> i" using assms(3) b'(1) by auto
    then have "\<not> at_key (i, w) (new_batch e aid (seq_itembatch t) w x)" by (simp add: at_key_def)
    then have "{c \<in> set (t_itembatch (store_batch e aid w x t)). at_key (i, w) c} = {c \<in> set (t_itembatch t). at_key (i, w) c}"
      using None by (auto simp: store_batch_def)
    then have "expiries_at (store_batch e aid w x t) (i, w) = expiries_at t (i, w)" by (simp add: expiries_at_def)
    moreover have "find (unnumbered w i) (t_itembatch (store_batch e aid w x t)) = Some b'"
      using None b'(1) by (simp add: store_batch_def find_append_Some)
    ultimately show ?thesis using b' ex \<open>ii_item_id x \<noteq> i\<close> unfolding absorbs_def by auto
  next
    case (Some c)
    then have c: "c \<in> set (t_itembatch t)" "bt_item_id c = ii_item_id x" "find (unnumbered w (ii_item_id x)) (t_itembatch t) = Some c"
      by (auto simp: unnumbered_def split: if_splits dest!: find_Some_set)
    let ?f = "\<lambda>r. if bt_batch_id r = bt_batch_id c then topped_up e aid x r else r"
    have t': "t_itembatch (store_batch e aid w x t) = upd_where (\<lambda>r. bt_batch_id r = bt_batch_id c) (topped_up e aid x) (t_itembatch t)"
      using Some by (simp add: store_batch_def)
    have "find (unnumbered w i) (t_itembatch (store_batch e aid w x t)) = Some (?f b')"
      unfolding t' by (subst find_upd_where) (simp_all add: unnumbered_def [abs_def] b'(1) [unfolded unnumbered_def [abs_def]])
    moreover have "bt_batch_id b' = bt_batch_id c \<longleftrightarrow> ii_item_id x = i"
    proof
      assume "bt_batch_id b' = bt_batch_id c"
      then have "b' = c" using assms(2) b'in(1) c(1) by (auto simp: distinct_map inj_on_def)
      then show "ii_item_id x = i" using c(2) b'in(2) by simp
    qed (use c(3) b'(1) in simp)
    moreover have "expiries_at (store_batch e aid w x t) (i, w) \<subseteq> expiries_at t (i, w)"
      unfolding expiries_at_def t' set_upd_where by (auto simp: at_key_def)
    ultimately show ?thesis using b' ex unfolding absorbs_def by (auto simp: batch_all_def ii_total_def)
  qed
qed

lemma absorbs_cong: "t_itembatch t' = t_itembatch t \<Longrightarrow> absorbs s i w b t' q = absorbs s i w b t q"
  by (simp add: absorbs_def expiries_at_def)

lemma store_items_absorb:
  assumes "absorbs s i w b t q" and "stock_ok t" and "batches_numbered t" and "list_all item_ok xs"
    and "\<forall>x \<in> set xs. ii_item_id x = i \<longrightarrow> ii_batch_no x = None"
  shows "absorbs s i w b (fold (store_item e aid did w) xs t) (q + item_total xs i)"
  using assms
proof (induction xs arbitrary: t q)
  case (Cons x xs)
  let ?t = "t\<lparr>t_dnintake_item := t_dnintake_item t @ [new_dnintake_item e aid did w x]\<rparr>"
  let ?q = "q + (if ii_item_id x = i then ii_total x else 0)"
  have "absorbs s i w b ?t q" using Cons.prems(1) absorbs_cong [of ?t t] by simp
  moreover have "distinct (map bt_batch_id (t_itembatch ?t))" using Cons.prems(2) by (simp add: stock_ok_def)
  ultimately have "absorbs s i w b (store_batch e aid w x ?t) ?q"
    by (rule store_batch_absorbs) (use Cons.prems(5) in simp)
  then have one: "absorbs s i w b (store_item e aid did w x t) ?q"
    unfolding store_item_def using absorbs_cong [OF store_inventory_tables(1)] by simp
  have x: "0 \<le> ii_usable_qty x" using Cons.prems(4) by (simp add: item_ok_def)
  from Cons.IH [OF one store_item_ok [OF Cons.prems(2,3) x]] Cons.prems(4,5) show ?case
    by (auto simp: item_total_def add.assoc)
qed (simp add: item_total_def)

lemma check_lines_from:
  "check_lines s today f ms = Inr (errs, xs) \<Longrightarrow> x \<in> set xs \<Longrightarrow>
     \<exists>it. check_line today (ii_item_id x) it (ip_line f (ii_item_id x)) = Inr x"
proof (induction ms arbitrary: errs xs)
  case (Cons m ms)
  then obtain it errs' ys where ys: "check_lines s today f ms = Inr (errs', ys)"
    and "xs = ys \<or> (\<exists>y. check_line today (dm_item_id m) it (ip_line f (dm_item_id m)) = Inr y \<and> xs = y # ys)"
    by (auto split: option.splits sum.splits)
  then consider "x \<in> set ys" | "check_line today (dm_item_id m) it (ip_line f (dm_item_id m)) = Inr x"
    using Cons.prems(2) by auto
  then show ?case
  proof cases
    case 1
    then show ?thesis by (rule Cons.IH [OF ys])
  next
    case 2
    then have "ii_item_id x = dm_item_id m" using check_line_ok by blast
    with 2 show ?thesis by auto
  qed
qed simp

lemma check_line_unnumbered:
  "check_line today i it (Some l) = Inr x \<Longrightarrow> py_strip (il_batch_no l) = [] \<Longrightarrow> ii_batch_no x = None"
  by (auto simp: check_line_def check_batch_def py_upper_def Let_def split: sum.splits if_splits dfield.splits)

section \<open>Examples\<close>

text \<open>
  Ten units of item 1 accepted as donation 1, and a form that takes them in at warehouse 7: eight
  usable, two defective, expiring on day 742000, without a batch number.
\<close>

definition ex_dn_env :: env where
  "ex_dn_env = \<lparr>en_today = 739000, en_now = hours 100,
     en_user = ex_user 1 ''lo'' [ex_role 2 ''LOGISTICS_OFFICER''], en_status_cache = None,
     en_str_decimal = (\<lambda>q. ''0'')\<rparr>"

definition ex_donation_form :: donation_form where
  "ex_donation_form = \<lparr>df_donor_id = Number 1, df_event_id = Number 1, df_custodian_id = Number 1,
     df_donation_desc = ''rice'', df_received_date = Day 738990, df_comments_text = [],
     df_items = [\<lparr>dl_item_num = ''1'', dl_item_id = Number 1, dl_quantity = Qty 10, dl_uom_id = Some ''KG'',
       dl_item_comments = []\<rparr>]\<rparr>"

definition ex_intake :: intake_post where
  "ex_intake = \<lparr>ip_intake_date = Day 739000, ip_comments_text = [], ip_line = (\<lambda>i. if i = 1 then
     Some \<lparr>il_batch_no = [], il_batch_date = NoDate, il_expiry_date = Day 742000, il_uom_code = Some ''KG'',
       il_avg_unit_value = Qty 5, il_usable_qty = Qty 8, il_defective_qty = Qty 2, il_expired_qty = NoQty,
       il_item_comments = []\<rparr> else None)\<rparr>"

definition ex_before :: db where
  "ex_before = empty_db\<lparr>t_warehouse := [ex_warehouse], t_item := [ex_item ''FEFO'' True], t_donor := [ex_donor 1 ''OXFAM''],
     t_event := [ex_event 1 ''MELISSA''], t_custodian := [ex_custodian 1 ''ODPEM''], t_unitofmeasure := [ex_uom ''KG''], t_inventory := [ex_inventory 5 0],
     t_itembatch := [ex_batch 10 None (Some 738000) 5 0], seq_itembatch := 11\<rparr>"

definition ex_accepted :: db where
  "ex_accepted = snd (projr (create_donation ex_dn_env ex_donation_form ex_before))"

definition ex_taken_in :: db where
  "ex_taken_in = snd (projr (intake_form ex_dn_env ex_intake 1 7 ex_accepted))"

lemma ex_accepted_run: "create_donation ex_dn_env ex_donation_form ex_before = Inr (Saved, ex_accepted)"
  unfolding ex_accepted_def by (rule run_result) code_simp+

lemma ex_taken_in_run: "intake_form ex_dn_env ex_intake 1 7 ex_accepted = Inr (Saved, ex_taken_in)"
  unfolding ex_taken_in_def by (rule run_result) code_simp+

lemma ex_before_ok: "no_donations ex_before" "stock_ok ex_before" "batches_numbered ex_before"
  by (simp_all add: no_donations_def ex_before_def ex_simps stock_ok_def batch_ok_def batches_numbered_def inventory_key_def)

lemma ex_accepted_reach: "reach no_donations donation_step ex_accepted"
proof (rule reach_step)
  show "reach no_donations donation_step ex_before" by (rule reach_init) (rule ex_before_ok)
  show "donation_step ex_before ex_accepted" by (rule step_create [OF ex_accepted_run])
qed

lemma create_stock:
  "create_donation e f s = Inr (r, s') \<Longrightarrow> t_itembatch s' = t_itembatch s \<and> t_inventory s' = t_inventory s \<and> seq_itembatch s' = seq_itembatch s"
  by (drule create_cases) auto

lemma ex_accepted_ok: "stock_ok ex_accepted" "batches_numbered ex_accepted"
    "distinct (map donation_item_key (t_donation_item ex_accepted))"
proof -
  show "stock_ok ex_accepted" "batches_numbered ex_accepted"
    using create_stock [OF ex_accepted_run] ex_before_ok(2,3) by (simp_all add: stock_ok_def batches_numbered_def)
  show "distinct (map donation_item_key (t_donation_item ex_accepted))"
    using donation_flow.reach_inv [OF ex_accepted_reach] by (simp add: donations_ok_def)
qed

section \<open>Properties\<close>

text \<open>
  C5: a completed intake adds to the batches and to the warehouse rows of its warehouse exactly
  what was donated of each item, and nothing anywhere else; usable stock grows by the same amount
  in both, no reservation changes, and the stock stays well-formed.
\<close>

theorem intake_conserves:
  assumes "intake_form e f did w s = Inr (Saved, s')" and "stock_ok s" and "batches_numbered s"
    and "distinct (map donation_item_key (t_donation_item s))"
  shows "stock_ok s'
     \<and> batch_sum batch_all s' k = batch_sum batch_all s k + (if snd k = w then donated s did (fst k) else 0)
     \<and> row_sum row_all s' k = row_sum row_all s k + (if snd k = w then donated s did (fst k) else 0)
     \<and> batch_sum bt_usable_qty s' k - batch_sum bt_usable_qty s k = row_sum iv_usable_qty s' k - row_sum iv_usable_qty s k
     \<and> batch_sum bt_reserved_qty s' k = batch_sum bt_reserved_qty s k
     \<and> row_sum iv_reserved_qty s' k = row_sum iv_reserved_qty s k"
proof -
  from assms(1) obtain d aid day xs where xs: "check_lines s (en_today e) f (donation_items_of s did) = Inr ([], xs)"
      "total_errors (donation_items_of s did) xs = []"
    and s': "s' = write_intake e aid did w day (ip_comments_text f) xs s" by (rule intake_saved)
  have ok: "list_all item_ok xs" and ids: "map ii_item_id xs = map dm_item_id (donation_items_of s did)"
    using check_lines_ok [OF xs(1)] by auto
  note sums = write_intake_sums [OF assms(2,3) ok]
  have total: "sum_list (map ii_total (filter (\<lambda>x. ii_item_id x = i) xs)) = donated s did i" for i
    using total_errors_donated [OF xs(2) ids assms(4), of i] by (simp add: item_total_def)
  have "batch_sum batch_all s' k = batch_sum batch_all s k + (if snd k = w then donated s did (fst k) else 0)"
    "row_sum row_all s' k = row_sum row_all s k + (if snd k = w then donated s did (fst k) else 0)"
    unfolding s' by (subst sums [where gb = batch_all and gv = row_all and h = ii_total];
        simp add: total batch_all_def row_all_def ii_total_def)+
  moreover have "batch_sum bt_usable_qty s' k - batch_sum bt_usable_qty s k = row_sum iv_usable_qty s' k - row_sum iv_usable_qty s k"
    unfolding s' by (simp add: sums [where gb = bt_usable_qty and gv = iv_usable_qty and h = ii_usable_qty])
  moreover have "batch_sum bt_reserved_qty s' k = batch_sum bt_reserved_qty s k" "row_sum iv_reserved_qty s' k = row_sum iv_reserved_qty s k"
    unfolding s' by (simp_all add: sums [where gb = bt_reserved_qty and gv = iv_reserved_qty and h = "\<lambda>x. 0"])
  moreover have "stock_ok s'" unfolding s' using write_intake_ok [OF assms(2,3) ok] by blast
  ultimately show ?thesis by blast
qed

theorem intake_conserves_witness:
  "stock_ok ex_taken_in \<and> batch_sum batch_all ex_taken_in (1, 7) = 15 \<and> row_sum row_all ex_taken_in (1, 7) = 15"
proof -
  have "batch_sum batch_all ex_accepted (1, 7) = 5" "row_sum row_all ex_accepted (1, 7) = 5" "donated ex_accepted 1 1 = 10"
    by code_simp+
  then show ?thesis using intake_conserves [OF ex_taken_in_run ex_accepted_ok, of "(1, 7)"] by simp
qed

text \<open>
  C6: an accepted donation is immutable and enters the stock at most once and in full. From an
  empty donation table, whatever users do with donations and the rest of the system, a step leaves
  the content and the items of every donation as they are; a donation has at most one intake,
  has none while it is verified, and once processed exactly one, whose rows add up to what was
  donated of each item.
\<close>

theorem donation_enters_once:
  assumes "reach no_donations donation_step s" and "donation_step s s'" and "d \<in> set (t_donation s)"
  shows "(\<exists>d' \<in> set (t_donation s'). same_content d d'
        \<and> donation_items_of s' (dn_donation_id d) = donation_items_of s (dn_donation_id d))
     \<and> length (intakes_of s (dn_donation_id d)) = (if dn_status_code d = ''P'' then 1 else 0)
     \<and> taken_in s (dn_donation_id d) i = (if dn_status_code d = ''P'' then donated s (dn_donation_id d) i else 0)"
proof -
  have ok: "donations_ok s" by (rule donation_flow.reach_inv [OF assms(1)])
  then have "waiting s d \<or> settled s d" using assms(3) by (simp add: donations_ok_def)
  then have "length (intakes_of s (dn_donation_id d)) = (if dn_status_code d = ''P'' then 1 else 0)
     \<and> taken_in s (dn_donation_id d) i = (if dn_status_code d = ''P'' then donated s (dn_donation_id d) i else 0)"
    by (auto simp: waiting_def settled_def)
  then show ?thesis using step_content [OF ok assms(2,3)] by blast
qed

theorem donation_enters_once_witness:
  "\<exists>d. t_donation ex_taken_in = [d] \<and> dn_status_code d = ''P'' \<and> length (intakes_of ex_taken_in 1) = 1
     \<and> taken_in ex_taken_in 1 1 = 10"
proof -
  have r: "reach no_donations donation_step ex_taken_in"
    by (rule reach_step [OF ex_accepted_reach step_take_in [OF ex_taken_in_run]])
  have "map (\<lambda>d. (dn_donation_id d, dn_status_code d)) (t_donation ex_taken_in) = [(1, ''P'')]"
    and don: "donated ex_taken_in 1 1 = 10" by code_simp+
  then obtain d where d: "t_donation ex_taken_in = [d]" "dn_donation_id d = 1" "dn_status_code d = ''P''" by auto
  have "donation_step ex_taken_in ex_taken_in" by (rule step_elsewhere) simp
  from donation_enters_once [OF r this, of d 1] show ?thesis using d don by simp
qed

text \<open>
  C39: donated stock without a batch number is put under the wrong expiry date. When the warehouse
  already has an unnumbered batch of the item, the whole donated quantity goes into that batch and
  the batch keeps its own expiry date: the date of the form is recorded in no batch unless some
  batch of the item there had it before.
\<close>

theorem unnumbered_keeps_expiry:
  assumes "intake_form e f did w s = Inr (Saved, s')" and "stock_ok s" and "batches_numbered s"
    and "distinct (map donation_item_key (t_donation_item s))"
    and "ip_line f i = Some l" and "py_strip (il_batch_no l) = []"
    and "find (unnumbered w i) (t_itembatch s) = Some b"
  shows "(\<exists>b' \<in> set (t_itembatch s'). bt_batch_id b' = bt_batch_id b \<and> bt_expiry_date b' = bt_expiry_date b
        \<and> batch_all b' = batch_all b + donated s did i)
     \<and> expiries_at s' (i, w) \<subseteq> expiries_at s (i, w)"
proof -
  from assms(1) obtain d aid day xs where xs: "check_lines s (en_today e) f (donation_items_of s did) = Inr ([], xs)"
      "total_errors (donation_items_of s did) xs = []"
    and s': "s' = write_intake e aid did w day (ip_comments_text f) xs s" by (rule intake_saved)
  let ?t = "s\<lparr>t_dnintake := t_dnintake s @ [new_dnintake e aid did w day (ip_comments_text f)]\<rparr>"
  have ok: "list_all item_ok xs" and ids: "map ii_item_id xs = map dm_item_id (donation_items_of s did)"
    using check_lines_ok [OF xs(1)] by auto
  have "absorbs s i w b ?t 0" using assms(7) by (simp add: absorbs_def expiries_at_def)
  moreover have "stock_ok ?t" "batches_numbered ?t" using assms(2,3) by (simp_all add: stock_ok_def batches_numbered_def)
  moreover have "\<forall>x \<in> set xs. ii_item_id x = i \<longrightarrow> ii_batch_no x = None"
    using check_lines_from [OF xs(1)] check_line_unnumbered assms(5,6) by metis
  ultimately have "absorbs s i w b (fold (store_item e aid did w) xs ?t) (0 + item_total xs i)"
    using ok by (blast intro: store_items_absorb)
  then have "absorbs s i w b s' (donated s did i)"
    using absorbs_cong [OF write_intake_stock(1)] total_errors_donated [OF xs(2) ids assms(4)] by (simp add: s')
  then show ?thesis unfolding absorbs_def by (meson find_Some_set)
qed

theorem unnumbered_keeps_expiry_witness:
  "auto_allocate_batches ex_taken_in 739000 1 10 None = []
   \<and> (\<exists>b' \<in> set (t_itembatch ex_taken_in). bt_batch_id b' = 10 \<and> bt_expiry_date b' = Some 738000 \<and> batch_all b' = 15)"
proof -
  let ?l = "the (ip_line ex_intake 1)"
  have b: "find (unnumbered 7 1) (t_itembatch ex_accepted) = Some (ex_batch 10 None (Some 738000) 5 0)" by code_simp
  have l: "ip_line ex_intake 1 = Some ?l" "py_strip (il_batch_no ?l) = []" by code_simp+
  have "donated ex_accepted 1 1 = 10" by code_simp
  with unnumbered_keeps_expiry [OF ex_taken_in_run ex_accepted_ok l b]
  have "\<exists>b' \<in> set (t_itembatch ex_taken_in). bt_batch_id b' = 10 \<and> bt_expiry_date b' = Some 738000 \<and> batch_all b' = 15"
    by (simp add: ex_batch_def batch_all_def)
  moreover have "auto_allocate_batches ex_taken_in 739000 1 10 None = []" by code_simp
  ultimately show ?thesis by blast
qed

end
