(* ===== verification/Packaging_Flow.thy ===== *)
theory Packaging_Flow
  imports Packaging_Ledger Intake_Properties
begin

text \<open>
  Packaging as a step relation, interleaved with the intake of donations: what the handlers leave
  alone, which keys stay in place, and that every step keeps the books balanced.
\<close>

section \<open>What the handlers leave alone\<close>

lemma process_allocations_frame:
  assumes "process_allocations e f vc r s = Inr (news, old, s')"
  shows "t_reliefrqst s' = t_reliefrqst s" "t_user s' = t_user s" "t_role s' = t_role s"
    "t_notification s' = t_notification s"
proof -
  obtain p s0 where gc: "get_or_create_pkg e r s = (p, s0)" by (cases "get_or_create_pkg e r s")
  obtain s1 pr where loop: "fold_result (process_item e f vc (pk_reliefpkg_id p) (pkg_items_of s0 (pk_reliefpkg_id p)))
        (rqst_items_of s0 (rq_reliefrqst_id r)) (s0, [], []) = Inr (s1, news, pr)"
    and s': "s' = delete_orphans (map record_key (pkg_items_of s0 (pk_reliefpkg_id p))) pr s1"
    using assms gc by (auto simp: process_allocations_def Let_def split: sum.splits)
  have s0: "t_reliefrqst s0 = t_reliefrqst s" "t_user s0 = t_user s" "t_role s0 = t_role s"
      "t_notification s0 = t_notification s"
    using gc by (auto simp: get_or_create_pkg_def Let_def split: option.splits)
  have fr: "pkg_frame s0 s1" using process_items_spec [OF loop] by blast
  show "t_reliefrqst s' = t_reliefrqst s" "t_user s' = t_user s" "t_role s' = t_role s"
    "t_notification s' = t_notification s"
    by (simp_all add: s' delete_orphans_def pkg_frame_tables [OF fr] s0)
qed

text \<open>The stock services write batches and warehouse rows only.\<close>

definition stock_frame :: "db \<Rightarrow> db \<Rightarrow> bool" where
  "stock_frame s t \<longleftrightarrow> t = s\<lparr>t_itembatch := t_itembatch t, t_inventory := t_inventory t\<rparr>
     \<and> map batch_key (t_itembatch t) = map batch_key (t_itembatch s)
     \<and> map inventory_key (t_inventory t) = map inventory_key (t_inventory s)"

lemma stock_frame_steps [simp]:
  "stock_frame s s" "stock_frame s (set_batch k ur t) = stock_frame s t"
  "stock_frame s (set_inventory i ur t) = stock_frame s t"
  by (auto simp: stock_frame_def set_batch_def set_inventory_def batch_rows.keys_upd inventory_rows.keys_upd)
    (cases s; cases t; simp)+

lemma reserve_batch_frame: "reserve_batch old new k t = Inr t' \<Longrightarrow> stock_frame s t \<Longrightarrow> stock_frame s t'"
  by (cases "(old, new, k, t)" rule: reserve_batch.cases)
    (auto simp: Let_def split: option.splits if_splits)

lemma stock_services_frame:
  "reserve_inventory s rid news oa = Inr s' \<Longrightarrow> stock_frame s s'"
  "commit_inventory s rid = Inr s' \<Longrightarrow> stock_frame s s'"
proof -
  assume "reserve_inventory s rid news oa = Inr s'"
  then obtain old new ks ps t where 1: "fold_result (reserve_batch old new) ks s = Inr t"
    and 2: "fold_result recalc_reserved ps t = Inr s'"
    by (auto simp: reserve_inventory_def reserve_run_def Let_def split: sum.splits)
  have "stock_frame s t"
    by (rule fold_result_invariant [OF 1]) (auto intro: reserve_batch_frame)
  then show "stock_frame s s'"
    by (rule fold_result_invariant [OF 2]) (auto simp: recalc_reserved_def Let_def split: option.splits if_splits)
next
  assume "commit_inventory s rid = Inr s'"
  then obtain rows ps t where 1: "fold_result commit_batch rows s = Inr t"
    and 2: "fold_result commit_recalc ps t = Inr s'"
    by (auto simp: commit_inventory_def Let_def split: option.splits sum.splits)
  have "stock_frame s t"
    by (rule fold_result_invariant [OF 1]) (auto simp: commit_batch_def split: option.splits if_splits)
  then show "stock_frame s s'"
    by (rule fold_result_invariant [OF 2]) (auto simp: commit_recalc_def split: option.splits)
qed

lemma stock_frame_tables:
  assumes "stock_frame s t"
  shows "t_reliefrqst t = t_reliefrqst s" "t_reliefrqst_item t = t_reliefrqst_item s" "t_user t = t_user s"
    "t_role t = t_role s" "t_notification t = t_notification s" "t_reliefpkg t = t_reliefpkg s"
    "t_reliefpkg_item t = t_reliefpkg_item s" "seq_itembatch t = seq_itembatch s"
  by (subst assms [unfolded stock_frame_def, THEN conjunct1]; simp)+

section \<open>Keys of the stock\<close>

text \<open>
  Batches are numbered from the sequence and have a warehouse row, and package rows point to
  existing batches. \<open>keys_kept\<close>: a handler changes no key of the stock and points only to batches
  that exist.
\<close>

definition stock_keys_ok :: "db \<Rightarrow> bool" where
  "stock_keys_ok s \<longleftrightarrow> batches_numbered s
     \<and> (\<forall>b \<in> set (t_itembatch s). (bt_item_id b, bt_inventory_id b) \<in> inventory_key ` set (t_inventory s))
     \<and> pi_batch_id ` set (t_reliefpkg_item s) \<subseteq> bt_batch_id ` set (t_itembatch s)"

definition keys_kept :: "db \<Rightarrow> db \<Rightarrow> bool" where
  "keys_kept s t \<longleftrightarrow> map batch_key (t_itembatch t) = map batch_key (t_itembatch s)
     \<and> map inventory_key (t_inventory t) = map inventory_key (t_inventory s) \<and> seq_itembatch t = seq_itembatch s
     \<and> pi_batch_id ` set (t_reliefpkg_item t) \<subseteq> pi_batch_id ` set (t_reliefpkg_item s) \<union> bt_batch_id ` set (t_itembatch s)"

lemma batch_ids_of_keys:
  assumes "map batch_key bs = map batch_key cs"
  shows "bt_batch_id ` set bs = bt_batch_id ` set cs"
proof -
  have ids: "bt_batch_id ` set xs = (\<lambda>k. snd (snd k)) ` set (map batch_key xs)" for xs
    by (simp add: image_image batch_key_def)
  show ?thesis unfolding ids assms ..
qed

lemma keys_kept_refl [simp]: "keys_kept s s"
  by (simp add: keys_kept_def)

lemma keys_kept_trans:
  assumes "keys_kept s t" and "keys_kept t u"
  shows "keys_kept s u"
proof -
  have sub: "X \<subseteq> Y \<union> Z \<Longrightarrow> Y \<subseteq> W \<union> Z \<Longrightarrow> X \<subseteq> W \<union> Z" for X Y Z W :: "int set" by auto
  have eq: "bt_batch_id ` set (t_itembatch t) = bt_batch_id ` set (t_itembatch s)"
    using assms(1) by (intro batch_ids_of_keys) (simp add: keys_kept_def)
  have "pi_batch_id ` set (t_reliefpkg_item u) \<subseteq> pi_batch_id ` set (t_reliefpkg_item s) \<union> bt_batch_id ` set (t_itembatch s)"
  proof (rule sub)
    show "pi_batch_id ` set (t_reliefpkg_item u) \<subseteq> pi_batch_id ` set (t_reliefpkg_item t) \<union> bt_batch_id ` set (t_itembatch s)"
      using assms(2) eq by (simp add: keys_kept_def)
  qed (use assms(1) in \<open>simp add: keys_kept_def\<close>)
  then show ?thesis using assms unfolding keys_kept_def by simp
qed

lemma keys_kept_ok:
  assumes "stock_keys_ok s" and "keys_kept s t"
  shows "stock_keys_ok t"
proof -
  have num: "batches_numbered x \<longleftrightarrow> (\<forall>k \<in> set (map batch_key (t_itembatch x)). snd (snd k) < seq_itembatch x)" for x
    by (simp add: batches_numbered_def batch_key_def)
  have cov: "(\<forall>b \<in> set (t_itembatch x). (bt_item_id b, bt_inventory_id b) \<in> inventory_key ` set (t_inventory x))
     \<longleftrightarrow> (\<forall>k \<in> set (map batch_key (t_itembatch x)). (fst k, the (fst (snd k))) \<in> set (map inventory_key (t_inventory x)))" for x
    by (simp add: batch_key_def)
  note k = assms(2) [unfolded keys_kept_def]
  have ids: "bt_batch_id ` set (t_itembatch t) = bt_batch_id ` set (t_itembatch s)"
    using k by (intro batch_ids_of_keys) simp
  have "pi_batch_id ` set (t_reliefpkg_item s) \<union> bt_batch_id ` set (t_itembatch s) \<subseteq> bt_batch_id ` set (t_itembatch s)"
    using assms(1) by (simp add: stock_keys_ok_def)
  then have "pi_batch_id ` set (t_reliefpkg_item t) \<subseteq> bt_batch_id ` set (t_itembatch t)"
    unfolding ids using k by (meson order_trans)
  then show ?thesis using assms(1) k unfolding stock_keys_ok_def num cov by (simp only:) simp
qed

lemma stock_frame_keys: "stock_frame s t \<Longrightarrow> keys_kept s t"
  unfolding keys_kept_def stock_frame_tables(7) stock_frame_tables(8) by (simp add: stock_frame_def)

lemma keys_kept_steps:
  "keys_kept s (set_pkg pid g s)" "keys_kept s (set_rqst rid h s)" "keys_kept s (set_issue_qtys news rid s)"
  "keys_kept s (notify_each now ty url rid' us s)"
  by (simp_all add: keys_kept_def set_pkg_def set_rqst_def set_issue_qtys_def)

lemma upserts_batches:
  "pi_batch_id ` set (fold (upsert_line e pid ex) ls rows) \<subseteq> pi_batch_id ` set rows \<union> pl_batch_id ` set ls"
proof (induction ls arbitrary: rows)
  case (Cons l ls)
  have "pi_batch_id ` set (upsert_line e pid ex l rows) \<subseteq> pi_batch_id ` set rows \<union> {pl_batch_id l}"
    by (auto simp: upsert_line_def new_line_def update_line_def set_upd_where)
  with Cons [of "upsert_line e pid ex l rows"]
  have "pi_batch_id ` set (fold (upsert_line e pid ex) ls (upsert_line e pid ex l rows))
      \<subseteq> (pi_batch_id ` set rows \<union> {pl_batch_id l}) \<union> pl_batch_id ` set ls"
    by (meson Un_mono order_refl order_trans)
  then show ?case by (simp add: Un_commute)
qed simp

lemma process_allocations_keys:
  assumes "process_allocations e f vc r s = Inr (news, old, s')"
  shows "keys_kept s s'"
proof -
  obtain p s0 where gc: "get_or_create_pkg e r s = (p, s0)" by (cases "get_or_create_pkg e r s")
  let ?rows = "pkg_items_of s0 (pk_reliefpkg_id p)"
  obtain s1 pr where loop: "fold_result (process_item e f vc (pk_reliefpkg_id p) ?rows)
        (rqst_items_of s0 (rq_reliefrqst_id r)) (s0, [], []) = Inr (s1, news, pr)"
    and s': "s' = delete_orphans (map record_key ?rows) pr s1"
    using assms gc by (auto simp: process_allocations_def Let_def split: sum.splits)
  have s0: "t_itembatch s0 = t_itembatch s" "t_inventory s0 = t_inventory s" "seq_itembatch s0 = seq_itembatch s"
      "t_reliefpkg_item s0 = t_reliefpkg_item s"
    using gc by (auto simp: get_or_create_pkg_def Let_def split: option.splits)
  from process_items_spec [OF loop] obtain ls where fr: "pkg_frame s0 s1" and ok: "list_all (line_ok s0) ls"
    and rows: "t_reliefpkg_item s1 = fold (upsert_line e (pk_reliefpkg_id p) (map record_key ?rows)) ls (t_reliefpkg_item s0)"
    by auto
  have "pl_batch_id l \<in> bt_batch_id ` set (t_itembatch s)" if "l \<in> set ls" for l
  proof -
    obtain b where "get_batch s0 (pl_batch_id l) = Some b" using ok \<open>l \<in> set ls\<close> by (auto simp: list_all_iff line_ok_def)
    then have "b \<in> set (t_itembatch s0) \<and> bt_batch_id b = pl_batch_id l" unfolding get_batch_def by (rule find_Some_set)
    then show ?thesis using s0(1) by force
  qed
  then have "pl_batch_id ` set ls \<subseteq> bt_batch_id ` set (t_itembatch s)" by (rule image_subsetI)
  moreover have "pi_batch_id ` set (t_reliefpkg_item s') \<subseteq> pi_batch_id ` set (t_reliefpkg_item s1)"
    unfolding s' delete_orphans_def by (rule image_mono) simp
  moreover have "pi_batch_id ` set (t_reliefpkg_item s1) \<subseteq> pi_batch_id ` set (t_reliefpkg_item s) \<union> pl_batch_id ` set ls"
    unfolding rows s0(4) by (rule upserts_batches)
  ultimately have "pi_batch_id ` set (t_reliefpkg_item s') \<subseteq> pi_batch_id ` set (t_reliefpkg_item s) \<union> bt_batch_id ` set (t_itembatch s)"
    by (meson Un_mono order_refl order_trans)
  then show ?thesis by (simp add: keys_kept_def s' delete_orphans_def pkg_frame_tables [OF fr] s0)
qed

lemma reserve_keys: "reserve_inventory t rid news oa = Inr u \<Longrightarrow> keys_kept s t \<Longrightarrow> keys_kept s u"
  by (blast intro: keys_kept_trans stock_frame_keys stock_services_frame)

lemma commit_keys: "commit_inventory t rid = Inr u \<Longrightarrow> keys_kept s t \<Longrightarrow> keys_kept s u"
  by (blast intro: keys_kept_trans stock_frame_keys stock_services_frame)

lemma keys_kept_next:
  "keys_kept s t \<Longrightarrow> keys_kept s (set_pkg pid g t)" "keys_kept s t \<Longrightarrow> keys_kept s (set_rqst rid h t)"
  "keys_kept s t \<Longrightarrow> keys_kept s (set_issue_qtys news rid t)" "keys_kept s t \<Longrightarrow> keys_kept s (notify_each now ty url rid' us t)"
  "keys_kept s t \<Longrightarrow> keys_kept s (notify_lm e p t)"
  by (auto intro: keys_kept_trans keys_kept_steps
      simp: notify_lm_def Let_def create_package_ready_for_approval_notification_def)

section \<open>A donation intake between packaging steps\<close>

text \<open>
  What an intake does to the reservations: each batch and each warehouse row it leaves either holds
  the reservation of one that was there before, or is new and holds none.
\<close>

definition kept_batch :: "db \<Rightarrow> itembatch \<Rightarrow> bool" where
  "kept_batch s c \<longleftrightarrow> (batch_key c, bt_reserved_qty c) \<in> (\<lambda>b. (batch_key b, bt_reserved_qty b)) ` set (t_itembatch s)
     \<or> seq_itembatch s \<le> bt_batch_id c \<and> bt_reserved_qty c = 0"

definition kept_row :: "db \<Rightarrow> inventory \<Rightarrow> bool" where
  "kept_row s v \<longleftrightarrow> (inventory_key v, iv_status_code v, iv_reserved_qty v)
       \<in> (\<lambda>u. (inventory_key u, iv_status_code u, iv_reserved_qty u)) ` set (t_inventory s)
     \<or> inventory_key v \<notin> inventory_key ` set (t_inventory s) \<and> iv_reserved_qty v = 0"

definition grown :: "db \<Rightarrow> db \<Rightarrow> bool" where
  "grown s t \<longleftrightarrow> list_all (kept_batch s) (t_itembatch t) \<and> list_all (kept_row s) (t_inventory t)
     \<and> seq_itembatch s \<le> seq_itembatch t \<and> bt_batch_id ` set (t_itembatch s) \<subseteq> bt_batch_id ` set (t_itembatch t)
     \<and> inventory_key ` set (t_inventory s) \<subseteq> inventory_key ` set (t_inventory t)
     \<and> (\<forall>b \<in> set (t_itembatch t). (bt_item_id b, bt_inventory_id b) \<in> inventory_key ` set (t_inventory t))"

lemma topped_up_kept [simp]:
  "batch_key (topped_up e aid x b) = batch_key b" "bt_reserved_qty (topped_up e aid x b) = bt_reserved_qty b"
  "kept_batch s (topped_up e aid x b) \<longleftrightarrow> kept_batch s b"
  by (auto simp: kept_batch_def topped_up_def orm_batch_def batch_key_def)

lemma restocked_kept [simp]: "kept_row s (restocked e aid x v) \<longleftrightarrow> kept_row s v"
  by (auto simp: kept_row_def restocked_def orm_inventory_def inventory_key_def)

lemma list_all_upd_where:
  assumes "list_all P xs" and "\<And>x. P (g x) = P x"
  shows "list_all P (upd_where Q g xs)"
  using assms by (auto simp: list_all_iff set_upd_where)

lemma store_batch_grown:
  assumes "list_all (kept_batch s) (t_itembatch t)" and "seq_itembatch s \<le> seq_itembatch t"
    and "\<forall>b \<in> set (t_itembatch t). (bt_item_id b, bt_inventory_id b) \<in> K"
  shows "list_all (kept_batch s) (t_itembatch (store_batch e aid w x t)) \<and> seq_itembatch s \<le> seq_itembatch (store_batch e aid w x t)
    \<and> bt_batch_id ` set (t_itembatch t) \<subseteq> bt_batch_id ` set (t_itembatch (store_batch e aid w x t))
    \<and> (\<forall>b \<in> set (t_itembatch (store_batch e aid w x t)). (bt_item_id b, bt_inventory_id b) \<in> insert (ii_item_id x, w) K)"
proof (cases "if ii_batch_no x = None then find (unnumbered w (ii_item_id x)) (t_itembatch t) else None")
  case None
  moreover have "kept_batch s (new_batch e aid (seq_itembatch t) w x)"
    using assms(2) by (simp add: kept_batch_def new_batch_def)
  moreover have "(bt_item_id (new_batch e aid n w x), bt_inventory_id (new_batch e aid n w x)) = (ii_item_id x, w)" for n
    by (simp add: new_batch_def)
  ultimately show ?thesis using assms by (auto simp: store_batch_def)
next
  case (Some b)
  let ?t = "upd_where (\<lambda>c. bt_batch_id c = bt_batch_id b) (topped_up e aid x) (t_itembatch t)"
  have keys: "map batch_key ?t = map batch_key (t_itembatch t)" by (rule map_upd_where_same) simp
  have "(\<lambda>b. (bt_item_id b, bt_inventory_id b)) ` set ?t = (\<lambda>(i, w, b). (i, the w)) ` set (map batch_key ?t)"
    by (auto simp: batch_key_def image_image)
  also have "\<dots> \<subseteq> K" unfolding keys using assms(3) by (auto simp: batch_key_def)
  finally have "\<forall>b \<in> set ?t. (bt_item_id b, bt_inventory_id b) \<in> K" by auto
  moreover have "list_all (kept_batch s) ?t" using assms(1) by (rule list_all_upd_where) simp
  moreover have "bt_batch_id ` set ?t = bt_batch_id ` set (t_itembatch t)" using keys by (rule batch_ids_of_keys)
  ultimately show ?thesis using Some assms(2) by (simp add: store_batch_def)
qed

lemma store_inventory_kept:
  assumes "list_all (kept_row s) (t_inventory t)" and "inventory_key ` set (t_inventory s) \<subseteq> inventory_key ` set (t_inventory t)"
  shows "list_all (kept_row s) (t_inventory (store_inventory e aid w x t))"
proof (cases "(ii_item_id x, w) \<in> inventory_key ` set (t_inventory t)")
  case False
  then have "kept_row s (new_inventory e aid w x)"
    using assms(2) by (auto simp: kept_row_def new_inventory_def inventory_key_def)
  then show ?thesis using False assms(1) by (simp add: store_inventory_def)
qed (use assms(1) in \<open>auto simp: store_inventory_def intro: list_all_upd_where\<close>)

lemma store_item_grown:
  assumes "grown s t"
  shows "grown s (store_item e aid did w x t)"
proof -
  let ?t = "t\<lparr>t_dnintake_item := t_dnintake_item t @ [new_dnintake_item e aid did w x]\<rparr>"
  note g = assms [unfolded grown_def]
  have B: "list_all (kept_batch s) (t_itembatch (store_batch e aid w x ?t))"
    "seq_itembatch s \<le> seq_itembatch (store_batch e aid w x ?t)"
    "bt_batch_id ` set (t_itembatch t) \<subseteq> bt_batch_id ` set (t_itembatch (store_batch e aid w x ?t))"
    "\<forall>b \<in> set (t_itembatch (store_batch e aid w x ?t)). (bt_item_id b, bt_inventory_id b)
       \<in> insert (ii_item_id x, w) (inventory_key ` set (t_inventory t))"
    using store_batch_grown [of s ?t "inventory_key ` set (t_inventory t)" e aid w x] g by simp_all
  have "list_all (kept_row s) (t_inventory (store_inventory e aid w x (store_batch e aid w x ?t)))"
    using g by (intro store_inventory_kept) simp_all
  moreover have "inventory_key ` set (t_inventory s) \<subseteq> insert (ii_item_id x, w) (inventory_key ` set (t_inventory t))"
    using g by blast
  moreover have "bt_batch_id ` set (t_itembatch s) \<subseteq> bt_batch_id ` set (t_itembatch (store_batch e aid w x ?t))"
    using g B(3) by (meson order_trans)
  ultimately show ?thesis using B by (simp add: grown_def store_item_def store_inventory_keys(2))
qed

lemma store_items_grown: "grown s t \<Longrightarrow> grown s (fold (store_item e aid did w) xs t)"
  by (induction xs arbitrary: t) (simp_all add: store_item_grown)

lemma pending_qty_absent:
  assumes "b \<notin> pi_batch_id ` set (t_reliefpkg_item s)"
  shows "pending_qty s (i, w, b) = 0"
proof -
  have "row_qty (t_reliefpkg_item s) (pid, i, w, b) = 0" for pid
    using assms by (auto simp: row_qty_def record_key_def pkg_item_key_def split: option.split dest!: find_Some_set)
  then show ?thesis by (simp add: pending_qty_def sum_list_0 cong: if_cong)
qed

lemma intake_grown:
  assumes "stock_keys_ok s" and "s' = write_intake e aid did w day c xs s"
  shows "grown s s'"
proof -
  have "grown s (s\<lparr>t_dnintake := t_dnintake s @ [new_dnintake e aid did w day c]\<rparr>)"
    using assms(1) by (auto simp: grown_def list_all_iff kept_batch_def kept_row_def stock_keys_ok_def)
  from store_items_grown [OF this, of e aid did w xs] show ?thesis
    by (simp add: assms(2) grown_def write_intake_stock)
qed

lemma grown_ledger:
  assumes "grown s s'" and "stock_keys_ok s" and "ledger_ok s" and same: "\<And>k. pending_qty s' k = pending_qty s k"
  shows "ledger_ok s'"
  unfolding ledger_ok_def same
proof
  fix c
  assume "c \<in> set (t_itembatch s')"
  then have "kept_batch s c" using assms(1) by (simp add: grown_def list_all_iff)
  then consider b where "b \<in> set (t_itembatch s)" "batch_key c = batch_key b" "bt_reserved_qty c = bt_reserved_qty b"
    | "seq_itembatch s \<le> bt_batch_id c" "bt_reserved_qty c = 0" by (auto simp: kept_batch_def)
  then show "bt_reserved_qty c = pending_qty s (batch_key c)"
  proof cases
    case 1
    then show ?thesis using assms(3) by (simp add: ledger_ok_def)
  next
    case 2
    then have "bt_batch_id c \<notin> bt_batch_id ` set (t_itembatch s)"
      using assms(2) by (auto simp: stock_keys_ok_def batches_numbered_def)
    then have "bt_batch_id c \<notin> pi_batch_id ` set (t_reliefpkg_item s)" using assms(2) by (auto simp: stock_keys_ok_def)
    then show ?thesis using 2(2) pending_qty_absent by (simp add: batch_key_def)
  qed
qed

lemma grown_synced:
  assumes "grown s s'" and "stock_keys_ok s" and "warehouse_synced s"
    and same: "\<And>k. sum_reserved (t_itembatch s') k = sum_reserved (t_itembatch s) k"
  shows "warehouse_synced s'"
  unfolding warehouse_synced_def same
proof (intro ballI impI)
  fix v
  assume "v \<in> set (t_inventory s')" and act: "iv_status_code v = ''A''"
  then have "kept_row s v" using assms(1) by (simp add: grown_def list_all_iff)
  then consider u where "u \<in> set (t_inventory s)" "inventory_key v = inventory_key u" "iv_status_code v = iv_status_code u"
      "iv_reserved_qty v = iv_reserved_qty u"
    | "inventory_key v \<notin> inventory_key ` set (t_inventory s)" "iv_reserved_qty v = 0" by (auto simp: kept_row_def)
  then show "iv_reserved_qty v = sum_reserved (t_itembatch s) (inventory_key v)"
  proof cases
    case 1
    then show ?thesis using assms(3) act by (simp add: warehouse_synced_def)
  next
    case 2
    then have "batches_at (t_itembatch s) (inventory_key v) = []"
      using assms(2) by (auto simp: batches_at_def stock_keys_ok_def filter_empty_conv)
    then show ?thesis using 2(2) by (simp add: sum_reserved_def)
  qed
qed

lemma intake_books:
  assumes "books_ok s" and "stock_keys_ok s" and "intake_form e f did w s = Inr (r, s')"
  shows "books_ok s' \<and> stock_keys_ok s'"
proof (cases "r = Saved")
  case True
  from assms(3) [unfolded True] obtain d aid day xs where xs: "check_lines s (en_today e) f (donation_items_of s did) = Inr ([], xs)"
    and s': "s' = write_intake e aid did w day (ip_comments_text f) xs s" by (rule intake_saved)
  have ok: "list_all item_ok xs" using check_lines_ok [OF xs] by blast
  have so: "stock_ok s" and nb: "batches_numbered s" using assms(1,2) by (simp_all add: books_ok_def stock_keys_ok_def)
  note g = intake_grown [OF assms(2) s']
  note W = write_intake_ok [OF so nb ok, of e aid did w day "ip_comments_text f", folded s']
  have tables: "t_reliefpkg s' = t_reliefpkg s" "t_reliefpkg_item s' = t_reliefpkg_item s"
    "t_reliefrqst_item s' = t_reliefrqst_item s" "seq_reliefpkg s' = seq_reliefpkg s"
    by (simp_all add: s' write_intake_tables)
  have "batch_sum bt_reserved_qty s' k = batch_sum bt_reserved_qty s k" for k
    unfolding s' by (subst write_intake_sums(1) [OF so nb ok, where gb = bt_reserved_qty and gv = iv_reserved_qty and h = "\<lambda>_. 0"])
      (auto simp: new_batch_def restocked_def orm_inventory_def new_inventory_def)
  then have "sum_reserved (t_itembatch s') k = sum_reserved (t_itembatch s) k" for k
    by (simp add: batch_sum_def sum_reserved_def batches_at_def at_key_def [abs_def])
  then have "warehouse_synced s'" using grown_synced [OF g assms(2)] assms(1) by (simp add: books_ok_def)
  moreover have "pending_qty s' k = pending_qty s k" for k by (simp add: pending_qty_def tables cong: if_cong)
  then have "ledger_ok s'" using grown_ledger [OF g assms(2)] assms(1) by (simp add: books_ok_def)
  moreover have "pi_batch_id ` set (t_reliefpkg_item s') \<subseteq> bt_batch_id ` set (t_itembatch s')"
    using g assms(2) unfolding tables grown_def stock_keys_ok_def by (meson order_trans)
  ultimately show ?thesis using assms(1) W g
    by (simp add: books_ok_def stock_keys_ok_def pkg_items_ok_def pkgs_ok_def tables grown_def)
qed (use assms intake_cases [OF assms(3)] in auto)

section \<open>Sequences of packaging steps\<close>

lemma first_pkg_pkgs_of: "first_pkg s rid = (case pkgs_of s rid of [] \<Rightarrow> None | p # ps \<Rightarrow> Some p)"
proof -
  have "find P xs = (case filter P xs of [] \<Rightarrow> None | p # ps \<Rightarrow> Some p)" for P and xs :: "reliefpkg list"
    by (induction xs) auto
  then show ?thesis by (simp add: first_pkg_def pkgs_of_def)
qed

lemma pending_pkg_first:
  assumes "pending_pkg s rid = Some p" and "undispatched s rid"
  shows "first_pkg s rid = Some p \<and> pk_status_code p = ''P''"
  using assms unfolding pending_pkg_def undispatched_def first_pkg_pkgs_of
  by (cases "pkgs_of s rid") auto

lemma get_rqst_id: "get_rqst s rid = Some r \<Longrightarrow> rq_reliefrqst_id r = rid"
  unfolding get_rqst_def by (meson find_Some_set)

text \<open>Whatever does not complete leaves the session as it was.\<close>

lemma handlers_atomic:
  "save_draft e f r s = (oc, s') \<Longrightarrow> oc \<noteq> Completed \<Longrightarrow> s' = s"
  "submit_for_approval e f r s = (oc, s') \<Longrightarrow> oc \<noteq> Completed \<Longrightarrow> s' = s"
  "send_for_dispatch e f r s = (oc, s') \<Longrightarrow> oc \<noteq> Completed \<Longrightarrow> s' = s"
  "save_draft_approval e f r p s = (oc, s') \<Longrightarrow> oc \<noteq> Completed \<Longrightarrow> s' = s"
  "approve_and_dispatch e f r p s = (oc, s') \<Longrightarrow> oc \<noteq> Completed \<Longrightarrow> s' = s"
  "review_and_dispatch e r p s = (oc, s') \<Longrightarrow> oc \<noteq> Completed \<Longrightarrow> s' = s"
  unfolding save_draft_def submit_for_approval_def send_for_dispatch_def save_draft_approval_def
    approve_and_dispatch_def review_and_dispatch_def Let_def
  by (auto split: sum.splits option.splits prod.splits if_splits)

lemma review_books:
  assumes "books_ok s" and "first_pkg s (rq_reliefrqst_id r) = Some p" and "pk_status_code p = ''P''"
    and "review_and_dispatch e r p s = (Completed, s')"
  shows "books_ok s'"
proof -
  let ?rid = "rq_reliefrqst_id r"
  obtain s2 where run: "commit_inventory (set_pkg (pk_reliefpkg_id p) (dispatched e) s) ?rid = Inr s2"
    and s': "book_eq s2 s'"
    using assms(4) book_eq_trans [OF book_eq_set_rqst book_eq_notify]
    by (auto simp: review_and_dispatch_def Let_def create_package_approved_notification_def
        split: sum.splits if_splits)
  have ok: "stock_ok s" "warehouse_synced s" "pkg_items_ok s" "pkgs_ok s" "ledger_ok s"
    using assms(1) by (simp_all add: books_ok_def)
  note D = dispatch_effect [OF ok(1-4) assms(2) dispatches_dispatched(1) run]
  from D(6) obtain held where bs: "t_itembatch s2 = map (commit_effect held) (t_itembatch s)"
    and held: "\<And>k. dict_get held k 0 = row_qty (t_reliefpkg_item s) (pk_reliefpkg_id p, k)" by blast
  have "ledger_ok s2" unfolding ledger_ok_def bs
  proof
    fix c
    assume "c \<in> set (map (commit_effect held) (t_itembatch s))"
    then obtain b where b: "b \<in> set (t_itembatch s)" and c: "c = commit_effect held b" by auto
    have "row_qty (t_reliefpkg_item s) (pk_reliefpkg_id p, batch_key b) \<le> pending_qty s (batch_key b)"
      using pending_qty_ge [OF ok(3)] first_pkg_in [OF assms(2)] assms(3) by blast
    moreover have "bt_reserved_qty b = pending_qty s (batch_key b)" using ok(5) b by (simp add: ledger_ok_def)
    ultimately show "bt_reserved_qty c = pending_qty s2 (batch_key c)"
      using D(7) [of "batch_key b"] assms(3) by (simp add: c held)
  qed
  with D(1-4) have "books_ok s2" by (simp add: books_ok_def)
  then show ?thesis by (simp add: book_eq_keeps(7) [OF s'])
qed

text \<open>A completed handler keeps the keys of the stock.\<close>

lemma reserved_drafts_keys:
  assumes "process_allocations e f vc r s = Inr (news, old, t)"
  shows "reserve_inventory (set_pkg pid g t) rid ns oa = Inr u \<Longrightarrow> keys_kept s u"
    and "reserve_inventory (set_rqst rid' h t) rid ns oa = Inr u \<Longrightarrow> keys_kept s u"
    and "reserve_inventory (set_rqst rid' h (set_pkg pid g t)) rid ns oa = Inr u \<Longrightarrow> keys_kept s u"
  by (erule reserve_keys, intro keys_kept_next process_allocations_keys [OF assms])+

lemma drafts_keys:
  "save_draft e f r s = (Completed, s') \<Longrightarrow> keys_kept s s'"
  "submit_for_approval e f r s = (Completed, s') \<Longrightarrow> keys_kept s s'"
  "save_draft_approval e f r p s = (Completed, s') \<Longrightarrow> keys_kept s s'"
  unfolding save_draft_def submit_for_approval_def save_draft_approval_def Let_def
  by (auto split: sum.splits option.splits prod.splits if_splits
      intro: keys_kept_next dest: reserved_drafts_keys)

lemma review_keys: "review_and_dispatch e r p s = (Completed, s') \<Longrightarrow> keys_kept s s'"
  unfolding review_and_dispatch_def create_package_approved_notification_def Let_def
  by (auto split: sum.splits if_splits dest: commit_keys [OF _ keys_kept_next(1) [OF keys_kept_refl]]
      intro!: keys_kept_next(2,4))

text \<open>
  Packaging and receiving as a step relation: any number of users save drafts, submit them and
  redraft them, managers dispatch packages as they stand, and donations are taken into the
  warehouses in between. The package a form is posted to has not been dispatched.
\<close>

inductive packaging_step :: "db \<Rightarrow> db \<Rightarrow> bool" where
  step_prepare: "prepare_package e f rid s = Inr (oc, s') \<Longrightarrow> form_ok f \<Longrightarrow> undispatched s rid \<Longrightarrow>
     fm_action f \<noteq> Some ''send_for_dispatch'' \<Longrightarrow> packaging_step s s'"
| step_redraft: "approve_package e f rid s = Inr (oc, s') \<Longrightarrow> form_ok f \<Longrightarrow> undispatched s rid \<Longrightarrow>
     fm_action f \<noteq> Some ''approve_and_dispatch'' \<Longrightarrow> packaging_step s s'"
| step_review: "review_approval e a rid s = Inr (oc, s') \<Longrightarrow> undispatched s rid \<Longrightarrow> packaging_step s s'"
| step_intake: "intake_form e g did w s = Inr (r, s') \<Longrightarrow> packaging_step s s'"

definition books_init :: "db \<Rightarrow> bool" where
  "books_init s \<longleftrightarrow> stock_ok s \<and> warehouse_synced s \<and> t_reliefpkg s = [] \<and> t_reliefpkg_item s = []
     \<and> distinct (map rqst_item_key (t_reliefrqst_item s)) \<and> (\<forall>b \<in> set (t_itembatch s). bt_reserved_qty b = 0)
     \<and> batches_numbered s
     \<and> (\<forall>b \<in> set (t_itembatch s). (bt_item_id b, bt_inventory_id b) \<in> inventory_key ` set (t_inventory s))"

definition stock_books_ok :: "db \<Rightarrow> bool" where
  "stock_books_ok s \<longleftrightarrow> books_ok s \<and> stock_keys_ok s"

lemma stock_books_okI: "books_ok t \<Longrightarrow> keys_kept s t \<Longrightarrow> stock_books_ok s \<Longrightarrow> stock_books_ok t"
  using keys_kept_ok by (auto simp: stock_books_ok_def)

lemma prepare_books:
  assumes ok: "stock_books_ok s" and "prepare_package e f rid s = Inr (oc, s')" and "form_ok f" and "undispatched s rid"
    and "fm_action f \<noteq> Some ''send_for_dispatch''"
  shows "stock_books_ok s'"
proof -
  have b: "books_ok s" using ok by (simp add: stock_books_ok_def)
  from assms(2) have "s' = s \<or> (\<exists>r. rq_reliefrqst_id r = rid
      \<and> (save_draft e f r s = (oc, s') \<or> submit_for_approval e f r s = (oc, s')))"
    using assms(5) get_rqst_id unfolding prepare_package_def
    by (auto split: if_splits option.splits)
  then show ?thesis
  proof (elim disjE exE conjE)
    fix r
    assume r: "rq_reliefrqst_id r = rid" and run: "save_draft e f r s = (oc, s')"
    show ?thesis using handlers_atomic(1) [OF run] save_draft_books [OF b assms(3), of r e s'] drafts_keys(1) [of e f r s s'] run ok assms(4) r
      by (cases "oc = Completed") (auto intro: stock_books_okI)
  next
    fix r
    assume r: "rq_reliefrqst_id r = rid" and run: "submit_for_approval e f r s = (oc, s')"
    show ?thesis using handlers_atomic(2) [OF run] submit_for_approval_books [OF b assms(3), of r e s'] drafts_keys(2) [of e f r s s'] run ok assms(4) r
      by (cases "oc = Completed") (auto intro: stock_books_okI)
  qed (use ok in simp)
qed

lemma approve_books:
  assumes ok: "stock_books_ok s" and "approve_package e f rid s = Inr (oc, s')" and "form_ok f" and "undispatched s rid"
    and "fm_action f \<noteq> Some ''approve_and_dispatch''"
  shows "stock_books_ok s'"
proof -
  have b: "books_ok s" using ok by (simp add: stock_books_ok_def)
  from assms(2) have "s' = s \<or> (\<exists>r p. rq_reliefrqst_id r = rid \<and> pending_pkg s rid = Some p
      \<and> save_draft_approval e f r p s = (oc, s'))"
    using assms(5) get_rqst_id unfolding approve_package_def by (auto split: if_splits option.splits)
  then show ?thesis
  proof (elim disjE exE conjE)
    fix r p
    assume r: "rq_reliefrqst_id r = rid" and p: "pending_pkg s rid = Some p"
      and run: "save_draft_approval e f r p s = (oc, s')"
    note P = pending_pkg_first [OF p assms(4)]
    show ?thesis using handlers_atomic(4) [OF run] save_draft_approval_books [OF b assms(3), of r p e s'] drafts_keys(3) [of e f r p s s'] P run ok r
      by (cases "oc = Completed") (auto intro: stock_books_okI)
  qed (use ok in simp)
qed

lemma review_approval_books:
  assumes ok: "stock_books_ok s" and "review_approval e a rid s = Inr (oc, s')" and "undispatched s rid"
  shows "stock_books_ok s'"
proof -
  have b: "books_ok s" using ok by (simp add: stock_books_ok_def)
  from assms(2) have "s' = s \<or> (\<exists>r p. rq_reliefrqst_id r = rid \<and> pending_pkg s rid = Some p
      \<and> review_and_dispatch e r p s = (oc, s'))"
    using get_rqst_id unfolding review_approval_def by (auto split: if_splits option.splits)
  then show ?thesis
  proof (elim disjE exE conjE)
    fix r p
    assume r: "rq_reliefrqst_id r = rid" and p: "pending_pkg s rid = Some p"
      and run: "review_and_dispatch e r p s = (oc, s')"
    note P = pending_pkg_first [OF p assms(3)]
    show ?thesis using handlers_atomic(6) [OF run] review_books [OF b, of r p e s'] review_keys [of e r p s s'] P run ok r
      by (cases "oc = Completed") (auto intro: stock_books_okI)
  qed (use ok in simp)
qed

interpretation packaging_flow: invariant_system books_init packaging_step stock_books_ok
proof
  show "books_init s \<Longrightarrow> stock_books_ok s" for s
    by (simp add: books_init_def stock_books_ok_def books_ok_def stock_keys_ok_def pkg_items_ok_def pkgs_ok_def
        ledger_ok_def pending_qty_def)
  show "stock_books_ok t" if ok: "stock_books_ok s" and "packaging_step s t" for s t
    using that(2)
  proof cases
    case step_prepare
    show ?thesis by (rule prepare_books [OF ok step_prepare])
  next
    case step_redraft
    show ?thesis by (rule approve_books [OF ok step_redraft])
  next
    case step_review
    show ?thesis by (rule review_approval_books [OF ok step_review])
  next
    case (step_intake e g did w r)
    show ?thesis using ok intake_books [OF _ _ step_intake] by (simp add: stock_books_ok_def)
  qed
qed

end
