(* ===== verification/Packaging_Properties.thy ===== *)
theory Packaging_Properties
  imports Packaging_Flow
begin

text \<open>
  The properties of the packaging handlers: the books stay balanced while packages are drafted,
  submitted, redrafted and dispatched as they stand; what each kind of dispatch and cancelling do
  to the reservations; atomicity and the version check; and the state in which the form leaves
  the requested items.
\<close>

section \<open>Dispatching a form\<close>

text \<open>The two ways to dispatch what a form says: directly, and on approval.\<close>

definition dispatches_form :: "env \<Rightarrow> pkg_form \<Rightarrow> reliefrqst \<Rightarrow> db \<Rightarrow> db \<Rightarrow> bool" where
  "dispatches_form e f r s s' \<longleftrightarrow> send_for_dispatch e f r s = (Completed, s')
     \<or> (\<exists>p. first_pkg s (rq_reliefrqst_id r) = Some p \<and> approve_and_dispatch e f r p s = (Completed, s'))"

lemma send_for_dispatch_completed:
  assumes "send_for_dispatch e f r s = (Completed, s')"
  obtains news old s1 p s2 where "process_allocations e f True r s = Inr (news, old, s1)"
    and "first_pkg s1 (rq_reliefrqst_id r) = Some p"
    and "commit_inventory (set_pkg (pk_reliefpkg_id p) (dispatched e) s1) (rq_reliefrqst_id r) = Inr s2"
    and "\<exists>us. s' = create_package_dispatched_notification (en_now e) p us (set_rqst (rq_reliefrqst_id r) (part_filled e) s2)"
  using assms unfolding send_for_dispatch_def Let_def
  by (auto simp: catch_value_error_def split: sum.splits option.splits prod.splits if_splits)

lemma approve_and_dispatch_completed:
  assumes "approve_and_dispatch e f r p s = (Completed, s')"
  obtains news old s1 s2 where "process_allocations e f False r s = Inr (news, old, s1)"
    and "commit_inventory (set_pkg (pk_reliefpkg_id p)
      (\<lambda>q. (dispatched e q)\<lparr>pk_version_nbr := pk_version_nbr q + 1\<rparr>)
      (set_issue_qtys news (rq_reliefrqst_id r) s1)) (rq_reliefrqst_id r) = Inr s2"
    and "\<exists>us. s' = create_package_approved_notification (en_now e) p us (set_rqst (rq_reliefrqst_id r) (part_filled e) s2)"
  using assms unfolding approve_and_dispatch_def Let_def
  by (auto split: sum.splits option.splits prod.splits if_splits)

lemma dispatches_form_run:
  assumes "dispatches_form e f r s s'" and "pkg_items_ok s" and "pkgs_ok s" and "form_ok f"
  obtains news old s1 q t g s2 us ty url where "processed s (rq_reliefrqst_id r) q news old s1"
    and "book_eq s1 t" and "t_reliefpkg t = t_reliefpkg s1" and "dispatches g"
    and "commit_inventory (set_pkg (pk_reliefpkg_id q) g t) (rq_reliefrqst_id r) = Inr s2"
    and "s' = notify_each (en_now e) ty url (pk_reliefrqst_id q) us (set_rqst (rq_reliefrqst_id r) (part_filled e) s2)"
  using assms(1) unfolding dispatches_form_def
proof (elim disjE exE conjE)
  assume "send_for_dispatch e f r s = (Completed, s')"
  then obtain news old s1 p s2 where 1: "process_allocations e f True r s = Inr (news, old, s1)"
    "first_pkg s1 (rq_reliefrqst_id r) = Some p"
    "commit_inventory (set_pkg (pk_reliefpkg_id p) (dispatched e) s1) (rq_reliefrqst_id r) = Inr s2"
    "\<exists>us. s' = create_package_dispatched_notification (en_now e) p us (set_rqst (rq_reliefrqst_id r) (part_filled e) s2)"
    by (rule send_for_dispatch_completed)
  from process_allocations_spec [OF 1(1) assms(2-4)] processedD(1) 1(2)
  have "processed s (rq_reliefrqst_id r) p news old s1" by fastforce
  then show thesis using that [OF _ book_eq_refl refl dispatches_dispatched(1) 1(3)] 1(4)
    unfolding create_package_dispatched_notification_def by blast
next
  fix p
  assume p: "first_pkg s (rq_reliefrqst_id r) = Some p" and "approve_and_dispatch e f r p s = (Completed, s')"
  then obtain news old s1 s2 where 1: "process_allocations e f False r s = Inr (news, old, s1)"
    "commit_inventory (set_pkg (pk_reliefpkg_id p)
      (\<lambda>q. (dispatched e q)\<lparr>pk_version_nbr := pk_version_nbr q + 1\<rparr>)
      (set_issue_qtys news (rq_reliefrqst_id r) s1)) (rq_reliefrqst_id r) = Inr s2"
    "\<exists>us. s' = create_package_approved_notification (en_now e) p us (set_rqst (rq_reliefrqst_id r) (part_filled e) s2)"
    by (elim approve_and_dispatch_completed) blast
  obtain q where q: "processed s (rq_reliefrqst_id r) q news old s1"
    using process_allocations_spec [OF 1(1) assms(2-4)] by blast
  then have "q = p" using p unfolding processed_def by auto
  moreover have "t_reliefpkg (set_issue_qtys news (rq_reliefrqst_id r) s1) = t_reliefpkg s1"
    by (simp add: set_issue_qtys_def)
  ultimately show thesis using that [OF _ book_eq_set_issue _ dispatches_dispatched(2)] q 1(2,3)
    unfolding create_package_approved_notification_def by blast
qed

lemma dispatch_form_effect:
  assumes run: "dispatches_form e f r s s'" and ok: "stock_ok s" "warehouse_synced s" "pkg_items_ok s" "pkgs_ok s"
    and form: "form_ok f"
  obtains q where "first_pkg s (rq_reliefrqst_id r) = Some q
      \<or> first_pkg s (rq_reliefrqst_id r) = None \<and> pk_status_code q = ''P''"
    and "\<exists>q'. first_pkg s' (rq_reliefrqst_id r) = Some q' \<and> pkg_head q' = (pk_reliefpkg_id q, rq_reliefrqst_id r, ''D'')"
    and "stock_ok s'" "warehouse_synced s'" "pkg_items_ok s'" "pkgs_ok s'"
    and "\<exists>held. t_itembatch s' = map (commit_effect held) (t_itembatch s)
       \<and> (\<forall>k. dict_get held k 0 = row_qty (t_reliefpkg_item s') (pk_reliefpkg_id q, k))"
    and "\<forall>k. pending_qty s' k = pending_qty s k
       - (if pk_status_code q = ''P'' then row_qty (t_reliefpkg_item s) (pk_reliefpkg_id q, k) else 0)"
proof -
  let ?rid = "rq_reliefrqst_id r"
  from run ok(3,4) form obtain news old s1 q t g s2 us ty url where pr: "processed s ?rid q news old s1"
    and t: "book_eq s1 t" "t_reliefpkg t = t_reliefpkg s1" and g: "dispatches g"
    and com: "commit_inventory (set_pkg (pk_reliefpkg_id q) g t) ?rid = Inr s2"
    and s': "s' = notify_each (en_now e) ty url (pk_reliefrqst_id q) us (set_rqst ?rid (part_filled e) s2)"
    by (rule dispatches_form_run)
  have ok1: "stock_ok t" "warehouse_synced t" "pkg_items_ok t" "pkgs_ok t"
    using ok(1,2) processedD(5-8) [OF pr] unfolding book_eq_keeps [OF t(1)]
    by (simp_all add: stock_ok_def warehouse_synced_def)
  have q: "first_pkg t ?rid = Some q" using processedD(1) [OF pr] first_pkg_cong [OF t(2)] by simp
  note D = dispatch_effect [OF ok1 q g com]
  have eq: "book_eq s2 s'" unfolding s' by (rule book_eq_trans [OF book_eq_set_rqst book_eq_notify])
  note K = book_eq_keeps [OF eq]
  have rows: "t_reliefpkg_item t = t_reliefpkg_item s1" "t_itembatch t = t_itembatch s"
    "t_reliefpkg_item s' = t_reliefpkg_item s2" "t_itembatch s' = t_itembatch s2"
    using t(1) eq processedD(7) [OF pr] by (simp_all add: book_eq_def)
  have "t_reliefpkg s' = t_reliefpkg (set_pkg (pk_reliefpkg_id q) g t)"
    unfolding s' using stock_frame_tables(6) [OF stock_services_frame(2) [OF com]] by simp
  from first_pkg_cong [OF this, of ?rid] first_pkg_dispatched [OF g q] first_pkg_in [OF q] g
  have "\<exists>q'. first_pkg s' ?rid = Some q' \<and> pkg_head q' = (pk_reliefpkg_id q, ?rid, ''D'')"
    by (simp add: pkg_head_def dispatches_sel)
  moreover have "pending_qty s' k = pending_qty s k
       - (if pk_status_code q = ''P'' then row_qty (t_reliefpkg_item s) (pk_reliefpkg_id q, k) else 0)" for k
    unfolding K(5) D(7) book_eq_keeps(5) [OF t(1)] processed_pending [OF pr ok(4)] rows
      processedD(2) [OF pr] processedD(3) [OF pr] by simp
  moreover have "\<exists>held. t_itembatch s' = map (commit_effect held) (t_itembatch s)
       \<and> (\<forall>k. dict_get held k 0 = row_qty (t_reliefpkg_item s') (pk_reliefpkg_id q, k))"
    using D(5,6) by (simp only: rows)
  ultimately show thesis using that [of q] D(1-4) K pr unfolding processed_def by blast
qed

section \<open>Examples\<close>

definition ex_officer :: user where
  "ex_officer = ex_user 1 ''LO'' [ex_role 2 ''LOGISTICS_OFFICER'']"

definition ex_manager :: user where
  "ex_manager = ex_user 2 ''LM'' [ex_role 3 ''LOGISTICS_MANAGER'']"

definition ex_pack_env :: "user \<Rightarrow> env" where
  "ex_pack_env u = \<lparr>en_today = 739000, en_now = hours 100, en_user = u,
     en_status_cache = Some ex_status_map, en_str_decimal = (\<lambda>q. ''0'')\<rparr>"

definition ex_form :: "string \<Rightarrow> (int \<times> qty) list \<Rightarrow> int \<Rightarrow> int \<Rightarrow> pkg_form" where
  "ex_form a bs v pv = \<lparr>fm_action = Some a, fm_relief_request_version = Number v,
     fm_package_version = Number pv, fm_batch_allocation = (\<lambda>i. if i = 1 then bs else []),
     fm_status = (\<lambda>i. if i = 1 then Some ''P'' else None), fm_status_reason = (\<lambda>i. [])\<rparr>"

text \<open>
  One submitted request for ten units and two batches without reservations; and the same after
  an officer drafted four units of batch 11.
\<close>

definition ex_pack_db :: db where
  "ex_pack_db = empty_db\<lparr>t_user := [ex_officer, ex_manager],
     t_role := [ex_role 2 ''LOGISTICS_OFFICER'', ex_role 3 ''LOGISTICS_MANAGER''],
     t_warehouse := [ex_warehouse], t_item := [ex_item ''FEFO'' True], t_inventory := [ex_inventory 15 0],
     t_itembatch := [ex_batch 11 None (Some 740000) 10 0, ex_batch 10 None (Some 739500) 5 0], seq_itembatch := 12,
     t_reliefrqst := [ex_rqst 5 3], t_reliefrqst_item := [ex_rqst_item 5 10 0 ''R'']\<rparr>"

definition ex_drafted :: db where
  "ex_drafted = snd (projr (prepare_package (ex_pack_env ex_officer) (ex_form ''save_draft'' [(11, 4)] 1 1) 5 ex_pack_db))"

lemma form_ok_ex: "distinct (map fst bs) \<Longrightarrow> \<forall>x \<in> set bs. 0 \<le> snd x \<Longrightarrow> form_ok (ex_form a bs v pv)"
  by (simp add: form_ok_def ex_form_def)

lemma books_init_ex: "books_init ex_pack_db"
  by (simp add: books_init_def ex_pack_db_def ex_simps stock_ok_def batch_ok_def warehouse_synced_def
      inventory_key_def sum_reserved_def batches_at_def rqst_item_key_def batches_numbered_def)

lemma ex_drafted_run:
  "prepare_package (ex_pack_env ex_officer) (ex_form ''save_draft'' [(11, 4)] 1 1) 5 ex_pack_db
     = Inr (Completed, ex_drafted)"
proof -
  let ?x = "prepare_package (ex_pack_env ex_officer) (ex_form ''save_draft'' [(11, 4)] 1 1) 5 ex_pack_db"
  have "\<not> isl ?x" and "fst (projr ?x) = Completed" by code_simp+
  then show ?thesis unfolding ex_drafted_def by (metis prod.collapse sum.collapse(2))
qed

lemma ex_drafted_reach: "reach books_init packaging_step ex_drafted"
proof (rule reach_step)
  show "reach books_init packaging_step ex_pack_db" by (rule reach_init) (rule books_init_ex)
  show "packaging_step ex_pack_db ex_drafted"
    by (rule step_prepare [OF ex_drafted_run]) (simp_all add: form_ok_ex, code_simp, simp add: ex_form_def)
qed

lemma ex_drafted_books: "books_ok ex_drafted"
  using packaging_flow.reach_inv [OF ex_drafted_reach] by (simp add: stock_books_ok_def)

section \<open>Properties\<close>



text \<open>
  C15: dispatching a form, directly or on approval, takes out of each batch's usable stock exactly
  what the dispatched package holds of it and keeps the stock invariants. The reservations are
  settled against the new quantities only, without reserving first: each batch keeps as reserved
  what the other pending packages hold, plus what this package held before, minus what it
  dispatches. If the dispatched quantities are those that were reserved, that is the ledger; a
  manager who lowers an allocation leaves the difference reserved for nobody, and one who raises
  it uses up the reservations of others.
\<close>

theorem dispatch_settles:
  assumes "books_ok s" and "form_ok f" and "undispatched s (rq_reliefrqst_id r)" and "dispatches_form e f r s s'"
  shows "\<exists>q. first_pkg s' (rq_reliefrqst_id r) = Some q \<and> pk_status_code q = ''D'' \<and> stock_ok s' \<and> warehouse_synced s'
   \<and> (\<forall>b \<in> set (t_itembatch s). \<exists>c \<in> set (t_itembatch s'). batch_key c = batch_key b
       \<and> bt_usable_qty c = bt_usable_qty b - row_qty (t_reliefpkg_item s') (pk_reliefpkg_id q, batch_key b)
       \<and> bt_reserved_qty c = max 0 (pending_qty s' (batch_key b)
           + row_qty (t_reliefpkg_item s) (pk_reliefpkg_id q, batch_key b)
           - row_qty (t_reliefpkg_item s') (pk_reliefpkg_id q, batch_key b)))"
proof -
  let ?rid = "rq_reliefrqst_id r"
  have ok: "stock_ok s" "warehouse_synced s" "pkg_items_ok s" "pkgs_ok s" "ledger_ok s"
    using assms(1) by (simp_all add: books_ok_def)
  obtain q where q: "first_pkg s ?rid = Some q \<or> first_pkg s ?rid = None \<and> pk_status_code q = ''P''"
    and ex: "\<exists>q'. first_pkg s' ?rid = Some q' \<and> pkg_head q' = (pk_reliefpkg_id q, ?rid, ''D'')"
    and inv: "stock_ok s'" "warehouse_synced s'" "pkg_items_ok s'" "pkgs_ok s'"
    and eff: "\<exists>held. t_itembatch s' = map (commit_effect held) (t_itembatch s)
       \<and> (\<forall>k. dict_get held k 0 = row_qty (t_reliefpkg_item s') (pk_reliefpkg_id q, k))"
    and pend: "\<forall>k. pending_qty s' k = pending_qty s k
       - (if pk_status_code q = ''P'' then row_qty (t_reliefpkg_item s) (pk_reliefpkg_id q, k) else 0)"
    by (rule dispatch_form_effect [OF assms(4) ok(1-4) assms(2)])
  from ex obtain q' where q': "first_pkg s' ?rid = Some q'" "pkg_head q' = (pk_reliefpkg_id q, ?rid, ''D'')" by blast
  from eff obtain held where bs: "t_itembatch s' = map (commit_effect held) (t_itembatch s)"
    and held: "\<And>k. dict_get held k 0 = row_qty (t_reliefpkg_item s') (pk_reliefpkg_id q, k)" by blast
  have "pk_status_code q = ''P''" using q assms(3) by (auto simp: undispatched_def)
  with ok(5) have "\<forall>b \<in> set (t_itembatch s). bt_reserved_qty b
      = pending_qty s' (batch_key b) + row_qty (t_reliefpkg_item s) (pk_reliefpkg_id q, batch_key b)"
    by (simp add: ledger_ok_def pend [rule_format])
  then have "\<forall>b \<in> set (t_itembatch s). \<exists>c \<in> set (t_itembatch s'). batch_key c = batch_key b
       \<and> bt_usable_qty c = bt_usable_qty b - row_qty (t_reliefpkg_item s') (pk_reliefpkg_id q, batch_key b)
       \<and> bt_reserved_qty c = max 0 (pending_qty s' (batch_key b)
           + row_qty (t_reliefpkg_item s) (pk_reliefpkg_id q, batch_key b)
           - row_qty (t_reliefpkg_item s') (pk_reliefpkg_id q, batch_key b))"
    unfolding bs by (auto simp: held)
  then show ?thesis using q' inv by (auto simp: pkg_head_def)
qed

definition ex_lowered :: db where
  "ex_lowered = snd (approve_and_dispatch (ex_pack_env ex_manager) (ex_form ''approve_and_dispatch'' [(11, 1)] 2 1)
     (the (get_rqst ex_drafted 5)) (the (first_pkg ex_drafted 5)) ex_drafted)"

theorem dispatch_settles_witness:
  "dispatches_form (ex_pack_env ex_manager) (ex_form ''approve_and_dispatch'' [(11, 1)] 2 1)
     (the (get_rqst ex_drafted 5)) ex_drafted ex_lowered
   \<and> stock_ok ex_lowered
   \<and> map (\<lambda>b. (bt_usable_qty b, bt_reserved_qty b, pending_qty ex_lowered (batch_key b))) (t_itembatch ex_lowered)
     = [(9, 3, 0), (5, 0, 0)]"
proof -
  let ?e = "ex_pack_env ex_manager"
  let ?f = "ex_form ''approve_and_dispatch'' [(11, 1)] 2 1"
  let ?r = "the (get_rqst ex_drafted 5)"
  let ?p = "the (first_pkg ex_drafted 5)"
  have "fst (approve_and_dispatch ?e ?f ?r ?p ex_drafted) = Completed" by code_simp
  then have "approve_and_dispatch ?e ?f ?r ?p ex_drafted = (Completed, ex_lowered)"
    unfolding ex_lowered_def by (metis prod.collapse)
  moreover have "first_pkg ex_drafted (rq_reliefrqst_id ?r) = Some ?p" by code_simp
  ultimately have run: "dispatches_form ?e ?f ?r ex_drafted ex_lowered" unfolding dispatches_form_def by blast
  have un: "undispatched ex_drafted (rq_reliefrqst_id ?r)" by code_simp
  have "stock_ok ex_lowered"
    using dispatch_settles [OF ex_drafted_books form_ok_ex un run] by auto
  moreover have "map (\<lambda>b. (bt_usable_qty b, bt_reserved_qty b, pending_qty ex_lowered (batch_key b))) (t_itembatch ex_lowered)
     = [(9, 3, 0), (5, 0, 0)]" by code_simp
  ultimately show ?thesis using run by blast
qed




text \<open>
  C18: cancelling a preparation releases nothing: the package's rows are deleted before the
  reservations are released, so the release finds none. Every batch keeps its reserved quantity
  while the pending packages hold less by what this package held, which stays reserved for good.
\<close>

theorem cancel_releases_nothing:
  assumes "stock_ok s" and "pkgs_ok s" and "first_pkg s rid = Some p" and "pk_status_code p = ''P''"
    and "cancel_preparation rid s = (oc, s')"
  shows "t_itembatch s' = t_itembatch s \<and> pkg_items_of s' (pk_reliefpkg_id p) = []
     \<and> pending_qty s' k = pending_qty s k - row_qty (t_reliefpkg_item s) (pk_reliefpkg_id p, k)"
proof -
  let ?pid = "pk_reliefpkg_id p"
  let ?s1 = "s\<lparr>t_reliefpkg_item := filter (\<lambda>r. pi_reliefpkg_id r \<noteq> ?pid) (t_reliefpkg_item s)\<rparr>"
  have first: "first_pkg ?s1 rid = Some p" using assms(3) by (simp add: first_pkg_def)
  have none: "pkg_items_of ?s1 ?pid = []" by (simp add: pkg_items_of_def filter_empty_conv)
  then have "get_current_batch_reservations ?s1 rid = []"
    using first by (simp add: get_current_batch_reservations_def batch_reservations_of_def)
  moreover have "stock_ok ?s1" using assms(1) by (simp add: stock_ok_def)
  ultimately have s': "s' = released_state [] ?s1"
    using assms(3,5) release_spec [of ?s1 rid] by (simp add: cancel_preparation_def)
  have "reserve_effect [] [] b = b" if "b \<in> set (t_itembatch s)" for b
    using assms(1) that by (auto simp: reserve_effect_def stock_ok_def batch_ok_def batch_delta_def max_def)
  then have bs: "t_itembatch s' = t_itembatch s" by (simp add: s' released_state_def Let_def map_idI)
  have rows: "row_qty (t_reliefpkg_item s') (i, k) = (if i = ?pid then 0 else row_qty (t_reliefpkg_item s) (i, k))" for i
    using row_qty_filter [of "\<lambda>x. fst x \<noteq> ?pid" "t_reliefpkg_item s" "(i, k)"]
    by (simp add: s' released_state_def Let_def record_key_def)
  let ?g = "\<lambda>t q. if pk_status_code q = ''P'' then row_qty (t_reliefpkg_item t) (pk_reliefpkg_id q, k) else 0"
  have "sum_list (map (?g s') (t_reliefpkg s)) = sum_list (map (?g s) (t_reliefpkg s)) - ?g s p + ?g s' p"
    using assms(2) first_pkg_in [OF assms(3)]
    by (intro sum_list_one_changed [where K = pk_reliefpkg_id]) (auto simp: rows pkgs_ok_def)
  moreover have "t_reliefpkg s' = t_reliefpkg s" by (simp add: s' released_state_def Let_def)
  ultimately have "pending_qty s' k = pending_qty s k - row_qty (t_reliefpkg_item s) (?pid, k)"
    using assms(4) rows [of ?pid] by (simp add: pending_qty_def)
  moreover have "pkg_items_of s' ?pid = []" using none by (simp add: s' released_state_def Let_def pkg_items_of_def)
  ultimately show ?thesis using bs by blast
qed

theorem cancel_releases_nothing_witness:
  "map bt_reserved_qty (t_itembatch (snd (cancel_preparation 5 ex_drafted))) = [4, 0]
   \<and> pending_qty (snd (cancel_preparation 5 ex_drafted)) (1, Some 7, 11) = 0"
proof -
  let ?p = "the (first_pkg ex_drafted 5)"
  have p: "first_pkg ex_drafted 5 = Some ?p" and st: "pk_status_code ?p = ''P''" by code_simp+
  have ok: "stock_ok ex_drafted" "pkgs_ok ex_drafted" using ex_drafted_books by (simp_all add: books_ok_def)
  note C = cancel_releases_nothing [OF ok p st prod.collapse [symmetric], of "(1, Some 7, 11)"]
  have "map bt_reserved_qty (t_itembatch ex_drafted) = [4, 0]"
    and "pending_qty ex_drafted (1, Some 7, 11) = 4"
    and "row_qty (t_reliefpkg_item ex_drafted) (pk_reliefpkg_id ?p, 1, Some 7, 11) = 4" by code_simp+
  with C show ?thesis by simp
qed

lemma validate_version_Inr: "validate_version_nbr n v a = Inr u \<longleftrightarrow> v = Number a"
  by (cases v) auto

lemma rqst_after_stock:
  assumes "stock_frame (set_rqst rid (part_filled e) t) s'" and "t_reliefrqst t = t_reliefrqst s"
  shows "get_rqst s' i = (if i = rid then map_option (part_filled e) (get_rqst s rid) else get_rqst s i)"
proof -
  have "get_rqst s' i = get_rqst (set_rqst rid (part_filled e) t) i"
    by (rule get_rqst_cong) (rule stock_frame_tables [OF assms(1)])
  also have "\<dots> = (if i = rid then map_option (part_filled e) (get_rqst t rid) else get_rqst t i)"
    by (rule get_rqst_set_rqst) (simp add: part_filled_def)
  finally show ?thesis by (simp add: get_rqst_cong [OF assms(2)])
qed

lemma set_pkg_rqst [simp]: "t_reliefrqst (set_pkg pid f s) = t_reliefrqst s"
  by (simp add: set_pkg_def)

lemma save_draft_versioned:
  assumes "save_draft e f r s = (Completed, s')"
  shows "fm_relief_request_version f = Number (rq_version_nbr r) \<and> get_rqst s' i =
    (if i = rq_reliefrqst_id r then map_option (part_filled e) (get_rqst s (rq_reliefrqst_id r)) else get_rqst s i)"
proof -
  from assms obtain news old s1 t where run: "process_allocations e f False r s = Inr (news, old, s1)"
    and res: "reserve_inventory (set_rqst (rq_reliefrqst_id r) (part_filled e) t) (rq_reliefrqst_id r) news (Some old) = Inr s'"
    and t: "t_reliefrqst t = t_reliefrqst s1" and v: "fm_relief_request_version f = Number (rq_version_nbr r)"
    unfolding save_draft_def Let_def by (auto simp: validate_version_Inr split: sum.splits option.splits prod.splits)
  show ?thesis using rqst_after_stock [OF stock_services_frame(1) [OF res], of s i] t
      process_allocations_frame(1) [OF run] v by simp
qed

lemma submit_for_approval_versioned:
  assumes "submit_for_approval e f r s = (Completed, s')"
  shows "fm_relief_request_version f = Number (rq_version_nbr r) \<and> get_rqst s' i =
    (if i = rq_reliefrqst_id r then map_option (part_filled e) (get_rqst s (rq_reliefrqst_id r)) else get_rqst s i)"
proof -
  have v: "fm_relief_request_version f = Number (rq_version_nbr r)"
    using assms unfolding submit_for_approval_def Let_def
    by (auto simp: catch_value_error_def validate_version_Inr split: sum.splits if_splits)
  from assms obtain news old s1 p s2 where
    run: "process_allocations e f False r s = Inr (news, old, s1)" "first_pkg s1 (rq_reliefrqst_id r) = Some p"
    and res: "reserve_inventory (set_rqst (rq_reliefrqst_id r) (part_filled e)
      (set_pkg (pk_reliefpkg_id p) (submitted_to_lm e) s1)) (rq_reliefrqst_id r) news (Some old) = Inr s2"
    and s': "s' = s2 \<or> s' = notify_lm e p s2" by (rule submit_for_approval_completed)
  from s' have "t_reliefrqst s' = t_reliefrqst s2"
    by (auto simp: notify_lm_def Let_def create_package_ready_for_approval_notification_def)
  then have "get_rqst s' i = get_rqst s2 i" by (rule get_rqst_cong)
  then show ?thesis using rqst_after_stock [OF stock_services_frame(1) [OF res], of s i]
      process_allocations_frame(1) [OF run(1)] v by simp
qed

lemma send_for_dispatch_versioned:
  assumes "send_for_dispatch e f r s = (Completed, s')"
  shows "fm_relief_request_version f = Number (rq_version_nbr r) \<and> get_rqst s' i =
    (if i = rq_reliefrqst_id r then map_option (part_filled e) (get_rqst s (rq_reliefrqst_id r)) else get_rqst s i)"
proof -
  let ?rid = "rq_reliefrqst_id r"
  have v: "fm_relief_request_version f = Number (rq_version_nbr r)"
    using assms unfolding send_for_dispatch_def Let_def
    by (auto simp: catch_value_error_def validate_version_Inr split: sum.splits if_splits)
  from assms obtain news old s1 p s2 where run: "process_allocations e f True r s = Inr (news, old, s1)"
    "first_pkg s1 ?rid = Some p"
    and com: "commit_inventory (set_pkg (pk_reliefpkg_id p) (dispatched e) s1) ?rid = Inr s2"
    and s': "\<exists>us. s' = create_package_dispatched_notification (en_now e) p us (set_rqst ?rid (part_filled e) s2)"
    by (rule send_for_dispatch_completed)
  have s2: "t_reliefrqst s2 = t_reliefrqst s"
    using stock_frame_tables(1) [OF stock_services_frame(2) [OF com]] process_allocations_frame(1) [OF run(1)] by simp
  have "t_reliefrqst s' = t_reliefrqst (set_rqst ?rid (part_filled e) s2)"
    using s' by (auto simp: create_package_dispatched_notification_def)
  then have "get_rqst s' i = get_rqst (set_rqst ?rid (part_filled e) s2) i" by (rule get_rqst_cong)
  then show ?thesis using rqst_after_stock [OF stock_frame_steps(1) s2, of ?rid e i] v by simp
qed

lemma prepare_versioned:
  assumes "prepare_package e f rid s = Inr (Completed, s')"
  obtains r where "get_rqst s rid = Some r" and "rq_status_code r \<in> {STATUS_SUBMITTED, STATUS_PART_FILLED}"
    and "fm_relief_request_version f = Number (rq_version_nbr r)"
    and "get_rqst s' rid = Some (part_filled e r)" and "\<And>i. i \<noteq> rid \<Longrightarrow> get_rqst s' i = get_rqst s i"
proof -
  from assms obtain r where r: "get_rqst s rid = Some r" "rq_status_code r \<in> {STATUS_SUBMITTED, STATUS_PART_FILLED}"
    and run: "save_draft e f r s = (Completed, s') \<or> submit_for_approval e f r s = (Completed, s')
      \<or> send_for_dispatch e f r s = (Completed, s')"
    unfolding prepare_package_def by (auto split: if_splits option.splits)
  have "fm_relief_request_version f = Number (rq_version_nbr r) \<and> get_rqst s' i =
    (if i = rid then map_option (part_filled e) (get_rqst s rid) else get_rqst s i)" for i
    using run unfolding get_rqst_id [OF r(1), symmetric]
    by (elim disjE) (erule save_draft_versioned submit_for_approval_versioned send_for_dispatch_versioned)+
  then show thesis using that [OF r] r(1) by simp
qed

lemma prepare_unchanged: "prepare_package e f rid s = Inr (oc, s') \<Longrightarrow> oc \<noteq> Completed \<Longrightarrow> s' = s"
  using handlers_atomic(1-3) by (auto simp: prepare_package_def split: if_splits option.splits)

text \<open>
  C7: preparing a package is atomic and guarded by the version the user saw. Whatever does not
  complete leaves the database as it was; what completes was posted by a logistics user for a
  submitted or part-filled request in the version shown, marks exactly that request as part
  filled with the user recorded, and raises its version by one.
\<close>

theorem prepare_is_atomic:
  assumes "prepare_package e f rid s = Inr (oc, s')"
  shows "(oc \<noteq> Completed \<longrightarrow> s' = s)
   \<and> (oc = Completed \<longrightarrow> (is_logistics_officer (Some (en_user e)) \<or> is_logistics_manager (Some (en_user e)))
       \<and> (\<exists>r. get_rqst s rid = Some r \<and> rq_status_code r \<in> {STATUS_SUBMITTED, STATUS_PART_FILLED}
            \<and> fm_relief_request_version f = Number (rq_version_nbr r) \<and> get_rqst s' rid = Some (part_filled e r))
       \<and> (\<forall>i. i \<noteq> rid \<longrightarrow> get_rqst s' i = get_rqst s i))"
proof (cases "oc = Completed")
  case True
  have "is_logistics_officer (Some (en_user e)) \<or> is_logistics_manager (Some (en_user e))"
    using assms by (auto simp: prepare_package_def split: if_splits)
  moreover obtain r where "get_rqst s rid = Some r" "rq_status_code r \<in> {STATUS_SUBMITTED, STATUS_PART_FILLED}"
    "fm_relief_request_version f = Number (rq_version_nbr r)" "get_rqst s' rid = Some (part_filled e r)"
    and "\<And>i. i \<noteq> rid \<Longrightarrow> get_rqst s' i = get_rqst s i"
    using prepare_versioned [OF assms [unfolded True]] by blast
  ultimately show ?thesis using True by simp
next
  case False
  with prepare_unchanged [OF assms] show ?thesis by simp
qed

theorem prepare_is_atomic_witness:
  "get_rqst ex_drafted 5 = Some (part_filled (ex_pack_env ex_officer) (ex_rqst 5 3))"
proof -
  have "get_rqst ex_pack_db 5 = Some (ex_rqst 5 3)" by (simp add: get_rqst_def ex_pack_db_def ex_simps)
  then show ?thesis using prepare_is_atomic [OF ex_drafted_run] by auto
qed













text \<open>
  Submitting a package for approval tells no logistics manager: the recipients are looked up
  under the role code \<open>LM\<close>, so where roles carry the codes of the registry (such as
  \<open>LOGISTICS_MANAGER\<close>) a completed submission adds no notification at all.
\<close>

lemma submission_notifies_nobody:
  assumes "submit_for_approval e f r s = (Completed, s')" and "\<forall>x \<in> set (t_role s). ro_code x \<noteq> ''LM''"
  shows "t_notification s' = t_notification s"
proof -
  from assms(1) obtain news old s1 p s2 where 1: "process_allocations e f False r s = Inr (news, old, s1)"
    "first_pkg s1 (rq_reliefrqst_id r) = Some p"
    and 2: "reserve_inventory (set_rqst (rq_reliefrqst_id r) (part_filled e)
      (set_pkg (pk_reliefpkg_id p) (submitted_to_lm e) s1)) (rq_reliefrqst_id r) news (Some old) = Inr s2"
    and s': "s' = s2 \<or> s' = notify_lm e p s2" by (rule submit_for_approval_completed)
  note fr = stock_frame_tables [OF stock_services_frame(1) [OF 2]]
  have s2: "t_role s2 = t_role s" "t_notification s2 = t_notification s"
    using fr(4,5) process_allocations_frame(3,4) [OF 1(1)] by (simp_all add: set_pkg_def)
  have "filter (\<lambda>x. ro_code x \<in> set [''LM'']) (t_role s2) = []"
    using assms(2) by (simp add: s2 filter_empty_conv)
  then have "get_active_users_by_role_codes s2 [''LM''] = []"
    by (simp add: get_active_users_by_role_codes_def users_of_roles_def dedup_users_def)
  then have "notify_lm e p s2 = s2" by (simp add: notify_lm_def)
  with s' s2 show ?thesis by auto
qed

end
