(* ===== verification/Packaging_Queues.thy ===== *)
theory Packaging_Queues
  imports Packaging_Properties
begin

text \<open>
  The pages of \<^verbatim>\<open>app/features/packaging.py\<close> around the handlers: the approval queue, the tabs of
  the fulfilment page, the status choices offered for a package, the transaction summary, the
  clerk's dispatch queue with the handover, the received queue, the allocation API and the
  creation of a request on behalf of an agency. A page is modelled by the rows and counts it
  shows; a refused visitor is \<^verbatim>\<open>403\<close>.
\<close>

section \<open>The approval queue\<close>

definition newest_first :: "reliefrqst list \<Rightarrow> reliefrqst list" where
  "newest_first rs = sort_key (\<lambda>r. - rq_create_dtime r) rs"


section \<open>The tabs of the fulfilment page\<close>

definition has_pending_approval :: "db \<Rightarrow> reliefrqst \<Rightarrow> bool" where
  "has_pending_approval s r \<longleftrightarrow> rq_status_code r = STATUS_PART_FILLED
     \<and> list_ex (\<lambda>p. pk_status_code p = PKG_STATUS_PENDING \<and> pk_dispatch_dtime p = None
          \<and> pk_verify_by_id p = Some ''__PENDING_LM__'') (pkgs_of s (rq_reliefrqst_id r))"

definition has_dispatched_package :: "db \<Rightarrow> reliefrqst \<Rightarrow> bool" where
  "has_dispatched_package s r =
     list_ex (\<lambda>p. pk_status_code p = PKG_STATUS_DISPATCHED) (pkgs_of s (rq_reliefrqst_id r))"

definition get_awaiting_requests :: "db \<Rightarrow> reliefrqst list" where
  "get_awaiting_requests s = filter (\<lambda>r. \<not> (has_pending_approval s r \<or> has_dispatched_package s r))
     (newest_first (filter (\<lambda>r. rq_status_code r = STATUS_SUBMITTED) (t_reliefrqst s)))"

definition get_in_progress_requests :: "db \<Rightarrow> reliefrqst list" where
  "get_in_progress_requests s = filter (\<lambda>r. \<not> (has_pending_approval s r \<or> has_dispatched_package s r))
     (newest_first (filter (\<lambda>r. rq_status_code r = STATUS_PART_FILLED) (t_reliefrqst s)))"

definition get_pending_approval_requests :: "db \<Rightarrow> reliefrqst list" where
  "get_pending_approval_requests s = filter (has_pending_approval s)
     (newest_first (filter (\<lambda>r. rq_status_code r \<in> set [STATUS_SUBMITTED, STATUS_PART_FILLED]) (t_reliefrqst s)))"

text \<open>\<^verbatim>\<open>ORDER BY .. DESC\<close> on a nullable column puts NULL first in PostgreSQL.\<close>

definition desc_key :: "datetime option \<Rightarrow> int \<times> int" where
  "desc_key t = (case t of None \<Rightarrow> (0, 0) | Some t \<Rightarrow> (1, - t))"

definition pkg_total_qty :: "db \<Rightarrow> reliefpkg \<Rightarrow> qty" where
  "pkg_total_qty s p = sum_list (map pi_item_qty (pkg_items_of s (pk_reliefpkg_id p)))"

definition approved_packages :: "db \<Rightarrow> reliefpkg list" where
  "approved_packages s = sort_key (\<lambda>p. desc_key (pk_dispatch_dtime p))
     (filter (\<lambda>p. pk_status_code p = PKG_STATUS_DISPATCHED \<and> pk_received_dtime p = None) (t_reliefpkg s))"

definition get_approved_packages_with_items :: "db \<Rightarrow> reliefpkg list" where
  "get_approved_packages_with_items s = filter (\<lambda>p. \<not> pkg_total_qty s p = 0) (approved_packages s)"

definition get_approved_packages_no_items :: "db \<Rightarrow> reliefpkg list" where
  "get_approved_packages_no_items s = filter (\<lambda>p. \<not> pkg_total_qty s p > 0) (approved_packages s)"

record fulfilment_page =
  fp_requests :: "reliefrqst list"
  fp_packages :: "(reliefpkg \<times> nat \<times> qty) list"
  fp_submitted :: nat
  fp_in_progress :: nat
  fp_pending_approval :: nat
  fp_approved :: nat
  fp_approved_no_allocation :: nat

definition pending_fulfillment :: "env \<Rightarrow> string \<Rightarrow> db \<Rightarrow> exc + fulfilment_page" where
  "pending_fulfillment e filter_type s =
     (if \<not> (is_logistics_officer (Some (en_user e)) \<or> is_logistics_manager (Some (en_user e))) then Inl Forbidden403
      else
        let awaiting = get_awaiting_requests s; in_progress = get_in_progress_requests s;
            pending = get_pending_approval_requests s; with_items = get_approved_packages_with_items s;
            no_items = get_approved_packages_no_items s;
            page = (\<lambda>rs ps. \<lparr>fp_requests = rs, fp_packages = ps, fp_submitted = length awaiting,
              fp_in_progress = length in_progress, fp_pending_approval = length pending,
              fp_approved = length with_items, fp_approved_no_allocation = length no_items\<rparr>)
        in Inr (if filter_type = ''approved_for_dispatch'' then
               page [] (map (\<lambda>p. (p, length (pkg_items_of s (pk_reliefpkg_id p)), pkg_total_qty s p)) with_items)
             else if filter_type = ''approved_no_allocation'' then page [] (map (\<lambda>p. (p, 0, 0)) no_items)
             else if filter_type = ''awaiting'' then page awaiting []
             else if filter_type = ''in_progress'' then page in_progress []
             else if filter_type = ''pending_approval'' then page pending []
             else page (awaiting @ in_progress @ pending) []))"

section \<open>What the preparation pages show\<close>

text \<open>
  For each requested item the suggested status and the allowed ones, from what the package holds;
  the preparation page reads the first package, the approval page the pending one.
\<close>

definition item_status_options ::
  "env \<Rightarrow> db \<Rightarrow> int \<Rightarrow> reliefpkg_item list \<Rightarrow> (int \<times> (string \<times> string list) \<times> qty \<times> bool) list" where
  "item_status_options e s rid rows =
     map (\<lambda>i. let total_allocated = pkg_item_total rows (ri_item_id i);
              activity = (ri_item_id i \<in> pi_item_id ` set rows)
        in (ri_item_id i, compute_allowed_statuses (fst (load_status_map False (en_status_cache e) s))
             (ri_status_code i) total_allocated (ri_request_qty i) activity, total_allocated, activity))
       (rqst_items_of s rid)"

definition prepare_package_page ::
  "env \<Rightarrow> int \<Rightarrow> db \<Rightarrow> exc + ((int \<times> (string \<times> string list) \<times> qty \<times> bool) list \<times> bool) option" where
  "prepare_package_page e rid s =
     (if \<not> (is_logistics_officer (Some (en_user e)) \<or> is_logistics_manager (Some (en_user e))) then Inl Forbidden403
      else case get_rqst s rid of
        None \<Rightarrow> Inl NotFound404
      | Some r \<Rightarrow>
          if rq_status_code r \<notin> set [STATUS_SUBMITTED, STATUS_PART_FILLED] then Inr None
          else let rows = (case first_pkg s rid of None \<Rightarrow> [] | Some p \<Rightarrow> pkg_items_of s (pk_reliefpkg_id p));
                   is_read_only = (rq_status_code r = STATUS_PART_FILLED
                     \<and> is_logistics_officer (Some (en_user e)) \<and> \<not> is_logistics_manager (Some (en_user e)))
            in Inr (Some (item_status_options e s rid rows, is_read_only)))"

definition approve_package_page ::
  "env \<Rightarrow> int \<Rightarrow> db \<Rightarrow> exc + (int \<times> (string \<times> string list) \<times> qty \<times> bool) list option" where
  "approve_package_page e rid s =
     (if \<not> is_logistics_manager (Some (en_user e)) then Inl Forbidden403
      else case get_rqst s rid of
        None \<Rightarrow> Inl NotFound404
      | Some r \<Rightarrow>
      case pending_pkg s rid of
        None \<Rightarrow> Inr None
      | Some p \<Rightarrow>
          if pk_dispatch_dtime p \<noteq> None then Inr None
          else Inr (Some (item_status_options e s rid (pkg_items_of s (pk_reliefpkg_id p)))))"

record summary_item =
  si_item_id :: int
  si_requested_qty :: qty
  si_issued_qty :: qty
  si_batches :: "(string option \<times> itembatch option \<times> qty) list"
  si_status_code :: string

definition summary_items :: "db \<Rightarrow> reliefpkg \<Rightarrow> summary_item list" where
  "summary_items s p =
     map (\<lambda>i. let rows = filter (\<lambda>r. pi_item_id r = ri_item_id i) (pkg_items_of s (pk_reliefpkg_id p));
              batches = map (\<lambda>r. (map_option wh_warehouse_name
                  (find (\<lambda>w. wh_warehouse_id w = pi_fr_inventory_id r) (t_warehouse s)),
                get_batch s (pi_batch_id r), pi_item_qty r)) rows
        in \<lparr>si_item_id = ri_item_id i, si_requested_qty = ri_request_qty i,
            si_issued_qty = sum_list (map (\<lambda>b. snd (snd b)) batches), si_batches = batches,
            si_status_code = ri_status_code i\<rparr>)
       (rqst_items_of s (pk_reliefrqst_id p))"

definition transaction_summary :: "env \<Rightarrow> int \<Rightarrow> db \<Rightarrow> exc + (summary_item list \<times> nat \<times> nat \<times> nat)" where
  "transaction_summary e pid s =
     (if \<not> (is_logistics_manager (Some (en_user e)) \<or> is_logistics_officer (Some (en_user e))) then Inl Forbidden403
      else case find (\<lambda>p. pk_reliefpkg_id p = pid) (t_reliefpkg s) of
        None \<Rightarrow> Inl NotFound404
      | Some p \<Rightarrow>
          let items = summary_items s p; names = concat (map (\<lambda>i. map fst (si_batches i)) items)
          in Inr (items, length items, length names, length (remdups names)))"

section \<open>Dispatch and handover\<close>

definition own_rows :: "user \<Rightarrow> reliefpkg_item list \<Rightarrow> reliefpkg_item list" where
  "own_rows u rows = filter (\<lambda>r. pi_fr_inventory_id r \<in> set (us_warehouses u)) rows"

definition clerk_packages :: "user \<Rightarrow> db \<Rightarrow> reliefpkg list" where
  "clerk_packages u s = filter (\<lambda>p. pk_status_code p = PKG_STATUS_DISPATCHED
     \<and> get_rqst s (pk_reliefrqst_id p) \<noteq> None
     \<and> list_ex (\<lambda>r. pi_reliefpkg_id r = pk_reliefpkg_id p \<and> pi_fr_inventory_id r \<in> set (us_warehouses u))
         (t_reliefpkg_item s)) (t_reliefpkg s)"

text \<open>The clerk's page: packages with the number and total of the clerk's own rows, and the counts.\<close>

definition awaiting_dispatch ::
  "env \<Rightarrow> string \<Rightarrow> db \<Rightarrow> exc + ((reliefpkg \<times> nat \<times> qty) list \<times> nat \<times> nat)" where
  "awaiting_dispatch e current_filter s =
     (let u = en_user e in
      if \<not> has_role (Some u) [''INVENTORY_CLERK''] then Inl Forbidden403
      else if us_warehouses u = [] then Inr ([], 0, 0)
      else
        let base = clerk_packages u s;
            awaiting = filter (\<lambda>p. pk_received_dtime p = None) base;
            completed = filter (\<lambda>p. pk_received_dtime p \<noteq> None) base;
            packages = (if current_filter = ''awaiting'' then sort_key (\<lambda>p. desc_key (pk_dispatch_dtime p)) awaiting
              else if current_filter = ''completed'' then sort_key (\<lambda>p. desc_key (pk_received_dtime p)) completed
              else sort_key (\<lambda>p. desc_key (pk_dispatch_dtime p)) base)
        in Inr (map (\<lambda>p. let rows = own_rows u (pkg_items_of s (pk_reliefpkg_id p))
                 in (p, length rows, sum_list (map pi_item_qty rows))) packages,
             length awaiting, length completed))"

text \<open>The details page lists the clerk's own rows; \<open>None\<close> is a redirect to the queue.\<close>

definition dispatch_details :: "env \<Rightarrow> int \<Rightarrow> db \<Rightarrow> exc + reliefpkg_item list option" where
  "dispatch_details e pid s =
     (let u = en_user e in
      if \<not> has_role (Some u) [''INVENTORY_CLERK''] then Inl Forbidden403
      else if us_warehouses u = [] then Inr None
      else case find (\<lambda>p. pk_reliefpkg_id p = pid) (t_reliefpkg s) of
        None \<Rightarrow> Inl NotFound404
      | Some p \<Rightarrow>
          if pk_status_code p \<noteq> PKG_STATUS_DISPATCHED then Inr None
          else if own_rows u (pkg_items_of s pid) = [] then Inr None
          else Inr (Some (own_rows u (pkg_items_of s pid))))"




definition received_packages :: "db \<Rightarrow> reliefpkg list" where
  "received_packages s = filter (\<lambda>p. get_rqst s (pk_reliefrqst_id p) \<noteq> None
     \<and> pk_status_code p = PKG_STATUS_DISPATCHED \<and> pk_received_dtime p \<noteq> None) (t_reliefpkg s)"

definition dispatch_received :: "env \<Rightarrow> string \<Rightarrow> db \<Rightarrow> exc + ((reliefpkg \<times> nat \<times> qty) list \<times> nat \<times> nat)" where
  "dispatch_received e current_filter s =
     (if \<not> (has_role (Some (en_user e)) [''LOGISTICS_OFFICER''] \<or> has_role (Some (en_user e)) [''LOGISTICS_MANAGER''])
      then Inl Forbidden403
      else
        let recent = (\<lambda>p. case pk_received_dtime p of None \<Rightarrow> False | Some t \<Rightarrow> en_now e - hours (30 * 24) \<le> t);
            base = received_packages s;
            packages = sort_key (\<lambda>p. desc_key (pk_received_dtime p))
              (if current_filter = ''recent'' then filter recent base else base)
        in Inr (map (\<lambda>p. (p, length (pkg_items_of s (pk_reliefpkg_id p)), pkg_total_qty s p)) packages,
             length (filter recent base), length base))"

definition dispatch_received_details :: "env \<Rightarrow> int \<Rightarrow> db \<Rightarrow> exc + reliefpkg_item list option" where
  "dispatch_received_details e pid s =
     (if \<not> (has_role (Some (en_user e)) [''LOGISTICS_OFFICER''] \<or> has_role (Some (en_user e)) [''LOGISTICS_MANAGER''])
      then Inl Forbidden403
      else case find (\<lambda>p. pk_reliefpkg_id p = pid) (t_reliefpkg s) of
        None \<Rightarrow> Inl NotFound404
      | Some p \<Rightarrow> if pk_received_dtime p = None then Inr None else Inr (Some (pkg_items_of s pid)))"

section \<open>The allocation API\<close>

definition get_inventory :: "db \<Rightarrow> int \<Rightarrow> int \<Rightarrow> qty \<times> qty \<times> qty" where
  "get_inventory s item_id warehouse_id =
     (case find_active_inventory s (item_id, warehouse_id) of
        None \<Rightarrow> (0, 0, 0)
      | Some v \<Rightarrow> (iv_usable_qty v, iv_reserved_qty v, iv_defective_qty v))"

datatype batches_reply =
    ItemNotFound
  | Drawer "(itembatch \<times> nat \<times> qty) list" qty qty bool
  | AllBatches "(int \<times> (itembatch \<times> qty) list) list"

definition get_item_batches ::
  "db \<Rightarrow> date \<Rightarrow> int \<Rightarrow> qty option \<Rightarrow> string option \<Rightarrow> int list \<Rightarrow> (int, qty) dict \<Rightarrow> batches_reply" where
  "get_item_batches s today item_id remaining_qty required_uom allocated_batch_ids current_allocations =
     (case get_item s item_id of
        None \<Rightarrow> ItemNotFound
      | Some it \<Rightarrow>
      case remaining_qty of
        Some q \<Rightarrow>
          (case get_limited_batches_for_drawer s today item_id q required_uom allocated_batch_ids current_allocations of
             (limited, available, shortfall) \<Rightarrow>
               Drawer (map (\<lambda>(b, g). (b, g, bt_usable_qty b - (bt_reserved_qty b - dict_get current_allocations (bt_batch_id b) 0)))
                   (assign_priority_groups limited it)) available shortfall (shortfall = 0))
      | None \<Rightarrow> AllBatches (map (\<lambda>(w, bs). (w, map (\<lambda>b. (b, available_qty b)) bs)) (get_batches_by_warehouse s today item_id)))"

text \<open>\<open>None\<close> is the answer 400 for a quantity that is not positive.\<close>

definition auto_allocate_item :: "db \<Rightarrow> date \<Rightarrow> int \<Rightarrow> qty \<Rightarrow> int option \<Rightarrow> (allocation list \<times> qty \<times> qty) option" where
  "auto_allocate_item s today item_id requested_qty warehouse_id =
     (if requested_qty \<le> 0 then None
      else let allocations = auto_allocate_batches s today item_id requested_qty warehouse_id;
               total_allocated = sum_list (map al_allocated_qty allocations)
        in Some (allocations, total_allocated,
             if total_allocated < requested_qty then requested_qty - total_allocated else 0))"

section \<open>Creating a request on behalf of an agency\<close>

record behalf_form =
  bf_agency_id :: "int option"
  bf_urgency_ind :: string
  bf_eligible_event_id :: "int option"
  bf_rqst_notes_text :: string

definition create_request_on_behalf :: "env \<Rightarrow> behalf_form \<Rightarrow> db \<Rightarrow> exc + outcome \<times> db" where
  "create_request_on_behalf e f s =
     (let u = en_user e; is_agency = is_agency_user (Some u) in
      if \<not> (is_logistics_officer (Some u) \<or> is_logistics_manager (Some u) \<or> is_agency) then Inl Forbidden403
      else
        let agency_id = (if is_agency then us_agency_id u else bf_agency_id f) in
        if is_agency \<and> \<not> truthy_int agency_id then Inr (Declined, s)
        else case agency_id of
          None \<Rightarrow> Inr (Declined, s)
        | Some a \<Rightarrow>
            if find (\<lambda>x. ag_agency_id x = a) (t_agency s) = None then Inr (Declined, s)
            else if bf_urgency_ind f \<notin> set [''H'', ''M'', ''L''] then Inr (Declined, s)
            else case create_draft_request e a (bf_urgency_ind f) (bf_eligible_event_id f)
                   (Some (py_strip (bf_rqst_notes_text f))) (us_email u) s of
                Inl x \<Rightarrow> Inr (Flashed x, s)
              | Inr (r, s') \<Rightarrow> Inr (Completed, s'))"

section \<open>Lemmas\<close>

lemma set_newest_first [simp]: "set (newest_first rs) = set rs"
  by (simp add: newest_first_def)








section \<open>Properties\<close>








end
