(* ===== verification/Master_Data.thy ===== *)
theory Master_Data
  imports Donations
begin

text \<open>
  The master-data pages: units of measure, item categories, items, custodians, warehouses,
  agencies, donors and events (\<^verbatim>\<open>uom.py\<close>, \<^verbatim>\<open>item_categories.py\<close>, \<^verbatim>\<open>items.py\<close>, \<^verbatim>\<open>custodians.py\<close>,
  \<^verbatim>\<open>warehouses.py\<close>, \<^verbatim>\<open>agencies.py\<close>, \<^verbatim>\<open>donors.py\<close> and \<^verbatim>\<open>events.py\<close> under \<^verbatim>\<open>app/features\<close>). Each page
  validates a form, creates or edits a row and deletes or deactivates it. Foreign keys are checked
  when the session is flushed: deleting a row first blanks the nullable columns of the rows that
  refer to it, and a column that may not be null makes the flush fail with \<open>IntegrityError\<close>.
\<close>

section \<open>Fields and errors\<close>

datatype field_error =
    Required
  | TooLong
  | Taken
  | NotListed
  | BadFormat
  | NotUpper
  | Unknown
  | InFuture
  | TooEarly
  | NotAllowed
  | NotPositive

text \<open>An \<^verbatim>\<open>if/elif\<close> chain over one field: the first condition that holds gives the error.\<close>

fun first_error :: "string \<Rightarrow> (bool \<times> field_error) list \<Rightarrow> (string \<times> field_error) list" where
  "first_error f [] = []"
| "first_error f ((c, x) # cs) = (if c then [(f, x)] else first_error f cs)"

definition required_max :: "string \<Rightarrow> nat \<Rightarrow> string \<Rightarrow> (string \<times> field_error) list" where
  "required_max f n v = first_error f [(v = [], Required), (length v > n, TooLong)]"

definition optional_max :: "string \<Rightarrow> nat \<Rightarrow> string \<Rightarrow> (string \<times> field_error) list" where
  "optional_max f n v = first_error f [(v \<noteq> [] \<and> length v > n, TooLong)]"

definition listed :: "string \<Rightarrow> string list \<Rightarrow> string \<Rightarrow> (string \<times> field_error) list" where
  "listed f vs v = first_error f [(v = [], Required), (v \<notin> set vs, NotListed)]"

definition or_none :: "string \<Rightarrow> string option" where
  "or_none t = (if t = [] then None else Some t)"

text \<open>
  \<^verbatim>\<open>^[a-zA-Z0-9._%+-]+@[a-zA-Z0-9.-]+\.[a-zA-Z]{2,}$\<close> on a stripped text: the local part ends at the
  first at sign, the top-level domain starts after the last dot.
\<close>

definition ascii_letter :: "char \<Rightarrow> bool" where
  "ascii_letter c \<longleftrightarrow> (let n = of_char c :: nat in 65 \<le> n \<and> n \<le> 90 \<or> 97 \<le> n \<and> n \<le> 122)"

definition re_email :: "string \<Rightarrow> bool" where
  "re_email s \<longleftrightarrow>
     (let loc = takeWhile (\<lambda>c. c \<noteq> CHR ''@'') s; at_dom = dropWhile (\<lambda>c. c \<noteq> CHR ''@'') s;
          dom = drop 1 at_dom; tld = rev (takeWhile (\<lambda>c. c \<noteq> CHR ''.'') (rev dom));
          dot_host = dropWhile (\<lambda>c. c \<noteq> CHR ''.'') (rev dom); host = drop 1 dot_host
      in at_dom \<noteq> [] \<and> dot_host \<noteq> []
         \<and> loc \<noteq> [] \<and> list_all (\<lambda>c. ascii_letter c \<or> py_isdigit c \<or> c \<in> set ''._%+-'') loc
         \<and> host \<noteq> [] \<and> list_all (\<lambda>c. ascii_letter c \<or> py_isdigit c \<or> c \<in> set ''.-'') host
         \<and> 2 \<le> length tld \<and> list_all ascii_letter tld)"

definition validate_email :: "string \<Rightarrow> bool" where
  "validate_email email \<longleftrightarrow> email = [] \<or> re_email email"

definition email_errors :: "string \<Rightarrow> (string \<times> field_error) list" where
  "email_errors v = first_error ''email_text''
     [(v \<noteq> [] \<and> length v > 100, TooLong), (v \<noteq> [] \<and> \<not> validate_email v, BadFormat)]"

section \<open>Audit columns and versions\<close>

definition stamped :: "env \<Rightarrow> string \<Rightarrow> 'a audited_scheme \<Rightarrow> 'a audited_scheme" where
  "stamped e aid r = r\<lparr>au_update_by_id := aid, au_update_dtime := en_now e\<rparr>"

definition may_manage :: "string \<Rightarrow> env \<Rightarrow> bool" where
  "may_manage k e = (feature_required k (Some (en_user e)) = Granted)"

section \<open>Units of measure\<close>

record uom_form =
  uf_uom_code :: string
  uf_uom_desc :: string
  uf_comments_text :: string
  uf_status_code :: string
  uf_version_nbr :: vfield

text \<open>A comment of blanks only is stored as the empty text.\<close>

definition comments_of :: "string \<Rightarrow> string option" where
  "comments_of t = (if t = [] then None else Some (py_strip t))"

definition validate_uom_data :: "db \<Rightarrow> uom_form \<Rightarrow> string option \<Rightarrow> (string \<times> field_error) list" where
  "validate_uom_data s f own =
     (let code = py_upper (py_strip (uf_uom_code f)) in
      first_error ''uom_code''
        [(code = [], Required),
         (list_ex (\<lambda>u. py_upper (um_uom_code u) = code \<and> (own = None \<or> own = Some [] \<or> own \<noteq> Some (um_uom_code u)))
            (t_unitofmeasure s), Taken),
         (length code > 25, TooLong)]
      @ required_max ''uom_desc'' 60 (py_strip (uf_uom_desc f))
      @ optional_max ''comments_text'' 300 (py_strip (uf_comments_text f))
      @ listed ''status_code'' [''A'', ''I''] (py_strip (uf_status_code f)))"

definition get_uom :: "db \<Rightarrow> string \<Rightarrow> unitofmeasure option" where
  "get_uom s c = find (\<lambda>u. um_uom_code u = c) (t_unitofmeasure s)"

definition new_uom :: "env \<Rightarrow> string \<Rightarrow> uom_form \<Rightarrow> unitofmeasure" where
  "new_uom e aid f =
     \<lparr>au_create_by_id = aid, au_create_dtime = en_now e, au_update_by_id = aid, au_update_dtime = en_now e,
      au_version_nbr = 1, um_uom_code = py_upper (py_strip (uf_uom_code f)), um_uom_desc = py_strip (uf_uom_desc f),
      um_comments_text = comments_of (uf_comments_text f), um_status_code = py_strip (uf_status_code f)\<rparr>"

definition create_uom :: "env \<Rightarrow> uom_form \<Rightarrow> db \<Rightarrow> exc + (string \<times> field_error) reply \<times> db" where
  "create_uom e f s =
     (if \<not> may_manage ''uom_management'' e then Inl Forbidden403
      else let errors = validate_uom_data s f None in
      if errors \<noteq> [] then Inr (Invalid errors, s)
      else case audit_id (en_user e) of
        Inl x \<Rightarrow> Inr (Caught x, s)
      | Inr aid \<Rightarrow> Inr (Saved, s\<lparr>t_unitofmeasure := t_unitofmeasure s @ [new_uom e aid f]\<rparr>))"

text \<open>Rows whose column refers to a unit of measure; none of these columns may be null.\<close>

definition check_uom_references :: "db \<Rightarrow> string \<Rightarrow> bool" where
  "check_uom_references s c \<longleftrightarrow>
     list_ex (\<lambda>i. it_default_uom_code i = c) (t_item s)
     \<or> list_ex (\<lambda>v. iv_uom_code v = c) (t_inventory s)
     \<or> list_ex (\<lambda>j. dj_uom_code j = c) (t_dnintake_item s)
     \<or> list_ex (\<lambda>r. pi_uom_code r = c) (t_reliefpkg_item s)"

definition uom_referenced :: "db \<Rightarrow> string \<Rightarrow> bool" where
  "uom_referenced s c \<longleftrightarrow> check_uom_references s c
     \<or> list_ex (\<lambda>b. bt_uom_code b = c) (t_itembatch s)
     \<or> list_ex (\<lambda>m. dm_uom_code m = c) (t_donation_item s)"

definition edited_uom :: "env \<Rightarrow> string \<Rightarrow> uom_form \<Rightarrow> unitofmeasure \<Rightarrow> unitofmeasure" where
  "edited_uom e aid f u = orm_row u (stamped e aid (u\<lparr>um_uom_code := py_upper (py_strip (uf_uom_code f)),
     um_uom_desc := py_strip (uf_uom_desc f), um_comments_text := comments_of (uf_comments_text f),
     um_status_code := py_strip (uf_status_code f)\<rparr>))"

text \<open>A new code changes the primary key, which the database refuses while a row refers to it.\<close>

definition edit_uom :: "env \<Rightarrow> uom_form \<Rightarrow> string \<Rightarrow> db \<Rightarrow> exc + (string \<times> field_error) reply \<times> db" where
  "edit_uom e f c s =
     (if \<not> may_manage ''uom_management'' e then Inl Forbidden403
      else case get_uom s c of
        None \<Rightarrow> Inl NotFound404
      | Some u \<Rightarrow>
      if uf_version_nbr f \<noteq> Number (au_version_nbr u) then Inr (Refused, s)
      else let errors = validate_uom_data s f (Some c) in
      if errors \<noteq> [] then Inr (Invalid errors, s)
      else case audit_id (en_user e) of
        Inl x \<Rightarrow> Inr (Caught x, s)
      | Inr aid \<Rightarrow>
          if py_upper (py_strip (uf_uom_code f)) \<noteq> c \<and> uom_referenced s c then Inr (Caught IntegrityError, s)
          else Inr (Saved, s\<lparr>t_unitofmeasure :=
            upd_where (\<lambda>u. um_uom_code u = c) (edited_uom e aid f) (t_unitofmeasure s)\<rparr>))"

definition delete_uom :: "env \<Rightarrow> string \<Rightarrow> db \<Rightarrow> exc + (string \<times> field_error) reply \<times> db" where
  "delete_uom e c s =
     (if \<not> may_manage ''uom_management'' e then Inl Forbidden403
      else case get_uom s c of
        None \<Rightarrow> Inl NotFound404
      | Some u \<Rightarrow>
      if check_uom_references s c then Inr (Refused, s)
      else if uom_referenced s c then Inr (Caught IntegrityError, s)
      else Inr (Saved, s\<lparr>t_unitofmeasure := filter (\<lambda>u. um_uom_code u \<noteq> c) (t_unitofmeasure s)\<rparr>))"

section \<open>Item categories\<close>

record category_form =
  cf_category_code :: string
  cf_category_desc :: string
  cf_comments_text :: string
  cf_status_code :: string
  cf_version_nbr :: vfield

definition validate_category_data :: "db \<Rightarrow> category_form \<Rightarrow> int option \<Rightarrow> (string \<times> field_error) list" where
  "validate_category_data s f own =
     (let code = py_upper (py_strip (cf_category_code f)) in
      first_error ''category_code''
        [(code = [], Required),
         (list_ex (\<lambda>c. py_upper (ic_category_code c) = code \<and> (\<not> truthy_int own \<or> own \<noteq> Some (ic_category_id c)))
            (t_itemcatg s), Taken),
         (length code > 30, TooLong)]
      @ required_max ''category_desc'' 60 (py_strip (cf_category_desc f))
      @ optional_max ''comments_text'' 300 (py_strip (cf_comments_text f))
      @ listed ''status_code'' [''A'', ''I''] (py_strip (cf_status_code f)))"

definition get_category :: "db \<Rightarrow> int \<Rightarrow> itemcatg option" where
  "get_category s i = find (\<lambda>c. ic_category_id c = i) (t_itemcatg s)"

definition new_category :: "env \<Rightarrow> string \<Rightarrow> category_form \<Rightarrow> int \<Rightarrow> itemcatg" where
  "new_category e aid f i =
     \<lparr>au_create_by_id = aid, au_create_dtime = en_now e, au_update_by_id = aid, au_update_dtime = en_now e,
      au_version_nbr = 1, ic_category_id = i, ic_category_code = py_upper (py_strip (cf_category_code f)),
      ic_category_desc = py_strip (cf_category_desc f), ic_comments_text = comments_of (cf_comments_text f),
      ic_status_code = py_strip (cf_status_code f)\<rparr>"

definition create_category :: "env \<Rightarrow> category_form \<Rightarrow> db \<Rightarrow> exc + (string \<times> field_error) reply \<times> db" where
  "create_category e f s =
     (if \<not> may_manage ''item_category_management'' e then Inl Forbidden403
      else let errors = validate_category_data s f None in
      if errors \<noteq> [] then Inr (Invalid errors, s)
      else case audit_id (en_user e) of
        Inl x \<Rightarrow> Inr (Caught x, s)
      | Inr aid \<Rightarrow>
          let i = sq_itemcatg (seqs s)
          in Inr (Saved, s\<lparr>t_itemcatg := t_itemcatg s @ [new_category e aid f i], seqs := (seqs s)\<lparr>sq_itemcatg := i + 1\<rparr>\<rparr>))"

definition edited_category :: "env \<Rightarrow> string \<Rightarrow> category_form \<Rightarrow> itemcatg \<Rightarrow> itemcatg" where
  "edited_category e aid f c = orm_row c (stamped e aid (c\<lparr>ic_category_code := py_upper (py_strip (cf_category_code f)),
     ic_category_desc := py_strip (cf_category_desc f), ic_comments_text := comments_of (cf_comments_text f),
     ic_status_code := py_strip (cf_status_code f)\<rparr>))"

definition edit_category :: "env \<Rightarrow> category_form \<Rightarrow> int \<Rightarrow> db \<Rightarrow> exc + (string \<times> field_error) reply \<times> db" where
  "edit_category e f i s =
     (if \<not> may_manage ''item_category_management'' e then Inl Forbidden403
      else case get_category s i of
        None \<Rightarrow> Inl NotFound404
      | Some c \<Rightarrow>
      if cf_version_nbr f \<noteq> Number (au_version_nbr c) then Inr (Refused, s)
      else let errors = validate_category_data s f (Some i) in
      if errors \<noteq> [] then Inr (Invalid errors, s)
      else case audit_id (en_user e) of
        Inl x \<Rightarrow> Inr (Caught x, s)
      | Inr aid \<Rightarrow> Inr (Saved, s\<lparr>t_itemcatg :=
            upd_where (\<lambda>c. ic_category_id c = i) (edited_category e aid f) (t_itemcatg s)\<rparr>))"

definition delete_category :: "env \<Rightarrow> int \<Rightarrow> db \<Rightarrow> exc + (string \<times> field_error) reply \<times> db" where
  "delete_category e i s =
     (if \<not> may_manage ''item_category_management'' e then Inl Forbidden403
      else case get_category s i of
        None \<Rightarrow> Inl NotFound404
      | Some c \<Rightarrow>
      if list_ex (\<lambda>it. it_category_id it = i) (t_item s) then Inr (Refused, s)
      else Inr (Saved, s\<lparr>t_itemcatg := filter (\<lambda>c. ic_category_id c \<noteq> i) (t_itemcatg s)\<rparr>))"

section \<open>Items\<close>

record item_form =
  if_item_code :: string
  if_item_name :: string
  if_sku_code :: string
  if_item_desc :: string
  if_reorder_qty :: qfield
  if_category_id :: vfield
  if_default_uom_code :: string
  if_units_size_vary_flag :: bool
  if_usage_desc :: string
  if_storage_desc :: string
  if_is_batched_flag :: bool
  if_can_expire_flag :: bool
  if_issuance_order :: "string option"
  if_comments_text :: string
  if_status_code :: "string option"
  if_version_nbr :: vfield

text \<open>The validators raise \<^verbatim>\<open>ValueError\<close>; the field and the reason stand for its message.\<close>

definition item_code_char :: "char \<Rightarrow> bool" where
  "item_code_char c \<longleftrightarrow> (let n = of_char c :: nat in 65 \<le> n \<and> n \<le> 90) \<or> py_isdigit c \<or> c \<in> set ''-_.''"

definition validate_item_code :: "string \<Rightarrow> (string \<times> field_error) + string" where
  "validate_item_code t =
     (let code = py_upper (py_strip t) in
      if code = [] then Inl (''item_code'', Required)
      else if length code > 16 then Inl (''item_code'', TooLong)
      else if \<not> list_all item_code_char code then Inl (''item_code'', BadFormat)
      else Inr code)"

definition upper_max :: "string \<Rightarrow> nat \<Rightarrow> string \<Rightarrow> (string \<times> field_error) + string" where
  "upper_max f n t =
     (let v = py_upper (py_strip t) in
      if v = [] then Inl (f, Required) else if length v > n then Inl (f, TooLong) else Inr v)"

definition validate_reorder_qty :: "qfield \<Rightarrow> (string \<times> field_error) + qty" where
  "validate_reorder_qty q =
     (case q of NoQty \<Rightarrow> Inl (''reorder_qty'', Required) | BadQty \<Rightarrow> Inl (''reorder_qty'', BadFormat)
      | Qty x \<Rightarrow> if x \<le> 0 then Inl (''reorder_qty'', NotPositive) else Inr x)"

definition check_uniqueness :: "db \<Rightarrow> int option \<Rightarrow> string \<Rightarrow> string \<Rightarrow> string \<Rightarrow> (string \<times> field_error) list" where
  "check_uniqueness s own code name sku =
     (let other = (\<lambda>i. \<not> truthy_int own \<or> own \<noteq> Some (it_item_id i)) in
      first_error ''item_code'' [(list_ex (\<lambda>i. it_item_code i = code \<and> other i) (t_item s), Taken)]
      @ first_error ''item_name'' [(list_ex (\<lambda>i. it_item_name i = name \<and> other i) (t_item s), Taken)]
      @ first_error ''sku_code'' [(list_ex (\<lambda>i. it_sku_code i = sku \<and> other i) (t_item s), Taken)])"

definition issuance_of :: "item_form \<Rightarrow> string" where
  "issuance_of f = (case if_issuance_order f of None \<Rightarrow> ''FIFO'' | Some x \<Rightarrow> x)"

text \<open>The values a valid form gives: codes, name, quantity and category.\<close>

definition validate_item :: "db \<Rightarrow> item_form \<Rightarrow> int option \<Rightarrow>
    (string \<times> field_error) list + string \<times> string \<times> string \<times> qty \<times> int" where
  "validate_item s f own =
     (case validate_item_code (if_item_code f) of Inl x \<Rightarrow> Inl [x] | Inr code \<Rightarrow>
      case upper_max ''item_name'' 60 (if_item_name f) of Inl x \<Rightarrow> Inl [x] | Inr name \<Rightarrow>
      case upper_max ''sku_code'' 30 (if_sku_code f) of Inl x \<Rightarrow> Inl [x] | Inr sku \<Rightarrow>
      case validate_reorder_qty (if_reorder_qty f) of Inl x \<Rightarrow> Inl [x] | Inr q \<Rightarrow>
      if py_strip (if_item_desc f) = [] then Inl [(''item_desc'', Required)]
      else case if_category_id f of
        Number c \<Rightarrow>
          if c = 0 then Inl [(''category_id'', Required)]
          else if py_strip (if_default_uom_code f) = [] then Inl [(''default_uom_code'', Required)]
          else if issuance_of f \<notin> set [''FIFO'', ''FEFO'', ''LIFO''] then Inl [(''issuance_order'', NotListed)]
          else if length (py_strip (if_comments_text f)) > 300 then Inl [(''comments_text'', TooLong)]
          else let errors = check_uniqueness s own code name sku
            in if errors \<noteq> [] then Inl errors else Inr (code, name, sku, q, c)
      | _ \<Rightarrow> Inl [(''category_id'', Required)])"

definition item_status_of :: "item_form \<Rightarrow> string" where
  "item_status_of f = (case if_status_code f of
     None \<Rightarrow> ''A'' | Some st \<Rightarrow> if st \<in> set [''A'', ''I''] then st else ''A'')"

definition get_item_row :: "db \<Rightarrow> int \<Rightarrow> item option" where
  "get_item_row s i = find (\<lambda>it. it_item_id it = i) (t_item s)"

definition item_refs :: "db \<Rightarrow> item_form \<Rightarrow> int \<Rightarrow> bool" where
  "item_refs s f c \<longleftrightarrow> c \<in> ic_category_id ` set (t_itemcatg s)
     \<and> py_strip (if_default_uom_code f) \<in> um_uom_code ` set (t_unitofmeasure s)"

definition new_item :: "env \<Rightarrow> string \<Rightarrow> item_form \<Rightarrow> string \<times> string \<times> string \<times> qty \<times> int \<Rightarrow> int \<Rightarrow> item" where
  "new_item e aid f x i =
     (case x of (code, name, sku, q, c) \<Rightarrow>
      \<lparr>au_create_by_id = aid, au_create_dtime = en_now e, au_update_by_id = aid, au_update_dtime = en_now e,
       au_version_nbr = 1, it_item_id = i, it_item_code = code, it_item_name = name, it_sku_code = sku,
       it_category_id = c, it_item_desc = py_strip (if_item_desc f), it_reorder_qty = q,
       it_default_uom_code = py_strip (if_default_uom_code f), it_units_size_vary_flag = if_units_size_vary_flag f,
       it_usage_desc = or_none (py_strip (if_usage_desc f)), it_storage_desc = or_none (py_strip (if_storage_desc f)),
       it_is_batched_flag = if_is_batched_flag f, it_can_expire_flag = if_can_expire_flag f,
       it_issuance_order = issuance_of f, it_comments_text = or_none (py_strip (if_comments_text f)),
       it_status_code = item_status_of f\<rparr>)"

definition create_item :: "env \<Rightarrow> item_form \<Rightarrow> db \<Rightarrow> exc + (string \<times> field_error) reply \<times> db" where
  "create_item e f s =
     (if \<not> may_manage ''item_management'' e then Inl Forbidden403
      else case validate_item s f None of
        Inl errors \<Rightarrow> Inr (Invalid errors, s)
      | Inr x \<Rightarrow>
      case audit_id (en_user e) of
        Inl y \<Rightarrow> Inr (Caught y, s)
      | Inr aid \<Rightarrow>
          if \<not> item_refs s f (snd (snd (snd (snd x)))) then Inr (Caught IntegrityError, s)
          else let i = sq_item (seqs s)
            in Inr (Saved, s\<lparr>t_item := t_item s @ [new_item e aid f x i], seqs := (seqs s)\<lparr>sq_item := i + 1\<rparr>\<rparr>))"

definition edited_item :: "env \<Rightarrow> string \<Rightarrow> item_form \<Rightarrow> string \<times> string \<times> string \<times> qty \<times> int \<Rightarrow> item \<Rightarrow> item" where
  "edited_item e aid f x it =
     (case x of (code, name, sku, q, c) \<Rightarrow>
      orm_row it (stamped e aid (it\<lparr>it_item_code := code, it_item_name := name, it_sku_code := sku,
       it_category_id := c, it_item_desc := py_strip (if_item_desc f), it_reorder_qty := q,
       it_default_uom_code := py_strip (if_default_uom_code f), it_units_size_vary_flag := if_units_size_vary_flag f,
       it_usage_desc := or_none (py_strip (if_usage_desc f)), it_storage_desc := or_none (py_strip (if_storage_desc f)),
       it_is_batched_flag := if_is_batched_flag f, it_can_expire_flag := if_can_expire_flag f,
       it_issuance_order := issuance_of f, it_comments_text := or_none (py_strip (if_comments_text f)),
       it_status_code := item_status_of f\<rparr>)))"

definition set_item :: "int \<Rightarrow> (item \<Rightarrow> item) \<Rightarrow> db \<Rightarrow> db" where
  "set_item i g s = s\<lparr>t_item := upd_where (\<lambda>it. it_item_id it = i) g (t_item s)\<rparr>"

definition edit_item :: "env \<Rightarrow> item_form \<Rightarrow> int \<Rightarrow> db \<Rightarrow> exc + (string \<times> field_error) reply \<times> db" where
  "edit_item e f i s =
     (if \<not> may_manage ''item_management'' e then Inl Forbidden403
      else case get_item_row s i of
        None \<Rightarrow> Inl NotFound404
      | Some it \<Rightarrow>
      if if_version_nbr f \<noteq> Number (au_version_nbr it) then Inr (Refused, s)
      else case validate_item s f (Some i) of
        Inl errors \<Rightarrow> Inr (Invalid errors, s)
      | Inr x \<Rightarrow>
      case audit_id (en_user e) of
        Inl y \<Rightarrow> Inr (Caught y, s)
      | Inr aid \<Rightarrow>
          if \<not> item_refs s f (snd (snd (snd (snd x)))) then Inr (Caught IntegrityError, s)
          else Inr (Saved, set_item i (edited_item e aid f x) s))"

definition check_item_can_be_inactivated :: "db \<Rightarrow> int \<Rightarrow> bool" where
  "check_item_can_be_inactivated s i \<longleftrightarrow>
     (let rows = filter (\<lambda>v. iv_item_id v = i) (t_inventory s)
      in \<not> sum_list (map iv_usable_qty rows) > 0 \<and> \<not> sum_list (map iv_reserved_qty rows) > 0)"

definition inactivate_item :: "env \<Rightarrow> int \<Rightarrow> db \<Rightarrow> exc + (string \<times> field_error) reply \<times> db" where
  "inactivate_item e i s =
     (if \<not> may_manage ''item_management'' e then Inl Forbidden403
      else case get_item_row s i of
        None \<Rightarrow> Inl NotFound404
      | Some it \<Rightarrow>
      if it_status_code it = ''I'' then Inr (Refused, s)
      else if \<not> check_item_can_be_inactivated s i then Inr (Refused, s)
      else case audit_id (en_user e) of
        Inl y \<Rightarrow> Inr (Caught y, s)
      | Inr aid \<Rightarrow> Inr (Saved, set_item i (\<lambda>it. orm_row it (stamped e aid (it\<lparr>it_status_code := ''I''\<rparr>))) s))"

definition activate_item :: "env \<Rightarrow> int \<Rightarrow> db \<Rightarrow> exc + (string \<times> field_error) reply \<times> db" where
  "activate_item e i s =
     (if \<not> may_manage ''item_management'' e then Inl Forbidden403
      else case get_item_row s i of
        None \<Rightarrow> Inl NotFound404
      | Some it \<Rightarrow>
      if it_status_code it = ''A'' then Inr (Refused, s)
      else case audit_id (en_user e) of
        Inl y \<Rightarrow> Inr (Caught y, s)
      | Inr aid \<Rightarrow> Inr (Saved, set_item i (\<lambda>it. orm_row it (stamped e aid (it\<lparr>it_status_code := ''A''\<rparr>))) s))"

section \<open>Custodians\<close>

record party_form =
  pf_address1_text :: string
  pf_address2_text :: string
  pf_parish_code :: string
  pf_contact_name :: string
  pf_phone_no :: string
  pf_email_text :: string
  pf_version_nbr :: vfield

record custodian_form = party_form +
  kf_custodian_name :: string

definition address_errors :: "'a party_form_scheme \<Rightarrow> (string \<times> field_error) list" where
  "address_errors f = required_max ''address1_text'' 255 (py_strip (pf_address1_text f))
     @ optional_max ''address2_text'' 255 (py_strip (pf_address2_text f))"

definition parish_errors :: "db \<Rightarrow> 'a party_form_scheme \<Rightarrow> (string \<times> field_error) list" where
  "parish_errors s f = (let p = py_strip (pf_parish_code f) in
     first_error ''parish_code'' [(p = [], Required), (p \<notin> set (t_parish s), Unknown)])"

definition phone_errors :: "string \<Rightarrow> (string \<times> field_error) list" where
  "phone_errors v = first_error ''phone_no'' [(v = [], Required), (\<not> validate_phone_format (Some v), BadFormat)]"

text \<open>
  A name is taken when another row has it in upper case. The row being edited is left out when its
  id is given and not zero.
\<close>

definition is_other :: "int option \<Rightarrow> int \<Rightarrow> bool" where
  "is_other own i \<longleftrightarrow> \<not> truthy_int own \<or> own \<noteq> Some i"

definition validate_custodian_data :: "db \<Rightarrow> custodian_form \<Rightarrow> int option \<Rightarrow> (string \<times> field_error) list" where
  "validate_custodian_data s f own =
     (let name = py_strip (kf_custodian_name f) in
      first_error ''custodian_name''
        [(name = [], Required), (length name > 120, TooLong),
         (list_ex (\<lambda>c. py_upper (cu_custodian_name c) = py_upper name \<and> is_other own (cu_custodian_id c))
            (t_custodian s), Taken)]
      @ address_errors f @ parish_errors s f
      @ required_max ''contact_name'' 50 (py_strip (pf_contact_name f))
      @ phone_errors (py_strip (pf_phone_no f))
      @ email_errors (py_strip (pf_email_text f)))"

definition get_custodian :: "db \<Rightarrow> int \<Rightarrow> custodian option" where
  "get_custodian s i = find (\<lambda>c. cu_custodian_id c = i) (t_custodian s)"

definition new_custodian :: "env \<Rightarrow> string \<Rightarrow> custodian_form \<Rightarrow> int \<Rightarrow> custodian" where
  "new_custodian e aid f i =
     \<lparr>au_create_by_id = aid, au_create_dtime = en_now e, au_update_by_id = aid, au_update_dtime = en_now e,
      au_version_nbr = 1, pa_address1_text = py_strip (pf_address1_text f),
      pa_address2_text = or_none (py_strip (pf_address2_text f)), pa_parish_code = py_strip (pf_parish_code f),
      pa_contact_name = py_upper (py_strip (pf_contact_name f)), pa_phone_no = py_strip (pf_phone_no f),
      pa_email_text = or_none (py_strip (pf_email_text f)), cu_custodian_id = i,
      cu_custodian_name = py_upper (py_strip (kf_custodian_name f))\<rparr>"

definition create_custodian :: "env \<Rightarrow> custodian_form \<Rightarrow> db \<Rightarrow> exc + (string \<times> field_error) reply \<times> db" where
  "create_custodian e f s =
     (if \<not> may_manage ''custodian_management'' e then Inl Forbidden403
      else let errors = validate_custodian_data s f None in
      if errors \<noteq> [] then Inr (Invalid errors, s)
      else case audit_id (en_user e) of
        Inl x \<Rightarrow> Inr (Caught x, s)
      | Inr aid \<Rightarrow>
          let i = sq_custodian (seqs s)
          in Inr (Saved, s\<lparr>t_custodian := t_custodian s @ [new_custodian e aid f i],
               seqs := (seqs s)\<lparr>sq_custodian := i + 1\<rparr>\<rparr>))"

text \<open>The address block is written the same way on custodians and warehouses.\<close>

definition edited_party :: "'a party_form_scheme \<Rightarrow> 'b party_scheme \<Rightarrow> 'b party_scheme" where
  "edited_party f r = r\<lparr>pa_address1_text := py_strip (pf_address1_text f),
      pa_address2_text := or_none (py_strip (pf_address2_text f)), pa_parish_code := py_strip (pf_parish_code f),
      pa_contact_name := py_upper (py_strip (pf_contact_name f)), pa_phone_no := py_strip (pf_phone_no f),
      pa_email_text := or_none (py_strip (pf_email_text f))\<rparr>"

definition edited_custodian :: "env \<Rightarrow> string \<Rightarrow> custodian_form \<Rightarrow> custodian \<Rightarrow> custodian" where
  "edited_custodian e aid f c = orm_row c (stamped e aid
     ((edited_party f c)\<lparr>cu_custodian_name := py_upper (py_strip (kf_custodian_name f))\<rparr>))"

definition edit_custodian :: "env \<Rightarrow> custodian_form \<Rightarrow> int \<Rightarrow> db \<Rightarrow> exc + (string \<times> field_error) reply \<times> db" where
  "edit_custodian e f i s =
     (if \<not> may_manage ''custodian_management'' e then Inl Forbidden403
      else case get_custodian s i of
        None \<Rightarrow> Inl NotFound404
      | Some c \<Rightarrow>
      if pf_version_nbr f \<noteq> Number (au_version_nbr c) then Inr (Refused, s)
      else let errors = validate_custodian_data s f (Some i) in
      if errors \<noteq> [] then Inr (Invalid errors, s)
      else case audit_id (en_user e) of
        Inl x \<Rightarrow> Inr (Caught x, s)
      | Inr aid \<Rightarrow> Inr (Saved, s\<lparr>t_custodian :=
            upd_where (\<lambda>c. cu_custodian_id c = i) (edited_custodian e aid f) (t_custodian s)\<rparr>))"

definition delete_custodian :: "env \<Rightarrow> int \<Rightarrow> db \<Rightarrow> exc + (string \<times> field_error) reply \<times> db" where
  "delete_custodian e i s =
     (if \<not> may_manage ''custodian_management'' e then Inl Forbidden403
      else case get_custodian s i of
        None \<Rightarrow> Inl NotFound404
      | Some c \<Rightarrow>
      if list_ex (\<lambda>w. wh_custodian_id w = i) (t_warehouse s) then Inr (Refused, s)
      else if list_ex (\<lambda>d. dn_custodian_id d = i) (t_donation s) then Inr (Caught IntegrityError, s)
      else Inr (Saved, s\<lparr>t_custodian := filter (\<lambda>c. cu_custodian_id c \<noteq> i) (t_custodian s)\<rparr>))"

section \<open>Warehouses\<close>

record warehouse_form = party_form +
  wf_warehouse_name :: string
  wf_warehouse_type :: string
  wf_custodian_id :: vfield
  wf_status_code :: string
  wf_reason_desc :: string

text \<open>An integer field that is stripped before it is tested and parsed.\<close>

definition stripped_int :: "vfield \<Rightarrow> (exc + int) option" where
  "stripped_int v = (case v of
     Missing \<Rightarrow> None | Text t \<Rightarrow> if py_strip t = [] then None else Some (Inl ValueError) | Number n \<Rightarrow> Some (Inr n))"

definition reason_errors :: "string \<Rightarrow> string \<Rightarrow> (string \<times> field_error) list" where
  "reason_errors status reason =
     (if status = ''I'' then required_max ''reason_desc'' 255 reason
      else if status = ''A'' then first_error ''reason_desc'' [(reason \<noteq> [], NotAllowed)]
      else [])"

definition validate_warehouse_data :: "db \<Rightarrow> warehouse_form \<Rightarrow> int option \<Rightarrow> (string \<times> field_error) list" where
  "validate_warehouse_data s f own =
     (let name = py_strip (wf_warehouse_name f) in
      first_error ''warehouse_name''
        [(name = [], Required),
         (list_ex (\<lambda>w. py_upper (wh_warehouse_name w) = py_upper name \<and> is_other own (wh_warehouse_id w))
            (t_warehouse s), Taken)]
      @ listed ''warehouse_type'' [''MAIN-HUB'', ''SUB-HUB''] (py_strip (wf_warehouse_type f))
      @ address_errors f @ parish_errors s f
      @ required_max ''contact_name'' 50 (py_strip (pf_contact_name f))
      @ phone_errors (py_strip (pf_phone_no f))
      @ email_errors (py_strip (pf_email_text f))
      @ (case stripped_int (wf_custodian_id f) of
           None \<Rightarrow> [(''custodian_id'', Required)]
         | Some (Inl _) \<Rightarrow> [(''custodian_id'', BadFormat)]
         | Some (Inr i) \<Rightarrow> first_error ''custodian_id'' [(get_custodian s i = None, Unknown)])
      @ listed ''status_code'' [''A'', ''I''] (py_strip (wf_status_code f))
      @ reason_errors (py_strip (wf_status_code f)) (py_strip (wf_reason_desc f)))"

definition get_warehouse :: "db \<Rightarrow> int \<Rightarrow> warehouse option" where
  "get_warehouse s i = find (\<lambda>w. wh_warehouse_id w = i) (t_warehouse s)"

definition edited_warehouse :: "warehouse_form \<Rightarrow> int \<Rightarrow> warehouse \<Rightarrow> warehouse" where
  "edited_warehouse f c w = (edited_party f w)\<lparr>wh_warehouse_name := py_upper (py_strip (wf_warehouse_name f)),
     wh_warehouse_type := py_strip (wf_warehouse_type f), wh_custodian_id := c,
     wh_status_code := py_strip (wf_status_code f), wh_reason_desc := or_none (py_strip (wf_reason_desc f))\<rparr>"

definition new_warehouse :: "env \<Rightarrow> string \<Rightarrow> warehouse_form \<Rightarrow> int \<Rightarrow> int \<Rightarrow> warehouse" where
  "new_warehouse e aid f c i = edited_warehouse f c
     \<lparr>au_create_by_id = aid, au_create_dtime = en_now e, au_update_by_id = aid, au_update_dtime = en_now e,
      au_version_nbr = 1, pa_address1_text = [], pa_address2_text = None, pa_parish_code = [], pa_contact_name = [],
      pa_phone_no = [], pa_email_text = None, wh_warehouse_id = i, wh_warehouse_name = [], wh_warehouse_type = [],
      wh_custodian_id = c, wh_status_code = [], wh_reason_desc = None\<rparr>"

definition create_warehouse :: "env \<Rightarrow> warehouse_form \<Rightarrow> db \<Rightarrow> exc + (string \<times> field_error) reply \<times> db" where
  "create_warehouse e f s =
     (if \<not> may_manage ''warehouse_management'' e then Inl Forbidden403
      else let errors = validate_warehouse_data s f None in
      if errors \<noteq> [] then Inr (Invalid errors, s)
      else case (wf_custodian_id f, audit_id (en_user e)) of
        (Number c, Inr aid) \<Rightarrow>
          let i = sq_warehouse (seqs s)
          in Inr (Saved, s\<lparr>t_warehouse := t_warehouse s @ [new_warehouse e aid f c i],
               seqs := (seqs s)\<lparr>sq_warehouse := i + 1\<rparr>\<rparr>)
      | _ \<Rightarrow> Inr (Caught ValueError, s))"

definition edit_warehouse :: "env \<Rightarrow> warehouse_form \<Rightarrow> int \<Rightarrow> db \<Rightarrow> exc + (string \<times> field_error) reply \<times> db" where
  "edit_warehouse e f i s =
     (if \<not> may_manage ''warehouse_management'' e then Inl Forbidden403
      else case get_warehouse s i of
        None \<Rightarrow> Inl NotFound404
      | Some w \<Rightarrow>
      if pf_version_nbr f \<noteq> Number (au_version_nbr w) then Inr (Refused, s)
      else let errors = validate_warehouse_data s f (Some i) in
      if errors \<noteq> [] then Inr (Invalid errors, s)
      else case (wf_custodian_id f, audit_id (en_user e)) of
        (Number c, Inr aid) \<Rightarrow> Inr (Saved, s\<lparr>t_warehouse :=
            upd_where (\<lambda>w. wh_warehouse_id w = i) (\<lambda>w. orm_row w (stamped e aid (edited_warehouse f c w))) (t_warehouse s)\<rparr>)
      | _ \<Rightarrow> Inr (Caught ValueError, s))"

text \<open>
  Deleting a warehouse blanks the warehouse of its agencies, which the check constraint on
  agencies refuses, and fails on the rows that need the warehouse.
\<close>

definition warehouse_referenced :: "db \<Rightarrow> int \<Rightarrow> bool" where
  "warehouse_referenced s i \<longleftrightarrow>
     list_ex (\<lambda>a. ag_warehouse_id a = Some i) (t_agency s) \<or> list_ex (\<lambda>b. bt_inventory_id b = i) (t_itembatch s)
     \<or> list_ex (\<lambda>p. pk_to_inventory_id p = i) (t_reliefpkg s) \<or> list_ex (\<lambda>k. dk_inventory_id k = i) (t_dnintake s)
     \<or> list_ex (\<lambda>q. dq_inventory_id q = i) (t_dbintake s)
     \<or> list_ex (\<lambda>t. tr_fr_inventory_id t = i \<or> tr_to_inventory_id t = i) (t_transfer s)"

definition delete_warehouse :: "env \<Rightarrow> int \<Rightarrow> db \<Rightarrow> exc + (string \<times> field_error) reply \<times> db" where
  "delete_warehouse e i s =
     (if \<not> may_manage ''warehouse_management'' e then Inl Forbidden403
      else case get_warehouse s i of
        None \<Rightarrow> Inl NotFound404
      | Some w \<Rightarrow>
      if list_ex (\<lambda>v. iv_inventory_id v = i) (t_inventory s) then Inr (Refused, s)
      else if list_ex (\<lambda>u. i \<in> set (us_warehouses u)) (t_user s) then Inr (Refused, s)
      else if warehouse_referenced s i then Inr (Caught IntegrityError, s)
      else Inr (Saved, s\<lparr>t_warehouse := filter (\<lambda>w. wh_warehouse_id w \<noteq> i) (t_warehouse s)\<rparr>))"

section \<open>Agencies\<close>

record agency_form = party_form +
  af_agency_name :: string
  af_agency_type :: string
  af_warehouse_id :: vfield
  af_status_code :: string
  af_ineligible_event_id :: vfield

text \<open>
  The validator parses the ids of the warehouse and of the event itself; a text that \<^verbatim>\<open>int\<close> refuses
  makes it raise. It gives the errors, the warehouse and the event. A shelter has no warehouse.
\<close>

definition agency_warehouse :: "db \<Rightarrow> string \<Rightarrow> int option \<Rightarrow> (string \<times> field_error) list \<times> int option" where
  "agency_warehouse s ty w =
     (if ty = ''DISTRIBUTOR'' then
        (first_error ''warehouse_id'' [(\<not> truthy_int w, Required), (get_warehouse s (the w) = None, Unknown)], w)
      else if ty = ''SHELTER'' then (first_error ''warehouse_id'' [(truthy_int w, NotAllowed)], None)
      else ([], w))"

definition optional_int :: "vfield \<Rightarrow> exc + int option" where
  "optional_int v = (case stripped_int v of
     None \<Rightarrow> Inr None | Some (Inl x) \<Rightarrow> Inl x | Some (Inr n) \<Rightarrow> Inr (Some n))"

definition validate_agency_data ::
  "db \<Rightarrow> agency_form \<Rightarrow> int option \<Rightarrow> exc + (string \<times> field_error) list \<times> int option \<times> int option" where
  "validate_agency_data s f own =
     (let name = py_strip (af_agency_name f); ty = py_strip (af_agency_type f); phone = py_strip (pf_phone_no f) in
      case optional_int (af_warehouse_id f) of
        Inl x \<Rightarrow> Inl x
      | Inr w \<Rightarrow>
      case optional_int (af_ineligible_event_id f) of
        Inl x \<Rightarrow> Inl x
      | Inr v \<Rightarrow>
          Inr (first_error ''agency_name''
              [(name = [], Required), (length name > 120, TooLong),
               (case find (\<lambda>a. ag_agency_name a = py_upper name) (t_agency s) of
                  None \<Rightarrow> False | Some a \<Rightarrow> own \<noteq> Some (ag_agency_id a), Taken)]
            @ listed ''agency_type'' [''SHELTER'', ''DISTRIBUTOR''] ty
            @ address_errors f @ parish_errors s f
            @ required_max ''contact_name'' 50 (py_strip (pf_contact_name f))
            @ first_error ''phone_no'' [(phone = [], Required), (length phone > 20, TooLong),
                (\<not> validate_phone_format (Some phone), BadFormat)]
            @ email_errors (py_lower (py_strip (pf_email_text f)))
            @ fst (agency_warehouse s ty w)
            @ listed ''status_code'' [''A'', ''I''] (py_strip (af_status_code f)),
            snd (agency_warehouse s ty w), v))"

definition get_agency :: "db \<Rightarrow> int \<Rightarrow> agency option" where
  "get_agency s i = find (\<lambda>a. ag_agency_id a = i) (t_agency s)"

definition edited_agency :: "agency_form \<Rightarrow> int option \<Rightarrow> int option \<Rightarrow> agency \<Rightarrow> agency" where
  "edited_agency f w v a = (edited_party f a)\<lparr>pa_email_text := or_none (py_lower (py_strip (pf_email_text f))),
     ag_agency_name := py_upper (py_strip (af_agency_name f)), ag_agency_type := py_strip (af_agency_type f),
     ag_ineligible_event_id := v, ag_warehouse_id := w, ag_status_code := py_strip (af_status_code f)\<rparr>"

definition new_agency :: "env \<Rightarrow> string \<Rightarrow> agency_form \<Rightarrow> int option \<Rightarrow> int option \<Rightarrow> int \<Rightarrow> agency" where
  "new_agency e aid f w v i = edited_agency f w v
     \<lparr>au_create_by_id = aid, au_create_dtime = en_now e, au_update_by_id = aid, au_update_dtime = en_now e,
      au_version_nbr = 1, pa_address1_text = [], pa_address2_text = None, pa_parish_code = [], pa_contact_name = [],
      pa_phone_no = [], pa_email_text = None, ag_agency_id = i, ag_agency_name = [], ag_agency_type = [],
      ag_ineligible_event_id = v, ag_warehouse_id = w, ag_status_code = []\<rparr>"

definition event_known :: "db \<Rightarrow> int option \<Rightarrow> bool" where
  "event_known s v \<longleftrightarrow> (case v of None \<Rightarrow> True | Some i \<Rightarrow> i \<in> ev_event_id ` set (t_event s))"

definition create_agency :: "env \<Rightarrow> agency_form \<Rightarrow> db \<Rightarrow> exc + (string \<times> field_error) reply \<times> db" where
  "create_agency e f s =
     (if \<not> may_manage ''agency_management'' e then Inl Forbidden403
      else case validate_agency_data s f None of
        Inl x \<Rightarrow> Inr (Crashed x, s)
      | Inr (errors, w, v) \<Rightarrow>
      if errors \<noteq> [] then Inr (Invalid errors, s)
      else case audit_id (en_user e) of
        Inl x \<Rightarrow> Inr (Crashed x, s)
      | Inr aid \<Rightarrow>
          if \<not> event_known s v then Inr (Caught IntegrityError, s)
          else let i = sq_agency (seqs s)
            in Inr (Saved, s\<lparr>t_agency := t_agency s @ [new_agency e aid f w v i], seqs := (seqs s)\<lparr>sq_agency := i + 1\<rparr>\<rparr>))"

definition set_agency :: "int \<Rightarrow> (agency \<Rightarrow> agency) \<Rightarrow> db \<Rightarrow> db" where
  "set_agency i g s = s\<lparr>t_agency := upd_where (\<lambda>a. ag_agency_id a = i) (\<lambda>a. orm_row a (g a)) (t_agency s)\<rparr>"

definition edit_agency :: "env \<Rightarrow> agency_form \<Rightarrow> int \<Rightarrow> db \<Rightarrow> exc + (string \<times> field_error) reply \<times> db" where
  "edit_agency e f i s =
     (if \<not> may_manage ''agency_management'' e then Inl Forbidden403
      else case get_agency s i of
        None \<Rightarrow> Inl NotFound404
      | Some a \<Rightarrow>
      if pf_version_nbr f \<noteq> Number (au_version_nbr a) then Inr (Refused, s)
      else case validate_agency_data s f (Some i) of
        Inl x \<Rightarrow> Inr (Crashed x, s)
      | Inr (errors, w, v) \<Rightarrow>
      if errors \<noteq> [] then Inr (Invalid errors, s)
      else case audit_id (en_user e) of
        Inl x \<Rightarrow> Inr (Crashed x, s)
      | Inr aid \<Rightarrow>
          if \<not> event_known s v then Inr (Caught IntegrityError, s)
          else Inr (Saved, set_agency i (\<lambda>a. stamped e aid (edited_agency f w v a)) s))"

definition deactivate_agency :: "env \<Rightarrow> int \<Rightarrow> db \<Rightarrow> exc + (string \<times> field_error) reply \<times> db" where
  "deactivate_agency e i s =
     (if \<not> may_manage ''agency_management'' e then Inl Forbidden403
      else case get_agency s i of
        None \<Rightarrow> Inl NotFound404
      | Some a \<Rightarrow>
      if list_ex (\<lambda>r. rq_agency_id r = i \<and> rq_status_code r \<in> set [0, 1, 2, 3, 4, 5]) (t_reliefrqst s) then Inr (Refused, s)
      else case audit_id (en_user e) of
        Inl x \<Rightarrow> Inr (Caught x, s)
      | Inr aid \<Rightarrow> Inr (Saved, set_agency i (\<lambda>a. stamped e aid (a\<lparr>ag_status_code := ''I''\<rparr>)) s))"

section \<open>Donors\<close>

record donor_form =
  of_donor_code :: string
  of_donor_name :: string
  of_org_type_desc :: string
  of_address1_text :: string
  of_address2_text :: string
  of_country_id :: vfield
  of_phone_no :: string
  of_email_text :: string
  of_version_nbr :: vfield

definition validate_donor_data :: "db \<Rightarrow> donor_form \<Rightarrow> int option \<Rightarrow> (string \<times> field_error) list" where
  "validate_donor_data s f own =
     (let code = py_strip (of_donor_code f); name = py_strip (of_donor_name f); phone = py_strip (of_phone_no f) in
      first_error ''donor_code''
        [(code = [], Required), (length code > 16, TooLong),
         (list_ex (\<lambda>d. py_upper (py_strip (dr_donor_code d)) = py_upper code \<and> is_other own (dr_donor_id d))
            (t_donor s), Taken),
         (code \<noteq> py_upper code, NotUpper)]
      @ first_error ''donor_name''
        [(name = [], Required), (length name > 255, TooLong),
         (list_ex (\<lambda>d. py_upper (py_strip (dr_donor_name d)) = py_upper name \<and> is_other own (dr_donor_id d))
            (t_donor s), Taken)]
      @ optional_max ''org_type_desc'' 30 (py_strip (of_org_type_desc f))
      @ required_max ''address1_text'' 255 (py_strip (of_address1_text f))
      @ optional_max ''address2_text'' 255 (py_strip (of_address2_text f))
      @ (case stripped_int (of_country_id f) of
           None \<Rightarrow> first_error ''country_id'' [(388 \<notin> set (t_country s), Unknown)]
         | Some (Inl _) \<Rightarrow> [(''country_id'', BadFormat)]
         | Some (Inr i) \<Rightarrow> first_error ''country_id'' [(i \<notin> set (t_country s), Unknown)])
      @ first_error ''phone_no'' [(phone = [], Required), (length phone > 20, TooLong),
          (\<not> validate_phone_format (Some phone), BadFormat)]
      @ email_errors (py_lower (py_strip (of_email_text f))))"

text \<open>
  \<^verbatim>\<open>int(request.form.get('country_id') or 388)\<close>: a field of blanks passes the validation as absent
  and is refused here. (Zero is a given country.)
\<close>

definition country_of :: "vfield \<Rightarrow> int option" where
  "country_of v = (case v of Missing \<Rightarrow> Some 388 | Text t \<Rightarrow> if t = [] then Some 388 else None | Number n \<Rightarrow> Some n)"

definition get_donor :: "db \<Rightarrow> int \<Rightarrow> donor option" where
  "get_donor s i = find (\<lambda>d. dr_donor_id d = i) (t_donor s)"

definition new_donor :: "env \<Rightarrow> string \<Rightarrow> donor_form \<Rightarrow> int \<Rightarrow> int \<Rightarrow> donor" where
  "new_donor e aid f c i =
     \<lparr>au_create_by_id = aid, au_create_dtime = en_now e, au_update_by_id = aid, au_update_dtime = en_now e,
      au_version_nbr = 1, dr_donor_id = i, dr_donor_code = py_upper (py_strip (of_donor_code f)),
      dr_donor_name = py_upper (py_strip (of_donor_name f)), dr_org_type_desc = or_none (py_strip (of_org_type_desc f)),
      dr_address1_text = py_strip (of_address1_text f), dr_address2_text = or_none (py_strip (of_address2_text f)),
      dr_country_id = c, dr_phone_no = py_strip (of_phone_no f),
      dr_email_text = or_none (py_lower (py_strip (of_email_text f)))\<rparr>"

definition create_donor :: "env \<Rightarrow> donor_form \<Rightarrow> db \<Rightarrow> exc + (string \<times> field_error) reply \<times> db" where
  "create_donor e f s =
     (if \<not> may_manage ''donor_management'' e then Inl Forbidden403
      else let errors = validate_donor_data s f None in
      if errors \<noteq> [] then Inr (Invalid errors, s)
      else case (country_of (of_country_id f), audit_id (en_user e)) of
        (Some c, Inr aid) \<Rightarrow>
          let i = sq_donor (seqs s)
          in Inr (Saved, s\<lparr>t_donor := t_donor s @ [new_donor e aid f c i], seqs := (seqs s)\<lparr>sq_donor := i + 1\<rparr>\<rparr>)
      | _ \<Rightarrow> Inr (Caught ValueError, s))"

text \<open>The code is validated but not written; the handler raises the version itself.\<close>

definition edited_donor :: "env \<Rightarrow> string \<Rightarrow> donor_form \<Rightarrow> int \<Rightarrow> donor \<Rightarrow> donor" where
  "edited_donor e aid f c d = (stamped e aid
     (d\<lparr>dr_donor_name := py_upper (py_strip (of_donor_name f)), dr_org_type_desc := or_none (py_strip (of_org_type_desc f)),
       dr_address1_text := py_strip (of_address1_text f), dr_address2_text := or_none (py_strip (of_address2_text f)),
       dr_country_id := c, dr_phone_no := py_strip (of_phone_no f),
       dr_email_text := or_none (py_lower (py_strip (of_email_text f)))\<rparr>))\<lparr>au_version_nbr := au_version_nbr d + 1\<rparr>"

definition edit_donor :: "env \<Rightarrow> donor_form \<Rightarrow> int \<Rightarrow> db \<Rightarrow> exc + (string \<times> field_error) reply \<times> db" where
  "edit_donor e f i s =
     (if \<not> may_manage ''donor_management'' e then Inl Forbidden403
      else case get_donor s i of
        None \<Rightarrow> Inl NotFound404
      | Some d \<Rightarrow>
      if of_version_nbr f \<noteq> Number (au_version_nbr d) then Inr (Refused, s)
      else let errors = validate_donor_data s f (Some i) in
      if errors \<noteq> [] then Inr (Invalid errors, s)
      else case (country_of (of_country_id f), audit_id (en_user e)) of
        (Some c, Inr aid) \<Rightarrow> Inr (Saved, s\<lparr>t_donor :=
            upd_where (\<lambda>d. dr_donor_id d = i) (edited_donor e aid f c) (t_donor s)\<rparr>)
      | _ \<Rightarrow> Inr (Caught ValueError, s))"

definition delete_donor :: "env \<Rightarrow> int \<Rightarrow> db \<Rightarrow> exc + (string \<times> field_error) reply \<times> db" where
  "delete_donor e i s =
     (if \<not> may_manage ''donor_management'' e then Inl Forbidden403
      else case get_donor s i of
        None \<Rightarrow> Inl NotFound404
      | Some d \<Rightarrow>
      if list_ex (\<lambda>d. dn_donor_id d = i) (t_donation s) then Inr (Refused, s)
      else Inr (Saved, s\<lparr>t_donor := filter (\<lambda>d. dr_donor_id d \<noteq> i) (t_donor s)\<rparr>))"

section \<open>Events\<close>

definition EVENT_TYPES :: "string list" where
  "EVENT_TYPES = [''STORM'', ''HURRICANE'', ''TORNADO'', ''FLOOD'', ''TSUNAMI'', ''FIRE'', ''EARTHQUAKE'', ''WAR'',
     ''EPIDEMIC'', ''ADHOC'']"

record event_form =
  vf_event_type :: string
  vf_start_date :: dfield
  vf_event_name :: string
  vf_event_desc :: string
  vf_impact_desc :: string
  vf_closed_date :: dfield
  vf_reason_desc :: string
  vf_version_nbr :: vfield

text \<open>The rules that depend on the status; the validator is only called with status \<open>A\<close> for a new event.\<close>

definition closing_errors :: "string \<Rightarrow> event_form \<Rightarrow> (string \<times> field_error) list" where
  "closing_errors status f =
     (let reason = py_strip (vf_reason_desc f) in
      if status = ''C'' then
        first_error ''closed_date''
          [(vf_closed_date f = NoDate, Required), (vf_closed_date f = BadDate, BadFormat),
           (vf_start_date f = BadDate, BadFormat),
           (case (vf_closed_date f, vf_start_date f) of (Day c, Day d) \<Rightarrow> c < d | _ \<Rightarrow> False, TooEarly)]
        @ required_max ''reason_desc'' 255 reason
      else if status = ''A'' then
        first_error ''closed_date'' [(vf_closed_date f \<noteq> NoDate, NotAllowed)]
        @ first_error ''reason_desc'' [(reason \<noteq> [], NotAllowed)]
      else [])"

definition validate_event_data :: "date \<Rightarrow> event_form \<Rightarrow> string option \<Rightarrow> (string \<times> field_error) list" where
  "validate_event_data today f status =
     listed ''event_type'' EVENT_TYPES (py_strip (vf_event_type f))
     @ first_error ''start_date''
         [(vf_start_date f = NoDate, Required), (vf_start_date f = BadDate, BadFormat),
          (case vf_start_date f of Day d \<Rightarrow> d > today | _ \<Rightarrow> False, InFuture)]
     @ required_max ''event_name'' 60 (py_strip (vf_event_name f))
     @ required_max ''event_desc'' 255 (py_strip (vf_event_desc f))
     @ first_error ''impact_desc'' [(py_strip (vf_impact_desc f) = [], Required)]
     @ (case status of None \<Rightarrow> [] | Some st \<Rightarrow> listed ''status_code'' [''A'', ''C''] st @ closing_errors st f)"

definition get_event :: "db \<Rightarrow> int \<Rightarrow> event option" where
  "get_event s i = find (\<lambda>v. ev_event_id v = i) (t_event s)"

definition new_event :: "env \<Rightarrow> string \<Rightarrow> event_form \<Rightarrow> date \<Rightarrow> int \<Rightarrow> event" where
  "new_event e aid f day i =
     \<lparr>au_create_by_id = aid, au_create_dtime = en_now e, au_update_by_id = aid, au_update_dtime = en_now e,
      au_version_nbr = 1, ev_event_id = i, ev_event_type = py_strip (vf_event_type f), ev_start_date = day,
      ev_event_name = py_strip (vf_event_name f), ev_event_desc = py_strip (vf_event_desc f),
      ev_impact_desc = py_strip (vf_impact_desc f), ev_status_code = ''A'', ev_closed_date = None, ev_reason_desc = None\<rparr>"

definition create_event :: "env \<Rightarrow> event_form \<Rightarrow> db \<Rightarrow> exc + (string \<times> field_error) reply \<times> db" where
  "create_event e f s =
     (if \<not> may_manage ''event_management'' e then Inl Forbidden403
      else let errors = validate_event_data (en_today e) f (Some ''A'') in
      if errors \<noteq> [] then Inr (Invalid errors, s)
      else case (vf_start_date f, audit_id (en_user e)) of
        (Day day, Inr aid) \<Rightarrow>
          let i = sq_event (seqs s)
          in Inr (Saved, s\<lparr>t_event := t_event s @ [new_event e aid f day i], seqs := (seqs s)\<lparr>sq_event := i + 1\<rparr>\<rparr>)
      | _ \<Rightarrow> Inr (Caught ValueError, s))"

definition set_event :: "int \<Rightarrow> (event \<Rightarrow> event) \<Rightarrow> db \<Rightarrow> db" where
  "set_event i g s = s\<lparr>t_event := upd_where (\<lambda>v. ev_event_id v = i) (\<lambda>v. orm_row v (g v)) (t_event s)\<rparr>"

definition edited_event :: "env \<Rightarrow> string \<Rightarrow> event_form \<Rightarrow> date \<Rightarrow> event \<Rightarrow> event" where
  "edited_event e aid f day v = stamped e aid
     (v\<lparr>ev_event_type := py_strip (vf_event_type f), ev_start_date := day,
       ev_event_name := py_strip (vf_event_name f), ev_event_desc := py_strip (vf_event_desc f),
       ev_impact_desc := py_strip (vf_impact_desc f)\<rparr>)"

text \<open>The row is read again under a lock; a request is one step here, so it is the same row.\<close>

definition edit_event :: "env \<Rightarrow> event_form \<Rightarrow> int \<Rightarrow> db \<Rightarrow> exc + (string \<times> field_error) reply \<times> db" where
  "edit_event e f i s =
     (if \<not> may_manage ''event_management'' e then Inl Forbidden403
      else case get_event s i of
        None \<Rightarrow> Inl NotFound404
      | Some v \<Rightarrow>
      if ev_status_code v = ''C'' then Inr (Refused, s)
      else case form_version (vf_version_nbr f) of
        Inl x \<Rightarrow> Inr (Crashed x, s)
      | Inr n \<Rightarrow>
      if n \<noteq> au_version_nbr v then Inr (Refused, s)
      else let errors = validate_event_data (en_today e) f None in
      if errors \<noteq> [] then Inr (Invalid errors, s)
      else case (vf_start_date f, audit_id (en_user e)) of
        (Day day, Inr aid) \<Rightarrow> Inr (Saved, set_event i (edited_event e aid f day) s)
      | _ \<Rightarrow> Inr (Caught ValueError, s))"

definition closed_event :: "env \<Rightarrow> string \<Rightarrow> date \<Rightarrow> string \<Rightarrow> event \<Rightarrow> event" where
  "closed_event e aid day reason v = stamped e aid
     (v\<lparr>ev_status_code := ''C'', ev_closed_date := Some day, ev_reason_desc := Some reason\<rparr>)"

definition close_event :: "env \<Rightarrow> dfield \<Rightarrow> string \<Rightarrow> int \<Rightarrow> db \<Rightarrow> exc + (string \<times> field_error) reply \<times> db" where
  "close_event e cd reason i s =
     (if \<not> may_manage ''event_management'' e then Inl Forbidden403
      else if py_strip reason = [] then Inr (Refused, s)
      else if cd = BadDate then Inr (Caught ValueError, s)
      else let day = (case cd of Day d \<Rightarrow> d | _ \<Rightarrow> en_today e) in
      case get_event s i of
        None \<Rightarrow> Inr (Refused, s)
      | Some v \<Rightarrow>
      if ev_status_code v = ''C'' then Inr (Refused, s)
      else if day < ev_start_date v then Inr (Refused, s)
      else case audit_id (en_user e) of
        Inl x \<Rightarrow> Inr (Caught x, s)
      | Inr aid \<Rightarrow> Inr (Saved, set_event i (closed_event e aid day (py_strip reason)) s))"

text \<open>
  Deleting an event: donations need their event, so the flush fails while one refers to it; the
  event of an agency or of a relief request may be null and is blanked.
\<close>

definition delete_event :: "env \<Rightarrow> int \<Rightarrow> db \<Rightarrow> exc + (string \<times> field_error) reply \<times> db" where
  "delete_event e i s =
     (if \<not> may_manage ''event_management'' e then Inl Forbidden403
      else case get_event s i of
        None \<Rightarrow> Inl NotFound404
      | Some v \<Rightarrow>
      if list_ex (\<lambda>d. dn_event_id d = i) (t_donation s) then Inr (Caught IntegrityError, s)
      else Inr (Saved, s\<lparr>t_event := filter (\<lambda>v. ev_event_id v \<noteq> i) (t_event s),
        t_agency := upd_where (\<lambda>a. ag_ineligible_event_id a = Some i) (\<lambda>a. orm_row a (a\<lparr>ag_ineligible_event_id := None\<rparr>)) (t_agency s),
        t_reliefrqst := upd_where (\<lambda>r. rq_eligible_event_id r = Some i) (\<lambda>r. r\<lparr>rq_eligible_event_id := None, rq_version_nbr := rq_version_nbr r + 1\<rparr>) (t_reliefrqst s)\<rparr>))"

end
