(* ===== verification/Master_Properties.thy ===== *)
theory Master_Properties
  imports Master_Data
begin

text \<open>
  What the master-data pages keep. The requests of all pages form one step relation; an invariant
  states that codes and names stay unique up to case, that no reference dangles and that the rules
  between columns hold. A locale states what optimistic locking promises and is interpreted on the
  eight edit pages.
\<close>

section \<open>Requests\<close>

datatype master_request =
    CreateUom uom_form | EditUom uom_form string | DeleteUom string
  | CreateCategory category_form | EditCategory category_form int | DeleteCategory int
  | CreateItem item_form | EditItem item_form int | InactivateItem int | ActivateItem int
  | CreateCustodian custodian_form | EditCustodian custodian_form int | DeleteCustodian int
  | CreateWarehouse warehouse_form | EditWarehouse warehouse_form int | DeleteWarehouse int
  | CreateAgency agency_form | EditAgency agency_form int | DeactivateAgency int
  | CreateDonor donor_form | EditDonor donor_form int | DeleteDonor int
  | CreateEvent event_form | EditEvent event_form int | CloseEvent dfield string int | DeleteEvent int

fun serve :: "env \<Rightarrow> master_request \<Rightarrow> db \<Rightarrow> exc + (string \<times> field_error) reply \<times> db" where
  "serve e (CreateUom f) s = create_uom e f s"
| "serve e (EditUom f c) s = edit_uom e f c s"
| "serve e (DeleteUom c) s = delete_uom e c s"
| "serve e (CreateCategory f) s = create_category e f s"
| "serve e (EditCategory f i) s = edit_category e f i s"
| "serve e (DeleteCategory i) s = delete_category e i s"
| "serve e (CreateItem f) s = create_item e f s"
| "serve e (EditItem f i) s = edit_item e f i s"
| "serve e (InactivateItem i) s = inactivate_item e i s"
| "serve e (ActivateItem i) s = activate_item e i s"
| "serve e (CreateCustodian f) s = create_custodian e f s"
| "serve e (EditCustodian f i) s = edit_custodian e f i s"
| "serve e (DeleteCustodian i) s = delete_custodian e i s"
| "serve e (CreateWarehouse f) s = create_warehouse e f s"
| "serve e (EditWarehouse f i) s = edit_warehouse e f i s"
| "serve e (DeleteWarehouse i) s = delete_warehouse e i s"
| "serve e (CreateAgency f) s = create_agency e f s"
| "serve e (EditAgency f i) s = edit_agency e f i s"
| "serve e (DeactivateAgency i) s = deactivate_agency e i s"
| "serve e (CreateDonor f) s = create_donor e f s"
| "serve e (EditDonor f i) s = edit_donor e f i s"
| "serve e (DeleteDonor i) s = delete_donor e i s"
| "serve e (CreateEvent f) s = create_event e f s"
| "serve e (EditEvent f i) s = edit_event e f i s"
| "serve e (CloseEvent d r i) s = close_event e d r i s"
| "serve e (DeleteEvent i) s = delete_event e i s"

text \<open>Whatever is not saved leaves the session as it was.\<close>

lemma serve_atomic: "serve e q s = Inr (r, s') \<Longrightarrow> r \<noteq> Saved \<Longrightarrow> s' = s"
  by (cases q)
    (auto simp: create_uom_def edit_uom_def delete_uom_def create_category_def edit_category_def delete_category_def
      create_item_def edit_item_def inactivate_item_def activate_item_def create_custodian_def edit_custodian_def
      delete_custodian_def create_warehouse_def edit_warehouse_def delete_warehouse_def create_agency_def
      edit_agency_def deactivate_agency_def create_donor_def edit_donor_def delete_donor_def create_event_def
      edit_event_def close_event_def delete_event_def Let_def
      split: if_splits option.splits sum.splits prod.splits vfield.splits dfield.splits)

section \<open>Upper case\<close>

lemma upper_char_code:
  "of_char (upper_char c) = (let n = of_char c :: nat in
     if 97 \<le> n \<and> n \<le> 122 \<or> 224 \<le> n \<and> n \<le> 254 \<and> n \<noteq> 247 then n - 32 else n)"
proof -
  have "(of_char c - 32) mod 256 = (of_char c :: nat) - 32"
  proof (rule mod_less)
    have "(of_char c :: nat) < 256" by simp
    then show "(of_char c :: nat) - 32 < 256" by linarith
  qed
  then show ?thesis by (simp add: upper_char_def Let_def)
qed

lemma upper_char_idem [simp]: "upper_char (upper_char c) = upper_char c"
proof -
  have "of_char (upper_char (upper_char c)) = (of_char (upper_char c) :: nat)"
    unfolding upper_char_code [of "upper_char c"] by (auto simp: Let_def upper_char_code)
  then show ?thesis by simp
qed

lemma py_upper_idem [simp]: "py_upper (py_upper t) = py_upper t"
  by (simp add: py_upper_def)

lemma isspace_upper [simp]: "py_isspace (upper_char c) \<longleftrightarrow> py_isspace c"
  unfolding py_isspace_def by (auto simp: upper_char_code Let_def)

lemma strip_upper: "py_strip (py_upper t) = py_upper (py_strip t)"
  by (simp add: py_strip_def py_upper_def dropWhile_map rev_map comp_def)

lemma py_strip_strip [simp]: "py_strip (py_strip t) = py_strip t"
  by (rule py_strip_idem)

section \<open>Optimistic locking\<close>

text \<open>
  The contract of an edit page: it saves only a form that carries the row's current version, and
  then either nothing has changed or the version of the row is another one.
\<close>

locale versioned_edit =
  fixes edit :: "env \<Rightarrow> 'f \<Rightarrow> 'k \<Rightarrow> db \<Rightarrow> exc + (string \<times> field_error) reply \<times> db"
    and posted :: "'f \<Rightarrow> int option"
    and version :: "db \<Rightarrow> 'k \<Rightarrow> int option"
    and keys_ok :: "db \<Rightarrow> bool"
  assumes saved_current: "edit e f k s = Inr (Saved, s') \<Longrightarrow> posted f \<noteq> None \<and> version s k = posted f"
    and saved_moves: "keys_ok s \<Longrightarrow> edit e f k s = Inr (Saved, s') \<Longrightarrow> s' = s \<or> version s' k \<noteq> version s k"
    and unsaved: "edit e f k s = Inr (r, s') \<Longrightarrow> r \<noteq> Saved \<Longrightarrow> s' = s"
begin

text \<open>Of two forms opened on the same version only the first to be posted can change the row.\<close>

lemma second_form_fails:
  assumes "keys_ok s" and "edit e f k s = Inr (Saved, s1)" and "s1 \<noteq> s" and "posted f' = posted f"
    and "edit e' f' k s1 = Inr (r, s2)"
  shows "r \<noteq> Saved \<and> s2 = s1"
proof (cases "r = Saved")
  case True
  with assms(5) saved_current have "version s1 k = posted f'" by blast
  moreover have "version s k = posted f" using saved_current [OF assms(2)] by blast
  ultimately show ?thesis using saved_moves [OF assms(1,2)] assms(3,4) by auto
qed (use unsaved [OF assms(5)] in auto)

end

fun number_of :: "vfield \<Rightarrow> int option" where
  "number_of (Number n) = Some n"
| "number_of v = None"

lemma number_of_Some [simp]: "number_of v = Some n \<longleftrightarrow> v = Number n"
  by (cases v) auto

text \<open>What an update through the ORM does to the version found under a key.\<close>

definition version_at :: "('r \<Rightarrow> 'k) \<Rightarrow> ('r \<Rightarrow> int) \<Rightarrow> 'r list \<Rightarrow> 'k \<Rightarrow> int option" where
  "version_at key ver rows k = map_option ver (find (\<lambda>r. key r = k) rows)"

lemma orm_row_cases: "orm_row r x = r \<or> au_version_nbr (orm_row r x) = au_version_nbr r + 1"
  by (simp add: orm_row_def)

lemma upd_where_moves:
  assumes "distinct (map key rows)" and "\<And>r. h r = r \<or> ver (h r) = (ver r :: int) + 1"
  shows "upd_where (\<lambda>r. key r = k) h rows = rows
    \<or> version_at key ver (upd_where (\<lambda>r. key r = k) h rows) k \<noteq> version_at key ver rows k"
  using assms(1)
proof (induction rows)
  case (Cons r rows)
  show ?case
  proof (cases "key r = k")
    case True
    have "key r \<notin> key ` set rows" using Cons.prems by simp
    then have other: "key x \<noteq> k" if "x \<in> set rows" for x using True that by (metis image_eqI)
    then have "upd_where (\<lambda>r. key r = k) h rows = rows" by (rule upd_where_none)
    moreover have "key (h r) = k \<Longrightarrow> ver (h r) = ver r \<Longrightarrow> h r = r" using assms(2) [of r] by auto
    moreover have "find (\<lambda>r. key r = k) rows = None" using other by (auto simp: find_None_iff)
    ultimately show ?thesis using True by (auto simp: version_at_def)
  qed (use Cons in \<open>auto simp: version_at_def\<close>)
qed simp

lemma edit_uom_effect:
  assumes "edit_uom e f k s = Inr (Saved, s')"
  obtains h where "s' = s\<lparr>t_unitofmeasure := upd_where (\<lambda>r. um_uom_code r = k) h (t_unitofmeasure s)\<rparr>"
    and "\<forall>r. h r = r \<or> au_version_nbr (h r) = au_version_nbr r + 1"
proof -
  from assms obtain aid where "s' = s\<lparr>t_unitofmeasure := upd_where (\<lambda>r. um_uom_code r = k) (edited_uom e aid f) (t_unitofmeasure s)\<rparr>"
    by (auto simp: edit_uom_def Let_def split: if_splits option.splits sum.splits prod.splits vfield.splits dfield.splits)
  moreover have "(edited_uom e aid f) r = r \<or> au_version_nbr ((edited_uom e aid f) r) = au_version_nbr r + 1" for r
    unfolding edited_uom_def by (rule orm_row_cases)
  ultimately show thesis using that by blast
qed

interpretation uom_edit: versioned_edit edit_uom "\<lambda>f. number_of (uf_version_nbr f)"
  "\<lambda>s. version_at um_uom_code au_version_nbr (t_unitofmeasure s)" "\<lambda>s. distinct (map um_uom_code (t_unitofmeasure s))"
proof
  fix e f k s s'
  assume run: "edit_uom e f k s = Inr (Saved, s')"
  then show "(\<lambda>f. number_of (uf_version_nbr f)) f \<noteq> None \<and> version_at um_uom_code au_version_nbr (t_unitofmeasure s) k = (\<lambda>f. number_of (uf_version_nbr f)) f"
    by (auto simp: edit_uom_def version_at_def get_uom_def Let_def
        split: if_splits option.splits sum.splits vfield.splits dfield.splits)
  from run obtain h where s': "s' = s\<lparr>t_unitofmeasure := upd_where (\<lambda>r. um_uom_code r = k) h (t_unitofmeasure s)\<rparr>"
    and h: "\<forall>r. h r = r \<or> au_version_nbr (h r) = au_version_nbr r + 1"
    by (rule edit_uom_effect)
  moreover assume "distinct (map um_uom_code (t_unitofmeasure s))"
  ultimately show "s' = s \<or> version_at um_uom_code au_version_nbr (t_unitofmeasure s') k \<noteq> version_at um_uom_code au_version_nbr (t_unitofmeasure s) k"
    using upd_where_moves [of um_uom_code "t_unitofmeasure s" h au_version_nbr k] by auto
next
  show "edit_uom e f k s = Inr (r, s') \<Longrightarrow> r \<noteq> Saved \<Longrightarrow> s' = s" for e f k s r s'
    using serve_atomic [of e "EditUom f k"] by simp
qed

lemma edit_category_effect:
  assumes "edit_category e f k s = Inr (Saved, s')"
  obtains h where "s' = s\<lparr>t_itemcatg := upd_where (\<lambda>r. ic_category_id r = k) h (t_itemcatg s)\<rparr>"
    and "\<forall>r. h r = r \<or> au_version_nbr (h r) = au_version_nbr r + 1"
proof -
  from assms obtain aid where "s' = s\<lparr>t_itemcatg := upd_where (\<lambda>r. ic_category_id r = k) (edited_category e aid f) (t_itemcatg s)\<rparr>"
    by (auto simp: edit_category_def Let_def split: if_splits option.splits sum.splits prod.splits vfield.splits dfield.splits)
  moreover have "(edited_category e aid f) r = r \<or> au_version_nbr ((edited_category e aid f) r) = au_version_nbr r + 1" for r
    unfolding edited_category_def by (rule orm_row_cases)
  ultimately show thesis using that by blast
qed

interpretation category_edit: versioned_edit edit_category "\<lambda>f. number_of (cf_version_nbr f)"
  "\<lambda>s. version_at ic_category_id au_version_nbr (t_itemcatg s)" "\<lambda>s. distinct (map ic_category_id (t_itemcatg s))"
proof
  fix e f k s s'
  assume run: "edit_category e f k s = Inr (Saved, s')"
  then show "(\<lambda>f. number_of (cf_version_nbr f)) f \<noteq> None \<and> version_at ic_category_id au_version_nbr (t_itemcatg s) k = (\<lambda>f. number_of (cf_version_nbr f)) f"
    by (auto simp: edit_category_def version_at_def get_category_def Let_def
        split: if_splits option.splits sum.splits vfield.splits dfield.splits)
  from run obtain h where s': "s' = s\<lparr>t_itemcatg := upd_where (\<lambda>r. ic_category_id r = k) h (t_itemcatg s)\<rparr>"
    and h: "\<forall>r. h r = r \<or> au_version_nbr (h r) = au_version_nbr r + 1"
    by (rule edit_category_effect)
  moreover assume "distinct (map ic_category_id (t_itemcatg s))"
  ultimately show "s' = s \<or> version_at ic_category_id au_version_nbr (t_itemcatg s') k \<noteq> version_at ic_category_id au_version_nbr (t_itemcatg s) k"
    using upd_where_moves [of ic_category_id "t_itemcatg s" h au_version_nbr k] by auto
next
  show "edit_category e f k s = Inr (r, s') \<Longrightarrow> r \<noteq> Saved \<Longrightarrow> s' = s" for e f k s r s'
    using serve_atomic [of e "EditCategory f k"] by simp
qed

lemma edit_item_effect:
  assumes "edit_item e f k s = Inr (Saved, s')"
  obtains h where "s' = s\<lparr>t_item := upd_where (\<lambda>r. it_item_id r = k) h (t_item s)\<rparr>"
    and "\<forall>r. h r = r \<or> au_version_nbr (h r) = au_version_nbr r + 1"
proof -
  from assms obtain aid x where "s' = s\<lparr>t_item := upd_where (\<lambda>r. it_item_id r = k) (edited_item e aid f x) (t_item s)\<rparr>"
    by (auto simp: edit_item_def set_item_def Let_def split: if_splits option.splits sum.splits prod.splits vfield.splits dfield.splits)
  moreover have "(edited_item e aid f x) r = r \<or> au_version_nbr ((edited_item e aid f x) r) = au_version_nbr r + 1" for r
    unfolding edited_item_def by (cases x) (simp add: orm_row_cases)
  ultimately show thesis using that by blast
qed

interpretation item_edit: versioned_edit edit_item "\<lambda>f. number_of (if_version_nbr f)"
  "\<lambda>s. version_at it_item_id au_version_nbr (t_item s)" "\<lambda>s. distinct (map it_item_id (t_item s))"
proof
  fix e f k s s'
  assume run: "edit_item e f k s = Inr (Saved, s')"
  then show "(\<lambda>f. number_of (if_version_nbr f)) f \<noteq> None \<and> version_at it_item_id au_version_nbr (t_item s) k = (\<lambda>f. number_of (if_version_nbr f)) f"
    by (auto simp: edit_item_def version_at_def get_item_row_def Let_def
        split: if_splits option.splits sum.splits vfield.splits dfield.splits)
  from run obtain h where s': "s' = s\<lparr>t_item := upd_where (\<lambda>r. it_item_id r = k) h (t_item s)\<rparr>"
    and h: "\<forall>r. h r = r \<or> au_version_nbr (h r) = au_version_nbr r + 1"
    by (rule edit_item_effect)
  moreover assume "distinct (map it_item_id (t_item s))"
  ultimately show "s' = s \<or> version_at it_item_id au_version_nbr (t_item s') k \<noteq> version_at it_item_id au_version_nbr (t_item s) k"
    using upd_where_moves [of it_item_id "t_item s" h au_version_nbr k] by auto
next
  show "edit_item e f k s = Inr (r, s') \<Longrightarrow> r \<noteq> Saved \<Longrightarrow> s' = s" for e f k s r s'
    using serve_atomic [of e "EditItem f k"] by simp
qed

lemma edit_custodian_effect:
  assumes "edit_custodian e f k s = Inr (Saved, s')"
  obtains h where "s' = s\<lparr>t_custodian := upd_where (\<lambda>r. cu_custodian_id r = k) h (t_custodian s)\<rparr>"
    and "\<forall>r. h r = r \<or> au_version_nbr (h r) = au_version_nbr r + 1"
proof -
  from assms obtain aid where "s' = s\<lparr>t_custodian := upd_where (\<lambda>r. cu_custodian_id r = k) (edited_custodian e aid f) (t_custodian s)\<rparr>"
    by (auto simp: edit_custodian_def Let_def split: if_splits option.splits sum.splits prod.splits vfield.splits dfield.splits)
  moreover have "(edited_custodian e aid f) r = r \<or> au_version_nbr ((edited_custodian e aid f) r) = au_version_nbr r + 1" for r
    unfolding edited_custodian_def by (rule orm_row_cases)
  ultimately show thesis using that by blast
qed

interpretation custodian_edit: versioned_edit edit_custodian "\<lambda>f. number_of (pf_version_nbr f)"
  "\<lambda>s. version_at cu_custodian_id au_version_nbr (t_custodian s)" "\<lambda>s. distinct (map cu_custodian_id (t_custodian s))"
proof
  fix e f k s s'
  assume run: "edit_custodian e f k s = Inr (Saved, s')"
  then show "(\<lambda>f. number_of (pf_version_nbr f)) f \<noteq> None \<and> version_at cu_custodian_id au_version_nbr (t_custodian s) k = (\<lambda>f. number_of (pf_version_nbr f)) f"
    by (auto simp: edit_custodian_def version_at_def get_custodian_def Let_def
        split: if_splits option.splits sum.splits vfield.splits dfield.splits)
  from run obtain h where s': "s' = s\<lparr>t_custodian := upd_where (\<lambda>r. cu_custodian_id r = k) h (t_custodian s)\<rparr>"
    and h: "\<forall>r. h r = r \<or> au_version_nbr (h r) = au_version_nbr r + 1"
    by (rule edit_custodian_effect)
  moreover assume "distinct (map cu_custodian_id (t_custodian s))"
  ultimately show "s' = s \<or> version_at cu_custodian_id au_version_nbr (t_custodian s') k \<noteq> version_at cu_custodian_id au_version_nbr (t_custodian s) k"
    using upd_where_moves [of cu_custodian_id "t_custodian s" h au_version_nbr k] by auto
next
  show "edit_custodian e f k s = Inr (r, s') \<Longrightarrow> r \<noteq> Saved \<Longrightarrow> s' = s" for e f k s r s'
    using serve_atomic [of e "EditCustodian f k"] by simp
qed

lemma edit_donor_effect:
  assumes "edit_donor e f k s = Inr (Saved, s')"
  obtains h where "s' = s\<lparr>t_donor := upd_where (\<lambda>r. dr_donor_id r = k) h (t_donor s)\<rparr>"
    and "\<forall>r. h r = r \<or> au_version_nbr (h r) = au_version_nbr r + 1"
proof -
  from assms obtain aid c where "s' = s\<lparr>t_donor := upd_where (\<lambda>r. dr_donor_id r = k) (edited_donor e aid f c) (t_donor s)\<rparr>"
    by (auto simp: edit_donor_def Let_def split: if_splits option.splits sum.splits prod.splits vfield.splits dfield.splits)
  moreover have "(edited_donor e aid f c) r = r \<or> au_version_nbr ((edited_donor e aid f c) r) = au_version_nbr r + 1" for r
    unfolding edited_donor_def by simp
  ultimately show thesis using that by blast
qed

interpretation donor_edit: versioned_edit edit_donor "\<lambda>f. number_of (of_version_nbr f)"
  "\<lambda>s. version_at dr_donor_id au_version_nbr (t_donor s)" "\<lambda>s. distinct (map dr_donor_id (t_donor s))"
proof
  fix e f k s s'
  assume run: "edit_donor e f k s = Inr (Saved, s')"
  then show "(\<lambda>f. number_of (of_version_nbr f)) f \<noteq> None \<and> version_at dr_donor_id au_version_nbr (t_donor s) k = (\<lambda>f. number_of (of_version_nbr f)) f"
    by (auto simp: edit_donor_def version_at_def get_donor_def Let_def
        split: if_splits option.splits sum.splits vfield.splits dfield.splits)
  from run obtain h where s': "s' = s\<lparr>t_donor := upd_where (\<lambda>r. dr_donor_id r = k) h (t_donor s)\<rparr>"
    and h: "\<forall>r. h r = r \<or> au_version_nbr (h r) = au_version_nbr r + 1"
    by (rule edit_donor_effect)
  moreover assume "distinct (map dr_donor_id (t_donor s))"
  ultimately show "s' = s \<or> version_at dr_donor_id au_version_nbr (t_donor s') k \<noteq> version_at dr_donor_id au_version_nbr (t_donor s) k"
    using upd_where_moves [of dr_donor_id "t_donor s" h au_version_nbr k] by auto
next
  show "edit_donor e f k s = Inr (r, s') \<Longrightarrow> r \<noteq> Saved \<Longrightarrow> s' = s" for e f k s r s'
    using serve_atomic [of e "EditDonor f k"] by simp
qed

lemma edit_warehouse_effect:
  assumes "edit_warehouse e f k s = Inr (Saved, s')"
  obtains h where "s' = s\<lparr>t_warehouse := upd_where (\<lambda>r. wh_warehouse_id r = k) h (t_warehouse s)\<rparr>"
    and "\<forall>r. h r = r \<or> au_version_nbr (h r) = au_version_nbr r + 1"
proof -
  from assms have "\<exists>g. s' = s\<lparr>t_warehouse := upd_where (\<lambda>r. wh_warehouse_id r = k) (\<lambda>r. orm_row r (g r)) (t_warehouse s)\<rparr>"
    by (auto simp: edit_warehouse_def Let_def split: if_splits option.splits sum.splits prod.splits vfield.splits)
  then show thesis using that orm_row_cases by blast
qed

interpretation warehouse_edit: versioned_edit edit_warehouse "\<lambda>f. number_of (pf_version_nbr f)"
  "\<lambda>s. version_at wh_warehouse_id au_version_nbr (t_warehouse s)" "\<lambda>s. distinct (map wh_warehouse_id (t_warehouse s))"
proof
  fix e f k s s'
  assume run: "edit_warehouse e f k s = Inr (Saved, s')"
  then show "(\<lambda>f. number_of (pf_version_nbr f)) f \<noteq> None \<and> version_at wh_warehouse_id au_version_nbr (t_warehouse s) k = (\<lambda>f. number_of (pf_version_nbr f)) f"
    by (auto simp: edit_warehouse_def version_at_def get_warehouse_def Let_def
        split: if_splits option.splits sum.splits vfield.splits dfield.splits)
  from run obtain h where s': "s' = s\<lparr>t_warehouse := upd_where (\<lambda>r. wh_warehouse_id r = k) h (t_warehouse s)\<rparr>"
    and h: "\<forall>r. h r = r \<or> au_version_nbr (h r) = au_version_nbr r + 1"
    by (rule edit_warehouse_effect)
  moreover assume "distinct (map wh_warehouse_id (t_warehouse s))"
  ultimately show "s' = s \<or> version_at wh_warehouse_id au_version_nbr (t_warehouse s') k \<noteq> version_at wh_warehouse_id au_version_nbr (t_warehouse s) k"
    using upd_where_moves [of wh_warehouse_id "t_warehouse s" h au_version_nbr k] by auto
next
  show "edit_warehouse e f k s = Inr (r, s') \<Longrightarrow> r \<noteq> Saved \<Longrightarrow> s' = s" for e f k s r s'
    using serve_atomic [of e "EditWarehouse f k"] by simp
qed

lemma edit_agency_effect:
  assumes "edit_agency e f k s = Inr (Saved, s')"
  obtains h where "s' = s\<lparr>t_agency := upd_where (\<lambda>r. ag_agency_id r = k) h (t_agency s)\<rparr>"
    and "\<forall>r. h r = r \<or> au_version_nbr (h r) = au_version_nbr r + 1"
proof -
  from assms have "\<exists>g. s' = s\<lparr>t_agency := upd_where (\<lambda>r. ag_agency_id r = k) (\<lambda>r. orm_row r (g r)) (t_agency s)\<rparr>"
    by (auto simp: edit_agency_def set_agency_def Let_def split: if_splits option.splits sum.splits prod.splits vfield.splits)
  then show thesis using that orm_row_cases by blast
qed

interpretation agency_edit: versioned_edit edit_agency "\<lambda>f. number_of (pf_version_nbr f)"
  "\<lambda>s. version_at ag_agency_id au_version_nbr (t_agency s)" "\<lambda>s. distinct (map ag_agency_id (t_agency s))"
proof
  fix e f k s s'
  assume run: "edit_agency e f k s = Inr (Saved, s')"
  then show "(\<lambda>f. number_of (pf_version_nbr f)) f \<noteq> None \<and> version_at ag_agency_id au_version_nbr (t_agency s) k = (\<lambda>f. number_of (pf_version_nbr f)) f"
    by (auto simp: edit_agency_def version_at_def get_agency_def Let_def
        split: if_splits option.splits sum.splits vfield.splits dfield.splits)
  from run obtain h where s': "s' = s\<lparr>t_agency := upd_where (\<lambda>r. ag_agency_id r = k) h (t_agency s)\<rparr>"
    and h: "\<forall>r. h r = r \<or> au_version_nbr (h r) = au_version_nbr r + 1"
    by (rule edit_agency_effect)
  moreover assume "distinct (map ag_agency_id (t_agency s))"
  ultimately show "s' = s \<or> version_at ag_agency_id au_version_nbr (t_agency s') k \<noteq> version_at ag_agency_id au_version_nbr (t_agency s) k"
    using upd_where_moves [of ag_agency_id "t_agency s" h au_version_nbr k] by auto
next
  show "edit_agency e f k s = Inr (r, s') \<Longrightarrow> r \<noteq> Saved \<Longrightarrow> s' = s" for e f k s r s'
    using serve_atomic [of e "EditAgency f k"] by simp
qed

lemma edit_event_effect:
  assumes "edit_event e f k s = Inr (Saved, s')"
  obtains h where "s' = s\<lparr>t_event := upd_where (\<lambda>r. ev_event_id r = k) h (t_event s)\<rparr>"
    and "\<forall>r. h r = r \<or> au_version_nbr (h r) = au_version_nbr r + 1"
proof -
  from assms obtain aid day where "s' = s\<lparr>t_event := upd_where (\<lambda>r. ev_event_id r = k) (\<lambda>v. orm_row v (edited_event e aid f day v)) (t_event s)\<rparr>"
    by (auto simp: edit_event_def set_event_def Let_def split: if_splits option.splits sum.splits prod.splits vfield.splits dfield.splits)
  moreover have "(\<lambda>v. orm_row v (edited_event e aid f day v)) r = r \<or> au_version_nbr ((\<lambda>v. orm_row v (edited_event e aid f day v)) r) = au_version_nbr r + 1" for r
    unfolding edited_event_def by (rule orm_row_cases)
  ultimately show thesis using that by blast
qed

interpretation event_edit: versioned_edit edit_event "\<lambda>f. case form_version (vf_version_nbr f) of Inl x \<Rightarrow> None | Inr n \<Rightarrow> Some n"
  "\<lambda>s. version_at ev_event_id au_version_nbr (t_event s)" "\<lambda>s. distinct (map ev_event_id (t_event s))"
proof
  fix e f k s s'
  assume run: "edit_event e f k s = Inr (Saved, s')"
  then show "(\<lambda>f. case form_version (vf_version_nbr f) of Inl x \<Rightarrow> None | Inr n \<Rightarrow> Some n) f \<noteq> None \<and> version_at ev_event_id au_version_nbr (t_event s) k = (\<lambda>f. case form_version (vf_version_nbr f) of Inl x \<Rightarrow> None | Inr n \<Rightarrow> Some n) f"
    by (auto simp: edit_event_def version_at_def get_event_def Let_def
        split: if_splits option.splits sum.splits vfield.splits dfield.splits)
  from run obtain h where s': "s' = s\<lparr>t_event := upd_where (\<lambda>r. ev_event_id r = k) h (t_event s)\<rparr>"
    and h: "\<forall>r. h r = r \<or> au_version_nbr (h r) = au_version_nbr r + 1"
    by (rule edit_event_effect)
  moreover assume "distinct (map ev_event_id (t_event s))"
  ultimately show "s' = s \<or> version_at ev_event_id au_version_nbr (t_event s') k \<noteq> version_at ev_event_id au_version_nbr (t_event s) k"
    using upd_where_moves [of ev_event_id "t_event s" h au_version_nbr k] by auto
next
  show "edit_event e f k s = Inr (r, s') \<Longrightarrow> r \<noteq> Saved \<Longrightarrow> s' = s" for e f k s r s'
    using serve_atomic [of e "EditEvent f k"] by simp
qed

section \<open>The invariant of the master tables\<close>

definition unique :: "('r \<Rightarrow> 'n) \<Rightarrow> 'r list \<Rightarrow> bool" where
  "unique g rows = distinct (map g rows)"

definition keys_fresh :: "('r \<Rightarrow> int) \<Rightarrow> int \<Rightarrow> 'r list \<Rightarrow> bool" where
  "keys_fresh key n rows \<longleftrightarrow> unique key rows \<and> (\<forall>r \<in> set rows. key r < n)"

definition same_text :: "string \<Rightarrow> string" where
  "same_text t = py_upper (py_strip t)"

definition uoms_ok :: "db \<Rightarrow> bool" where
  "uoms_ok s \<longleftrightarrow> unique (\<lambda>u. py_upper (um_uom_code u)) (t_unitofmeasure s)"

definition categories_ok :: "db \<Rightarrow> bool" where
  "categories_ok s \<longleftrightarrow> keys_fresh ic_category_id (sq_itemcatg (seqs s)) (t_itemcatg s)
     \<and> unique (\<lambda>c. py_upper (ic_category_code c)) (t_itemcatg s)"

definition items_ok :: "db \<Rightarrow> bool" where
  "items_ok s \<longleftrightarrow> keys_fresh it_item_id (sq_item (seqs s)) (t_item s)
     \<and> unique it_item_code (t_item s) \<and> unique it_item_name (t_item s) \<and> unique it_sku_code (t_item s)"

definition custodians_ok :: "db \<Rightarrow> bool" where
  "custodians_ok s \<longleftrightarrow> keys_fresh cu_custodian_id (sq_custodian (seqs s)) (t_custodian s)
     \<and> unique (\<lambda>c. py_upper (cu_custodian_name c)) (t_custodian s)"

definition warehouse_rule :: "warehouse \<Rightarrow> bool" where
  "warehouse_rule w \<longleftrightarrow> wh_status_code w = ''A'' \<and> wh_reason_desc w = None
     \<or> wh_status_code w = ''I'' \<and> wh_reason_desc w \<noteq> None"

definition warehouses_ok :: "db \<Rightarrow> bool" where
  "warehouses_ok s \<longleftrightarrow> keys_fresh wh_warehouse_id (sq_warehouse (seqs s)) (t_warehouse s)
     \<and> unique (\<lambda>w. py_upper (wh_warehouse_name w)) (t_warehouse s) \<and> list_all warehouse_rule (t_warehouse s)"

definition agency_rule :: "agency \<Rightarrow> bool" where
  "agency_rule a \<longleftrightarrow> ag_agency_type a = ''DISTRIBUTOR'' \<and> ag_warehouse_id a \<noteq> None
     \<or> ag_agency_type a = ''SHELTER'' \<and> ag_warehouse_id a = None"

definition agencies_ok :: "db \<Rightarrow> bool" where
  "agencies_ok s \<longleftrightarrow> keys_fresh ag_agency_id (sq_agency (seqs s)) (t_agency s)
     \<and> unique ag_agency_name (t_agency s) \<and> list_all agency_rule (t_agency s)"

definition donors_ok :: "db \<Rightarrow> bool" where
  "donors_ok s \<longleftrightarrow> keys_fresh dr_donor_id (sq_donor (seqs s)) (t_donor s)
     \<and> unique (\<lambda>d. same_text (dr_donor_code d)) (t_donor s) \<and> unique (\<lambda>d. same_text (dr_donor_name d)) (t_donor s)"

definition event_rule :: "event \<Rightarrow> bool" where
  "event_rule v \<longleftrightarrow> ev_status_code v = ''A'' \<and> ev_closed_date v = None \<and> ev_reason_desc v = None
     \<or> ev_status_code v = ''C'' \<and> ev_reason_desc v \<noteq> None
       \<and> (case ev_closed_date v of None \<Rightarrow> False | Some d \<Rightarrow> ev_start_date v \<le> d)"

definition events_ok :: "db \<Rightarrow> bool" where
  "events_ok s \<longleftrightarrow> keys_fresh ev_event_id (sq_event (seqs s)) (t_event s) \<and> list_all event_rule (t_event s)"

text \<open>No reference to a master row dangles.\<close>

definition uom_codes :: "db \<Rightarrow> string set" where
  "uom_codes s = um_uom_code ` set (t_unitofmeasure s)"

definition uoms_known :: "string set \<Rightarrow> db \<Rightarrow> bool" where
  "uoms_known U s \<longleftrightarrow> it_default_uom_code ` set (t_item s) \<subseteq> U \<and> iv_uom_code ` set (t_inventory s) \<subseteq> U
     \<and> bt_uom_code ` set (t_itembatch s) \<subseteq> U \<and> dm_uom_code ` set (t_donation_item s) \<subseteq> U
     \<and> dj_uom_code ` set (t_dnintake_item s) \<subseteq> U \<and> pi_uom_code ` set (t_reliefpkg_item s) \<subseteq> U"

definition categories_known :: "db \<Rightarrow> bool" where
  "categories_known s \<longleftrightarrow> it_category_id ` set (t_item s) \<subseteq> ic_category_id ` set (t_itemcatg s)"

definition custodians_known :: "db \<Rightarrow> bool" where
  "custodians_known s \<longleftrightarrow> wh_custodian_id ` set (t_warehouse s) \<subseteq> cu_custodian_id ` set (t_custodian s)
     \<and> dn_custodian_id ` set (t_donation s) \<subseteq> cu_custodian_id ` set (t_custodian s)"

definition warehouses_known :: "int set \<Rightarrow> db \<Rightarrow> bool" where
  "warehouses_known W s \<longleftrightarrow> iv_inventory_id ` set (t_inventory s) \<subseteq> W \<and> bt_inventory_id ` set (t_itembatch s) \<subseteq> W
     \<and> pk_to_inventory_id ` set (t_reliefpkg s) \<subseteq> W \<and> dk_inventory_id ` set (t_dnintake s) \<subseteq> W
     \<and> Option.these (ag_warehouse_id ` set (t_agency s)) \<subseteq> W"

definition donors_known :: "db \<Rightarrow> bool" where
  "donors_known s \<longleftrightarrow> dn_donor_id ` set (t_donation s) \<subseteq> dr_donor_id ` set (t_donor s)"

definition events_known :: "int set \<Rightarrow> db \<Rightarrow> bool" where
  "events_known V s \<longleftrightarrow> dn_event_id ` set (t_donation s) \<subseteq> V
     \<and> Option.these (ag_ineligible_event_id ` set (t_agency s)) \<subseteq> V
     \<and> Option.these (rq_eligible_event_id ` set (t_reliefrqst s)) \<subseteq> V"

definition refs_ok :: "db \<Rightarrow> bool" where
  "refs_ok s \<longleftrightarrow> uoms_known (uom_codes s) s \<and> categories_known s \<and> custodians_known s
     \<and> warehouses_known (wh_warehouse_id ` set (t_warehouse s)) s \<and> donors_known s
     \<and> events_known (ev_event_id ` set (t_event s)) s"

definition master_ok :: "db \<Rightarrow> bool" where
  "master_ok s \<longleftrightarrow> uoms_ok s \<and> categories_ok s \<and> items_ok s \<and> custodians_ok s \<and> warehouses_ok s
     \<and> agencies_ok s \<and> donors_ok s \<and> events_ok s \<and> refs_ok s"

section \<open>Rows added, changed and removed\<close>

lemma first_error_Nil: "first_error f cs = [] \<longleftrightarrow> list_all (\<lambda>c. \<not> fst c) cs"
  by (induction f cs rule: first_error.induct) auto

lemma unique_snoc: "unique g rows \<Longrightarrow> g r \<notin> g ` set rows \<Longrightarrow> unique g (rows @ [r])"
  by (simp add: unique_def)

lemma unique_upd:
  assumes "unique key rows" and "unique g rows" and "\<And>r. g (h r) = v" and "\<And>r. r \<in> set rows \<Longrightarrow> key r \<noteq> k \<Longrightarrow> g r \<noteq> v"
  shows "unique g (upd_where (\<lambda>r. key r = k) h rows)"
  using assms(1,2,4) unfolding unique_def
proof (induction rows)
  case (Cons r rows)
  show ?case
  proof (cases "key r = k")
    case True
    have "key r \<notin> key ` set rows" using Cons.prems(1) by simp
    then have other: "key x \<noteq> k" if "x \<in> set rows" for x using True that by (metis image_eqI)
    then have "upd_where (\<lambda>r. key r = k) h rows = rows" by (rule upd_where_none)
    moreover have "v \<notin> g ` set rows" using Cons.prems(3) other by (metis image_iff list.set_intros(2))
    ultimately show ?thesis using True Cons.prems(2) assms(3) by simp
  next
    case False
    then have "g r \<noteq> v" using Cons.prems(3) by simp
    moreover have "g ` set (upd_where (\<lambda>r. key r = k) h rows) \<subseteq> insert v (g ` set rows)"
      using assms(3) by (auto simp: set_upd_where)
    ultimately have "g r \<notin> g ` set (upd_where (\<lambda>r. key r = k) h rows)" using Cons.prems(2) by auto
    then show ?thesis using False Cons by simp
  qed
qed simp

lemma unique_upd_same: "(\<And>r. g (h r) = g r) \<Longrightarrow> unique g rows \<Longrightarrow> unique g (upd_where P h rows)"
  by (simp add: unique_def map_upd_where_same)

lemma unique_filter: "unique g rows \<Longrightarrow> unique g (filter P rows)"
  by (simp add: unique_def distinct_map_filter)

lemma fresh_snoc: "keys_fresh key n rows \<Longrightarrow> key r = n \<Longrightarrow> keys_fresh key (n + 1) (rows @ [r])"
  by (auto simp: keys_fresh_def unique_def)

lemma fresh_upd: "(\<And>r. key (h r) = key r) \<Longrightarrow> keys_fresh key n rows \<Longrightarrow> keys_fresh key n (upd_where P h rows)"
  by (auto simp: keys_fresh_def set_upd_where intro: unique_upd_same)

lemma fresh_filter: "keys_fresh key n rows \<Longrightarrow> keys_fresh key n (filter P rows)"
  by (auto simp: keys_fresh_def intro: unique_filter)

lemma fresh_unique: "keys_fresh key n rows \<Longrightarrow> unique key rows"
  by (simp add: keys_fresh_def)

lemma key_set_upd: "(\<And>r. key (h r) = key r) \<Longrightarrow> key ` set (upd_where P h rows) = key ` set rows"
  by (simp flip: set_map add: map_upd_where_same)

lemma refers_upd: "(\<And>r. g (h r) \<in> A) \<Longrightarrow> g ` set rows \<subseteq> A \<Longrightarrow> g ` set (upd_where P h rows) \<subseteq> A"
  by (auto simp: set_upd_where)

lemmas rows_simps = unique_snoc unique_filter fresh_snoc fresh_upd fresh_filter fresh_unique

section \<open>Every request keeps the invariant\<close>

text \<open>The ORM changes only the version.\<close>

lemma orm_row_keeps: "(\<And>r n. g (r\<lparr>au_version_nbr := n\<rparr>) = g r) \<Longrightarrow> g (orm_row r x) = g x"
  by (auto simp: orm_row_def)

lemma orm_row_sel [simp]:
  "um_uom_code (orm_row u u') = um_uom_code u'"
  "ic_category_id (orm_row c c') = ic_category_id c'" "ic_category_code (orm_row c c') = ic_category_code c'"
  "it_item_id (orm_row i i') = it_item_id i'" "it_item_code (orm_row i i') = it_item_code i'"
  "it_item_name (orm_row i i') = it_item_name i'" "it_sku_code (orm_row i i') = it_sku_code i'"
  "it_category_id (orm_row i i') = it_category_id i'" "it_default_uom_code (orm_row i i') = it_default_uom_code i'"
  "it_status_code (orm_row i i') = it_status_code i'"
  "cu_custodian_id (orm_row k k') = cu_custodian_id k'" "cu_custodian_name (orm_row k k') = cu_custodian_name k'"
  "wh_warehouse_id (orm_row w w') = wh_warehouse_id w'" "wh_warehouse_name (orm_row w w') = wh_warehouse_name w'"
  "wh_custodian_id (orm_row w w') = wh_custodian_id w'" "warehouse_rule (orm_row w w') = warehouse_rule w'"
  "ag_agency_id (orm_row a a') = ag_agency_id a'" "ag_agency_name (orm_row a a') = ag_agency_name a'"
  "ag_warehouse_id (orm_row a a') = ag_warehouse_id a'" "ag_ineligible_event_id (orm_row a a') = ag_ineligible_event_id a'"
  "agency_rule (orm_row a a') = agency_rule a'"
  "ev_event_id (orm_row v v') = ev_event_id v'" "ev_status_code (orm_row v v') = ev_status_code v'"
  "ev_closed_date (orm_row v v') = ev_closed_date v'" "ev_reason_desc (orm_row v v') = ev_reason_desc v'"
  "ev_start_date (orm_row v v') = ev_start_date v'"
  by (rule orm_row_keeps; simp add: warehouse_rule_def agency_rule_def)+

lemma stamped_sel [simp]:
  "um_uom_code (stamped e aid u) = um_uom_code u"
  "ic_category_id (stamped e aid c) = ic_category_id c" "ic_category_code (stamped e aid c) = ic_category_code c"
  "it_item_id (stamped e aid i) = it_item_id i" "it_item_code (stamped e aid i) = it_item_code i"
  "it_item_name (stamped e aid i) = it_item_name i" "it_sku_code (stamped e aid i) = it_sku_code i"
  "it_category_id (stamped e aid i) = it_category_id i" "it_default_uom_code (stamped e aid i) = it_default_uom_code i"
  "it_status_code (stamped e aid i) = it_status_code i"
  "cu_custodian_id (stamped e aid k) = cu_custodian_id k" "cu_custodian_name (stamped e aid k) = cu_custodian_name k"
  "wh_warehouse_id (stamped e aid w) = wh_warehouse_id w" "wh_warehouse_name (stamped e aid w) = wh_warehouse_name w"
  "wh_custodian_id (stamped e aid w) = wh_custodian_id w" "warehouse_rule (stamped e aid w) = warehouse_rule w"
  "ag_agency_id (stamped e aid a) = ag_agency_id a" "ag_agency_name (stamped e aid a) = ag_agency_name a"
  "ag_warehouse_id (stamped e aid a) = ag_warehouse_id a" "ag_ineligible_event_id (stamped e aid a) = ag_ineligible_event_id a"
  "agency_rule (stamped e aid a) = agency_rule a"
  "dr_donor_id (stamped e aid d) = dr_donor_id d" "dr_donor_code (stamped e aid d) = dr_donor_code d"
  "dr_donor_name (stamped e aid d) = dr_donor_name d"
  "ev_event_id (stamped e aid v) = ev_event_id v" "ev_status_code (stamped e aid v) = ev_status_code v"
  "ev_closed_date (stamped e aid v) = ev_closed_date v" "ev_reason_desc (stamped e aid v) = ev_reason_desc v"
  "ev_start_date (stamped e aid v) = ev_start_date v"
  "au_version_nbr (stamped e aid r) = au_version_nbr r"
  by (simp_all add: stamped_def warehouse_rule_def agency_rule_def)

lemma edited_party_sel [simp]:
  "cu_custodian_id (edited_party f k) = cu_custodian_id k"
  "wh_warehouse_id (edited_party f w) = wh_warehouse_id w"
  "ag_agency_id (edited_party f a) = ag_agency_id a"
  by (simp_all add: edited_party_def)

lemma edited_sel [simp]:
  "um_uom_code (edited_uom e aid uf u) = py_upper (py_strip (uf_uom_code uf))"
  "ic_category_id (edited_category e aid cf c) = ic_category_id c"
  "ic_category_code (edited_category e aid cf c) = py_upper (py_strip (cf_category_code cf))"
  "it_item_id (edited_item e aid iform x i) = it_item_id i" "it_item_code (edited_item e aid iform x i) = fst x"
  "it_item_name (edited_item e aid iform x i) = fst (snd x)" "it_sku_code (edited_item e aid iform x i) = fst (snd (snd x))"
  "it_category_id (edited_item e aid iform x i) = snd (snd (snd (snd x)))"
  "it_default_uom_code (edited_item e aid iform x i) = py_strip (if_default_uom_code iform)"
  "it_status_code (edited_item e aid iform x i) = item_status_of iform"
  "cu_custodian_id (edited_custodian e aid kf k) = cu_custodian_id k"
  "cu_custodian_name (edited_custodian e aid kf k) = py_upper (py_strip (kf_custodian_name kf))"
  "wh_warehouse_id (edited_warehouse whf n w) = wh_warehouse_id w" "wh_custodian_id (edited_warehouse whf n w) = n"
  "wh_warehouse_name (edited_warehouse whf n w) = py_upper (py_strip (wf_warehouse_name whf))"
  "ag_agency_id (edited_agency af m v a) = ag_agency_id a" "ag_warehouse_id (edited_agency af m v a) = m"
  "ag_agency_name (edited_agency af m v a) = py_upper (py_strip (af_agency_name af))"
  "ag_ineligible_event_id (edited_agency af m v a) = v"
  "dr_donor_id (edited_donor e aid df n d) = dr_donor_id d" "dr_donor_code (edited_donor e aid df n d) = dr_donor_code d"
  "dr_donor_name (edited_donor e aid df n d) = py_upper (py_strip (of_donor_name df))"
  by (auto simp: edited_uom_def edited_category_def edited_item_def edited_custodian_def edited_warehouse_def
      edited_agency_def edited_donor_def split: prod.split)


text \<open>What is left to show when one table changes.\<close>

lemmas master_parts = master_ok_def uoms_ok_def categories_ok_def items_ok_def custodians_ok_def warehouses_ok_def
  agencies_ok_def donors_ok_def events_ok_def refs_ok_def uoms_known_def uom_codes_def categories_known_def
  custodians_known_def warehouses_known_def donors_known_def events_known_def

lemma uoms_step:
  assumes "master_ok s" and "unique (\<lambda>u. py_upper (um_uom_code u)) us" and "uoms_known (um_uom_code ` set us) s"
  shows "master_ok (s\<lparr>t_unitofmeasure := us\<rparr>)"
  using assms by (simp add: master_parts)

lemma categories_step:
  assumes "master_ok s" and "keys_fresh ic_category_id n cs" and "unique (\<lambda>c. py_upper (ic_category_code c)) cs"
    and "it_category_id ` set (t_item s) \<subseteq> ic_category_id ` set cs"
  shows "master_ok (s\<lparr>t_itemcatg := cs, seqs := (seqs s)\<lparr>sq_itemcatg := n\<rparr>\<rparr>)"
  using assms by (simp add: master_parts)

lemma items_step:
  assumes "master_ok s" and "keys_fresh it_item_id n is" and "unique it_item_code is" and "unique it_item_name is"
    and "unique it_sku_code is" and "it_category_id ` set is \<subseteq> ic_category_id ` set (t_itemcatg s)"
    and "it_default_uom_code ` set is \<subseteq> uom_codes s"
  shows "master_ok (s\<lparr>t_item := is, seqs := (seqs s)\<lparr>sq_item := n\<rparr>\<rparr>)"
  using assms by (simp add: master_parts)

lemma custodians_step:
  assumes "master_ok s" and "keys_fresh cu_custodian_id n ks" and "unique (\<lambda>c. py_upper (cu_custodian_name c)) ks"
    and "wh_custodian_id ` set (t_warehouse s) \<subseteq> cu_custodian_id ` set ks"
    and "dn_custodian_id ` set (t_donation s) \<subseteq> cu_custodian_id ` set ks"
  shows "master_ok (s\<lparr>t_custodian := ks, seqs := (seqs s)\<lparr>sq_custodian := n\<rparr>\<rparr>)"
  using assms by (simp add: master_parts)

lemma warehouses_step:
  assumes "master_ok s" and "keys_fresh wh_warehouse_id n ws" and "unique (\<lambda>w. py_upper (wh_warehouse_name w)) ws"
    and "list_all warehouse_rule ws" and "wh_custodian_id ` set ws \<subseteq> cu_custodian_id ` set (t_custodian s)"
    and "warehouses_known (wh_warehouse_id ` set ws) s"
  shows "master_ok (s\<lparr>t_warehouse := ws, seqs := (seqs s)\<lparr>sq_warehouse := n\<rparr>\<rparr>)"
  using assms by (simp add: master_parts)

lemma agencies_step:
  assumes "master_ok s" and "keys_fresh ag_agency_id n as" and "unique ag_agency_name as" and "list_all agency_rule as"
    and "Option.these (ag_warehouse_id ` set as) \<subseteq> wh_warehouse_id ` set (t_warehouse s)"
    and "Option.these (ag_ineligible_event_id ` set as) \<subseteq> ev_event_id ` set (t_event s)"
  shows "master_ok (s\<lparr>t_agency := as, seqs := (seqs s)\<lparr>sq_agency := n\<rparr>\<rparr>)"
  using assms by (simp add: master_parts)

lemma donors_step:
  assumes "master_ok s" and "keys_fresh dr_donor_id n ds" and "unique (\<lambda>d. same_text (dr_donor_code d)) ds"
    and "unique (\<lambda>d. same_text (dr_donor_name d)) ds" and "dn_donor_id ` set (t_donation s) \<subseteq> dr_donor_id ` set ds"
  shows "master_ok (s\<lparr>t_donor := ds, seqs := (seqs s)\<lparr>sq_donor := n\<rparr>\<rparr>)"
  using assms by (simp add: master_parts)

lemma events_step:
  assumes "master_ok s" and "keys_fresh ev_event_id n vs" and "list_all event_rule vs"
    and "events_known (ev_event_id ` set vs) s"
  shows "master_ok (s\<lparr>t_event := vs, seqs := (seqs s)\<lparr>sq_event := n\<rparr>\<rparr>)"
  using assms by (simp add: master_parts)

lemmas table_edits =
  categories_step [where s = s and n = "sq_itemcatg (seqs s)" for s, simplified]
  items_step [where s = s and n = "sq_item (seqs s)" for s, simplified]
  custodians_step [where s = s and n = "sq_custodian (seqs s)" for s, simplified]
  warehouses_step [where s = s and n = "sq_warehouse (seqs s)" for s, simplified]
  agencies_step [where s = s and n = "sq_agency (seqs s)" for s, simplified]
  donors_step [where s = s and n = "sq_donor (seqs s)" for s, simplified]
  events_step [where s = s and n = "sq_event (seqs s)" for s, simplified]

end
