(* ===== verification/Master_Flow.thy ===== *)
theory Master_Flow
  imports Master_Properties
begin

text \<open>
  Every request of the master-data pages keeps the invariant of the master tables: what a valid
  form guarantees of the other rows, one lemma per page, and the pages as an invariant system.
\<close>

section \<open>Valid forms\<close>

text \<open>What a valid form guarantees of the other rows.\<close>

lemma uom_valid:
  assumes "validate_uom_data s f own = []" and "u \<in> set (t_unitofmeasure s)" and "own \<noteq> Some (um_uom_code u)"
  shows "py_upper (um_uom_code u) \<noteq> py_upper (py_strip (uf_uom_code f))"
  using assms by (auto simp: validate_uom_data_def Let_def first_error_Nil list_ex_iff simp del: first_error.simps)

lemma category_valid:
  assumes "validate_category_data s f own = []" and "c \<in> set (t_itemcatg s)" and "own \<noteq> Some (ic_category_id c)"
  shows "py_upper (ic_category_code c) \<noteq> py_upper (py_strip (cf_category_code f))"
  using assms by (auto simp: validate_category_data_def Let_def first_error_Nil list_ex_iff simp del: first_error.simps)

lemma item_valid:
  assumes "validate_item s f own = Inr (code, name, sku, q, c)" and "i \<in> set (t_item s)" and "own \<noteq> Some (it_item_id i)"
  shows "it_item_code i \<noteq> code \<and> it_item_name i \<noteq> name \<and> it_sku_code i \<noteq> sku"
  using assms by (auto simp: validate_item_def check_uniqueness_def Let_def first_error_Nil list_ex_iff simp del: first_error.simps
      split: sum.splits if_splits vfield.splits)

lemma custodian_valid:
  assumes "validate_custodian_data s f own = []" and "c \<in> set (t_custodian s)" and "own \<noteq> Some (cu_custodian_id c)"
  shows "py_upper (cu_custodian_name c) \<noteq> py_upper (py_strip (kf_custodian_name f))"
  using assms by (auto simp: validate_custodian_data_def Let_def first_error_Nil list_ex_iff is_other_def simp del: first_error.simps)

lemma warehouse_valid:
  assumes "validate_warehouse_data s f own = []" and "w \<in> set (t_warehouse s)" and "own \<noteq> Some (wh_warehouse_id w)"
  shows "py_upper (wh_warehouse_name w) \<noteq> py_upper (py_strip (wf_warehouse_name f))"
  using assms by (auto simp: validate_warehouse_data_def Let_def first_error_Nil list_ex_iff is_other_def simp del: first_error.simps)

lemma agency_valid:
  assumes "validate_agency_data s f own = Inr ([], w, v)" and "a \<in> set (t_agency s)" and "own \<noteq> Some (ag_agency_id a)"
    and "unique ag_agency_name (t_agency s)"
  shows "ag_agency_name a \<noteq> py_upper (py_strip (af_agency_name f))"
proof
  assume same: "ag_agency_name a = py_upper (py_strip (af_agency_name f))"
  obtain b where b: "find (\<lambda>a. ag_agency_name a = py_upper (py_strip (af_agency_name f))) (t_agency s) = Some b"
    using assms(2) same by (metis (mono_tags, lifting) find_None_iff not_Some_eq)
  then have "b \<in> set (t_agency s)" "ag_agency_name b = ag_agency_name a" using same by (auto simp: find_Some_iff)
  then have "b = a" using assms(2,4) by (auto simp: unique_def distinct_map dest: inj_onD)
  with b assms(1,3) show False
    by (auto simp: validate_agency_data_def Let_def first_error_Nil simp del: first_error.simps split: sum.splits)
qed

lemma donor_valid:
  assumes "validate_donor_data s f own = []" and "d \<in> set (t_donor s)" and "own \<noteq> Some (dr_donor_id d)"
  shows "same_text (dr_donor_code d) \<noteq> py_upper (py_strip (of_donor_code f))"
    and "same_text (dr_donor_name d) \<noteq> py_upper (py_strip (of_donor_name f))"
  using assms by (auto simp: validate_donor_data_def same_text_def Let_def first_error_Nil list_ex_iff is_other_def simp del: first_error.simps)


section \<open>One page at a time\<close>

lemma not_taken: "(\<And>r. r \<in> set rows \<Longrightarrow> None \<noteq> Some (key r) \<Longrightarrow> g r \<noteq> v) \<Longrightarrow> v \<notin> g ` set rows"
  by auto

lemma keys_removed: "key ` {r \<in> set rows. key r \<noteq> k} = key ` set rows - {k}"
  by auto

lemma unique_finer: "unique (\<lambda>r. g (h r)) rows \<Longrightarrow> unique h rows"
  by (auto simp: unique_def distinct_map inj_on_def)

lemma uoms_known_without: "uoms_known U s \<Longrightarrow> \<not> uom_referenced s c \<Longrightarrow> uoms_known (U - {c}) s"
  by (auto simp: uoms_known_def uom_referenced_def check_uom_references_def list_ex_iff)

lemma uoms_known_mono: "uoms_known U s \<Longrightarrow> U \<subseteq> V \<Longrightarrow> uoms_known V s"
  by (auto simp: uoms_known_def)

lemma edited_uom_codes:
  assumes "uoms_known (uom_codes s) s" and "py_upper (py_strip (uf_uom_code f)) = c \<or> \<not> uom_referenced s c"
  shows "uoms_known (um_uom_code ` set (upd_where (\<lambda>u. um_uom_code u = c) (edited_uom e aid f) (t_unitofmeasure s))) s"
    (is "uoms_known ?U s")
proof (cases "uom_referenced s c")
  case True
  then have "um_uom_code (if um_uom_code u = c then edited_uom e aid f u else u) = um_uom_code u" for u
    using assms(2) by (simp add: edited_uom_def)
  then have "?U = uom_codes s" unfolding uom_codes_def set_upd_where image_image by (simp only:)
  then show ?thesis using assms(1) by simp
next
  case False
  have "uom_codes s - {c} \<subseteq> ?U" by (auto simp: uom_codes_def set_upd_where)
  then show ?thesis using uoms_known_without [OF assms(1) False] uoms_known_mono by blast
qed

lemma saved_uom:
  assumes ok: "master_ok s"
  shows "create_uom e f s = Inr (Saved, s') \<Longrightarrow> master_ok s'"
    and "edit_uom e f c s = Inr (Saved, s') \<Longrightarrow> master_ok s'"
    and "delete_uom e c s = Inr (Saved, s') \<Longrightarrow> master_ok s'"
proof -
  have u: "unique (\<lambda>u. py_upper (um_uom_code u)) (t_unitofmeasure s)" and known: "uoms_known (uom_codes s) s"
    using ok by (auto simp: master_ok_def uoms_ok_def refs_ok_def)
  show "master_ok s'" if run: "create_uom e f s = Inr (Saved, s')"
  proof -
    from run obtain aid where s': "s' = s\<lparr>t_unitofmeasure := t_unitofmeasure s @ [new_uom e aid f]\<rparr>"
      and v: "validate_uom_data s f None = []"
      by (auto simp: create_uom_def Let_def split: if_splits sum.splits)
    have new: "py_upper (py_strip (uf_uom_code f)) \<notin> (\<lambda>u. py_upper (um_uom_code u)) ` set (t_unitofmeasure s)"
      by (rule not_taken) (rule uom_valid [OF v])
    have "uoms_known (um_uom_code ` set (t_unitofmeasure s @ [new_uom e aid f])) s"
      using known by (rule uoms_known_mono) (auto simp: uom_codes_def)
    with new show ?thesis unfolding s' by (intro uoms_step ok unique_snoc u) (simp_all add: new_uom_def py_upper_idem)
  qed
  show "master_ok s'" if run: "edit_uom e f c s = Inr (Saved, s')"
  proof -
    from run obtain aid where s': "s' = s\<lparr>t_unitofmeasure := upd_where (\<lambda>u. um_uom_code u = c) (edited_uom e aid f) (t_unitofmeasure s)\<rparr>"
      and v: "validate_uom_data s f (Some c) = []"
      and same: "py_upper (py_strip (uf_uom_code f)) = c \<or> \<not> uom_referenced s c"
      by (auto simp: edit_uom_def Let_def split: if_splits option.splits sum.splits)
    show ?thesis unfolding s' using uom_valid [OF v]
      by (intro uoms_step ok unique_upd [OF unique_finer [where g = py_upper, OF u] u] edited_uom_codes [OF known same])
        (auto simp: edited_uom_def py_upper_idem)
  qed
  show "master_ok s'" if run: "delete_uom e c s = Inr (Saved, s')"
  proof -
    from run have s': "s' = s\<lparr>t_unitofmeasure := filter (\<lambda>u. um_uom_code u \<noteq> c) (t_unitofmeasure s)\<rparr>"
      and free: "\<not> uom_referenced s c"
      by (auto simp: delete_uom_def Let_def split: if_splits option.splits)
    show ?thesis unfolding s' using uoms_known_without [OF known free]
      by (intro uoms_step ok unique_filter u) (simp_all add: uom_codes_def keys_removed)
  qed
qed

lemma saved_category:
  assumes ok: "master_ok s"
  shows "create_category e f s = Inr (Saved, s') \<Longrightarrow> master_ok s'"
    and "edit_category e f i s = Inr (Saved, s') \<Longrightarrow> master_ok s'"
    and "delete_category e i s = Inr (Saved, s') \<Longrightarrow> master_ok s'"
proof -
  have k: "keys_fresh ic_category_id (sq_itemcatg (seqs s)) (t_itemcatg s)"
    and u: "unique (\<lambda>c. py_upper (ic_category_code c)) (t_itemcatg s)"
    and known: "it_category_id ` set (t_item s) \<subseteq> ic_category_id ` set (t_itemcatg s)"
    using ok by (auto simp: master_ok_def categories_ok_def refs_ok_def categories_known_def)
  show "master_ok s'" if run: "create_category e f s = Inr (Saved, s')"
  proof -
    let ?n = "sq_itemcatg (seqs s)"
    from run obtain aid where s': "s' = s\<lparr>t_itemcatg := t_itemcatg s @ [new_category e aid f ?n], seqs := (seqs s)\<lparr>sq_itemcatg := ?n + 1\<rparr>\<rparr>"
      and v: "validate_category_data s f None = []"
      by (auto simp: create_category_def Let_def split: if_splits sum.splits)
    have "py_upper (py_strip (cf_category_code f)) \<notin> (\<lambda>c. py_upper (ic_category_code c)) ` set (t_itemcatg s)"
      by (rule not_taken) (rule category_valid [OF v])
    then show ?thesis unfolding s' using known
      by (intro categories_step ok fresh_snoc unique_snoc k u) (auto simp: new_category_def py_upper_idem)
  qed
  show "master_ok s'" if run: "edit_category e f i s = Inr (Saved, s')"
  proof -
    from run obtain aid where s': "s' = s\<lparr>t_itemcatg := upd_where (\<lambda>c. ic_category_id c = i) (edited_category e aid f) (t_itemcatg s)\<rparr>"
      and v: "validate_category_data s f (Some i) = []"
      by (auto simp: edit_category_def Let_def split: if_splits option.splits sum.splits)
    show ?thesis unfolding s' using category_valid [OF v] known
      by (intro table_edits ok fresh_upd unique_upd [OF fresh_unique [OF k]] k u)
        (auto simp: edited_category_def py_upper_idem key_set_upd)
  qed
  show "master_ok s'" if run: "delete_category e i s = Inr (Saved, s')"
  proof -
    from run have s': "s' = s\<lparr>t_itemcatg := filter (\<lambda>c. ic_category_id c \<noteq> i) (t_itemcatg s)\<rparr>"
      and free: "\<not> list_ex (\<lambda>it. it_category_id it = i) (t_item s)"
      by (auto simp: delete_category_def Let_def split: if_splits option.splits)
    show ?thesis unfolding s' using known free
      by (intro table_edits ok fresh_filter unique_filter k u) (auto simp: keys_removed list_ex_iff)
  qed
qed


lemma saved_custodian:
  assumes ok: "master_ok s"
  shows "create_custodian e f s = Inr (Saved, s') \<Longrightarrow> master_ok s'"
    and "edit_custodian e f i s = Inr (Saved, s') \<Longrightarrow> master_ok s'"
    and "delete_custodian e i s = Inr (Saved, s') \<Longrightarrow> master_ok s'"
proof -
  have k: "keys_fresh cu_custodian_id (sq_custodian (seqs s)) (t_custodian s)"
    and u: "unique (\<lambda>c. py_upper (cu_custodian_name c)) (t_custodian s)"
    and known: "wh_custodian_id ` set (t_warehouse s) \<subseteq> cu_custodian_id ` set (t_custodian s)"
      "dn_custodian_id ` set (t_donation s) \<subseteq> cu_custodian_id ` set (t_custodian s)"
    using ok by (auto simp: master_ok_def custodians_ok_def refs_ok_def custodians_known_def)
  show "master_ok s'" if run: "create_custodian e f s = Inr (Saved, s')"
  proof -
    let ?n = "sq_custodian (seqs s)"
    from run obtain aid where s': "s' = s\<lparr>t_custodian := t_custodian s @ [new_custodian e aid f ?n], seqs := (seqs s)\<lparr>sq_custodian := ?n + 1\<rparr>\<rparr>"
      and v: "validate_custodian_data s f None = []"
      by (auto simp: create_custodian_def Let_def split: if_splits sum.splits)
    have "py_upper (py_strip (kf_custodian_name f)) \<notin> (\<lambda>c. py_upper (cu_custodian_name c)) ` set (t_custodian s)"
      by (rule not_taken) (rule custodian_valid [OF v])
    then show ?thesis unfolding s' using known
      by (intro custodians_step ok fresh_snoc unique_snoc k u) (auto simp: new_custodian_def py_upper_idem)
  qed
  show "master_ok s'" if run: "edit_custodian e f i s = Inr (Saved, s')"
  proof -
    from run obtain aid where s': "s' = s\<lparr>t_custodian := upd_where (\<lambda>c. cu_custodian_id c = i) (edited_custodian e aid f) (t_custodian s)\<rparr>"
      and v: "validate_custodian_data s f (Some i) = []"
      by (auto simp: edit_custodian_def Let_def split: if_splits option.splits sum.splits)
    show ?thesis unfolding s' using custodian_valid [OF v] known
      by (intro table_edits ok fresh_upd unique_upd [OF fresh_unique [OF k]] k u)
        (auto simp: edited_custodian_def py_upper_idem key_set_upd)
  qed
  show "master_ok s'" if run: "delete_custodian e i s = Inr (Saved, s')"
  proof -
    from run have s': "s' = s\<lparr>t_custodian := filter (\<lambda>c. cu_custodian_id c \<noteq> i) (t_custodian s)\<rparr>"
      and free: "\<not> list_ex (\<lambda>w. wh_custodian_id w = i) (t_warehouse s)" "\<not> list_ex (\<lambda>d. dn_custodian_id d = i) (t_donation s)"
      by (auto simp: delete_custodian_def Let_def split: if_splits option.splits)
    show ?thesis unfolding s' using known free
      by (intro table_edits ok fresh_filter unique_filter k u) (auto simp: keys_removed list_ex_iff)
  qed
qed

lemma saved_donor:
  assumes ok: "master_ok s"
  shows "create_donor e f s = Inr (Saved, s') \<Longrightarrow> master_ok s'"
    and "edit_donor e f i s = Inr (Saved, s') \<Longrightarrow> master_ok s'"
    and "delete_donor e i s = Inr (Saved, s') \<Longrightarrow> master_ok s'"
proof -
  have k: "keys_fresh dr_donor_id (sq_donor (seqs s)) (t_donor s)"
    and u: "unique (\<lambda>d. same_text (dr_donor_code d)) (t_donor s)" "unique (\<lambda>d. same_text (dr_donor_name d)) (t_donor s)"
    and known: "dn_donor_id ` set (t_donation s) \<subseteq> dr_donor_id ` set (t_donor s)"
    using ok by (auto simp: master_ok_def donors_ok_def refs_ok_def donors_known_def)
  have same: "same_text (py_upper (py_strip t)) = py_upper (py_strip t)" for t
    by (simp add: same_text_def strip_upper py_strip_strip py_upper_idem)
  show "master_ok s'" if run: "create_donor e f s = Inr (Saved, s')"
  proof -
    let ?n = "sq_donor (seqs s)"
    from run obtain aid c where s': "s' = s\<lparr>t_donor := t_donor s @ [new_donor e aid f c ?n], seqs := (seqs s)\<lparr>sq_donor := ?n + 1\<rparr>\<rparr>"
      and v: "validate_donor_data s f None = []"
      by (auto simp: create_donor_def Let_def split: if_splits option.splits sum.splits)
    have "py_upper (py_strip (of_donor_code f)) \<notin> (\<lambda>d. same_text (dr_donor_code d)) ` set (t_donor s)"
      by (rule not_taken) (rule donor_valid(1) [OF v])
    moreover have "py_upper (py_strip (of_donor_name f)) \<notin> (\<lambda>d. same_text (dr_donor_name d)) ` set (t_donor s)"
      by (rule not_taken) (rule donor_valid(2) [OF v])
    ultimately show ?thesis unfolding s' using known
      by (intro donors_step ok fresh_snoc unique_snoc k u) (auto simp: new_donor_def same)
  qed
  show "master_ok s'" if run: "edit_donor e f i s = Inr (Saved, s')"
  proof -
    from run obtain aid c where s': "s' = s\<lparr>t_donor := upd_where (\<lambda>d. dr_donor_id d = i) (edited_donor e aid f c) (t_donor s)\<rparr>"
      and v: "validate_donor_data s f (Some i) = []"
      by (auto simp: edit_donor_def Let_def split: if_splits option.splits sum.splits)
    show ?thesis unfolding s' using donor_valid(2) [OF v] known
      by (intro table_edits ok fresh_upd unique_upd_same [OF _ u(1)] unique_upd [OF fresh_unique [OF k] u(2)] k)
        (auto simp: edited_donor_def same key_set_upd)
  qed
  show "master_ok s'" if run: "delete_donor e i s = Inr (Saved, s')"
  proof -
    from run have s': "s' = s\<lparr>t_donor := filter (\<lambda>d. dr_donor_id d \<noteq> i) (t_donor s)\<rparr>"
      and free: "\<not> list_ex (\<lambda>d. dn_donor_id d = i) (t_donation s)"
      by (auto simp: delete_donor_def Let_def split: if_splits option.splits)
    show ?thesis unfolding s' using known free
      by (intro table_edits ok fresh_filter unique_filter k u) (auto simp: keys_removed list_ex_iff)
  qed
qed


lemma saved_item:
  assumes ok: "master_ok s"
  shows "create_item e f s = Inr (Saved, s') \<Longrightarrow> master_ok s'"
    and "edit_item e f i s = Inr (Saved, s') \<Longrightarrow> master_ok s'"
    and "inactivate_item e i s = Inr (Saved, s') \<Longrightarrow> master_ok s'"
    and "activate_item e i s = Inr (Saved, s') \<Longrightarrow> master_ok s'"
proof -
  have k: "keys_fresh it_item_id (sq_item (seqs s)) (t_item s)"
    and u: "unique it_item_code (t_item s)" "unique it_item_name (t_item s)" "unique it_sku_code (t_item s)"
    and known: "it_category_id ` set (t_item s) \<subseteq> ic_category_id ` set (t_itemcatg s)"
      "it_default_uom_code ` set (t_item s) \<subseteq> uom_codes s"
    using ok by (auto simp: master_ok_def items_ok_def refs_ok_def categories_known_def uoms_known_def)
  have status: "master_ok (set_item i (\<lambda>it. orm_row it (stamped e aid (it\<lparr>it_status_code := st\<rparr>))) s)" for aid st
    unfolding set_item_def using known
    by (intro table_edits ok fresh_upd unique_upd_same refers_upd [OF _ subset_refl] k u) (auto simp: set_upd_where)
  show "master_ok s'" if run: "create_item e f s = Inr (Saved, s')"
  proof -
    let ?n = "sq_item (seqs s)"
    from run obtain aid code name sku q c where v: "validate_item s f None = Inr (code, name, sku, q, c)"
      and s': "s' = s\<lparr>t_item := t_item s @ [new_item e aid f (code, name, sku, q, c) ?n], seqs := (seqs s)\<lparr>sq_item := ?n + 1\<rparr>\<rparr>"
      and refs: "item_refs s f c"
      by (auto simp: create_item_def Let_def split: if_splits sum.splits)
    have "code \<notin> it_item_code ` set (t_item s)" "name \<notin> it_item_name ` set (t_item s)" "sku \<notin> it_sku_code ` set (t_item s)"
      using item_valid [OF v] by auto
    then show ?thesis unfolding s' using known refs
      by (intro items_step ok fresh_snoc unique_snoc k u) (auto simp: new_item_def item_refs_def uom_codes_def)
  qed
  show "master_ok s'" if run: "edit_item e f i s = Inr (Saved, s')"
  proof -
    from run obtain aid code name sku q c where v: "validate_item s f (Some i) = Inr (code, name, sku, q, c)"
      and s': "s' = set_item i (edited_item e aid f (code, name, sku, q, c)) s" and refs: "item_refs s f c"
      by (auto simp: edit_item_def Let_def split: if_splits option.splits sum.splits)
    show ?thesis unfolding s' set_item_def using item_valid [OF v] known refs
      by (intro table_edits ok fresh_upd k unique_upd [OF fresh_unique [OF k] u(1)] unique_upd [OF fresh_unique [OF k] u(2)]
          unique_upd [OF fresh_unique [OF k] u(3)] refers_upd)
        (auto simp: edited_item_def item_refs_def uom_codes_def)
  qed
  show "master_ok s'" if "inactivate_item e i s = Inr (Saved, s')"
    using that status by (auto simp: inactivate_item_def split: if_splits option.splits sum.splits)
  show "master_ok s'" if "activate_item e i s = Inr (Saved, s')"
    using that status by (auto simp: activate_item_def split: if_splits option.splits sum.splits)
qed

lemma warehouse_valid_row:
  assumes "validate_warehouse_data s f own = []" and "wf_custodian_id f = Number c"
  shows "warehouse_rule (edited_warehouse f c w)" and "c \<in> cu_custodian_id ` set (t_custodian s)"
proof -
  show "c \<in> cu_custodian_id ` set (t_custodian s)"
    using assms by (auto simp: validate_warehouse_data_def stripped_int_def get_custodian_def Let_def find_Some_iff
        first_error_Nil split: option.splits simp del: first_error.simps)
  have "listed ''status_code'' [''A'', ''I''] (py_strip (wf_status_code f)) = []"
    and "reason_errors (py_strip (wf_status_code f)) (py_strip (wf_reason_desc f)) = []"
    using assms(1) by (simp_all add: validate_warehouse_data_def Let_def)
  then show "warehouse_rule (edited_warehouse f c w)"
    by (auto simp: warehouse_rule_def edited_warehouse_def reason_errors_def listed_def required_max_def or_none_def split: if_splits)
qed


lemma list_all_upd: "list_all P rows \<Longrightarrow> (\<And>r. r \<in> set rows \<Longrightarrow> P r \<Longrightarrow> Q r \<Longrightarrow> P (h r)) \<Longrightarrow> list_all P (upd_where Q h rows)"
  by (auto simp: list_all_iff set_upd_where)

lemma these_upd: "(\<And>r. set_option (g (h r)) \<subseteq> A) \<Longrightarrow> Option.these (g ` set rows) \<subseteq> A \<Longrightarrow> Option.these (g ` set (upd_where P h rows)) \<subseteq> A"
  by (auto simp: set_upd_where in_these_eq image_iff split: if_splits) (metis in_mono in_these_eq image_eqI elem_set)+

lemma these_without: "Option.these (g ` set rows) \<subseteq> A - {i} \<longleftrightarrow> Option.these (g ` set rows) \<subseteq> A \<and> (\<forall>r \<in> set rows. g r \<noteq> Some i)"
proof -
  have "i \<in> Option.these (g ` set rows) \<longleftrightarrow> (\<exists>r \<in> set rows. g r = Some i)" by (force simp: in_these_eq)
  then show ?thesis by blast
qed

lemma saved_warehouse:
  assumes ok: "master_ok s"
  shows "create_warehouse e f s = Inr (Saved, s') \<Longrightarrow> master_ok s'"
    and "edit_warehouse e f i s = Inr (Saved, s') \<Longrightarrow> master_ok s'"
    and "delete_warehouse e i s = Inr (Saved, s') \<Longrightarrow> master_ok s'"
proof -
  let ?n = "sq_warehouse (seqs s)" and ?W = "wh_warehouse_id ` set (t_warehouse s)"
  have k: "keys_fresh wh_warehouse_id ?n (t_warehouse s)"
    and u: "unique (\<lambda>w. py_upper (wh_warehouse_name w)) (t_warehouse s)" and r: "list_all warehouse_rule (t_warehouse s)"
    and known: "wh_custodian_id ` set (t_warehouse s) \<subseteq> cu_custodian_id ` set (t_custodian s)" "warehouses_known ?W s"
    using ok by (auto simp: master_ok_def warehouses_ok_def refs_ok_def custodians_known_def)
  show "master_ok s'" if run: "create_warehouse e f s = Inr (Saved, s')"
  proof -
    from run obtain aid c where c: "wf_custodian_id f = Number c" and v: "validate_warehouse_data s f None = []"
      and s': "s' = s\<lparr>t_warehouse := t_warehouse s @ [new_warehouse e aid f c ?n], seqs := (seqs s)\<lparr>sq_warehouse := ?n + 1\<rparr>\<rparr>"
      by (auto simp: create_warehouse_def Let_def split: if_splits vfield.splits sum.splits)
    have "py_upper (py_strip (wf_warehouse_name f)) \<notin> (\<lambda>w. py_upper (wh_warehouse_name w)) ` set (t_warehouse s)"
      by (rule not_taken) (rule warehouse_valid [OF v])
    moreover have "warehouses_known (insert ?n ?W) s" using known(2) by (auto simp: warehouses_known_def)
    ultimately show ?thesis unfolding s' using known(1) warehouse_valid_row [OF v c] r
      by (intro warehouses_step ok fresh_snoc unique_snoc k u) (auto simp: new_warehouse_def py_upper_idem)
  qed
  show "master_ok s'" if run: "edit_warehouse e f i s = Inr (Saved, s')"
  proof -
    from run obtain aid c where c: "wf_custodian_id f = Number c" and v: "validate_warehouse_data s f (Some i) = []"
      and s': "s' = s\<lparr>t_warehouse :=
        upd_where (\<lambda>w. wh_warehouse_id w = i) (\<lambda>w. orm_row w (stamped e aid (edited_warehouse f c w))) (t_warehouse s)\<rparr>"
      by (auto simp: edit_warehouse_def Let_def split: if_splits option.splits vfield.splits sum.splits)
    show ?thesis unfolding s' using warehouse_valid [OF v] warehouse_valid_row [OF v c] known
      by (intro table_edits ok fresh_upd unique_upd [OF fresh_unique [OF k] u] k refers_upd list_all_upd [OF r])
        (auto simp: py_upper_idem key_set_upd)
  qed
  show "master_ok s'" if run: "delete_warehouse e i s = Inr (Saved, s')"
  proof -
    from run have s': "s' = s\<lparr>t_warehouse := filter (\<lambda>w. wh_warehouse_id w \<noteq> i) (t_warehouse s)\<rparr>"
      and "\<not> list_ex (\<lambda>v. iv_inventory_id v = i) (t_inventory s)" "\<not> warehouse_referenced s i"
      by (auto simp: delete_warehouse_def split: if_splits option.splits)
    then have "warehouses_known (?W - {i}) s" using known(2)
      by (auto simp: warehouses_known_def warehouse_referenced_def list_ex_iff these_without)
    then show ?thesis unfolding s' using known(1) r
      by (intro table_edits ok fresh_filter unique_filter k u)
        (auto simp: keys_removed list_all_iff)
  qed
qed


lemma agency_valid_row:
  assumes "validate_agency_data s f own = Inr ([], w, v)"
  shows "agency_rule (edited_agency f w v a)" and "set_option w \<subseteq> wh_warehouse_id ` set (t_warehouse s)"
proof -
  let ?ty = "py_strip (af_agency_type f)"
  from assms obtain w0 where "fst (agency_warehouse s ?ty w0) = []" and "w = snd (agency_warehouse s ?ty w0)"
    and "listed ''agency_type'' [''SHELTER'', ''DISTRIBUTOR''] ?ty = []"
    by (auto simp: validate_agency_data_def Let_def split: sum.splits)
  then show "agency_rule (edited_agency f w v a)" and "set_option w \<subseteq> wh_warehouse_id ` set (t_warehouse s)"
    by (auto simp: agency_rule_def edited_agency_def agency_warehouse_def listed_def get_warehouse_def find_Some_iff
        elim: truthy_int.elims split: if_splits option.splits)
qed

lemma these_insert_set: "Option.these (insert x A) = set_option x \<union> Option.these A"
  by (cases x) auto

lemma agency_rule_upd [simp]:
  "agency_rule (a\<lparr>ag_status_code := st\<rparr>) = agency_rule a" "agency_rule (a\<lparr>ag_ineligible_event_id := v\<rparr>) = agency_rule a"
  by (simp_all add: agency_rule_def)

lemma requests_step:
  assumes "master_ok s" and "Option.these (rq_eligible_event_id ` set rs) \<subseteq> ev_event_id ` set (t_event s)"
  shows "master_ok (s\<lparr>t_reliefrqst := rs\<rparr>)"
  using assms by (simp add: master_parts)

lemma saved_agency:
  assumes ok: "master_ok s"
  shows "create_agency e f s = Inr (Saved, s') \<Longrightarrow> master_ok s'"
    and "edit_agency e f i s = Inr (Saved, s') \<Longrightarrow> master_ok s'"
    and "deactivate_agency e i s = Inr (Saved, s') \<Longrightarrow> master_ok s'"
proof -
  let ?n = "sq_agency (seqs s)"
  have k: "keys_fresh ag_agency_id ?n (t_agency s)" and u: "unique ag_agency_name (t_agency s)"
    and r: "list_all agency_rule (t_agency s)"
    and known: "Option.these (ag_warehouse_id ` set (t_agency s)) \<subseteq> wh_warehouse_id ` set (t_warehouse s)"
      "Option.these (ag_ineligible_event_id ` set (t_agency s)) \<subseteq> ev_event_id ` set (t_event s)"
    using ok by (auto simp: master_ok_def agencies_ok_def refs_ok_def warehouses_known_def events_known_def)
  show "master_ok s'" if run: "create_agency e f s = Inr (Saved, s')"
  proof -
    from run obtain aid w v where v: "validate_agency_data s f None = Inr ([], w, v)" and ev: "event_known s v"
      and s': "s' = s\<lparr>t_agency := t_agency s @ [new_agency e aid f w v ?n], seqs := (seqs s)\<lparr>sq_agency := ?n + 1\<rparr>\<rparr>"
      by (auto simp: create_agency_def Let_def split: if_splits sum.splits)
    have "py_upper (py_strip (af_agency_name f)) \<notin> ag_agency_name ` set (t_agency s)"
      using agency_valid [OF v _ _ u] by (intro not_taken)
    then show ?thesis unfolding s' using known agency_valid_row [OF v] r ev
      by (intro agencies_step ok fresh_snoc unique_snoc k u)
        (auto simp: new_agency_def event_known_def these_insert_set split: option.splits)
  qed
  show "master_ok s'" if run: "edit_agency e f i s = Inr (Saved, s')"
  proof -
    from run obtain aid w v where v: "validate_agency_data s f (Some i) = Inr ([], w, v)" and ev: "event_known s v"
      and s': "s' = set_agency i (\<lambda>a. stamped e aid (edited_agency f w v a)) s"
      by (auto simp: edit_agency_def Let_def split: if_splits option.splits sum.splits)
    show ?thesis unfolding s' set_agency_def using agency_valid [OF v _ _ u] agency_valid_row [OF v] ev known
      by (intro table_edits ok fresh_upd unique_upd [OF fresh_unique [OF k] u] k these_upd list_all_upd [OF r])
        (auto simp: event_known_def split: option.splits)
  qed
  show "master_ok s'" if run: "deactivate_agency e i s = Inr (Saved, s')"
  proof -
    from run obtain aid where s': "s' = set_agency i (\<lambda>a. stamped e aid (a\<lparr>ag_status_code := ''I''\<rparr>)) s"
      by (auto simp: deactivate_agency_def split: if_splits option.splits sum.splits)
    show ?thesis unfolding s' set_agency_def using known
      by (intro table_edits ok fresh_upd unique_upd_same k u list_all_upd [OF r]) (auto simp: key_set_upd)
  qed
qed

lemma these_blanked:
  assumes "Option.these (g ` set rows) \<subseteq> A" and "\<And>r. g (h r) = None"
  shows "Option.these (g ` set (upd_where (\<lambda>r. g r = Some i) h rows)) \<subseteq> A - {i}"
  unfolding these_without using assms by (intro conjI these_upd ballI) (auto simp: set_upd_where)

lemma blank_agencies:
  assumes ok: "master_ok s"
  shows "master_ok (s\<lparr>t_agency := upd_where P (\<lambda>a. orm_row a (a\<lparr>ag_ineligible_event_id := None\<rparr>)) (t_agency s)\<rparr>)"
proof -
  have "keys_fresh ag_agency_id (sq_agency (seqs s)) (t_agency s)" "unique ag_agency_name (t_agency s)"
    "list_all agency_rule (t_agency s)"
    "Option.these (ag_warehouse_id ` set (t_agency s)) \<subseteq> wh_warehouse_id ` set (t_warehouse s)"
    "Option.these (ag_ineligible_event_id ` set (t_agency s)) \<subseteq> ev_event_id ` set (t_event s)"
    using ok by (auto simp: master_ok_def agencies_ok_def refs_ok_def warehouses_known_def events_known_def)
  then show ?thesis
    by (intro table_edits ok fresh_upd unique_upd_same list_all_upd these_upd [where g = ag_ineligible_event_id]) (auto simp: key_set_upd)
qed

lemma saved_event:
  assumes ok: "master_ok s"
  shows "create_event e f s = Inr (Saved, s') \<Longrightarrow> master_ok s'"
    and "edit_event e f i s = Inr (Saved, s') \<Longrightarrow> master_ok s'"
    and "close_event e cd reason i s = Inr (Saved, s') \<Longrightarrow> master_ok s'"
    and "delete_event e i s = Inr (Saved, s') \<Longrightarrow> master_ok s'"
proof -
  let ?n = "sq_event (seqs s)" and ?V = "ev_event_id ` set (t_event s)"
  have k: "keys_fresh ev_event_id ?n (t_event s)" and r: "list_all event_rule (t_event s)" and known: "events_known ?V s"
    using ok by (auto simp: master_ok_def events_ok_def refs_ok_def)
  have own: "r = v" if "get_event s i = Some v" "r \<in> set (t_event s)" "ev_event_id r = i" for r v
    using that k by (auto simp: get_event_def find_Some_iff keys_fresh_def unique_def distinct_map dest: inj_onD)
  show "master_ok s'" if run: "create_event e f s = Inr (Saved, s')"
  proof -
    from run obtain aid d where s': "s' = s\<lparr>t_event := t_event s @ [new_event e aid f d ?n], seqs := (seqs s)\<lparr>sq_event := ?n + 1\<rparr>\<rparr>"
      by (auto simp: create_event_def Let_def split: if_splits dfield.splits sum.splits)
    have "events_known (insert ?n ?V) s" using known by (auto simp: events_known_def)
    then show ?thesis unfolding s' using r
      by (intro events_step ok fresh_snoc k) (auto simp: new_event_def event_rule_def)
  qed
  show "master_ok s'" if run: "edit_event e f i s = Inr (Saved, s')"
  proof -
    from run obtain aid d v where v: "get_event s i = Some v" "ev_status_code v \<noteq> ''C''" and s': "s' = set_event i (edited_event e aid f d) s"
      by (auto simp: edit_event_def Let_def split: if_splits option.splits dfield.splits sum.splits)
    show ?thesis unfolding s' set_event_def using known own [OF v(1)] v(2)
      by (intro table_edits ok fresh_upd k list_all_upd [OF r]) (auto simp: event_rule_def edited_event_def key_set_upd)
  qed
  show "master_ok s'" if run: "close_event e cd reason i s = Inr (Saved, s')"
  proof -
    from run obtain aid d t v where v: "get_event s i = Some v" "\<not> d < ev_start_date v" and s': "s' = set_event i (closed_event e aid d t) s"
      by (auto simp: close_event_def Let_def split: if_splits option.splits dfield.splits sum.splits)
    show ?thesis unfolding s' set_event_def using known own [OF v(1)] v(2)
      by (intro table_edits ok fresh_upd k list_all_upd [OF r]) (auto simp: event_rule_def closed_event_def key_set_upd)
  qed
  show "master_ok s'" if run: "delete_event e i s = Inr (Saved, s')"
  proof -
    let ?a = "upd_where (\<lambda>a. ag_ineligible_event_id a = Some i) (\<lambda>a. orm_row a (a\<lparr>ag_ineligible_event_id := None\<rparr>)) (t_agency s)"
    let ?r = "upd_where (\<lambda>r. rq_eligible_event_id r = Some i) (\<lambda>r. r\<lparr>rq_eligible_event_id := None, rq_version_nbr := rq_version_nbr r + 1\<rparr>) (t_reliefrqst s)"
    from run have s': "s' = s\<lparr>t_agency := ?a, t_reliefrqst := ?r, t_event := filter (\<lambda>v. ev_event_id v \<noteq> i) (t_event s)\<rparr>"
      and free: "\<forall>d \<in> set (t_donation s). dn_event_id d \<noteq> i"
      by (auto simp: delete_event_def list_ex_iff split: if_splits option.splits)
    have blanked: "Option.these (ag_ineligible_event_id ` set ?a) \<subseteq> ?V - {i}" "Option.these (rq_eligible_event_id ` set ?r) \<subseteq> ?V - {i}"
      using known unfolding events_known_def by (simp_all add: these_blanked)
    with free known have "events_known (?V - {i}) (s\<lparr>t_agency := ?a, t_reliefrqst := ?r\<rparr>)"
      by (auto simp: events_known_def)
    moreover have "master_ok (s\<lparr>t_agency := ?a, t_reliefrqst := ?r\<rparr>)"
      using blanked ok by (intro requests_step blank_agencies) auto
    ultimately show ?thesis unfolding s' using r k
      by (intro table_edits fresh_filter) (auto simp: keys_removed list_all_iff)
  qed
qed


section \<open>The pages together\<close>

inductive master_step :: "db \<Rightarrow> db \<Rightarrow> bool" where
  master_step: "serve e q s = Inr (r, s') \<Longrightarrow> master_step s s'"

definition no_master :: "db \<Rightarrow> bool" where
  "no_master s \<longleftrightarrow> t_unitofmeasure s = [] \<and> t_itemcatg s = [] \<and> t_item s = [] \<and> t_custodian s = [] \<and> t_warehouse s = []
     \<and> t_agency s = [] \<and> t_donor s = [] \<and> t_event s = [] \<and> t_inventory s = [] \<and> t_itembatch s = [] \<and> t_reliefpkg s = []
     \<and> t_reliefpkg_item s = [] \<and> t_reliefrqst s = [] \<and> t_donation s = [] \<and> t_donation_item s = [] \<and> t_dnintake s = []
     \<and> t_dnintake_item s = []"

lemma serve_keeps:
  assumes "master_ok s" and "serve e q s = Inr (r, s')"
  shows "master_ok s'"
proof (cases "r = Saved")
  case True
  then show ?thesis using assms
    by (cases q) (auto intro: saved_uom saved_category saved_item saved_custodian saved_warehouse saved_agency
        saved_donor saved_event)
qed (use assms serve_atomic in blast)

interpretation master_flow: invariant_system no_master master_step master_ok
proof
  show "no_master s \<Longrightarrow> master_ok s" for s
    by (simp add: no_master_def master_parts keys_fresh_def unique_def)
  show "master_ok s \<Longrightarrow> master_step s t \<Longrightarrow> master_ok t" for s t
    by (auto elim: master_step.cases intro: serve_keeps)
qed

text \<open>A closed event is never written again; only its deletion takes it away.\<close>

definition frozen :: "event \<Rightarrow> db \<Rightarrow> bool" where
  "frozen v s \<longleftrightarrow> ev_event_id v < sq_event (seqs s) \<and> get_event s (ev_event_id v) \<in> {None, Some v}"

lemma other_pages_events:
  assumes "serve e q s = Inr (r, s')" and "\<nexists>f. q = CreateEvent f" and "\<nexists>f i. q = EditEvent f i"
    and "\<nexists>d t i. q = CloseEvent d t i" and "\<nexists>i. q = DeleteEvent i"
  shows "t_event s' = t_event s \<and> sq_event (seqs s') = sq_event (seqs s)"
  using assms
  by (cases q)
    (auto simp: create_uom_def edit_uom_def delete_uom_def create_category_def edit_category_def delete_category_def
      create_item_def edit_item_def inactivate_item_def activate_item_def set_item_def create_custodian_def edit_custodian_def
      delete_custodian_def create_warehouse_def edit_warehouse_def delete_warehouse_def create_agency_def
      edit_agency_def deactivate_agency_def set_agency_def create_donor_def edit_donor_def delete_donor_def Let_def
      split: if_splits option.splits sum.splits prod.splits vfield.splits dfield.splits)

lemma find_snoc: "find P (xs @ [x]) = (case find P xs of None \<Rightarrow> if P x then Some x else None | Some y \<Rightarrow> Some y)"
  by (induction xs) auto

lemma find_removed: "find (\<lambda>r. key r = k) (filter (\<lambda>r. key r \<noteq> i) rows) = (if k = i then None else find (\<lambda>r. key r = k) rows)"
  by (induction rows) auto

lemma find_upd_elsewhere:
  "(\<And>r. key (h r) = key r) \<Longrightarrow> k \<noteq> i \<Longrightarrow> find (\<lambda>r. key r = k) (upd_where (\<lambda>r. key r = i) h rows) = find (\<lambda>r. key r = k) rows"
  by (induction rows) auto

lemma set_event_frozen:
  assumes "get_event s i = Some w" and "ev_status_code w \<noteq> ''C''" and "ev_status_code v = ''C''" and "frozen v s"
    and "\<And>r. ev_event_id (g r) = ev_event_id r"
  shows "frozen v (set_event i g s)"
proof (cases "ev_event_id v = i")
  case True
  with assms have "False" by (auto simp: frozen_def)
  then show ?thesis ..
next
  case False
  then show ?thesis using assms(4,5) by (simp add: frozen_def set_event_def get_event_def find_upd_elsewhere)
qed

lemma serve_frozen:
  assumes run: "serve e q s = Inr (r, s')" and "frozen v s" and "ev_status_code v = ''C''"
  shows "frozen v s'"
proof (cases "r = Saved")
  case False
  then show ?thesis using assms serve_atomic by blast
next
  case True
  consider f where "q = CreateEvent f" | f i where "q = EditEvent f i" | d t i where "q = CloseEvent d t i"
    | i where "q = DeleteEvent i" | "\<nexists>f. q = CreateEvent f" "\<nexists>f i. q = EditEvent f i"
      "\<nexists>d t i. q = CloseEvent d t i" "\<nexists>i. q = DeleteEvent i" by blast
  then show ?thesis
  proof cases
    case 1
    with assms show ?thesis
      by (auto simp: create_event_def frozen_def get_event_def find_snoc new_event_def Let_def
          split: if_splits dfield.splits sum.splits option.splits)
  next
    case 2
    with assms show ?thesis
      by (auto simp: edit_event_def edited_event_def Let_def intro: set_event_frozen
          split: if_splits dfield.splits sum.splits option.splits)
  next
    case 3
    with assms show ?thesis
      by (auto simp: close_event_def closed_event_def Let_def intro: set_event_frozen
          split: if_splits dfield.splits sum.splits option.splits)
  next
    case 4
    with assms show ?thesis
      by (auto simp: delete_event_def frozen_def get_event_def find_removed split: if_splits option.splits)
  next
    case 5
    with other_pages_events [OF run] assms(2) show ?thesis by (simp add: frozen_def get_event_def)
  qed
qed


section \<open>An example\<close>

text \<open>A custodian's session: one event, one custodian, a warehouse and an agency.\<close>

definition ex_keeper :: env where
  "ex_keeper = \<lparr>en_today = 739000, en_now = 5, en_user = ex_user 1 ''cu'' [ex_role 3 ''CUSTODIAN''], en_status_cache = None,
     en_str_decimal = (\<lambda>q. ''0'')\<rparr>"


definition ex_custodian_form :: "string \<Rightarrow> custodian_form" where
  "ex_custodian_form n = \<lparr>pf_address1_text = ''2 Hope Road'', pf_address2_text = [], pf_parish_code = ''01'',
     pf_contact_name = ''keeper'', pf_phone_no = ''+1 (876) 555-0101'', pf_email_text = [], pf_version_nbr = Number 1,
     kf_custodian_name = n\<rparr>"

definition ex_masters :: db where
  "ex_masters = empty_db\<lparr>t_parish := [''01''], t_event := [ex_event 1 ''MELISSA''], t_custodian := [ex_custodian 1 ''ODPEM''],
     t_warehouse := [ex_warehouse], seqs := (seqs empty_db)\<lparr>sq_event := 2, sq_custodian := 2, sq_warehouse := 8\<rparr>\<rparr>"

definition ex_after :: "master_request \<Rightarrow> db \<Rightarrow> db" where
  "ex_after q s = snd (projr (serve ex_keeper q s))"

lemma ex_after_step: "\<not> isl (serve ex_keeper q s) \<Longrightarrow> master_step s (ex_after q s)"
  unfolding ex_after_def by (rule master_step [of ex_keeper q s "fst (projr (serve ex_keeper q s))"]) (simp add: run_result)

lemma ex_masters_ok: "master_ok ex_masters"
  by (simp add: ex_masters_def ex_simps master_parts keys_fresh_def unique_def warehouse_rule_def event_rule_def)

section \<open>Properties\<close>



text \<open>
  C23: once an event is closed, no sequence of requests to the master-data pages changes any of its
  columns again, and its id is never given to another event: it is found as it was or, once deleted,
  not at all.
\<close>

theorem closed_event_frozen:
  assumes "master_ok s" and "get_event s i = Some v" and "ev_status_code v = ''C''" and "master_step\<^sup>*\<^sup>* s t"
  shows "get_event t i = Some v \<or> get_event t i = None"
proof -
  have i: "ev_event_id v = i" and "v \<in> set (t_event s)" using assms(2) by (auto simp: get_event_def find_Some_iff)
  then have "frozen v s" using assms(1,2)
    by (auto simp: frozen_def master_ok_def events_ok_def keys_fresh_def)
  with assms(4) have "frozen v t"
    by (induction rule: rtranclp_induct) (auto elim!: master_step.cases intro: serve_frozen [OF _ _ assms(3)])
  then show ?thesis using i by (auto simp: frozen_def)
qed

definition ex_closed :: db where
  "ex_closed = ex_after (CloseEvent NoDate ''over'' 1) ex_masters"

definition ex_event_form :: event_form where
  "ex_event_form = \<lparr>vf_event_type = ''FLOOD'', vf_start_date = Day 738990, vf_event_name = ''other'', vf_event_desc = ''d'',
     vf_impact_desc = ''i'', vf_closed_date = NoDate, vf_reason_desc = [], vf_version_nbr = Number 2\<rparr>"

theorem closed_event_frozen_witness:
  "get_event ex_closed 1 \<noteq> None
   \<and> get_event (ex_after (EditEvent ex_event_form 1) ex_closed) 1 = get_event ex_closed 1"
proof -
  have ok: "master_ok ex_closed" unfolding ex_closed_def
    by (rule master_flow.inv_step [OF ex_masters_ok ex_after_step]) code_simp
  have found: "get_event ex_closed 1 \<noteq> None" and c: "map_option ev_status_code (get_event ex_closed 1) = Some ''C''" by code_simp+
  then obtain v where v: "get_event ex_closed 1 = Some v" and "ev_status_code v = ''C''" by auto
  moreover have "master_step\<^sup>*\<^sup>* ex_closed (ex_after (EditEvent ex_event_form 1) ex_closed)"
    by (rule r_into_rtranclp, rule ex_after_step) code_simp
  ultimately have "get_event (ex_after (EditEvent ex_event_form 1) ex_closed) 1 = Some v
    \<or> get_event (ex_after (EditEvent ex_event_form 1) ex_closed) 1 = None"
    by (rule closed_event_frozen [OF ok])
  moreover have "get_event (ex_after (EditEvent ex_event_form 1) ex_closed) 1 \<noteq> None" by code_simp
  ultimately show ?thesis using v by auto
qed


text \<open>Two forms for the same row, opened on the same version.\<close>

inductive same_version :: "master_request \<Rightarrow> master_request \<Rightarrow> bool" where
  "uf_version_nbr f = uf_version_nbr g \<Longrightarrow> same_version (EditUom f c) (EditUom g c)"
| "cf_version_nbr f = cf_version_nbr g \<Longrightarrow> same_version (EditCategory f i) (EditCategory g i)"
| "if_version_nbr f = if_version_nbr g \<Longrightarrow> same_version (EditItem f i) (EditItem g i)"
| "pf_version_nbr f = pf_version_nbr g \<Longrightarrow> same_version (EditCustodian f i) (EditCustodian g i)"
| "of_version_nbr f = of_version_nbr g \<Longrightarrow> same_version (EditDonor f i) (EditDonor g i)"
| "vf_version_nbr f = vf_version_nbr g \<Longrightarrow> same_version (EditEvent f i) (EditEvent g i)"
| "pf_version_nbr f = pf_version_nbr g \<Longrightarrow> same_version (EditAgency f i) (EditAgency g i)"
| "pf_version_nbr f = pf_version_nbr g \<Longrightarrow> same_version (EditWarehouse f i) (EditWarehouse g i)"

lemma master_keys:
  assumes "master_ok s"
  shows "distinct (map um_uom_code (t_unitofmeasure s))" "distinct (map ic_category_id (t_itemcatg s))"
    "distinct (map it_item_id (t_item s))" "distinct (map cu_custodian_id (t_custodian s))"
    "distinct (map dr_donor_id (t_donor s))" "distinct (map ev_event_id (t_event s))"
    "distinct (map ag_agency_id (t_agency s))" "distinct (map wh_warehouse_id (t_warehouse s))"
proof -
  have "unique (\<lambda>u. py_upper (um_uom_code u)) (t_unitofmeasure s)" using assms by (simp add: master_ok_def uoms_ok_def)
  then have "unique um_uom_code (t_unitofmeasure s)" by (rule unique_finer [where g = py_upper])
  then show "distinct (map um_uom_code (t_unitofmeasure s))" by (simp add: unique_def)
qed (use assms in \<open>simp_all add: master_ok_def categories_ok_def items_ok_def custodians_ok_def donors_ok_def
        events_ok_def agencies_ok_def warehouses_ok_def keys_fresh_def unique_def\<close>)

text \<open>
  C22: on each of the eight edit pages of the master data two forms opened on the
  same version cannot both be saved: when the first one changed the row, the second one with the
  same version is not saved and leaves the session as it is.
\<close>

theorem stale_master_form:
  assumes "master_ok s" and "same_version p q" and "serve e p s = Inr (Saved, s1)" and "s1 \<noteq> s"
    and "serve e' q s1 = Inr (r, s2)"
  shows "r \<noteq> Saved \<and> s2 = s1"
  using assms(2)
proof cases
  case (1 f g c)
  then show ?thesis using uom_edit.second_form_fails [of s e f c s1 g e' r s2] master_keys [OF assms(1)] assms(3-5) by simp
next
  case (2 f g i)
  then show ?thesis using category_edit.second_form_fails [of s e f i s1 g e' r s2] master_keys [OF assms(1)] assms(3-5) by simp
next
  case (3 f g i)
  then show ?thesis using item_edit.second_form_fails [of s e f i s1 g e' r s2] master_keys [OF assms(1)] assms(3-5) by simp
next
  case (4 f g i)
  then show ?thesis using custodian_edit.second_form_fails [of s e f i s1 g e' r s2] master_keys [OF assms(1)] assms(3-5) by simp
next
  case (5 f g i)
  then show ?thesis using donor_edit.second_form_fails [of s e f i s1 g e' r s2] master_keys [OF assms(1)] assms(3-5) by simp
next
  case (6 f g i)
  then show ?thesis using event_edit.second_form_fails [of s e f i s1 g e' r s2] master_keys [OF assms(1)] assms(3-5) by simp
next
  case (7 f g i)
  then show ?thesis using agency_edit.second_form_fails [of s e f i s1 g e' r s2] master_keys [OF assms(1)] assms(3-5) by simp
next
  case (8 f g i)
  then show ?thesis using warehouse_edit.second_form_fails [of s e f i s1 g e' r s2] master_keys [OF assms(1)] assms(3-5) by simp
qed

theorem stale_master_form_witness:
  "fst (projr (serve ex_keeper (EditCustodian (ex_custodian_form ''second'') 1)
     (ex_after (EditCustodian (ex_custodian_form ''first'') 1) ex_masters))) \<noteq> Saved"
proof -
  let ?p = "EditCustodian (ex_custodian_form ''first'') 1" and ?q = "EditCustodian (ex_custodian_form ''second'') 1"
  let ?s1 = "ex_after ?p ex_masters"
  have pair: "same_version ?p ?q" by (rule same_version.intros) (simp add: ex_custodian_form_def)
  have first: "serve ex_keeper ?p ex_masters = Inr (Saved, ?s1)" unfolding ex_after_def by (rule run_result) code_simp+
  have "map cu_custodian_name (t_custodian ?s1) \<noteq> map cu_custodian_name (t_custodian ex_masters)" by code_simp
  then have "?s1 \<noteq> ex_masters" by auto
  moreover have "serve ex_keeper ?q ?s1 = Inr (fst (projr (serve ex_keeper ?q ?s1)), snd (projr (serve ex_keeper ?q ?s1)))"
    by (rule run_result) (code_simp, rule refl)
  ultimately show ?thesis by (rule stale_master_form [OF ex_masters_ok pair first, THEN conjunct1])
qed

text \<open>
  Deleting an event takes the event away from the relief requests that were raised for it, and an
  item can be saved as inactive from its form whatever stock it has.
\<close>

lemma delete_event_unlinks:
  assumes "delete_event e i s = Inr (Saved, s')" and "r \<in> set (t_reliefrqst s)" and "rq_eligible_event_id r = Some i"
  shows "r\<lparr>rq_eligible_event_id := None, rq_version_nbr := rq_version_nbr r + 1\<rparr> \<in> set (t_reliefrqst s')"
  using assms by (auto simp: delete_event_def set_upd_where split: if_splits option.splits)

lemma edit_item_inactivates:
  assumes run: "edit_item e f i s = Inr (Saved, s')" and "if_status_code f = Some ''I''" and "it \<in> set (t_item s')" and "it_item_id it = i"
  shows "it_status_code it = ''I''"
proof -
  from run have "\<exists>h. s' = set_item i h s \<and> (\<forall>it. it_status_code (h it) = item_status_of f)"
    unfolding edit_item_def
    by (cases "get_item_row s i"; cases "validate_item s f (Some i)"; cases "audit_id (en_user e)")
      (fastforce split: if_splits)+
  then show ?thesis using assms(2-4) by (auto simp: set_item_def set_upd_where item_status_of_def)
qed

end
