(* ===== verification/Digits.thy ===== *)
theory Digits
  imports Core_Utils
begin

text \<open>
  Numbers in texts: \<^verbatim>\<open>str(n)\<close>, \<^verbatim>\<open>f'{n:03d}'\<close>, \<^verbatim>\<open>int(text)\<close> on a text of digits and \<^verbatim>\<open>str.isdigit\<close>, with the round
  trips between them and the order of texts of digits of equal length.
\<close>

section \<open>Printing\<close>

definition digit_char :: "nat \<Rightarrow> char" where
  "digit_char d = char_of (48 + d)"

fun str_nat :: "nat \<Rightarrow> string" where
  "str_nat n = (if n < 10 then [digit_char n] else str_nat (n div 10) @ [digit_char (n mod 10)])"

declare str_nat.simps [simp del]

definition str_int :: "int \<Rightarrow> string" where
  "str_int i = (if i < 0 then CHR ''-'' # str_nat (nat (- i)) else str_nat (nat i))"

definition zero_padded :: "nat \<Rightarrow> nat \<Rightarrow> string" where
  "zero_padded w n = replicate (w - length (str_nat n)) (CHR ''0'') @ str_nat n"

section \<open>Reading\<close>

definition digit_value :: "char \<Rightarrow> nat" where
  "digit_value c = of_char c - 48"

definition nat_of_digits :: "string \<Rightarrow> nat" where
  "nat_of_digits s = foldl (\<lambda>n c. 10 * n + digit_value c) 0 s"

definition int_of_digits :: "string \<Rightarrow> exc + int" where
  "int_of_digits s = (if s \<noteq> [] \<and> list_all py_isdigit s then Inr (int (nat_of_digits s)) else Inl ValueError)"

text \<open>\<^verbatim>\<open>str.isdigit\<close> also accepts the superscripts one, two and three, which \<^verbatim>\<open>int\<close> refuses.\<close>

definition str_isdigit :: "string \<Rightarrow> bool" where
  "str_isdigit s \<longleftrightarrow> s \<noteq> [] \<and> list_all (\<lambda>c. py_isdigit c \<or> of_char c \<in> {178, 179, 185 :: nat}) s"

section \<open>Round trips\<close>

lemma digit_char_code: "d < 10 \<Longrightarrow> of_char (digit_char d) = 48 + d"
  by (simp add: digit_char_def)

lemma digit_char_isdigit [simp]: "d < 10 \<Longrightarrow> py_isdigit (digit_char d)"
  by (simp add: py_isdigit_def digit_char_code)

lemma digit_value_char [simp]: "d < 10 \<Longrightarrow> digit_value (digit_char d) = d"
  by (simp add: digit_value_def digit_char_code)

lemma str_nat_nonempty [simp]: "str_nat n \<noteq> []"
  by (subst str_nat.simps) simp

lemma str_nat_digits [simp]: "list_all py_isdigit (str_nat n)"
  by (induction n rule: str_nat.induct) (subst str_nat.simps, simp)

lemma nat_of_digits_snoc: "nat_of_digits (s @ [c]) = 10 * nat_of_digits s + digit_value c"
  by (simp add: nat_of_digits_def)

lemma nat_of_str_nat [simp]: "nat_of_digits (str_nat n) = n"
proof (induction n rule: str_nat.induct)
  case (1 n)
  show ?case
  proof (cases "n < 10")
    case True
    then show ?thesis by (subst str_nat.simps) (simp add: nat_of_digits_def)
  next
    case False
    then have "nat_of_digits (str_nat n) = 10 * nat_of_digits (str_nat (n div 10)) + n mod 10"
      by (subst str_nat.simps) (simp add: nat_of_digits_snoc)
    also have "\<dots> = n" using 1 [OF False] by simp
    finally show ?thesis .
  qed
qed

lemma int_of_str_int: "0 \<le> i \<Longrightarrow> int_of_digits (str_int i) = Inr i"
  by (simp add: int_of_digits_def str_int_def)

lemma str_int_isdigit: "0 \<le> i \<Longrightarrow> str_isdigit (str_int i)"
  using str_nat_digits [of "nat i"] by (auto simp: str_isdigit_def str_int_def list_all_iff)

lemma nat_of_zeros: "nat_of_digits (replicate k (CHR ''0'') @ s) = nat_of_digits s"
proof -
  have "foldl (\<lambda>n c. 10 * n + digit_value c) 0 (replicate k (CHR ''0'')) = 0"
    by (induction k) (simp_all add: digit_value_def)
  then show ?thesis by (simp add: nat_of_digits_def)
qed

lemma nat_of_zero_padded [simp]: "nat_of_digits (zero_padded w n) = n"
  by (simp add: zero_padded_def nat_of_zeros)

lemma zero_padded_digits [simp]: "list_all py_isdigit (zero_padded w n)"
proof -
  have "py_isdigit (CHR ''0'')" by (simp add: py_isdigit_def)
  then have "list_all py_isdigit (replicate k (CHR ''0''))" for k by (induction k) simp_all
  then show ?thesis by (simp add: zero_padded_def)
qed

end
