(* ===== verification/Accounts.thy ===== *)
theory Accounts
  imports Master_Data Digits
begin

text \<open>
  User accounts: administration of users and their roles (\<^verbatim>\<open>user_admin.py\<close>), login
  (\<^verbatim>\<open>drims_app.py\<close>), a user's own profile, password and preferences (\<^verbatim>\<open>profile.py\<close>) and the requests of
  agencies for an account (\<^verbatim>\<open>account_requests.py\<close>). Password hashing (werkzeug) and the session
  cookie (flask-login) are third-party code: \<open>gen\<close> stands for \<^verbatim>\<open>generate_password_hash\<close> in one
  request, \<open>check\<close> for \<^verbatim>\<open>check_password_hash\<close> and \<open>admit\<close> for \<^verbatim>\<open>login_user\<close>.
\<close>

section \<open>Assignable roles\<close>

definition ADMIN_ROLES :: "string list" where
  "ADMIN_ROLES = [''SYSTEM_ADMINISTRATOR'', ''SYS_ADMIN'']"

definition get_assignable_roles :: "db \<Rightarrow> user \<Rightarrow> role list" where
  "get_assignable_roles s u =
     (let codes = map ro_code (us_roles u) in
      if ''SYSTEM_ADMINISTRATOR'' \<in> set codes \<or> ''SYS_ADMIN'' \<in> set codes then t_role s
      else if ''CUSTODIAN'' \<in> set codes then filter (\<lambda>r. ro_code r \<notin> set ADMIN_ROLES) (t_role s)
      else [])"

definition validate_role_assignment :: "db \<Rightarrow> user \<Rightarrow> int list \<Rightarrow> bool" where
  "validate_role_assignment s u role_ids \<longleftrightarrow>
     role_ids = [] \<or> set role_ids \<subseteq> ro_id ` set (get_assignable_roles s u)"

definition may_administer :: "env \<Rightarrow> bool" where
  "may_administer e = (role_required [''SYSTEM_ADMINISTRATOR'', ''SYS_ADMIN'', ''CUSTODIAN''] (Some (en_user e)) = Granted)"

section \<open>The organisation of a user\<close>

text \<open>
  The form posts \<^verbatim>\<open>AGENCY:id\<close>, \<^verbatim>\<open>CUSTODIAN:id\<close> or nothing. The result is the name of the
  organisation and the agency; a value the page did not offer is turned away, and a number that
  \<^verbatim>\<open>isdigit\<close> accepts and \<^verbatim>\<open>int\<close> does not raises outside the handler's \<^verbatim>\<open>try\<close>.
\<close>

datatype org_result = Organisation "string option" "int option" | BadOrganisation | OrganisationRaises exc

definition parse_organization :: "db \<Rightarrow> string \<Rightarrow> org_result" where
  "parse_organization s v =
     (if v = [] then Organisation None None
      else if CHR '':'' \<notin> set v then BadOrganisation
      else let ty = takeWhile (\<lambda>c. c \<noteq> CHR '':'') v; oid = drop 1 (dropWhile (\<lambda>c. c \<noteq> CHR '':'') v) in
      if ty \<notin> set [''AGENCY'', ''CUSTODIAN''] then BadOrganisation
      else if \<not> str_isdigit oid then BadOrganisation
      else case int_of_digits oid of
        Inl x \<Rightarrow> OrganisationRaises x
      | Inr i \<Rightarrow>
          if ty = ''AGENCY'' then
            (case find (\<lambda>a. ag_agency_id a = i \<and> ag_status_code a = ''A'') (t_agency s) of
               None \<Rightarrow> BadOrganisation | Some a \<Rightarrow> Organisation (Some (ag_agency_name a)) (Some (ag_agency_id a)))
          else
            (case find (\<lambda>c. cu_custodian_id c = i) (t_custodian s) of
               None \<Rightarrow> BadOrganisation | Some c \<Rightarrow> Organisation (Some (cu_custodian_name c)) None))"

text \<open>What the edit page preselects.\<close>

definition current_org_value :: "db \<Rightarrow> user \<Rightarrow> string" where
  "current_org_value s u =
     (if truthy_int (us_agency_id u) then ''AGENCY:'' @ str_int (the (us_agency_id u))
      else if truthy_str (us_organization u) then
        (case find (\<lambda>c. cu_custodian_name c = the (us_organization u)) (t_custodian s) of
           None \<Rightarrow> [] | Some c \<Rightarrow> ''CUSTODIAN:'' @ str_int (cu_custodian_id c))
      else [])"

section \<open>Creating and editing users\<close>

record user_form =
  rf_email :: string
  rf_user_name :: string
  rf_password :: string
  rf_first_name :: string
  rf_last_name :: string
  rf_organization :: "string option"
  rf_job_title :: string
  rf_phone :: string
  rf_is_active :: bool
  rf_roles :: "vfield list"
  rf_warehouses :: "vfield list"

definition int_list :: "vfield list \<Rightarrow> exc + int list" where
  "int_list vs = (if list_all (\<lambda>v. case v of Number n \<Rightarrow> True | _ \<Rightarrow> False) vs
     then Inr (map (\<lambda>v. case v of Number n \<Rightarrow> n | _ \<Rightarrow> 0) vs) else Inl ValueError)"

definition full_name_of :: "string \<Rightarrow> string \<Rightarrow> string option" where
  "full_name_of fname lname = or_none (py_strip (fname @ '' '' @ lname))"

definition user_name_of :: "user_form \<Rightarrow> string" where
  "user_name_of f = take 20 (py_upper (py_strip (rf_user_name f)))"

text \<open>
  The role and warehouse rows written for a user: refused roles roll everything back, a text that
  is not a number, a role or warehouse named twice and an unknown warehouse raise.
\<close>

datatype links = Linked "role list" "int list" | LinksRefused | LinksRaise exc

definition user_links :: "env \<Rightarrow> user_form \<Rightarrow> db \<Rightarrow> links" where
  "user_links e f s =
     (case int_list (rf_roles f) of
        Inl x \<Rightarrow> LinksRaise x
      | Inr rs \<Rightarrow>
      if \<not> validate_role_assignment s (en_user e) rs then LinksRefused
      else case int_list (rf_warehouses f) of
        Inl x \<Rightarrow> LinksRaise x
      | Inr ws \<Rightarrow>
          if \<not> distinct rs \<or> \<not> distinct ws \<or> \<not> set ws \<subseteq> wh_warehouse_id ` set (t_warehouse s)
          then LinksRaise IntegrityError
          else Linked (filter (\<lambda>r. ro_id r \<in> set rs) (t_role s)) ws)"

definition new_user :: "(string \<Rightarrow> string) \<Rightarrow> env \<Rightarrow> user_form \<Rightarrow> string option \<Rightarrow> int option \<Rightarrow> role list \<Rightarrow> int list \<Rightarrow> int \<Rightarrow> user" where
  "new_user gen e f org aid rs ws i =
     \<lparr>us_user_id = i, us_email = py_lower (py_strip (rf_email f)), us_user_name = user_name_of f,
      us_first_name = Some (py_strip (rf_first_name f)), us_last_name = Some (py_strip (rf_last_name f)),
      us_is_active = rf_is_active f, us_agency_id = aid, us_lock_until_at = None, us_roles = rs, us_warehouses = ws,
      us_password_hash = gen (rf_password f),
      us_full_name = full_name_of (py_strip (rf_first_name f)) (py_strip (rf_last_name f)),
      us_organization = org, us_job_title = or_none (py_strip (rf_job_title f)),
      us_phone = or_none (py_strip (rf_phone f)), us_timezone = ''America/Jamaica'', us_language = ''en'',
      us_notification_preferences = None, us_mfa_enabled = False, us_password_changed_at = None,
      us_create_dtime = en_now e\<rparr>"

text \<open>
  The flush of the new row raises when its address is taken (which has been looked up just
  before); the sequence has moved on then, but a request that fails is not part of any history here.
\<close>

definition create_user :: "(string \<Rightarrow> string) \<Rightarrow> env \<Rightarrow> user_form \<Rightarrow> db \<Rightarrow> exc + (string \<times> field_error) reply \<times> db" where
  "create_user gen e f s =
     (let email = py_lower (py_strip (rf_email f)) in
      if \<not> may_administer e then Inl Forbidden403
      else if email = [] \<or> rf_password f = [] \<or> user_name_of f = [] then Inr (Refused, s)
      else if list_ex (\<lambda>u. us_email u = email) (t_user s) then Inr (Refused, s)
      else case parse_organization s (case rf_organization f of None \<Rightarrow> [] | Some v \<Rightarrow> py_strip v) of
        BadOrganisation \<Rightarrow> Inr (Refused, s)
      | OrganisationRaises x \<Rightarrow> Inr (Crashed x, s)
      | Organisation org aid \<Rightarrow>
      case user_links e f s of
        LinksRefused \<Rightarrow> Inr (Refused, s)
      | LinksRaise x \<Rightarrow> Inr (Caught x, s)
      | Linked rs ws \<Rightarrow>
          let i = sq_user (seqs s)
          in Inr (Saved, s\<lparr>t_user := t_user s @ [new_user gen e f org aid rs ws i], seqs := (seqs s)\<lparr>sq_user := i + 1\<rparr>\<rparr>))"

definition get_user :: "db \<Rightarrow> int \<Rightarrow> user option" where
  "get_user s i = find (\<lambda>u. us_user_id u = i) (t_user s)"

definition set_user :: "int \<Rightarrow> (user \<Rightarrow> user) \<Rightarrow> db \<Rightarrow> db" where
  "set_user i g s = s\<lparr>t_user := upd_where (\<lambda>u. us_user_id u = i) g (t_user s)\<rparr>"

definition edited_user :: "(string \<Rightarrow> string) \<Rightarrow> user_form \<Rightarrow> string option \<Rightarrow> int option \<Rightarrow> role list \<Rightarrow> int list \<Rightarrow> user \<Rightarrow> user" where
  "edited_user gen f org aid rs ws u =
     u\<lparr>us_user_name := user_name_of f, us_first_name := Some (py_strip (rf_first_name f)),
       us_last_name := Some (py_strip (rf_last_name f)), us_organization := org, us_agency_id := aid,
       us_job_title := or_none (py_strip (rf_job_title f)), us_phone := or_none (py_strip (rf_phone f)),
       us_is_active := rf_is_active f,
       us_full_name := full_name_of (py_strip (rf_first_name f)) (py_strip (rf_last_name f)),
       us_password_hash := (if py_strip (rf_password f) = [] then us_password_hash u else gen (py_strip (rf_password f))),
       us_roles := rs, us_warehouses := ws\<rparr>"

definition edit_user :: "(string \<Rightarrow> string) \<Rightarrow> env \<Rightarrow> user_form \<Rightarrow> int \<Rightarrow> db \<Rightarrow> exc + (string \<times> field_error) reply \<times> db" where
  "edit_user gen e f i s =
     (if \<not> may_administer e then Inl Forbidden403
      else case get_user s i of
        None \<Rightarrow> Inl NotFound404
      | Some u \<Rightarrow>
      case rf_organization f of
        None \<Rightarrow> Inr (Refused, s)
      | Some v \<Rightarrow>
      if user_name_of f = [] then Inr (Refused, s)
      else case parse_organization s (py_strip v) of
        BadOrganisation \<Rightarrow> Inr (Refused, s)
      | OrganisationRaises x \<Rightarrow> Inr (Crashed x, s)
      | Organisation org aid \<Rightarrow>
      case user_links e f s of
        LinksRefused \<Rightarrow> Inr (Refused, s)
      | LinksRaise x \<Rightarrow> Inr (Caught x, s)
      | Linked rs ws \<Rightarrow> Inr (Saved, set_user i (edited_user gen f org aid rs ws) s))"

definition deactivate_user :: "env \<Rightarrow> int \<Rightarrow> db \<Rightarrow> exc + (string \<times> field_error) reply \<times> db" where
  "deactivate_user e i s =
     (if \<not> may_administer e then Inl Forbidden403
      else if i = us_user_id (en_user e) then Inr (Refused, s)
      else case get_user s i of
        None \<Rightarrow> Inl NotFound404
      | Some u \<Rightarrow> Inr (Saved, set_user i (\<lambda>u. u\<lparr>us_is_active := False\<rparr>) s))"

definition activate_user :: "env \<Rightarrow> int \<Rightarrow> db \<Rightarrow> exc + (string \<times> field_error) reply \<times> db" where
  "activate_user e i s =
     (if \<not> may_administer e then Inl Forbidden403
      else case get_user s i of
        None \<Rightarrow> Inl NotFound404
      | Some u \<Rightarrow> Inr (Saved, set_user i (\<lambda>u. u\<lparr>us_is_active := True\<rparr>) s))"

text \<open>The counts on the overview page (its percentage is left out).\<close>

record user_metrics =
  um_total_users :: nat
  um_active_users :: nat
  um_inactive_users :: nat
  um_locked_users :: nat
  um_mfa_enabled :: nat
  um_admin_users :: nat

definition user_index :: "datetime \<Rightarrow> db \<Rightarrow> user list \<times> user_metrics" where
  "user_index now s =
     (let users = sort_key (\<lambda>u. - us_create_dtime u) (t_user s); n = (\<lambda>p. length (filter p users)) in
      (users, \<lparr>um_total_users = length users, um_active_users = n us_is_active, um_inactive_users = n (\<lambda>u. \<not> us_is_active u),
        um_locked_users = n (is_locked now), um_mfa_enabled = n us_mfa_enabled,
        um_admin_users = n (\<lambda>u. list_ex (\<lambda>r. ro_code r \<in> set ADMIN_ROLES) (us_roles u))\<rparr>))"

section \<open>Login\<close>

datatype login_reply = AlreadyIn | Redirected "string option" | RejectedLogin

text \<open>
  The reply and the user the session belongs to afterwards. The target of the redirect is the
  \<^verbatim>\<open>next\<close> argument as it was sent, or the dashboard; the result of \<^verbatim>\<open>login_user\<close> is not looked at.
\<close>

definition login :: "(string \<Rightarrow> string \<Rightarrow> bool) \<Rightarrow> (user \<Rightarrow> bool) \<Rightarrow> user option \<Rightarrow> string option \<Rightarrow> string option \<Rightarrow> string option \<Rightarrow> db \<Rightarrow>
    login_reply \<times> user option" where
  "login check admit cu email password nxt s =
     (case cu of
        Some u \<Rightarrow> (AlreadyIn, Some u)
      | None \<Rightarrow>
      case find (\<lambda>u. Some (us_email u) = email) (t_user s) of
        None \<Rightarrow> (RejectedLogin, None)
      | Some u \<Rightarrow>
          if truthy_str password \<and> check (us_password_hash u) (the password)
          then (Redirected (if truthy_str nxt then nxt else None), if admit u then Some u else None)
          else (RejectedLogin, None))"

definition logout :: "user option \<Rightarrow> user option" where
  "logout cu = None"

section \<open>The own profile\<close>

definition edit_profile :: "env \<Rightarrow> string \<Rightarrow> string \<Rightarrow> string \<Rightarrow> string \<Rightarrow> string option \<Rightarrow> string option \<Rightarrow> db \<Rightarrow>
    (string \<times> field_error) reply \<times> db" where
  "edit_profile e first_name last_name phone job_title timezone language s =
     (let fname = py_strip first_name; lname = py_strip last_name in
      if fname = [] \<or> lname = [] then (Refused, s)
      else (Saved, set_user (us_user_id (en_user e)) (\<lambda>u. u\<lparr>us_first_name := Some (py_upper fname),
        us_last_name := Some (py_upper lname), us_full_name := Some (py_upper fname @ '' '' @ py_upper lname),
        us_phone := Some (py_strip phone), us_job_title := Some (py_strip job_title),
        us_timezone := (case timezone of None \<Rightarrow> ''America/Jamaica'' | Some t \<Rightarrow> t),
        us_language := (case language of None \<Rightarrow> ''en'' | Some t \<Rightarrow> t)\<rparr>) s))"

text \<open>The date of the change is the clock of the database.\<close>

definition change_password :: "(string \<Rightarrow> string) \<Rightarrow> (string \<Rightarrow> string \<Rightarrow> bool) \<Rightarrow> env \<Rightarrow> datetime \<Rightarrow> string \<Rightarrow> string \<Rightarrow> string \<Rightarrow> db \<Rightarrow>
    (string \<times> field_error) reply \<times> db" where
  "change_password gen check e db_now current_password new_password confirm_password s =
     (if \<not> check (us_password_hash (en_user e)) current_password then (Refused, s)
      else if length new_password < 8 then (Refused, s)
      else if new_password \<noteq> confirm_password then (Refused, s)
      else (Saved, set_user (us_user_id (en_user e))
        (\<lambda>u. u\<lparr>us_password_hash := gen new_password, us_password_changed_at := Some db_now\<rparr>) s))"

definition json_bool :: "bool \<Rightarrow> string" where
  "json_bool b = (if b then ''true'' else ''false'')"

definition preferences_json :: "bool \<Rightarrow> bool \<Rightarrow> bool \<Rightarrow> string" where
  "preferences_json email sms push =
     ''{'' @ [CHR 34] @ ''email'' @ [CHR 34] @ '': '' @ json_bool email @ '', ''
     @ [CHR 34] @ ''sms'' @ [CHR 34] @ '': '' @ json_bool sms @ '', ''
     @ [CHR 34] @ ''push'' @ [CHR 34] @ '': '' @ json_bool push @ ''}''"

definition save_preferences :: "env \<Rightarrow> bool \<Rightarrow> bool \<Rightarrow> bool \<Rightarrow> db \<Rightarrow> (string \<times> field_error) reply \<times> db" where
  "save_preferences e email sms push s =
     (Saved, set_user (us_user_id (en_user e)) (\<lambda>u. u\<lparr>us_notification_preferences := Some (preferences_json email sms push)\<rparr>) s)"

section \<open>Requests for an account\<close>

record account_form =
  qf_agency_name :: string
  qf_contact_name :: string
  qf_contact_phone :: string
  qf_contact_email :: string
  qf_reason_text :: string

definition ACTIVE :: "string list" where
  "ACTIVE = [''S'', ''R'']"

text \<open>Anonymous visitors act as user 1.\<close>

definition create_account_request :: "datetime \<Rightarrow> user option \<Rightarrow> account_form \<Rightarrow> db \<Rightarrow> (string \<times> field_error) reply \<times> db" where
  "create_account_request now cu f s =
     (let agency = py_upper (py_strip (qf_agency_name f)); contact = py_upper (py_strip (qf_contact_name f));
          phone = py_strip (qf_contact_phone f); email = py_lower (py_strip (qf_contact_email f));
          reason = py_upper (py_strip (qf_reason_text f)); actor = (case cu of None \<Rightarrow> 1 | Some u \<Rightarrow> us_user_id u) in
      if agency = [] \<or> contact = [] \<or> phone = [] \<or> email = [] \<or> reason = [] then (Refused, s)
      else if list_ex (\<lambda>q. aq_contact_email q = email \<and> aq_status_code q \<in> set ACTIVE) (t_account_request s) then (Refused, s)
      else if actor \<notin> us_user_id ` set (t_user s) then (Caught IntegrityError, s)
      else let i = sq_account_request (seqs s) in
        (Saved, s\<lparr>t_account_request := t_account_request s @ [\<lparr>aq_request_id = i, aq_agency_name = agency,
             aq_contact_name = contact, aq_contact_phone = phone, aq_contact_email = email, aq_reason_text = reason,
             aq_status_code = ''S'', aq_status_reason = None, aq_created_by_id = actor, aq_updated_by_id = actor,
             aq_created_at = now, aq_version_nbr = 1\<rparr>],
           t_account_audit := t_account_audit s @ [\<lparr>aa_request_id = i, aa_event_type = ''submitted'',
             aa_event_notes = ''Request submitted'', aa_actor_user_id = actor, aa_event_dtime = now\<rparr>],
           seqs := (seqs s)\<lparr>sq_account_request := i + 1\<rparr>\<rparr>))"

definition get_account_request :: "db \<Rightarrow> int \<Rightarrow> account_request option" where
  "get_account_request s i = find (\<lambda>q. aq_request_id q = i) (t_account_request s)"

text \<open>
  A step of the workflow: the status, the reason and the last editor of the request are written and
  the step is logged. \<^verbatim>\<open>get_or_404\<close> raises inside the \<^verbatim>\<open>try\<close>, so the handler catches it.
\<close>

definition move_request :: "datetime \<Rightarrow> user \<Rightarrow> int \<Rightarrow> string \<Rightarrow> string option \<Rightarrow> string \<Rightarrow> string \<Rightarrow> db \<Rightarrow> db" where
  "move_request now u i st reason ev notes s =
     s\<lparr>t_account_request := upd_where (\<lambda>q. aq_request_id q = i)
         (\<lambda>q. q\<lparr>aq_status_code := st, aq_status_reason := (case reason of None \<Rightarrow> aq_status_reason q | Some t \<Rightarrow> Some t),
            aq_updated_by_id := us_user_id u, aq_version_nbr := aq_version_nbr q + 1\<rparr>) (t_account_request s),
       t_account_audit := t_account_audit s @ [\<lparr>aa_request_id = i, aa_event_type = ev, aa_event_notes = notes,
         aa_actor_user_id = us_user_id u, aa_event_dtime = now\<rparr>]\<rparr>"

definition start_review :: "datetime \<Rightarrow> user \<Rightarrow> int \<Rightarrow> db \<Rightarrow> (string \<times> field_error) reply \<times> db" where
  "start_review now u i s =
     (if \<not> is_admin (Some u) then (Refused, s)
      else case get_account_request s i of
        None \<Rightarrow> (Caught NotFound404, s)
      | Some q \<Rightarrow>
          if aq_status_code q \<noteq> ''S'' then (Refused, s)
          else (Saved, move_request now u i ''R'' None ''moved_to_review'' ''Request moved to review'' s))"

definition approve_request :: "datetime \<Rightarrow> user \<Rightarrow> int \<Rightarrow> string \<Rightarrow> db \<Rightarrow> (string \<times> field_error) reply \<times> db" where
  "approve_request now u i notes s =
     (let n = py_upper (py_strip notes) in
      if \<not> is_admin (Some u) then (Refused, s)
      else case get_account_request s i of
        None \<Rightarrow> (Caught NotFound404, s)
      | Some q \<Rightarrow>
          if aq_status_code q \<notin> set ACTIVE then (Refused, s)
          else (Saved, move_request now u i ''A'' (Some n) ''approved'' (if n = [] then ''Request approved'' else n) s))"

definition deny_request :: "datetime \<Rightarrow> user \<Rightarrow> int \<Rightarrow> string \<Rightarrow> db \<Rightarrow> (string \<times> field_error) reply \<times> db" where
  "deny_request now u i reason s =
     (let r = py_upper (py_strip reason) in
      if \<not> is_admin (Some u) then (Refused, s)
      else case get_account_request s i of
        None \<Rightarrow> (Caught NotFound404, s)
      | Some q \<Rightarrow>
          if r = [] then (Refused, s)
          else if aq_status_code q \<notin> set ACTIVE then (Refused, s)
          else (Saved, move_request now u i ''D'' (Some r) ''denied'' r s))"

definition list_account_requests :: "user \<Rightarrow> string \<Rightarrow> db \<Rightarrow> account_request list option" where
  "list_account_requests u status s =
     (if \<not> is_admin (Some u) then None
      else Some (sort_key (\<lambda>q. - aq_created_at q)
        (if status \<noteq> ''all'' then filter (\<lambda>q. aq_status_code q = status) (t_account_request s) else t_account_request s)))"

definition view_account_request :: "user \<Rightarrow> int \<Rightarrow> db \<Rightarrow> exc + (account_request \<times> account_request_audit list) option" where
  "view_account_request u i s =
     (if \<not> is_admin (Some u) then Inr None
      else case get_account_request s i of
        None \<Rightarrow> Inl NotFound404
      | Some q \<Rightarrow> Inr (Some (q, sort_key (\<lambda>a. - aa_event_dtime a)
          (filter (\<lambda>a. aa_request_id a = i) (t_account_audit s)))))"

definition provision_account :: "user \<Rightarrow> int \<Rightarrow> db \<Rightarrow> (string \<times> field_error) reply \<times> db" where
  "provision_account u i s = (Refused, s)"

end
