(* ===== verification/Account_Properties.thy ===== *)
theory Account_Properties
  imports Accounts Master_Properties
begin

text \<open>
  What user administration promises. The operations on accounts form a step relation whose steps
  are taken by users of the database; users who are not administrators can neither create an
  administrator nor change the credentials of one. A changed password opens the account and the
  old one does not; a lock is never looked at. The requests of agencies for an account move along
  their workflow and every step is logged.
\<close>

section \<open>The user table\<close>

definition user_fits :: "db \<Rightarrow> user \<Rightarrow> bool" where
  "user_fits s u \<longleftrightarrow> set (us_roles u) \<subseteq> set (t_role s) \<and> set (us_warehouses u) \<subseteq> wh_warehouse_id ` set (t_warehouse s)
     \<and> set_option (us_agency_id u) \<subseteq> ag_agency_id ` set (t_agency s)"

definition users_ok :: "db \<Rightarrow> bool" where
  "users_ok s \<longleftrightarrow> keys_fresh us_user_id (sq_user (seqs s)) (t_user s) \<and> unique us_email (t_user s)
     \<and> unique ro_id (t_role s) \<and> (\<forall>u \<in> set (t_user s). user_fits s u)"

inductive account_step :: "(user \<Rightarrow> bool) \<Rightarrow> db \<Rightarrow> db \<Rightarrow> bool" for P where
  step_create: "en_user e \<in> set (t_user s) \<Longrightarrow> P (en_user e) \<Longrightarrow> create_user gen e f s = Inr (r, s') \<Longrightarrow> account_step P s s'"
| step_edit: "en_user e \<in> set (t_user s) \<Longrightarrow> P (en_user e) \<Longrightarrow> edit_user gen e f i s = Inr (r, s') \<Longrightarrow> account_step P s s'"
| step_deactivate: "en_user e \<in> set (t_user s) \<Longrightarrow> P (en_user e) \<Longrightarrow> deactivate_user e i s = Inr (r, s') \<Longrightarrow> account_step P s s'"
| step_activate: "en_user e \<in> set (t_user s) \<Longrightarrow> P (en_user e) \<Longrightarrow> activate_user e i s = Inr (r, s') \<Longrightarrow> account_step P s s'"
| step_profile: "en_user e \<in> set (t_user s) \<Longrightarrow> P (en_user e) \<Longrightarrow> edit_profile e fname lname ph jt tz la s = (r, s') \<Longrightarrow> account_step P s s'"
| step_password: "en_user e \<in> set (t_user s) \<Longrightarrow> P (en_user e) \<Longrightarrow> change_password gen check e d p q c s = (r, s') \<Longrightarrow> account_step P s s'"
| step_preferences: "en_user e \<in> set (t_user s) \<Longrightarrow> P (en_user e) \<Longrightarrow> save_preferences e a b c s = (r, s') \<Longrightarrow> account_step P s s'"

lemma user_links_fit:
  assumes "user_links e f s = Linked rs ws"
  shows "set rs \<subseteq> set (t_role s)" and "set ws \<subseteq> wh_warehouse_id ` set (t_warehouse s)"
  using assms by (auto simp: user_links_def split: sum.splits if_splits)

lemma parse_organization_agency:
  assumes "parse_organization s v = Organisation org aid"
  shows "set_option aid \<subseteq> ag_agency_id ` set (t_agency s)"
  using assms by (auto simp: parse_organization_def Let_def find_Some_iff split: if_splits sum.splits option.splits)

text \<open>A user who is not an administrator cannot hand out an administrator's role.\<close>

lemma assignable_not_admin:
  assumes "\<not> is_admin (Some u)" and "r \<in> set (get_assignable_roles s u)"
  shows "ro_code r \<notin> set ADMIN_ROLES"
  using assms by (auto simp: get_assignable_roles_def is_admin_def has_role_iff ADMIN_ROLES_def Let_def split: if_splits)

lemma linked_not_admin:
  assumes links: "user_links e f s = Linked rs ws" and user: "\<not> is_admin (Some (en_user e))"
    and roles: "unique ro_id (t_role s)" and r: "r \<in> set rs"
  shows "ro_code r \<notin> set ADMIN_ROLES"
proof -
  from links obtain ids where valid: "validate_role_assignment s (en_user e) ids"
    and rs: "rs = filter (\<lambda>r. ro_id r \<in> set ids) (t_role s)"
    by (auto simp: user_links_def split: sum.splits if_splits)
  from r rs have id: "ro_id r \<in> set ids" and mem: "r \<in> set (t_role s)" by auto
  with valid obtain x where x: "x \<in> set (get_assignable_roles s (en_user e))" "ro_id x = ro_id r"
    by (auto simp: validate_role_assignment_def)
  then have "x \<in> set (t_role s)" by (auto simp: get_assignable_roles_def Let_def split: if_splits)
  with mem x(2) roles have "x = r" by (auto simp: unique_def distinct_map dest: inj_onD)
  with x(1) assignable_not_admin [OF user] show ?thesis by blast
qed

text \<open>What a request does to the table: nothing, a new row, or a change of one row.\<close>

lemma create_user_cases:
  assumes "create_user gen e f s = Inr (r, s')"
  obtains "s' = s" | org aid rs ws where "user_links e f s = Linked rs ws"
    "set_option aid \<subseteq> ag_agency_id ` set (t_agency s)" "py_lower (py_strip (rf_email f)) \<notin> us_email ` set (t_user s)"
    "s' = s\<lparr>t_user := t_user s @ [new_user gen e f org aid rs ws (sq_user (seqs s))],
       seqs := (seqs s)\<lparr>sq_user := sq_user (seqs s) + 1\<rparr>\<rparr>"
proof (cases "s' = s")
  case False
  with assms obtain org aid rs ws v where "parse_organization s v = Organisation org aid"
    and *: "user_links e f s = Linked rs ws" "\<forall>u \<in> set (t_user s). us_email u \<noteq> py_lower (py_strip (rf_email f))"
    "s' = s\<lparr>t_user := t_user s @ [new_user gen e f org aid rs ws (sq_user (seqs s))],
       seqs := (seqs s)\<lparr>sq_user := sq_user (seqs s) + 1\<rparr>\<rparr>"
    by (auto simp: create_user_def Let_def list_ex_iff split: if_splits org_result.splits links.splits)
  then have "set_option aid \<subseteq> ag_agency_id ` set (t_agency s)" by (blast dest: parse_organization_agency)
  moreover have "py_lower (py_strip (rf_email f)) \<notin> us_email ` set (t_user s)" using *(2) by auto
  ultimately show thesis by (rule that(2) [OF *(1) _ _ *(3)])
qed (use that in blast)

lemma edit_user_cases:
  assumes "edit_user gen e f i s = Inr (r, s')"
  obtains "s' = s" | org aid rs ws where "user_links e f s = Linked rs ws"
    "set_option aid \<subseteq> ag_agency_id ` set (t_agency s)" "s' = set_user i (edited_user gen f org aid rs ws) s"
proof (cases "s' = s")
  case False
  with assms obtain org aid rs ws v where "parse_organization s v = Organisation org aid"
    and *: "user_links e f s = Linked rs ws" "s' = set_user i (edited_user gen f org aid rs ws) s"
    by (auto simp: edit_user_def split: if_splits option.splits org_result.splits links.splits)
  then have "set_option aid \<subseteq> ag_agency_id ` set (t_agency s)" by (blast dest: parse_organization_agency)
  with * show thesis using that(2) by blast
qed (use that in blast)

lemma set_user_ok:
  assumes "users_ok s" and "\<And>u. us_user_id (g u) = us_user_id u" and "\<And>u. us_email (g u) = us_email u"
    and "\<And>u. user_fits s u \<Longrightarrow> user_fits s (g u)"
  shows "users_ok (set_user i g s)"
proof -
  have "user_fits (set_user i g s) = user_fits s" by (simp add: fun_eq_iff user_fits_def set_user_def)
  then show ?thesis using assms
    by (auto simp: users_ok_def set_user_def set_upd_where intro: fresh_upd unique_upd_same)
qed

lemma create_user_ok:
  assumes "users_ok s" and "create_user gen e f s = Inr (r, s')"
  shows "users_ok s'"
  using assms(2)
proof (cases rule: create_user_cases)
  case (2 org aid rs ws)
  let ?u = "new_user gen e f org aid rs ws (sq_user (seqs s))"
  have "user_fits s' = user_fits s" unfolding 2(4) by (simp add: fun_eq_iff user_fits_def)
  moreover have "user_fits s ?u" using user_links_fit [OF 2(1)] 2(2) by (auto simp: user_fits_def new_user_def)
  ultimately show ?thesis using assms(1) 2(3)
    unfolding users_ok_def 2(4) by (auto simp: new_user_def intro!: fresh_snoc unique_snoc)
qed (use assms in simp)

lemma edit_user_ok:
  assumes "users_ok s" and "edit_user gen e f i s = Inr (r, s')"
  shows "users_ok s'"
  using assms(2)
proof (cases rule: edit_user_cases)
  case (2 org aid rs ws)
  show ?thesis unfolding 2(3) using user_links_fit [OF 2(1)] 2(2)
    by (intro set_user_ok assms(1)) (auto simp: user_fits_def edited_user_def)
qed (use assms in simp)

lemma switch_user_ok:
  "users_ok s \<Longrightarrow> deactivate_user e i s = Inr (r, s') \<Longrightarrow> users_ok s'"
  "users_ok s \<Longrightarrow> activate_user e i s = Inr (r, s') \<Longrightarrow> users_ok s'"
  by (auto simp: deactivate_user_def activate_user_def user_fits_def split: if_splits option.splits intro!: set_user_ok)

lemma own_account_ok:
  "users_ok s \<Longrightarrow> edit_profile e fname lname ph jt tz la s = (r, s') \<Longrightarrow> users_ok s'"
  "users_ok s \<Longrightarrow> change_password gen check e d p q c s = (r, s') \<Longrightarrow> users_ok s'"
  "users_ok s \<Longrightarrow> save_preferences e x y z s = (r, s') \<Longrightarrow> users_ok s'"
  by (auto simp: edit_profile_def change_password_def save_preferences_def Let_def user_fits_def
      split: if_splits intro!: set_user_ok)

lemma account_step_ok: "account_step P s s' \<Longrightarrow> users_ok s \<Longrightarrow> users_ok s'"
  by (induction rule: account_step.induct)
    (auto intro: create_user_ok edit_user_ok switch_user_ok own_account_ok)

section \<open>No escalation\<close>

text \<open>The administrators of a state are administrators of an earlier one, except for being active.\<close>

definition admins_kept :: "db \<Rightarrow> db \<Rightarrow> bool" where
  "admins_kept s0 s \<longleftrightarrow> (\<forall>u \<in> set (t_user s). is_admin (Some u) \<longrightarrow>
     (\<exists>v \<in> set (t_user s0). u = v\<lparr>us_is_active := us_is_active u\<rparr>))"

lemma admins_kept_refl: "admins_kept s s"
  unfolding admins_kept_def by (intro ballI impI bexI) simp_all

lemma is_admin_iff: "is_admin (Some u) \<longleftrightarrow> (\<exists>r \<in> set (us_roles u). ro_code r \<in> set ADMIN_ROLES)"
  by (auto simp: is_admin_def has_role_iff ADMIN_ROLES_def)

lemma set_user_kept:
  assumes "admins_kept s0 s"
    and "\<And>u. u \<in> set (t_user s) \<Longrightarrow> us_user_id u = i \<Longrightarrow> is_admin (Some (g u)) \<Longrightarrow>
           is_admin (Some u) \<and> g u = u\<lparr>us_is_active := us_is_active (g u)\<rparr>"
  shows "admins_kept s0 (set_user i g s)"
  unfolding admins_kept_def
proof (intro ballI impI)
  fix u assume "u \<in> set (t_user (set_user i g s))" and admin: "is_admin (Some u)"
  then consider w where "w \<in> set (t_user s)" "us_user_id w = i" "u = g w" | "u \<in> set (t_user s)"
    by (auto simp: set_user_def set_upd_where split: if_splits)
  then show "\<exists>v \<in> set (t_user s0). u = v\<lparr>us_is_active := us_is_active u\<rparr>"
  proof cases
    case 1
    with assms(2) admin have w: "is_admin (Some w)" "u = w\<lparr>us_is_active := us_is_active u\<rparr>" by auto
    with assms(1) 1(1) obtain v where v: "v \<in> set (t_user s0)" "w = v\<lparr>us_is_active := us_is_active w\<rparr>"
      by (auto simp: admins_kept_def)
    have "u = v\<lparr>us_is_active := us_is_active u\<rparr>" by (subst w(2), subst v(2)) simp
    with v(1) show ?thesis by blast
  next
    case 2
    then show ?thesis using assms(1) admin by (auto simp: admins_kept_def)
  qed
qed

text \<open>The own row of a user who is not an administrator.\<close>

lemma own_row_kept:
  assumes "admins_kept s0 s" and "users_ok s" and "en_user e \<in> set (t_user s)" and "\<not> is_admin (Some (en_user e))"
    and "\<And>u. us_roles (g u) = us_roles u"
  shows "admins_kept s0 (set_user (us_user_id (en_user e)) g s)"
proof (rule set_user_kept [OF assms(1)])
  fix u assume "u \<in> set (t_user s)" "us_user_id u = us_user_id (en_user e)" "is_admin (Some (g u))"
  moreover from this assms(2,3) have "u = en_user e"
    by (auto simp: users_ok_def keys_fresh_def unique_def distinct_map dest: inj_onD)
  ultimately show "is_admin (Some u) \<and> g u = u\<lparr>us_is_active := us_is_active (g u)\<rparr>"
    using assms(4,5) by (simp add: is_admin_iff)
qed

lemma step_keeps_admins:
  assumes "account_step (\<lambda>u. \<not> is_admin (Some u)) s t" and "users_ok s" and "admins_kept s0 s"
  shows "admins_kept s0 t"
  using assms(1)
proof cases
  case (step_create e gen f r)
  from step_create(3) show ?thesis
  proof (cases rule: create_user_cases)
    case (2 org aid rs ws)
    have "\<not> is_admin (Some (new_user gen e f org aid rs ws (sq_user (seqs s))))"
      using linked_not_admin [OF 2(1) step_create(2)] assms(2) by (auto simp: is_admin_iff new_user_def users_ok_def)
    then show ?thesis using assms(3) unfolding 2(4) by (auto simp: admins_kept_def)
  qed (use assms in simp)
next
  case (step_edit e gen f i r)
  from step_edit(3) show ?thesis
  proof (cases rule: edit_user_cases)
    case (2 org aid rs ws)
    have "\<not> is_admin (Some (edited_user gen f org aid rs ws u))" for u
      using linked_not_admin [OF 2(1) step_edit(2)] assms(2) by (auto simp: is_admin_iff edited_user_def users_ok_def)
    then show ?thesis unfolding 2(3) using set_user_kept [OF assms(3)] by blast
  qed (use assms in simp)
next
  case (step_deactivate e i r)
  then show ?thesis using assms(3)
    by (auto simp: deactivate_user_def is_admin_iff split: if_splits option.splits intro!: set_user_kept)
next
  case (step_activate e i r)
  then show ?thesis using assms(3)
    by (auto simp: activate_user_def is_admin_iff split: if_splits option.splits intro!: set_user_kept)
next
  case (step_profile e fname lname ph jt tz la r)
  then show ?thesis using assms(2,3)
    by (auto simp: edit_profile_def Let_def split: if_splits intro!: own_row_kept)
next
  case (step_password e gen check d p q c r)
  then show ?thesis using assms(2,3)
    by (auto simp: change_password_def split: if_splits intro!: own_row_kept)
next
  case (step_preferences e a b c r)
  then show ?thesis using assms(2,3)
    by (auto simp: save_preferences_def intro!: own_row_kept)
qed

interpretation account_flow: invariant_system "\<lambda>s. users_ok s \<and> s = s0" "account_step (\<lambda>u. \<not> is_admin (Some u))"
  "\<lambda>s. users_ok s \<and> admins_kept s0 s" for s0
proof
  show "users_ok s \<and> s = s0 \<Longrightarrow> users_ok s \<and> admins_kept s0 s" for s using admins_kept_refl by blast
  show "users_ok s \<and> admins_kept s0 s \<Longrightarrow> account_step (\<lambda>u. \<not> is_admin (Some u)) s t \<Longrightarrow> users_ok t \<and> admins_kept s0 t" for s t
    using account_step_ok step_keeps_admins by blast
qed

section \<open>Passwords\<close>

text \<open>A changed row is found under its address.\<close>

lemma find_email_upd:
  assumes "users_ok s" and "u \<in> set (t_user s)" and "\<And>u. us_email (g u) = us_email u"
  shows "find (\<lambda>v. Some (us_email v) = Some (us_email u)) (t_user (set_user (us_user_id u) g s)) = Some (g u)"
proof -
  have mem: "g u \<in> set (t_user (set_user (us_user_id u) g s))"
    using assms(2) by (auto simp: set_user_def set_upd_where intro!: image_eqI)
  have d: "distinct (map us_email (t_user (set_user (us_user_id u) g s)))"
    using assms(1,3) by (simp add: users_ok_def unique_def set_user_def map_upd_where_same)
  obtain w where w: "find (\<lambda>v. Some (us_email v) = Some (us_email u)) (t_user (set_user (us_user_id u) g s)) = Some w"
    using mem assms(3) by (metis (mono_tags, lifting) find_None_iff not_Some_eq)
  then have "w \<in> set (t_user (set_user (us_user_id u) g s))" "us_email w = us_email (g u)"
    using assms(3) by (auto simp: find_Some_iff)
  with mem d have "w = g u" by (auto simp: distinct_map dest: inj_onD)
  with w show ?thesis by simp
qed

lemma login_iff:
  assumes "users_ok s" and "u \<in> set (t_user s)"
  shows "snd (login check us_is_active None (Some (us_email u)) (Some pw) nxt s) = Some v
    \<longleftrightarrow> v = u \<and> pw \<noteq> [] \<and> check (us_password_hash u) pw \<and> us_is_active u"
proof -
  have "find (\<lambda>v. us_email v = us_email u) (t_user s) = Some u"
    using find_email_upd [OF assms, of "\<lambda>u. u"] by (simp add: set_user_def upd_where_def)
  then show ?thesis by (auto simp: login_def)
qed

section \<open>The workflow of account requests\<close>

inductive account_request_step :: "db \<Rightarrow> db \<Rightarrow> bool" where
  step_submit: "create_account_request now cu f s = (r, s') \<Longrightarrow> account_request_step s s'"
| step_review: "start_review now u i s = (r, s') \<Longrightarrow> account_request_step s s'"
| step_approve: "approve_request now u i n s = (r, s') \<Longrightarrow> account_request_step s s'"
| step_deny: "deny_request now u i n s = (r, s') \<Longrightarrow> account_request_step s s'"

definition trail :: "db \<Rightarrow> int \<Rightarrow> string list" where
  "trail s i = map aa_event_type (filter (\<lambda>a. aa_request_id a = i) (t_account_audit s))"

definition trail_fits :: "string \<Rightarrow> string list \<Rightarrow> bool" where
  "trail_fits st tr \<longleftrightarrow>
     st = ''S'' \<and> tr = [''submitted'']
     \<or> st = ''R'' \<and> tr = [''submitted'', ''moved_to_review'']
     \<or> st = ''A'' \<and> tr \<in> set [[''submitted'', ''approved''], [''submitted'', ''moved_to_review'', ''approved'']]
     \<or> st = ''D'' \<and> tr \<in> set [[''submitted'', ''denied''], [''submitted'', ''moved_to_review'', ''denied'']]"

definition active_emails :: "db \<Rightarrow> string list" where
  "active_emails s = map aq_contact_email (filter (\<lambda>q. aq_status_code q \<in> set ACTIVE) (t_account_request s))"

definition account_requests_ok :: "db \<Rightarrow> bool" where
  "account_requests_ok s \<longleftrightarrow> keys_fresh aq_request_id (sq_account_request (seqs s)) (t_account_request s)
     \<and> (\<forall>q \<in> set (t_account_request s). trail_fits (aq_status_code q) (trail s (aq_request_id q)))
     \<and> (\<forall>a \<in> set (t_account_audit s). aa_request_id a < sq_account_request (seqs s))
     \<and> distinct (active_emails s)"

lemma distinct_filter_upd:
  assumes "distinct (map e (filter P rows))" and "\<And>r. r \<in> set rows \<Longrightarrow> key r = i \<Longrightarrow> P r" and "\<And>r. e (h r) = e r"
  shows "distinct (map e (filter P (upd_where (\<lambda>r. key r = i) h rows)))
    \<and> e ` set (filter P (upd_where (\<lambda>r. key r = i) h rows)) \<subseteq> e ` set (filter P rows)"
  using assms(1,2)
proof (induction rows)
  case (Cons r rows)
  then have IH: "distinct (map e (filter P (upd_where (\<lambda>r. key r = i) h rows)))"
    "e ` set (filter P (upd_where (\<lambda>r. key r = i) h rows)) \<subseteq> e ` set (filter P rows)"
    by (auto split: if_splits)
  show ?case
  proof (cases "key r = i")
    case True
    then have "P r" using Cons.prems(2) by simp
    then have "e r \<notin> e ` set (filter P rows)" using Cons.prems(1) by simp
    then show ?thesis using IH True \<open>P r\<close> assms(3) by auto
  next
    case False
    then show ?thesis using IH Cons.prems(1) by (auto split: if_splits)
  qed
qed simp

lemma move_request_ok:
  assumes ok: "account_requests_ok s" and q: "get_account_request s i = Some q" "aq_status_code q \<in> set ACTIVE"
    and fits: "trail_fits st (trail s i @ [ev])"
  shows "account_requests_ok (move_request now u i st reason ev notes s)"
proof -
  let ?s = "move_request now u i st reason ev notes s"
  have k: "keys_fresh aq_request_id (sq_account_request (seqs s)) (t_account_request s)"
    and tr: "\<forall>q \<in> set (t_account_request s). trail_fits (aq_status_code q) (trail s (aq_request_id q))"
    and below: "\<forall>a \<in> set (t_account_audit s). aa_request_id a < sq_account_request (seqs s)"
    and d: "distinct (active_emails s)"
    using ok by (auto simp: account_requests_ok_def)
  have mem: "q \<in> set (t_account_request s)" "aq_request_id q = i" using q(1) by (auto simp: get_account_request_def find_Some_iff)
  have only: "r = q" if "r \<in> set (t_account_request s)" "aq_request_id r = i" for r
    using that mem k by (auto simp: keys_fresh_def unique_def distinct_map dest: inj_onD)
  have trail: "trail ?s j = (if j = i then trail s j @ [ev] else trail s j)" for j
    by (simp add: trail_def move_request_def)
  have "distinct (active_emails ?s)"
    using d only q(2) unfolding active_emails_def move_request_def
    by (auto intro: distinct_filter_upd [THEN conjunct1])
  moreover have "trail_fits (aq_status_code r) (trail ?s (aq_request_id r))" if "r \<in> set (t_account_request ?s)" for r
    using that tr fits trail by (auto simp: move_request_def set_upd_where)
  ultimately show ?thesis unfolding account_requests_ok_def using k mem below
    by (auto simp: move_request_def intro: fresh_upd) (auto simp: keys_fresh_def)
qed

lemma active_status: "st \<in> set ACTIVE \<longleftrightarrow> st = ''S'' \<or> st = ''R''"
  by (simp add: ACTIVE_def)

lemma workflow_step_ok:
  assumes ok: "account_requests_ok s"
  shows "start_review now u i s = (r, s') \<Longrightarrow> account_requests_ok s'"
    and "approve_request now u i n s = (r, s') \<Longrightarrow> account_requests_ok s'"
    and "deny_request now u i n s = (r, s') \<Longrightarrow> account_requests_ok s'"
proof -
  have fits: "trail_fits (aq_status_code q) (trail s i)" if "get_account_request s i = Some q" for q
    using that ok by (auto simp: account_requests_ok_def get_account_request_def find_Some_iff)
  show "start_review now u i s = (r, s') \<Longrightarrow> account_requests_ok s'"
    using ok fits by (auto simp: start_review_def active_status split: if_splits option.splits intro!: move_request_ok)
      (simp add: trail_fits_def)
  show "approve_request now u i n s = (r, s') \<Longrightarrow> account_requests_ok s'"
    using ok fits by (auto simp: approve_request_def active_status Let_def split: if_splits option.splits intro!: move_request_ok)
      (simp_all add: trail_fits_def)
  show "deny_request now u i n s = (r, s') \<Longrightarrow> account_requests_ok s'"
    using ok fits by (auto simp: deny_request_def active_status Let_def split: if_splits option.splits intro!: move_request_ok)
      (simp_all add: trail_fits_def)
qed

lemma submit_ok:
  assumes ok: "account_requests_ok s" and run: "create_account_request now cu f s = (r, s')"
  shows "account_requests_ok s'"
proof (cases "s' = s")
  case False
  let ?i = "sq_account_request (seqs s)"
  from False run obtain q a where s': "s' = s\<lparr>t_account_request := t_account_request s @ [q],
      t_account_audit := t_account_audit s @ [a], seqs := (seqs s)\<lparr>sq_account_request := ?i + 1\<rparr>\<rparr>"
    and q: "aq_request_id q = ?i" "aq_status_code q = ''S''" and a: "aa_request_id a = ?i" "aa_event_type a = ''submitted''"
    and free: "\<forall>p \<in> set (t_account_request s). aq_contact_email p = aq_contact_email q \<longrightarrow> aq_status_code p \<notin> set ACTIVE"
    by (auto simp: create_account_request_def Let_def list_ex_iff split: if_splits)
  have none: "filter (\<lambda>a. aa_request_id a = ?i) (t_account_audit s) = []"
    using ok by (auto simp: account_requests_ok_def filter_empty_conv)
  have trail: "trail s' j = (if j = ?i then [''submitted''] else trail s j)" for j
    using none a by (simp add: trail_def s')
  have "distinct (active_emails s')"
    using ok q(2) free by (auto simp: account_requests_ok_def active_emails_def s')
  then show ?thesis using ok q a(1) trail unfolding account_requests_ok_def
    by (auto simp: s' trail_fits_def intro: fresh_snoc) (auto simp: keys_fresh_def)
qed (use ok in simp)

lemma account_request_step_ok: "account_request_step s t \<Longrightarrow> account_requests_ok s \<Longrightarrow> account_requests_ok t"
  by (induction rule: account_request_step.induct) (auto intro: submit_ok workflow_step_ok)

definition no_account_requests :: "db \<Rightarrow> bool" where
  "no_account_requests s \<longleftrightarrow> t_account_request s = [] \<and> t_account_audit s = []"

interpretation account_request_flow: invariant_system no_account_requests account_request_step account_requests_ok
proof
  show "no_account_requests s \<Longrightarrow> account_requests_ok s" for s
    by (simp add: no_account_requests_def account_requests_ok_def keys_fresh_def unique_def active_emails_def)
qed (rule account_request_step_ok)

section \<open>A small office\<close>

text \<open>An administrator, a custodian who runs the user pages, and their requests.\<close>

definition ex_admin :: user where
  "ex_admin = ex_user 1 ''ad'' [ex_role 1 ''SYSTEM_ADMINISTRATOR'']"

definition ex_clerk :: user where
  "ex_clerk = (ex_user 2 ''cu'' [ex_role 3 ''CUSTODIAN''])\<lparr>us_password_hash := ''relief25''\<rparr>"

definition ex_office :: db where
  "ex_office = empty_db\<lparr>t_role := [ex_role 1 ''SYSTEM_ADMINISTRATOR'', ex_role 3 ''CUSTODIAN''],
     t_user := [ex_admin, ex_clerk], seqs := (seqs empty_db)\<lparr>sq_user := 3\<rparr>\<rparr>"

definition ex_desk :: env where
  "ex_desk = \<lparr>en_today = 739000, en_now = 5, en_user = ex_clerk, en_status_cache = None, en_str_decimal = (\<lambda>q. ''0'')\<rparr>"

definition ex_new_user :: user_form where
  "ex_new_user = \<lparr>rf_email = ''New@odpem.gov'', rf_user_name = ''new'', rf_password = ''storm123'', rf_first_name = ''N'', rf_last_name = ''E'',
     rf_organization = None, rf_job_title = [], rf_phone = [], rf_is_active = True, rf_roles = [Number 3], rf_warehouses = []\<rparr>"

definition ex_applicant :: account_form where
  "ex_applicant = \<lparr>qf_agency_name = ''Shelter'', qf_contact_name = ''ann'', qf_contact_phone = ''555'', qf_contact_email = ''Ann@shelter.org'',
     qf_reason_text = ''relief''\<rparr>"

lemma ex_office_ok: "users_ok ex_office"
  by (simp add: users_ok_def ex_office_def ex_admin_def ex_clerk_def ex_simps keys_fresh_def unique_def user_fits_def)

lemma ex_clerk_in_office: "en_user ex_desk \<in> set (t_user ex_office)"
  by (simp add: ex_desk_def ex_office_def)

section \<open>The properties\<close>

text \<open>
  C21: However many requests users who are not administrators make to the user and profile pages,
  every administrator of the resulting table was one before, and nothing but the activity flag of
  their row has changed: no new administrator, no new password and no new name for one.
\<close>

theorem no_escalation:
  assumes "users_ok s" and "(account_step (\<lambda>u. \<not> is_admin (Some u)))\<^sup>*\<^sup>* s t"
    and "u \<in> set (t_user t)" and "is_admin (Some u)"
  shows "\<exists>v \<in> set (t_user s). is_admin (Some v) \<and> u = v\<lparr>us_is_active := us_is_active u\<rparr>"
proof -
  have "users_ok s \<and> admins_kept s s" using assms(1) admins_kept_refl by blast
  with assms(2) have "admins_kept s t" by (blast dest: account_flow.steps_inv)
  with assms(3,4) obtain v where v: "v \<in> set (t_user s)" "u = v\<lparr>us_is_active := us_is_active u\<rparr>"
    by (auto simp: admins_kept_def)
  have "us_roles u = us_roles v" by (subst v(2)) simp
  with assms(4) have "is_admin (Some v)" by (simp add: is_admin_iff)
  with v show ?thesis by blast
qed

theorem no_escalation_witness:
  "\<exists>v \<in> set (t_user ex_office). is_admin (Some v) \<and> ex_admin\<lparr>us_is_active := False\<rparr> = v\<lparr>us_is_active := False\<rparr>"
proof -
  let ?P = "\<lambda>u. \<not> is_admin (Some u)"
  let ?s = "snd (projr (create_user id ex_desk ex_new_user ex_office))"
  let ?t = "snd (projr (deactivate_user ex_desk 1 ?s))"
  have clerk: "\<not> is_admin (Some (en_user ex_desk))" by code_simp
  have "account_step ?P ex_office ?s"
    by (rule step_create [where P = ?P and e = ex_desk and gen = id and f = ex_new_user, OF ex_clerk_in_office clerk])
      (rule run_result, code_simp+)
  moreover have "account_step ?P ?s ?t"
    by (rule step_deactivate [where P = ?P and e = ex_desk and i = 1, OF _ clerk]) (code_simp, rule run_result, code_simp+)
  ultimately have "(account_step ?P)\<^sup>*\<^sup>* ex_office ?t" by (rule converse_rtranclp_into_rtranclp [OF _ r_into_rtranclp])
  moreover have "ex_admin\<lparr>us_is_active := False\<rparr> \<in> set (t_user ?t)" by code_simp
  moreover have "is_admin (Some (ex_admin\<lparr>us_is_active := False\<rparr>))" by code_simp
  ultimately show ?thesis using no_escalation [OF ex_office_ok, of ?t "ex_admin\<lparr>us_is_active := False\<rparr>"] by simp
qed

text \<open>
  C26: After a user has changed their password, logging in with their address succeeds with the new
  password and with no other one, and the new one has at least eight characters, provided that \<^verbatim>\<open>check_password_hash\<close> accepts a hash of
  \<^verbatim>\<open>generate_password_hash\<close> for the hashed password only.
\<close>

theorem changed_password_opens:
  assumes "users_ok s" and "en_user e \<in> set (t_user s)"
    and hash: "\<And>x y. check (gen x) y \<longleftrightarrow> x = y"
    and change: "change_password gen check e d p q c s = (Saved, s')"
  shows "(fst (login check admit None (Some (us_email (en_user e))) (Some x) nxt s') \<noteq> RejectedLogin \<longleftrightarrow> x = q) \<and> 8 \<le> length q"
proof -
  from change have len: "8 \<le> length q" and s': "s' = set_user (us_user_id (en_user e))
      (\<lambda>u. u\<lparr>us_password_hash := gen q, us_password_changed_at := Some d\<rparr>) s"
    by (auto simp: change_password_def split: if_splits)
  show ?thesis using len unfolding login_def s' by (subst find_email_upd [OF assms(1,2)]) (auto simp: hash)
qed

theorem changed_password_opens_witness:
  "fst (login (=) us_is_active None (Some ''cu@odpem.gov'') (Some ''relief25'') None
     (snd (change_password id (=) ex_desk 9 ''relief25'' ''melissa25'' ''melissa25'' ex_office))) = RejectedLogin"
proof -
  let ?c = "change_password id (=) ex_desk 9 ''relief25'' ''melissa25'' ''melissa25'' ex_office"
  have "?c = (Saved, snd ?c)" by (rule prod_eqI) code_simp+
  from changed_password_opens [OF ex_office_ok ex_clerk_in_office _ this, of us_is_active "''relief25''" None]
  show ?thesis by (simp add: ex_desk_def ex_clerk_def ex_user_def)
qed

text \<open>
  C25: The status of a request for an account and its audit trail agree: it was submitted, possibly
  taken into review, and then approved or denied at most once, each step logged exactly once and in
  this order; and no address has two open requests.
\<close>

theorem account_requests_traced:
  assumes "reach no_account_requests account_request_step s"
  shows "(\<forall>q. q \<in> set (t_account_request s) \<longrightarrow> trail_fits (aq_status_code q) (trail s (aq_request_id q)))
    \<and> distinct (active_emails s)"
  using account_request_flow.reach_inv [OF assms] by (simp add: account_requests_ok_def)

theorem account_requests_traced_witness:
  "distinct (active_emails (snd (create_account_request 9 None ex_applicant
     (snd (deny_request 8 ex_admin 1 ''no'' (snd (create_account_request 7 None ex_applicant ex_office)))))))
   \<and> map aq_status_code (t_account_request (snd (deny_request 8 ex_admin 1 ''no'' (snd (create_account_request 7 None ex_applicant ex_office))))) = [''D'']"
proof
  let ?s = "snd (create_account_request 7 None ex_applicant ex_office)"
  let ?t = "snd (deny_request 8 ex_admin 1 ''no'' ?s)"
  have "reach no_account_requests account_request_step ex_office"
    by (rule reach.intros) (simp add: no_account_requests_def ex_office_def empty_db_def)
  then have "reach no_account_requests account_request_step ?s"
    by (rule reach.intros) (rule step_submit, rule surjective_pairing)
  then have "reach no_account_requests account_request_step ?t"
    by (rule reach.intros) (rule step_deny, rule surjective_pairing)
  then have "reach no_account_requests account_request_step (snd (create_account_request 9 None ex_applicant ?t))"
    by (rule reach.intros) (rule step_submit, rule surjective_pairing)
  from account_requests_traced [OF this] show "distinct (active_emails (snd (create_account_request 9 None ex_applicant ?t)))" ..
  show "map aq_status_code (t_account_request ?t) = [''D'']" by code_simp
qed

end
