(* ===== verification/Request_Pages.thy ===== *)
theory Request_Pages
  imports Relief_Request Rbac Forms
begin

text \<open>
  The pages around the request service: \<^verbatim>\<open>app/features/requests_aidmgmt.py\<close> (agencies draft, edit,
  cancel and submit requests), \<^verbatim>\<open>eligibility.py\<close> (directors decide) and \<^verbatim>\<open>odpem_director.py\<close> (their
  dashboard). A page answers 404 or 403 (\<open>Inl\<close>) or ends in a \<open>reply\<close>; only a \<open>Saved\<close> page has
  changed the database. What the schema checks at the commit is written out where a page posts it
  unchecked. Numbers of a page that are only displayed as floats are left out.
\<close>

section \<open>Fields and constraints\<close>

text \<open>\<^verbatim>\<open>version_nbr\<close> of a form: the current version when it is missing or empty.\<close>

definition posted_version :: "vfield \<Rightarrow> int \<Rightarrow> exc + int" where
  "posted_version v current =
     (if \<not> given v then Inr current else case v of Number n \<Rightarrow> Inr n | _ \<Rightarrow> Inl ValueError)"

definition posted_event :: "vfield \<Rightarrow> exc + int option" where
  "posted_event v = (if \<not> given v then Inr None else case v of Number n \<Rightarrow> Inr (Some n) | _ \<Rightarrow> Inl ValueError)"

text \<open>\<^verbatim>\<open>c_reliefrqst_2\<close> and the reference to an event.\<close>

definition rqst_accepted :: "db \<Rightarrow> reliefrqst \<Rightarrow> bool" where
  "rqst_accepted s r \<longleftrightarrow> rq_urgency_ind r \<in> set [''L'', ''M'', ''H'', ''C'']
     \<and> set_option (rq_eligible_event_id r) \<subseteq> ev_event_id ` set (t_event s)"

text \<open>\<^verbatim>\<open>c_reliefrqst_item_1\<close>, \<open>2a\<close>, \<open>3\<close>, \<open>4\<close> and \<open>5\<close>.\<close>

definition rqst_item_accepted :: "reliefrqst_item \<Rightarrow> bool" where
  "rqst_item_accepted i \<longleftrightarrow> 0 < ri_request_qty i
     \<and> (ri_status_code i \<in> set [''R'', ''U'', ''W'', ''D''] \<and> ri_issue_qty i = 0
        \<or> ri_status_code i \<in> set [''P'', ''L''] \<and> ri_issue_qty i < ri_request_qty i
        \<or> ri_status_code i = ''F'' \<and> ri_issue_qty i = ri_request_qty i)
     \<and> ri_urgency_ind i \<in> set [''L'', ''M'', ''H'', ''C'']
     \<and> (ri_urgency_ind i = ''H'' \<longrightarrow> \<not> blank (ri_rqst_reason_desc i))
     \<and> (ri_required_by_date i = None \<longrightarrow> ri_urgency_ind i \<in> set [''L'', ''M''])"

section \<open>The list of requests\<close>

definition visible_requests :: "user \<Rightarrow> db \<Rightarrow> exc + reliefrqst list" where
  "visible_requests u s =
     (if is_logistics_manager (Some u) \<or> is_logistics_officer (Some u) \<or> is_director_level (Some u) then Inr (t_reliefrqst s)
      else if truthy_int (us_agency_id u) then Inr (filter (\<lambda>r. us_agency_id u = Some (rq_agency_id r)) (t_reliefrqst s))
      else Inl Forbidden403)"

definition with_status :: "int list \<Rightarrow> reliefrqst list \<Rightarrow> reliefrqst list" where
  "with_status sts rs = filter (\<lambda>r. rq_status_code r \<in> set sts) rs"

record request_counts =
  ct_submitted :: nat
  ct_draft :: nat
  ct_awaiting :: nat
  ct_completed :: nat
  ct_processing :: nat
  ct_dispatched :: nat
  ct_all :: nat

definition request_counts_of :: "reliefrqst list \<Rightarrow> request_counts" where
  "request_counts_of base =
     \<lparr>ct_submitted = length (with_status [STATUS_SUBMITTED, STATUS_PART_FILLED] base),
      ct_draft = length (with_status [STATUS_DRAFT] base),
      ct_awaiting = length (with_status [STATUS_AWAITING_APPROVAL] base),
      ct_completed = length (with_status [STATUS_FILLED] base),
      ct_processing = length (with_status [STATUS_AWAITING_APPROVAL, STATUS_PART_FILLED] base),
      ct_dispatched = length (with_status [STATUS_CLOSED] base),
      ct_all = length base\<rparr>"

definition tab_requests :: "string \<Rightarrow> reliefrqst list \<Rightarrow> reliefrqst list" where
  "tab_requests tab base =
     (if tab = ''draft'' then with_status [STATUS_DRAFT] base
      else if tab = ''awaiting'' then with_status [STATUS_AWAITING_APPROVAL] base
      else if tab = ''processing'' then with_status [STATUS_AWAITING_APPROVAL, STATUS_PART_FILLED] base
      else if tab = ''dispatched'' then with_status [STATUS_CLOSED] base
      else if tab = ''completed'' then with_status [STATUS_FILLED] base
      else if tab = ''all'' then base
      else with_status [STATUS_SUBMITTED, STATUS_PART_FILLED] base)"

definition list_requests :: "user \<Rightarrow> string option \<Rightarrow> string option \<Rightarrow> db \<Rightarrow> exc + reliefrqst list \<times> request_counts" where
  "list_requests u filter_arg status_arg s =
     (let tab = (if truthy_str filter_arg then the filter_arg else case status_arg of None \<Rightarrow> ''submitted'' | Some t \<Rightarrow> t) in
      case visible_requests u s of
        Inl x \<Rightarrow> Inl x
      | Inr base \<Rightarrow> Inr (sort_key (\<lambda>r. - rq_request_date r) (tab_requests tab base), request_counts_of base))"

section \<open>One request\<close>

datatype timeline = RequestCreated datetime | SubmittedToODPEM date | Approved "datetime option"

record request_view =
  rv_request :: reliefrqst
  rv_total_requested :: qty
  rv_fulfilled_count :: qty
  rv_shortfall_count :: qty
  rv_timeline :: "timeline list"
  rv_is_read_only :: bool

definition view_request :: "user \<Rightarrow> int \<Rightarrow> db \<Rightarrow> exc + request_view" where
  "view_request u rid s =
     (case get_rqst s rid of
        None \<Rightarrow> Inl NotFound404
      | Some r \<Rightarrow>
      if \<not> can_access_relief_request (Some u) r then Inl Forbidden403
      else let total = sum_list (map ri_request_qty (rqst_items_of s rid));
               fulfilled = sum_list (map ri_issue_qty (rqst_items_of s rid)) in
        Inr \<lparr>rv_request = r, rv_total_requested = total, rv_fulfilled_count = fulfilled,
          rv_shortfall_count = max 0 (total - fulfilled),
          rv_timeline = [RequestCreated (rq_create_dtime r)]
            @ (if rq_status_code r \<ge> STATUS_AWAITING_APPROVAL then [SubmittedToODPEM (rq_request_date r)] else [])
            @ (if rq_status_code r \<ge> STATUS_SUBMITTED then [Approved (rq_review_dtime r)] else []),
          rv_is_read_only = is_director_level (Some u)\<rparr>)"

definition get_items :: "user \<Rightarrow> int \<Rightarrow> db \<Rightarrow> exc + reliefrqst_item list" where
  "get_items u rid s =
     (case get_rqst s rid of
        None \<Rightarrow> Inl NotFound404
      | Some r \<Rightarrow> if \<not> can_access_relief_request (Some u) r then Inl Forbidden403 else Inr (rqst_items_of s rid))"

section \<open>Drafting\<close>

record rqst_form =
  ff_urgency_ind :: "string option"
  ff_eligible_event_id :: vfield
  ff_rqst_notes_text :: string
  ff_version_nbr :: vfield

definition urgency_of :: "string option \<Rightarrow> string" where
  "urgency_of u = (case u of None \<Rightarrow> ''M'' | Some t \<Rightarrow> t)"

definition create_request :: "env \<Rightarrow> rqst_form \<Rightarrow> db \<Rightarrow> exc + unit reply \<times> db" where
  "create_request e f s =
     (let u = en_user e in
      if feature_required ''relief_request_creation'' (Some u) \<noteq> Granted then Inl Forbidden403
      else if (is_logistics_manager (Some u) \<or> is_logistics_officer (Some u)) \<and> \<not> truthy_int (us_agency_id u) then Inr (Refused, s)
      else case us_agency_id u of
        None \<Rightarrow> Inr (Refused, s)
      | Some a \<Rightarrow>
      if a = 0 then Inr (Refused, s)
      else case posted_event (ff_eligible_event_id f) of
        Inl x \<Rightarrow> Inr (Caught x, s)
      | Inr ev \<Rightarrow>
      if urgency_of (ff_urgency_ind f) \<notin> set [''H'', ''M'', ''L''] then Inr (Refused, s)
      else case create_draft_request e a (urgency_of (ff_urgency_ind f)) ev (Some (py_strip (ff_rqst_notes_text f))) (us_email u) s of
        Inl x \<Rightarrow> Inr (Caught x, s)
      | Inr (r, s') \<Rightarrow> if rqst_accepted s r then Inr (Saved, s') else Inr (Caught IntegrityError, s))"

text \<open>The counts above the edit form.\<close>

definition edit_counts :: "reliefrqst_item list \<Rightarrow> nat \<times> nat \<times> nat" where
  "edit_counts is =
     (length (filter (\<lambda>i. ri_issue_qty i \<noteq> 0 \<and> ri_issue_qty i \<ge> ri_request_qty i) is),
      length (filter (\<lambda>i. ri_issue_qty i \<noteq> 0 \<and> 0 < ri_issue_qty i \<and> ri_issue_qty i < ri_request_qty i) is),
      length (filter (\<lambda>i. ri_issue_qty i = 0) is))"

text \<open>
  A stale version raises \<^verbatim>\<open>OptimisticLockError(record_id=..., message=...)\<close>, which lacks an argument;
  either way an exception is caught and rolled back.
\<close>

definition edited_request :: "rqst_form \<Rightarrow> int option \<Rightarrow> reliefrqst \<Rightarrow> reliefrqst" where
  "edited_request f ev r = r\<lparr>rq_urgency_ind := urgency_of (ff_urgency_ind f), rq_eligible_event_id := ev,
     rq_rqst_notes_text := Some (py_strip (ff_rqst_notes_text f)), rq_version_nbr := rq_version_nbr r + 1\<rparr>"

definition edit_request :: "env \<Rightarrow> rqst_form \<Rightarrow> int \<Rightarrow> db \<Rightarrow> exc + unit reply \<times> db" where
  "edit_request e f rid s =
     (case get_rqst s rid of
        None \<Rightarrow> Inl NotFound404
      | Some r \<Rightarrow>
      if \<not> can_access_relief_request (Some (en_user e)) r then Inl Forbidden403
      else if rq_status_code r \<noteq> STATUS_DRAFT then Inr (Refused, s)
      else case posted_version (ff_version_nbr f) (rq_version_nbr r) of
        Inl x \<Rightarrow> Inr (Caught x, s)
      | Inr v \<Rightarrow>
      if rq_version_nbr r \<noteq> v then Inr (Caught (OptimisticLockError [''record_id'']), s)
      else case posted_event (ff_eligible_event_id f) of
        Inl x \<Rightarrow> Inr (Caught x, s)
      | Inr ev \<Rightarrow>
          if rqst_accepted s (edited_request f ev r) then Inr (Saved, set_rqst rid (edited_request f ev) s)
          else Inr (Caught IntegrityError, s))"

text \<open>A quantity that is not posted at all counts as zero, an empty one is refused by \<^verbatim>\<open>Decimal\<close>.\<close>

record item_line_form =
  lf_item_id :: vfield
  lf_request_qty :: "qfield option"
  lf_urgency_ind :: "string option"
  lf_rqst_reason_desc :: string
  lf_required_by_date :: dfield

definition posted_qty :: "qfield option \<Rightarrow> exc + qty" where
  "posted_qty q = (case q of None \<Rightarrow> Inr 0 | Some (Qty x) \<Rightarrow> Inr x | Some _ \<Rightarrow> Inl InvalidOperation)"

definition posted_item :: "vfield \<Rightarrow> exc + int" where
  "posted_item v = (case v of Missing \<Rightarrow> Inl TypeError | Text t \<Rightarrow> Inl ValueError | Number n \<Rightarrow> Inr n)"

definition edit_items :: "env \<Rightarrow> item_line_form \<Rightarrow> int \<Rightarrow> db \<Rightarrow> exc + unit reply \<times> db" where
  "edit_items e f rid s =
     (case get_rqst s rid of
        None \<Rightarrow> Inl NotFound404
      | Some r \<Rightarrow>
      if \<not> can_access_relief_request (Some (en_user e)) r then Inl Forbidden403
      else if rq_status_code r \<noteq> STATUS_DRAFT then Inr (Refused, s)
      else case posted_item (lf_item_id f) of
        Inl x \<Rightarrow> Inr (Caught x, s)
      | Inr i \<Rightarrow>
      case posted_qty (lf_request_qty f) of
        Inl x \<Rightarrow> Inr (Caught x, s)
      | Inr q \<Rightarrow>
      if lf_required_by_date f = BadDate then Inr (Refused, s)
      else case find (\<lambda>t. it_item_id t = i) (t_item s) of
        None \<Rightarrow> Inr (Caught NotFound404, s)
      | Some t \<Rightarrow>
      if it_status_code t \<noteq> ''A'' then Inr (Refused, s)
      else if q \<le> 0 then Inr (Refused, s)
      else let d = (case lf_required_by_date f of Day d \<Rightarrow> Some d | _ \<Rightarrow> None) in
      if urgency_of (lf_urgency_ind f) = ''H'' \<and> d = None then Inr (Refused, s)
      else case add_or_update_request_item rid i q (urgency_of (lf_urgency_ind f)) (Some (py_strip (lf_rqst_reason_desc f))) d None s of
        Inl x \<Rightarrow> Inr (Caught x, s)
      | Inr s' \<Rightarrow>
          if list_all rqst_item_accepted (filter (\<lambda>x. ri_reliefrqst_id x = rid \<and> ri_item_id x = i) (t_reliefrqst_item s'))
          then Inr (Saved, s') else Inr (Caught IntegrityError, s))"

definition delete_item :: "env \<Rightarrow> int \<Rightarrow> int \<Rightarrow> db \<Rightarrow> exc + unit reply \<times> db" where
  "delete_item e rid i s =
     (case get_rqst s rid of
        None \<Rightarrow> Inl NotFound404
      | Some r \<Rightarrow>
      if \<not> can_access_relief_request (Some (en_user e)) r then Inl Forbidden403
      else case delete_request_item rid i s of
        ((True, m), s') \<Rightarrow> Inr (Saved, s')
      | ((False, m), s') \<Rightarrow> Inr (Refused, s'))"

definition save_request_draft :: "env \<Rightarrow> int \<Rightarrow> db \<Rightarrow> exc + unit reply \<times> db" where
  "save_request_draft e rid s =
     (case get_rqst s rid of
        None \<Rightarrow> Inl NotFound404
      | Some r \<Rightarrow>
      if \<not> can_access_relief_request (Some (en_user e)) r then Inl Forbidden403
      else if rq_status_code r \<noteq> STATUS_DRAFT then Inr (Refused, s)
      else Inr (Saved, s))"

text \<open>Packages and locks refer to the request; their columns may not be null.\<close>

definition cancel_request :: "env \<Rightarrow> int \<Rightarrow> db \<Rightarrow> exc + unit reply \<times> db" where
  "cancel_request e rid s =
     (case get_rqst s rid of
        None \<Rightarrow> Inl NotFound404
      | Some r \<Rightarrow>
      if \<not> can_access_relief_request (Some (en_user e)) r then Inl Forbidden403
      else if rq_status_code r \<noteq> STATUS_DRAFT then Inr (Refused, s)
      else if list_ex (\<lambda>p. pk_reliefrqst_id p = rid) (t_reliefpkg s)
          \<or> list_ex (\<lambda>l. lk_reliefrqst_id l = rid) (t_fulfillment_lock s) then Inr (Caught IntegrityError, s)
      else Inr (Saved, s\<lparr>t_reliefrqst_item := filter (\<lambda>i. ri_reliefrqst_id i \<noteq> rid) (t_reliefrqst_item s),
             t_reliefrqst := filter (\<lambda>r. rq_reliefrqst_id r \<noteq> rid) (t_reliefrqst s)\<rparr>))"

definition submit_request_page :: "env \<Rightarrow> vfield \<Rightarrow> int \<Rightarrow> db \<Rightarrow> exc + unit reply \<times> db" where
  "submit_request_page e version rid s =
     (case get_rqst s rid of
        None \<Rightarrow> Inl NotFound404
      | Some r \<Rightarrow>
      if \<not> can_access_relief_request (Some (en_user e)) r then Inl Forbidden403
      else case posted_version version (rq_version_nbr r) of
        Inl x \<Rightarrow> Inr (Caught x, s)
      | Inr v \<Rightarrow>
      case submit_request e rid v s of
        Inl x \<Rightarrow> Inr (Caught x, s)
      | Inr ((True, m), s') \<Rightarrow> Inr (Saved, s')
      | Inr ((False, m), s') \<Rightarrow> Inr (Refused, s'))"

section \<open>Eligibility review\<close>

definition may_decide :: "db \<Rightarrow> env \<Rightarrow> bool" where
  "may_decide s e = (permission_required s ''reliefrqst'' ''approve_eligibility'' (Some (en_user e)) = Granted)"

definition awaiting_review :: "db \<Rightarrow> reliefrqst list" where
  "awaiting_review s =
     filter (\<lambda>r. rq_review_by_id r = None) (filter (\<lambda>r. rq_status_code r = STATUS_AWAITING_APPROVAL) (t_reliefrqst s))"

record pending_page =
  pp_requests :: "reliefrqst list"
  pp_total_pending :: nat
  pp_high_priority :: nat
  pp_total_items :: nat

definition pending_list :: "env \<Rightarrow> string option \<Rightarrow> db \<Rightarrow> exc + pending_page" where
  "pending_list e priority s =
     (if \<not> may_decide s e then Inl Forbidden403
      else let all_pending = sort_key (\<lambda>r. (- rq_request_date r, - int (urgency_rank (rq_urgency_ind r)))) (awaiting_review s);
               high = filter (\<lambda>r. rq_urgency_ind r \<in> set [''C'', ''H'']) all_pending in
        Inr \<lparr>pp_requests = (if priority = Some ''high'' then high else all_pending), pp_total_pending = length all_pending,
          pp_high_priority = length high,
          pp_total_items = sum_list (map (\<lambda>r. length (rqst_items_of s (rq_reliefrqst_id r))) all_pending)\<rparr>)"

text \<open>The flags \<^verbatim>\<open>decision_made\<close> and \<^verbatim>\<open>can_edit\<close> of the review page; an unknown request sends back to the list.\<close>

definition review_request :: "env \<Rightarrow> int \<Rightarrow> db \<Rightarrow> exc + eligibility_details option" where
  "review_request e rid s =
     (if \<not> may_decide s e then Inl Forbidden403
      else case get_rqst s rid of
        None \<Rightarrow> Inr None
      | Some r \<Rightarrow>
          let decision_made = (rq_review_by_id r \<noteq> None \<or> rq_status_code r \<in> set [STATUS_INELIGIBLE, STATUS_DENIED])
          in Inr (Some \<lparr>ed_request = r, ed_items = rqst_items_of s rid, ed_decision_made = decision_made,
               ed_can_edit = (\<not> decision_made \<and> rq_status_code r = STATUS_AWAITING_APPROVAL)\<rparr>))"

text \<open>How the service's answer ends a page.\<close>

definition decided :: "exc + (bool \<times> rq_msg) \<times> db \<Rightarrow> db \<Rightarrow> unit reply \<times> db" where
  "decided answer s =
     (case answer of
        Inl x \<Rightarrow> (Caught x, s)
      | Inr ((True, m), s') \<Rightarrow> (Saved, s')
      | Inr ((False, m), s') \<Rightarrow> (Refused, s'))"

definition submit_decision :: "env \<Rightarrow> string option \<Rightarrow> string \<Rightarrow> int \<Rightarrow> db \<Rightarrow> exc + unit reply \<times> db" where
  "submit_decision e decision reason rid s =
     (let why = py_strip reason in
      if \<not> may_decide s e then Inl Forbidden403
      else case decision of
        None \<Rightarrow> Inr (Refused, s)
      | Some d \<Rightarrow>
          if d \<notin> set [''Y'', ''N''] then Inr (Refused, s)
          else if d = ''N'' \<and> why = [] then Inr (Refused, s)
          else Inr (decided (submit_eligibility_decision e rid d (if d = ''N'' then Some why else None) (us_email (en_user e)) s) s))"

section \<open>The same over JSON\<close>

text \<open>
  A JSON value as the handler sees it: not there, null, a text, or anything else; and a body that is
  not JSON, that is empty, that is no object, or an object with a decision and a reason.
\<close>

datatype jfield = JAbsent | JNull | JText string | JOther

datatype jbody = NotJson | EmptyJson | NoObject | Object jfield jfield

definition api_submit_decision :: "env \<Rightarrow> jbody \<Rightarrow> int \<Rightarrow> db \<Rightarrow> exc + unit reply \<times> db" where
  "api_submit_decision e b rid s =
     (if \<not> may_decide s e then Inl Forbidden403
      else case b of
        NotJson \<Rightarrow> Inr (Caught BadRequest400, s)
      | EmptyJson \<Rightarrow> Inr (Refused, s)
      | NoObject \<Rightarrow> Inr (Caught AttributeError, s)
      | Object decision reason \<Rightarrow>
      case reason of
        JNull \<Rightarrow> Inr (Caught AttributeError, s)
      | JOther \<Rightarrow> Inr (Caught AttributeError, s)
      | _ \<Rightarrow>
          let why = (case reason of JText t \<Rightarrow> py_strip t | _ \<Rightarrow> []) in
          case decision of
            JText d \<Rightarrow>
              if d \<notin> set [''Y'', ''N''] then Inr (Refused, s)
              else if d = ''N'' \<and> why = [] then Inr (Refused, s)
              else Inr (decided (submit_eligibility_decision e rid d (if d = ''N'' then Some why else None) (us_email (en_user e)) s) s)
          | _ \<Rightarrow> Inr (Refused, s))"

definition api_pending_list :: "env \<Rightarrow> db \<Rightarrow> exc + reliefrqst list" where
  "api_pending_list e s = (if \<not> may_decide s e then Inl Forbidden403 else Inr (get_pending_eligibility_requests s))"

definition api_get_request :: "env \<Rightarrow> int \<Rightarrow> db \<Rightarrow> exc + eligibility_details" where
  "api_get_request e rid s =
     (if \<not> may_decide s e then Inl Forbidden403
      else case get_request_eligibility_details s rid of None \<Rightarrow> Inl NotFound404 | Some d \<Rightarrow> Inr d)"

section \<open>The directors' dashboard\<close>

record director_counts =
  dc_pending_review :: nat
  dc_pending_fulfillment :: nat
  dc_in_progress :: nat
  dc_completed :: nat
  dc_total :: nat

definition director_dashboard :: "env \<Rightarrow> string option \<Rightarrow> db \<Rightarrow> exc + reliefrqst list \<times> director_counts" where
  "director_dashboard e filter_arg s =
     (let tab = (case filter_arg of None \<Rightarrow> ''pending_review'' | Some t \<Rightarrow> t); rs = t_reliefrqst s in
      if role_required [''ODPEM_DG'', ''ODPEM_DDG'', ''ODPEM_DIR_PEOD''] (Some (en_user e)) \<noteq> Granted then Inl Forbidden403
      else Inr (sort_key (\<lambda>r. - rq_create_dtime r)
         (if tab = ''pending_review'' then filter (\<lambda>r. rq_review_by_id r = None) (with_status [STATUS_AWAITING_APPROVAL] rs)
          else if tab = ''pending_fulfillment'' then with_status [STATUS_SUBMITTED, STATUS_PART_FILLED] rs
          else if tab = ''in_progress'' then with_status [STATUS_AWAITING_APPROVAL, STATUS_SUBMITTED, STATUS_PART_FILLED] rs
          else if tab = ''completed'' then with_status [STATUS_FILLED] rs
          else rs),
        \<lparr>dc_pending_review = length (awaiting_review s),
         dc_pending_fulfillment = length (with_status [STATUS_SUBMITTED, STATUS_PART_FILLED] rs),
         dc_in_progress = length (with_status [STATUS_AWAITING_APPROVAL, STATUS_SUBMITTED, STATUS_PART_FILLED] rs),
         dc_completed = length (with_status [STATUS_FILLED] rs), dc_total = length rs\<rparr>))"

end
