(* ===== verification/Request_Page_Properties.thy ===== *)
theory Request_Page_Properties
  imports Request_Pages
begin

text \<open>
  What the request pages promise: a request that has left the draft state, or that the acting users
  may not see, is never touched by them; the tables keep the constraints of the schema; a user's list
  shows exactly the requests the user may open, and the numbers on its tabs are the lengths of the
  lists behind them.
\<close>

section \<open>Which request a page touches\<close>

inductive page_step :: "(user \<Rightarrow> bool) \<Rightarrow> db \<Rightarrow> db \<Rightarrow> bool" for P where
  page_create: "P (en_user e) \<Longrightarrow> create_request e f s = Inr (r, s') \<Longrightarrow> page_step P s s'"
| page_edit: "P (en_user e) \<Longrightarrow> edit_request e f rid s = Inr (r, s') \<Longrightarrow> page_step P s s'"
| page_items: "P (en_user e) \<Longrightarrow> edit_items e g rid s = Inr (r, s') \<Longrightarrow> page_step P s s'"
| page_delete: "P (en_user e) \<Longrightarrow> delete_item e rid i s = Inr (r, s') \<Longrightarrow> page_step P s s'"
| page_save: "P (en_user e) \<Longrightarrow> save_request_draft e rid s = Inr (r, s') \<Longrightarrow> page_step P s s'"
| page_cancel: "P (en_user e) \<Longrightarrow> cancel_request e rid s = Inr (r, s') \<Longrightarrow> page_step P s s'"
| page_submit: "P (en_user e) \<Longrightarrow> submit_request_page e v rid s = Inr (r, s') \<Longrightarrow> page_step P s s'"

definition ids_below :: "db \<Rightarrow> bool" where
  "ids_below s \<longleftrightarrow> (\<forall>r \<in> set (t_reliefrqst s). rq_reliefrqst_id r < seq_reliefrqst s)"

text \<open>Only request \<open>rid\<close> and its items may differ.\<close>

definition only_touches :: "int \<Rightarrow> db \<Rightarrow> db \<Rightarrow> bool" where
  "only_touches rid s t \<longleftrightarrow> (\<forall>j. j \<noteq> rid \<longrightarrow> get_rqst t j = get_rqst s j \<and> rqst_items_of t j = rqst_items_of s j)
     \<and> (ids_below s \<longrightarrow> ids_below t)"

lemma only_touches_refl: "only_touches rid s s"
  by (simp add: only_touches_def)

lemma find_other_kept: "j \<noteq> i \<Longrightarrow> find (\<lambda>r. key r = j) (filter (\<lambda>r. key r \<noteq> i) rows) = find (\<lambda>r. key r = j) rows"
  by (induction rows) auto

lemma find_snoc_other: "\<not> P x \<Longrightarrow> find P (xs @ [x]) = find P xs"
  by (induction xs) auto

lemma filter_upd_elsewhere: "(\<And>x. Q x \<Longrightarrow> \<not> P x \<and> \<not> P (h x)) \<Longrightarrow> filter P (upd_where Q h xs) = filter P xs"
  by (induction xs) auto

lemma touches_set_rqst:
  assumes "\<And>r. rq_reliefrqst_id (f r) = rq_reliefrqst_id r"
  shows "only_touches rid s (set_rqst rid f s)"
proof -
  have "ids_below s \<longrightarrow> ids_below (set_rqst rid f s)" using assms by (auto simp: ids_below_def set_rqst_def set_upd_where)
  then show ?thesis using assms by (simp add: only_touches_def get_rqst_set_rqst rqst_items_of_def)
qed

lemma touches_items:
  assumes "t_reliefrqst t = t_reliefrqst s" and "seq_reliefrqst t = seq_reliefrqst s"
    and "\<And>j. j \<noteq> rid \<Longrightarrow> rqst_items_of t j = rqst_items_of s j"
  shows "only_touches rid s t"
  using assms by (simp add: only_touches_def get_rqst_def ids_below_def)

lemma edit_touches:
  assumes "edit_request e f rid s = Inr (r, s')"
  shows "s' = s \<or> only_touches rid s s' \<and> (\<exists>q. get_rqst s rid = Some q \<and> rq_status_code q = STATUS_DRAFT
    \<and> can_access_relief_request (Some (en_user e)) q)"
  using assms by (auto simp: edit_request_def edited_request_def intro!: touches_set_rqst split: option.splits sum.splits if_splits)

lemma items_touches:
  assumes "edit_items e f rid s = Inr (r, s')"
  shows "s' = s \<or> only_touches rid s s' \<and> (\<exists>q. get_rqst s rid = Some q \<and> rq_status_code q = STATUS_DRAFT
    \<and> can_access_relief_request (Some (en_user e)) q)"
proof -
  have "only_touches rid s t" if "add_or_update_request_item rid i q u w d v s = Inr t" for i q u w d v t
    using that by (intro touches_items)
      (auto simp: add_or_update_request_item_def set_rqst_item_def rqst_items_of_def split: option.splits if_splits
        intro!: filter_upd_elsewhere)
  then show ?thesis using assms by (auto simp: edit_items_def Let_def split: option.splits sum.splits if_splits)
qed

lemma delete_touches:
  assumes "delete_item e rid i s = Inr (r, s')"
  shows "s' = s \<or> only_touches rid s s' \<and> (\<exists>q. get_rqst s rid = Some q \<and> rq_status_code q = STATUS_DRAFT
    \<and> can_access_relief_request (Some (en_user e)) q)"
  using assms
  by (auto simp: delete_item_def delete_request_item_def rqst_items_of_def intro!: touches_items
      split: option.splits if_splits bool.splits) (auto intro!: filter_cong)

lemma cancel_touches:
  assumes "cancel_request e rid s = Inr (r, s')"
  shows "s' = s \<or> only_touches rid s s' \<and> (\<exists>q. get_rqst s rid = Some q \<and> rq_status_code q = STATUS_DRAFT
    \<and> can_access_relief_request (Some (en_user e)) q)"
proof -
  have "only_touches rid s (s\<lparr>t_reliefrqst_item := filter (\<lambda>i. ri_reliefrqst_id i \<noteq> rid) (t_reliefrqst_item s),
      t_reliefrqst := filter (\<lambda>r. rq_reliefrqst_id r \<noteq> rid) (t_reliefrqst s)\<rparr>)"
    by (auto simp: only_touches_def get_rqst_def rqst_items_of_def ids_below_def find_other_kept intro!: filter_cong)
  then show ?thesis using assms by (auto simp: cancel_request_def split: option.splits if_splits)
qed

lemma submit_touches:
  assumes "submit_request_page e v rid s = Inr (r, s')"
  shows "s' = s \<or> only_touches rid s s' \<and> (\<exists>q. get_rqst s rid = Some q \<and> rq_status_code q = STATUS_DRAFT
    \<and> can_access_relief_request (Some (en_user e)) q)"
proof -
  have "only_touches rid s (create_odpem_notifications e rid (set_rqst rid f s))"
    if "\<And>r. rq_reliefrqst_id (f r) = rq_reliefrqst_id r" for f
    using touches_set_rqst [of f rid s] that
    by (simp add: only_touches_def get_rqst_def ids_below_def rqst_items_of_def create_odpem_notifications_def
        create_relief_request_submitted_notification_def)
  then show ?thesis using assms
    by (auto simp: submit_request_page_def submit_request_def split: option.splits sum.splits if_splits bool.splits)
qed

lemma create_touches:
  assumes "create_request e f s = Inr (r, s')"
  shows "s' = s \<or> only_touches (seq_reliefrqst s) s s'"
proof -
  have "only_touches (seq_reliefrqst s) s t" if "create_draft_request e a u ev n em s = Inr (q, t)" for a u ev n em q t
    using that by (auto simp: create_draft_request_def Let_def only_touches_def get_rqst_def rqst_items_of_def ids_below_def
        find_snoc_other less_imp_le split: option.splits)
  then show ?thesis using assms
    by (auto simp: create_request_def Let_def split: option.splits sum.splits if_splits)
qed

section \<open>Protected requests\<close>

text \<open>A request is out of reach when it is no longer a draft or none of the acting users may see it.\<close>

definition out_of_reach :: "(user \<Rightarrow> bool) \<Rightarrow> reliefrqst \<Rightarrow> bool" where
  "out_of_reach P r \<longleftrightarrow> rq_status_code r \<noteq> STATUS_DRAFT \<or> (\<forall>u. P u \<longrightarrow> \<not> can_access_relief_request (Some u) r)"

definition kept_request :: "(user \<Rightarrow> bool) \<Rightarrow> reliefrqst \<Rightarrow> reliefrqst_item list \<Rightarrow> db \<Rightarrow> bool" where
  "kept_request P r is s \<longleftrightarrow> out_of_reach P r \<and> ids_below s \<and> get_rqst s (rq_reliefrqst_id r) = Some r
     \<and> rqst_items_of s (rq_reliefrqst_id r) = is"

lemma kept_elsewhere:
  assumes "kept_request P r is s" and "only_touches rid s t" and "rid \<noteq> rq_reliefrqst_id r"
  shows "kept_request P r is t"
  using assms by (simp add: kept_request_def only_touches_def)

lemma kept_drafts:
  assumes "kept_request P r is s" and "P u"
    and "t = s \<or> only_touches rid s t \<and> (\<exists>q. get_rqst s rid = Some q \<and> rq_status_code q = STATUS_DRAFT
      \<and> can_access_relief_request (Some u) q)"
  shows "kept_request P r is t"
proof (cases "t = s")
  case False
  with assms have "only_touches rid s t" and "rid \<noteq> rq_reliefrqst_id r" by (auto simp: kept_request_def out_of_reach_def)
  with assms(1) show ?thesis by (blast intro: kept_elsewhere)
qed (use assms in simp)

lemma page_step_keeps: "page_step P s t \<Longrightarrow> kept_request P r is s \<Longrightarrow> kept_request P r is t"
proof (induction rule: page_step.induct)
  case (page_create e f s a s')
  then have "rq_reliefrqst_id r < seq_reliefrqst s"
    by (auto simp: kept_request_def ids_below_def dest: get_rqst_set)
  with create_touches [OF page_create(2)] page_create(3) show ?case by (metis kept_elsewhere less_irrefl)
next
  case (page_save e rid s a s')
  then show ?case by (auto simp: save_request_draft_def split: option.splits if_splits)
qed (blast intro: kept_drafts dest: edit_touches items_touches delete_touches cancel_touches submit_touches)+

interpretation page_flow: invariant_system "kept_request P r is" "page_step P" "kept_request P r is" for P r "is"
  by unfold_locales (auto intro: page_step_keeps)

section \<open>The constraints of the tables\<close>

text \<open>
  The request pages and the decisions of directors together: numbers and states of requests as
  before, item rows that the schema accepts, each of an existing request, and at least one item on
  every request that has been submitted.
\<close>

inductive workflow_step :: "db \<Rightarrow> db \<Rightarrow> bool" where
  by_page: "page_step (\<lambda>u. True) s t \<Longrightarrow> workflow_step s t"
| by_form: "submit_decision e d why rid s = Inr (r, t) \<Longrightarrow> workflow_step s t"
| by_api: "api_submit_decision e b rid s = Inr (r, t) \<Longrightarrow> workflow_step s t"

definition items_rows_ok :: "db \<Rightarrow> bool" where
  "items_rows_ok s \<longleftrightarrow> (\<forall>i \<in> set (t_reliefrqst_item s). rqst_item_accepted i \<and> ri_reliefrqst_id i \<in> rq_reliefrqst_id ` set (t_reliefrqst s))"

definition requests_filled :: "db \<Rightarrow> bool" where
  "requests_filled s \<longleftrightarrow> (\<forall>r \<in> set (t_reliefrqst s). rq_status_code r = STATUS_DRAFT \<or> rqst_items_of s (rq_reliefrqst_id r) \<noteq> [])"

definition workflow_ok :: "db \<Rightarrow> bool" where
  "workflow_ok s \<longleftrightarrow> rqst_inv s \<and> items_rows_ok s \<and> requests_filled s"

lemma rqst_of_inv: "rqst_inv s \<Longrightarrow> r \<in> set (t_reliefrqst s) \<Longrightarrow> get_rqst s (rq_reliefrqst_id r) = Some r"
  unfolding rqst_inv_def get_rqst_def by (auto intro: find_distinct_key)

text \<open>A change of one request row that keeps its number.\<close>

lemma workflow_set_rqst:
  assumes ok: "workflow_ok s" and r: "get_rqst s rid = Some r" and id: "\<And>r. rq_reliefrqst_id (f r) = rq_reliefrqst_id r"
    and row: "rqst_row_ok (f r)" "rq_status_code (f r) \<in> {STATUS_DRAFT, STATUS_AWAITING_APPROVAL, STATUS_SUBMITTED, STATUS_INELIGIBLE}"
    and filled: "rq_status_code (f r) = STATUS_DRAFT \<or> rqst_items_of s rid \<noteq> []"
  shows "workflow_ok (set_rqst rid f s)"
proof -
  have inv: "rqst_inv (set_rqst rid f s)" using ok rqst_inv_set [OF _ r id row] by (simp add: workflow_ok_def)
  have only: "x = r" if "x \<in> set (t_reliefrqst s)" "rq_reliefrqst_id x = rid" for x
    using rqst_of_inv [of s x] ok r that by (simp add: workflow_ok_def)
  have "rq_reliefrqst_id ` set (t_reliefrqst (set_rqst rid f s)) = rq_reliefrqst_id ` set (t_reliefrqst s)"
    using id by (simp add: set_rqst_def map_upd_where_same flip: set_map)
  then have "items_rows_ok (set_rqst rid f s)" using ok by (simp add: workflow_ok_def items_rows_ok_def)
  moreover have "requests_filled (set_rqst rid f s)"
    using ok filled only id by (auto simp: workflow_ok_def requests_filled_def set_rqst_def set_upd_where rqst_items_of_def)
  ultimately show ?thesis using inv by (simp add: workflow_ok_def)
qed

lemma workflow_ok_cong:
  "t_reliefrqst t = t_reliefrqst s \<Longrightarrow> seq_reliefrqst t = seq_reliefrqst s \<Longrightarrow> t_reliefrqst_item t = t_reliefrqst_item s
    \<Longrightarrow> workflow_ok t = workflow_ok s"
  by (simp add: workflow_ok_def rqst_inv_def items_rows_ok_def requests_filled_def rqst_items_of_def)

lemma notification_items [simp]:
  "t_reliefrqst_item (create_odpem_notifications e rid s) = t_reliefrqst_item s"
  "t_reliefrqst_item (create_ineligible_notification e r s) = t_reliefrqst_item s"
  "t_reliefrqst_item (create_eligible_notification e rid s) = t_reliefrqst_item s"
  by (simp_all add: create_odpem_notifications_def create_relief_request_submitted_notification_def
      create_ineligible_notification_def create_eligible_notification_def create_relief_request_approved_notification_def)

lemma draft_row_ok: "rqst_inv s \<Longrightarrow> get_rqst s rid = Some r \<Longrightarrow> rqst_row_ok r"
  using get_rqst_set by (simp add: rqst_inv_def)

lemma edit_request_ok: "workflow_ok s \<Longrightarrow> edit_request e f rid s = Inr (r, t) \<Longrightarrow> workflow_ok t"
proof -
  assume ok: "workflow_ok s" and run: "edit_request e f rid s = Inr (r, t)"
  have "workflow_ok (set_rqst rid (edited_request f ev) s)" if "get_rqst s rid = Some q" "rq_status_code q = STATUS_DRAFT" for ev q
    using draft_row_ok [of s rid q] that ok
    by (intro workflow_set_rqst [OF ok that(1)]) (simp_all add: edited_request_def rqst_row_ok_def workflow_ok_def)
  then show ?thesis using ok run by (auto simp: edit_request_def split: option.splits sum.splits if_splits)
qed

lemma submit_page_ok: "workflow_ok s \<Longrightarrow> submit_request_page e v rid s = Inr (r, t) \<Longrightarrow> workflow_ok t"
proof -
  assume ok: "workflow_ok s" and run: "submit_request_page e v rid s = Inr (r, t)"
  let ?f = "\<lambda>r. r\<lparr>rq_status_code := STATUS_AWAITING_APPROVAL, rq_version_nbr := rq_version_nbr r + 1\<rparr>"
  have "workflow_ok (set_rqst rid ?f s)" if "get_rqst s rid = Some q" "rq_status_code q = STATUS_DRAFT" "rqst_items_of s rid \<noteq> []" for q
    using draft_row_ok [of s rid q] that ok
    by (intro workflow_set_rqst [OF ok that(1)]) (simp_all add: rqst_row_ok_def workflow_ok_def)
  then have "workflow_ok (create_odpem_notifications e rid (set_rqst rid ?f s))"
    if "get_rqst s rid = Some q" "rq_status_code q = STATUS_DRAFT" "rqst_items_of s rid \<noteq> []" for q
    using that workflow_ok_cong [of "create_odpem_notifications e rid (set_rqst rid ?f s)" "set_rqst rid ?f s"] by simp
  then show ?thesis using ok run
    by (auto simp: submit_request_page_def submit_request_def split: option.splits sum.splits if_splits bool.splits)
qed

text \<open>A change of the items of one draft.\<close>

lemma workflow_items:
  assumes ok: "workflow_ok s" and r: "get_rqst s rid = Some r" "rq_status_code r = STATUS_DRAFT"
    and same: "t_reliefrqst t = t_reliefrqst s" "seq_reliefrqst t = seq_reliefrqst s" and touch: "only_touches rid s t"
    and items: "\<And>i. i \<in> set (t_reliefrqst_item t) \<Longrightarrow> i \<in> set (t_reliefrqst_item s) \<or> ri_reliefrqst_id i = rid \<and> rqst_item_accepted i"
  shows "workflow_ok t"
proof -
  have inv: "rqst_inv t" using ok same by (simp add: workflow_ok_def rqst_inv_def)
  have "r \<in> set (t_reliefrqst s)" "rq_reliefrqst_id r = rid" using r(1) by (auto simp: get_rqst_def find_Some_iff)
  then have "items_rows_ok t" using ok items same by (fastforce simp: workflow_ok_def items_rows_ok_def)
  moreover have "rq_status_code x = STATUS_DRAFT \<or> rqst_items_of t (rq_reliefrqst_id x) \<noteq> []" if "x \<in> set (t_reliefrqst s)" for x
  proof (cases "rq_reliefrqst_id x = rid")
    case True
    then show ?thesis using rqst_of_inv [of s x] ok r that by (simp add: workflow_ok_def)
  next
    case False
    then show ?thesis using ok touch that by (simp add: workflow_ok_def requests_filled_def only_touches_def)
  qed
  then have "requests_filled t" using same by (simp add: requests_filled_def)
  ultimately show ?thesis using inv by (simp add: workflow_ok_def)
qed

lemma add_item_touches:
  assumes "add_or_update_request_item rid i q u w d v s = Inr t"
  shows "only_touches rid s t" and "t_reliefrqst t = t_reliefrqst s" and "seq_reliefrqst t = seq_reliefrqst s"
    and "x \<in> set (t_reliefrqst_item t) \<Longrightarrow> x \<in> set (t_reliefrqst_item s) \<or> ri_reliefrqst_id x = rid \<and> ri_item_id x = i"
proof -
  show "only_touches rid s t" using assms by (intro touches_items)
      (auto simp: add_or_update_request_item_def set_rqst_item_def rqst_items_of_def split: option.splits if_splits
        intro!: filter_upd_elsewhere)
qed (use assms in \<open>auto simp: add_or_update_request_item_def set_rqst_item_def set_upd_where split: option.splits if_splits\<close>)

lemma edit_items_ok: "workflow_ok s \<Longrightarrow> edit_items e f rid s = Inr (r, t) \<Longrightarrow> workflow_ok t"
proof (cases "t = s")
  case False
  assume ok: "workflow_ok s" and run: "edit_items e f rid s = Inr (r, t)"
  from run False obtain q i a b c d v where q: "get_rqst s rid = Some q" "rq_status_code q = STATUS_DRAFT"
    and add: "add_or_update_request_item rid i a b c d v s = Inr t"
    and acc: "\<forall>x \<in> set (t_reliefrqst_item t). ri_reliefrqst_id x = rid \<and> ri_item_id x = i \<longrightarrow> rqst_item_accepted x"
    by (auto simp: edit_items_def Let_def list_all_iff split: option.splits sum.splits if_splits)
  show ?thesis using acc add_item_touches(4) [OF add]
    by (intro workflow_items [OF ok q add_item_touches(2,3,1) [OF add]]) blast
qed simp

lemma delete_item_ok: "workflow_ok s \<Longrightarrow> delete_item e rid i s = Inr (r, t) \<Longrightarrow> workflow_ok t"
proof (cases "t = s")
  case False
  assume ok: "workflow_ok s" and run: "delete_item e rid i s = Inr (r, t)"
  from delete_touches [OF run] False obtain q where "only_touches rid s t" "get_rqst s rid = Some q" "rq_status_code q = STATUS_DRAFT" by blast
  moreover have "t_reliefrqst t = t_reliefrqst s" "seq_reliefrqst t = seq_reliefrqst s" "set (t_reliefrqst_item t) \<subseteq> set (t_reliefrqst_item s)"
    using run by (auto simp: delete_item_def delete_request_item_def split: option.splits if_splits bool.splits)
  ultimately show ?thesis using ok by (auto intro: workflow_items)
qed simp

lemma cancel_request_ok: "workflow_ok s \<Longrightarrow> cancel_request e rid s = Inr (r, t) \<Longrightarrow> workflow_ok t"
proof (cases "t = s")
  case False
  assume ok: "workflow_ok s" and run: "cancel_request e rid s = Inr (r, t)"
  from run False have t: "t = s\<lparr>t_reliefrqst_item := filter (\<lambda>i. ri_reliefrqst_id i \<noteq> rid) (t_reliefrqst_item s),
      t_reliefrqst := filter (\<lambda>r. rq_reliefrqst_id r \<noteq> rid) (t_reliefrqst s)\<rparr>"
    by (auto simp: cancel_request_def split: option.splits if_splits)
  have same: "rqst_items_of t j = rqst_items_of s j" if "j \<noteq> rid" for j
    using that by (auto simp: t rqst_items_of_def intro: filter_cong)
  have "rqst_inv t" using ok by (auto simp: workflow_ok_def t rqst_inv_def distinct_map_filter)
  moreover have "items_rows_ok t" using ok by (auto simp: workflow_ok_def items_rows_ok_def t)
  moreover have "requests_filled t" using ok same by (auto simp: workflow_ok_def requests_filled_def t)
  ultimately show ?thesis by (simp add: workflow_ok_def)
qed simp

lemma create_request_ok: "workflow_ok s \<Longrightarrow> create_request e f s = Inr (r, t) \<Longrightarrow> workflow_ok t"
proof (cases "t = s")
  case False
  assume ok: "workflow_ok s" and run: "create_request e f s = Inr (r, t)"
  from run False obtain a u ev n em q where new: "create_draft_request e a u ev n em s = Inr (q, t)"
    by (auto simp: create_request_def Let_def split: option.splits sum.splits if_splits)
  have "rqst_inv t" using ok rqst_inv_step [OF _ step_create [OF new]] by (simp add: workflow_ok_def)
  moreover have "items_rows_ok t \<and> requests_filled t" using ok new
    by (auto simp: workflow_ok_def items_rows_ok_def requests_filled_def rqst_items_of_def create_draft_request_def Let_def split: option.splits)
  ultimately show ?thesis by (simp add: workflow_ok_def)
qed simp

lemma decided_ok:
  assumes ok: "workflow_ok s" and run: "decided (submit_eligibility_decision e rid d why em s) s = (r, t)"
  shows "workflow_ok t"
proof (cases "submit_eligibility_decision e rid d why em s")
  case (Inr a)
  obtain res s' where a: "a = (res, s')" by (cases a)
  have t: "t = s'" using run by (auto simp: decided_def Inr a split: prod.splits bool.splits)
  from Inr a obtain q where q: "get_rqst s rid = Some q"
    by (auto simp: submit_eligibility_decision_def split: option.splits)
  have filled: "rqst_items_of s rid \<noteq> []" if "rq_status_code q = STATUS_AWAITING_APPROVAL"
    using that ok q get_rqst_set [OF q] by (auto simp: workflow_ok_def requests_filled_def get_rqst_def find_Some_iff)
  have row: "rqst_row_ok q" using ok q by (auto simp: workflow_ok_def intro: draft_row_ok)
  from Inr [unfolded a] q show ?thesis
  proof (cases rule: decision_cases)
    case (2 u)
    have "workflow_ok (set_rqst rid (mark_ineligible e u why) s)"
      using filled [OF 2(2)] by (intro workflow_set_rqst [OF ok q]) (simp_all add: rqst_row_ok_def mark_ineligible_def)
    then show ?thesis unfolding t 2(7) by (subst workflow_ok_cong) simp_all
  next
    case (3 u)
    have "workflow_ok (set_rqst rid (mark_eligible e u) s)"
      using filled [OF 3(2)] row 3(2) by (intro workflow_set_rqst [OF ok q]) (simp_all add: rqst_row_ok_def mark_eligible_def)
    then show ?thesis unfolding t 3(6) by (subst workflow_ok_cong) simp_all
  qed (use ok t in simp)
qed (use assms in \<open>simp add: decided_def\<close>)

lemma workflow_kept: "workflow_step s t \<Longrightarrow> workflow_ok s \<Longrightarrow> workflow_ok t"
proof (induction rule: workflow_step.induct)
  case (by_page s t)
  then show ?case
    by (cases rule: page_step.cases) (auto intro: create_request_ok edit_request_ok edit_items_ok delete_item_ok cancel_request_ok
        submit_page_ok simp: save_request_draft_def split: option.splits if_splits)
next
  case (by_form e d why rid s r t)
  then show ?case by (auto simp: submit_decision_def Let_def split: option.splits if_splits intro: decided_ok)
next
  case (by_api e b rid s r t)
  then show ?case
    by (auto simp: api_submit_decision_def Let_def split: jbody.splits jfield.splits if_splits intro: decided_ok)
qed

interpretation workflow: invariant_system workflow_ok workflow_step workflow_ok
  by unfold_locales (auto intro: workflow_kept)

section \<open>Lists and counts\<close>

lemma set_with_status: "set (with_status sts rs) = {r \<in> set rs. rq_status_code r \<in> set sts}"
  by (auto simp: with_status_def)

lemma visible_accessible:
  assumes "visible_requests u s = Inr base"
  shows "set base = {r \<in> set (t_reliefrqst s). can_access_relief_request (Some u) r}"
proof -
  define staff where "staff \<longleftrightarrow> has_role (Some u) [''LOGISTICS_MANAGER'', ''LOGISTICS_OFFICER''] \<or> is_director_level (Some u)"
  have "is_logistics_manager (Some u) \<or> is_logistics_officer (Some u) \<or> is_director_level (Some u) \<longleftrightarrow> staff"
    by (simp add: is_logistics_manager_def is_logistics_officer_def staff_def has_role_def)
  then have base: "visible_requests u s = (if staff then Inr (t_reliefrqst s)
      else if truthy_int (us_agency_id u) then Inr (filter (\<lambda>r. us_agency_id u = Some (rq_agency_id r)) (t_reliefrqst s))
      else Inl Forbidden403)"
    unfolding visible_requests_def by simp
  have access: "can_access_relief_request (Some u) r \<longleftrightarrow> staff \<or> truthy_int (us_agency_id u) \<and> us_agency_id u = Some (rq_agency_id r)" for r
    by (cases "us_agency_id u = Some (rq_agency_id r)") (simp_all add: can_access_relief_request_def staff_def is_director_level_def)
  show ?thesis
  proof (cases staff)
    case True
    then have "base = t_reliefrqst s" using assms base by simp
    then show ?thesis unfolding access using True by simp
  next
    case False
    then have agency: "truthy_int (us_agency_id u)" using assms base by (auto split: if_splits)
    with False have "base = filter (\<lambda>r. us_agency_id u = Some (rq_agency_id r)) (t_reliefrqst s)" using assms base by simp
    then show ?thesis unfolding access using False agency by (simp only: set_filter simp_thms)
  qed
qed

definition count_of :: "string \<Rightarrow> request_counts \<Rightarrow> nat" where
  "count_of tab c =
     (if tab = ''draft'' then ct_draft c else if tab = ''awaiting'' then ct_awaiting c
      else if tab = ''processing'' then ct_processing c else if tab = ''dispatched'' then ct_dispatched c
      else if tab = ''completed'' then ct_completed c else if tab = ''all'' then ct_all c else ct_submitted c)"

text \<open>The form and the JSON interface of the eligibility decision are the same.\<close>

lemma api_decides_like_form:
  "api_submit_decision e (Object (JText d) (JText why)) rid s = submit_decision e (Some d) why rid s"
  by (simp add: api_submit_decision_def submit_decision_def Let_def)

text \<open>The counts of the directors' dashboard belong to its lists.\<close>

lemma director_counts_fit:
  assumes "director_dashboard e (Some tab) s = Inr (rs, c)"
  shows "tab = ''pending_review'' \<Longrightarrow> dc_pending_review c = length rs"
    and "tab = ''pending_fulfillment'' \<Longrightarrow> dc_pending_fulfillment c = length rs"
    and "tab = ''in_progress'' \<Longrightarrow> dc_in_progress c = length rs"
    and "tab = ''completed'' \<Longrightarrow> dc_completed c = length rs"
    and "tab = ''all'' \<Longrightarrow> dc_total c = length rs"
  using assms by (auto simp: director_dashboard_def Let_def awaiting_review_def with_status_def split: if_splits)

section \<open>Examples\<close>

text \<open>A draft and a submitted request, and a logistics officer.\<close>

definition ex_two_requests :: db where
  "ex_two_requests = empty_db\<lparr>t_user := [ex_user 1 ''LO'' [ex_role 2 ''LOGISTICS_OFFICER'']], t_role := [ex_role 2 ''LOGISTICS_OFFICER''],
     t_reliefrqst := [ex_rqst 5 0, ex_rqst 6 1], seq_reliefrqst := 7,
     t_reliefrqst_item := [ex_rqst_item 5 10 0 ''R'', ex_rqst_item 6 10 0 ''R'']\<rparr>"

definition ex_officer_env :: env where
  "ex_officer_env = \<lparr>en_today = 739000, en_now = hours 100, en_user = ex_user 1 ''LO'' [ex_role 2 ''LOGISTICS_OFFICER''],
     en_status_cache = None, en_str_decimal = (\<lambda>q. ''0'')\<rparr>"

lemma ex_two_requests_ok: "workflow_ok ex_two_requests"
  by (simp add: workflow_ok_def rqst_inv_def items_rows_ok_def requests_filled_def ex_two_requests_def rqst_row_ok_def
      rqst_item_accepted_def rqst_items_of_def ex_simps)

section \<open>Properties\<close>

text \<open>
  C19: However often and by whomever the request pages are used, a request that has left the draft
  state, or that none of the acting users may see, stays as it is, its items included.
\<close>

theorem requests_out_of_reach:
  assumes "(page_step P)\<^sup>*\<^sup>* s t" and "ids_below s" and "get_rqst s rid = Some r" and "out_of_reach P r"
  shows "get_rqst t rid = Some r \<and> rqst_items_of t rid = rqst_items_of s rid"
proof -
  have "rq_reliefrqst_id r = rid" using assms(3) by (auto simp: get_rqst_def find_Some_iff)
  moreover from this assms(2-4) have "kept_request P r (rqst_items_of s rid) s" by (simp add: kept_request_def)
  ultimately show ?thesis using page_flow.steps_inv [OF assms(1)] by (fastforce simp: kept_request_def)
qed

theorem requests_out_of_reach_witness:
  "get_rqst (snd (projr (cancel_request ex_officer_env 5 ex_two_requests))) 6 = Some (ex_rqst 6 1)
   \<and> get_rqst (snd (projr (cancel_request ex_officer_env 5 ex_two_requests))) 5 = None"
proof
  let ?t = "snd (projr (cancel_request ex_officer_env 5 ex_two_requests))"
  have "cancel_request ex_officer_env 5 ex_two_requests = Inr (Saved, ?t)" by (rule run_result) code_simp+
  then have "page_step (\<lambda>u. True) ex_two_requests ?t" by (rule page_cancel [OF TrueI])
  then have steps: "(page_step (\<lambda>u. True))\<^sup>*\<^sup>* ex_two_requests ?t" by (rule r_into_rtranclp)
  have "ids_below ex_two_requests" and "get_rqst ex_two_requests 6 = Some (ex_rqst 6 1)" and "out_of_reach (\<lambda>u. True) (ex_rqst 6 1)"
    by (simp_all add: ids_below_def ex_two_requests_def get_rqst_def out_of_reach_def ex_simps)
  from requests_out_of_reach [OF steps this] show "get_rqst ?t 6 = Some (ex_rqst 6 1)" by simp
  show "get_rqst ?t 5 = None" by code_simp
qed

text \<open>
  C20: Every sequence of page requests and eligibility decisions keeps the request table consistent,
  lets only item rows in that the schema accepts, keeps each of them with an existing request, and
  never lets a request without an item leave the draft state.
\<close>

theorem workflow_keeps_tables:
  assumes "workflow_step\<^sup>*\<^sup>* s t" and "workflow_ok s"
  shows "workflow_ok t"
  using workflow.steps_inv assms by blast

theorem workflow_keeps_tables_witness:
  "workflow_ok (snd (projr (submit_request_page ex_officer_env Missing 5 ex_two_requests)))
   \<and> map rq_status_code (t_reliefrqst (snd (projr (submit_request_page ex_officer_env Missing 5 ex_two_requests)))) = [1, 1]"
proof
  let ?t = "snd (projr (submit_request_page ex_officer_env Missing 5 ex_two_requests))"
  have "submit_request_page ex_officer_env Missing 5 ex_two_requests = Inr (Saved, ?t)" by (rule run_result) code_simp+
  then have "workflow_step ex_two_requests ?t" by (rule by_page [OF page_submit [OF TrueI]])
  then have "workflow_step\<^sup>*\<^sup>* ex_two_requests ?t" by (rule r_into_rtranclp)
  from workflow_keeps_tables [OF this ex_two_requests_ok] show "workflow_ok ?t" .
  show "map rq_status_code (t_reliefrqst ?t) = [1, 1]" by code_simp
qed

text \<open>
  C32: A tab of the request list shows only requests the user may open, the tab of all requests shows
  all of these, and the number on each tab is the length of its list.
\<close>

theorem request_list_complete:
  assumes "list_requests u (Some tab) st s = Inr (rs, c)" and "tab \<noteq> []"
  shows "set rs \<subseteq> {r \<in> set (t_reliefrqst s). can_access_relief_request (Some u) r}
    \<and> (tab = ''all'' \<longrightarrow> set rs = {r \<in> set (t_reliefrqst s). can_access_relief_request (Some u) r})
    \<and> length rs = count_of tab c"
proof -
  obtain base where base: "visible_requests u s = Inr base" using assms by (auto simp: list_requests_def split: sum.splits)
  note vis = visible_accessible [OF base]
  from assms base have rs: "rs = sort_key (\<lambda>r. - rq_request_date r) (tab_requests tab base)" and c: "c = request_counts_of base"
    by (simp_all add: list_requests_def)
  have "set rs \<subseteq> set base" unfolding rs by (auto simp: set_with_status tab_requests_def)
  moreover have "tab = ''all'' \<longrightarrow> set rs = set base" unfolding rs by (simp add: tab_requests_def)
  moreover have "length rs = count_of tab c" unfolding rs c by (simp add: count_of_def request_counts_of_def tab_requests_def)
  ultimately show ?thesis unfolding vis by simp
qed

theorem request_list_complete_witness:
  "length (fst (projr (list_requests (ex_user 1 ''LO'' [ex_role 2 ''LOGISTICS_OFFICER'']) (Some ''draft'') None ex_two_requests)))
     = count_of ''draft'' (snd (projr (list_requests (ex_user 1 ''LO'' [ex_role 2 ''LOGISTICS_OFFICER'']) (Some ''draft'') None ex_two_requests)))"
proof -
  let ?l = "list_requests (ex_user 1 ''LO'' [ex_role 2 ''LOGISTICS_OFFICER'']) (Some ''draft'') None ex_two_requests"
  have "\<not> isl ?l" by code_simp
  then have "?l = Inr (fst (projr ?l), snd (projr ?l))" by (simp add: sum.collapse(2))
  from request_list_complete [OF this] show ?thesis by simp
qed

end
