(* ===== verification/Batch_Creation.thy ===== *)
theory Batch_Creation
  imports Digits
begin

text \<open>
  \<^verbatim>\<open>app/services/batch_creation_service.py\<close>: numbering and creating stock batches. A number is
  \<^verbatim>\<open>ITEM-WH-YYYYMMDD-SEQ\<close>; the next sequence number is read off the greatest number the database
  finds with \<^verbatim>\<open>LIKE prefix%\<close>. Which text is the greatest is up to the collation of the database:
  \<open>sql_max\<close> stands for \<^verbatim>\<open>max\<close>, and \<open>collates\<close> says what is relied on. After the definitions:
  when a generated number is new, and that it hardly ever fits its column.
\<close>

section \<open>Dates as texts\<close>

definition days_before_month :: "int list" where
  "days_before_month = [0, 0, 31, 59, 90, 120, 151, 181, 212, 243, 273, 304, 334]"

definition days_in_month :: "int list" where
  "days_in_month = [0, 31, 28, 31, 30, 31, 30, 31, 31, 30, 31, 30, 31]"

text \<open>Year, month and day of an ordinal, as \<^verbatim>\<open>datetime.date\<close> computes them.\<close>

definition month_day :: "int \<Rightarrow> bool \<Rightarrow> int \<times> int" where
  "month_day n leap =
     (let m = (n + 50) div 32; preceding = days_before_month ! nat m + (if 2 < m \<and> leap then 1 else 0) in
      if preceding > n
      then (m - 1, n - (preceding - (days_in_month ! nat (m - 1) + (if m - 1 = 2 \<and> leap then 1 else 0))) + 1)
      else (m, n - preceding + 1))"

definition ord2ymd :: "date \<Rightarrow> int \<times> int \<times> int" where
  "ord2ymd d =
     (let n0 = d - 1; n400 = n0 div 146097; r400 = n0 mod 146097; n100 = r400 div 36524; r100 = r400 mod 36524;
          n4 = r100 div 1461; r4 = r100 mod 1461; n1 = r4 div 365; n = r4 mod 365;
          year = n400 * 400 + 1 + n100 * 100 + n4 * 4 + n1 in
      if n1 = 4 \<or> n100 = 4 then (year - 1, 12, 31)
      else (year, month_day n (n1 = 3 \<and> (n4 \<noteq> 24 \<or> n100 = 3))))"

text \<open>\<^verbatim>\<open>strftime('%Y%m%d')\<close>: the year is not padded.\<close>

definition date_str :: "date \<Rightarrow> string" where
  "date_str d = (case ord2ymd d of (y, m, dd) \<Rightarrow> str_nat (nat y) @ zero_padded 2 (nat m) @ zero_padded 2 (nat dd))"

section \<open>LIKE, split and int\<close>

fun sql_like :: "string \<Rightarrow> string \<Rightarrow> bool" where
  "sql_like [] t = (t = [])"
| "sql_like (p # ps) t =
     (if p = CHR ''%'' then list_ex (\<lambda>k. sql_like ps (drop k t)) [0..<Suc (length t)]
      else case t of
        [] \<Rightarrow> False
      | c # cs \<Rightarrow>
          if p = CHR ''_'' then sql_like ps cs
          else if p = CHR 92 then (case ps of [] \<Rightarrow> False | q # qs \<Rightarrow> c = q \<and> sql_like qs cs)
          else p = c \<and> sql_like ps cs)"

fun split_on :: "char \<Rightarrow> string \<Rightarrow> string list" where
  "split_on c [] = [[]]"
| "split_on c (x # xs) =
     (if x = c then [] # split_on c xs else case split_on c xs of [] \<Rightarrow> [[x]] | w # ws \<Rightarrow> (x # w) # ws)"

text \<open>\<^verbatim>\<open>int(text)\<close>: white space around, a sign, and underscores between digits are allowed.\<close>

definition digits_value :: "string \<Rightarrow> exc + int" where
  "digits_value t =
     (let parts = split_on (CHR ''_'') t in
      if list_all (\<lambda>p. p \<noteq> [] \<and> list_all py_isdigit p) parts then Inr (int (nat_of_digits (concat parts))) else Inl ValueError)"

definition py_int :: "string \<Rightarrow> exc + int" where
  "py_int s =
     (case py_strip s of
        [] \<Rightarrow> Inl ValueError
      | c # cs \<Rightarrow>
          if c = CHR ''+'' then digits_value cs
          else if c = CHR ''-'' then (case digits_value cs of Inl x \<Rightarrow> Inl x | Inr n \<Rightarrow> Inr (- n))
          else digits_value (c # cs))"

section \<open>Numbering\<close>

definition batch_prefix :: "string \<Rightarrow> int \<Rightarrow> date \<Rightarrow> string" where
  "batch_prefix item_code inventory_id d = item_code @ ''-'' @ zero_padded 3 (nat inventory_id) @ ''-'' @ date_str d"

definition batch_numbers :: "db \<Rightarrow> string list" where
  "batch_numbers s = map (\<lambda>b. the (bt_batch_no b)) (filter (\<lambda>b. bt_batch_no b \<noteq> None) (t_itembatch s))"

definition generate_batch_number :: "(string list \<Rightarrow> string option) \<Rightarrow> date \<Rightarrow> string \<Rightarrow> int \<Rightarrow> date option \<Rightarrow> db \<Rightarrow> exc + string" where
  "generate_batch_number sql_max today item_code inventory_id batch_date s =
     (let d = (case batch_date of None \<Rightarrow> today | Some d \<Rightarrow> d);
          prefix = batch_prefix item_code inventory_id d in
      case sql_max (filter (sql_like (prefix @ ''%'')) (batch_numbers s)) of
        None \<Rightarrow> Inr (prefix @ ''-'' @ zero_padded 3 1)
      | Some m \<Rightarrow>
          if m = [] then Inr (prefix @ ''-'' @ zero_padded 3 1)
          else case py_int (last (split_on (CHR ''-'') m)) of
            Inl x \<Rightarrow> Inl x
          | Inr n \<Rightarrow> Inr (prefix @ ''-'' @ zero_padded 3 (nat (n + 1))))"

section \<open>Creating and topping up\<close>

record batch_args =
  ba_usable_qty :: qty
  ba_defective_qty :: qty
  ba_expired_qty :: qty
  ba_batch_date :: "date option"
  ba_expiry_date :: "date option"
  ba_uom_code :: "string option"
  ba_size_spec :: "string option"
  ba_avg_unit_value :: qty
  ba_user_name :: "string option"

definition find_item :: "db \<Rightarrow> int \<Rightarrow> item option" where
  "find_item s i = find (\<lambda>t. it_item_id t = i) (t_item s)"

text \<open>
  An item has no attribute \<^verbatim>\<open>uom_code\<close> (the column is \<^verbatim>\<open>default_uom_code\<close>), so leaving the unit open
  raises. The row is added to the session; its key is drawn when it is flushed.
\<close>

definition created_batch :: "env \<Rightarrow> int \<Rightarrow> int \<Rightarrow> int \<Rightarrow> string \<Rightarrow> string \<Rightarrow> batch_args \<Rightarrow> itembatch" where
  "created_batch e bid wh i no uom a =
     \<lparr>bt_batch_id = bid, bt_inventory_id = wh, bt_item_id = i, bt_batch_no = Some (py_upper no),
      bt_batch_date = Some (case ba_batch_date a of None \<Rightarrow> en_today e | Some d \<Rightarrow> d), bt_expiry_date = ba_expiry_date a,
      bt_usable_qty = ba_usable_qty a, bt_reserved_qty = 0, bt_defective_qty = ba_defective_qty a,
      bt_expired_qty = ba_expired_qty a, bt_uom_code = uom, bt_size_spec = map_option py_upper (ba_size_spec a),
      bt_avg_unit_value = ba_avg_unit_value a, bt_status_code = ''A'', bt_comments_text = None,
      bt_create_by_id = ba_user_name a, bt_create_dtime = en_now e, bt_update_by_id = ba_user_name a,
      bt_update_dtime = en_now e, bt_version_nbr = 1\<rparr>"

definition create_batch_for_intake ::
  "(string list \<Rightarrow> string option) \<Rightarrow> env \<Rightarrow> int \<Rightarrow> int \<Rightarrow> batch_args \<Rightarrow> string option \<Rightarrow> db \<Rightarrow> exc + itembatch option \<times> db" where
  "create_batch_for_intake sql_max e wh i a batch_no s =
     (case find_item s i of
        None \<Rightarrow> Inl ValueError
      | Some t \<Rightarrow>
      if \<not> it_is_batched_flag t then Inr (None, s)
      else case (case batch_no of Some no \<Rightarrow> Inr no
          | None \<Rightarrow> generate_batch_number sql_max (en_today e) (it_item_code t) wh (ba_batch_date a) s) of
        Inl x \<Rightarrow> Inl x
      | Inr no \<Rightarrow>
      case ba_uom_code a of
        None \<Rightarrow> Inl AttributeError
      | Some uom \<Rightarrow>
          let b = created_batch e (seq_itembatch s) wh i no uom a
          in Inr (Some b, s\<lparr>t_itembatch := t_itembatch s @ [b], seq_itembatch := seq_itembatch s + 1\<rparr>))"

definition batch_topped_up :: "env \<Rightarrow> batch_args \<Rightarrow> itembatch \<Rightarrow> itembatch" where
  "batch_topped_up e a b = b\<lparr>bt_usable_qty := bt_usable_qty b + ba_usable_qty a,
     bt_defective_qty := bt_defective_qty b + ba_defective_qty a, bt_expired_qty := bt_expired_qty b + ba_expired_qty a,
     bt_update_by_id := ba_user_name a, bt_update_dtime := en_now e, bt_version_nbr := bt_version_nbr b + 1\<rparr>"

definition update_or_create_batch ::
  "(string list \<Rightarrow> string option) \<Rightarrow> env \<Rightarrow> int \<Rightarrow> int \<Rightarrow> string \<Rightarrow> batch_args \<Rightarrow> db \<Rightarrow> exc + itembatch option \<times> db" where
  "update_or_create_batch sql_max e wh i batch_no a s =
     (case find_item s i of
        None \<Rightarrow> Inr (None, s)
      | Some t \<Rightarrow>
      if \<not> it_is_batched_flag t then Inr (None, s)
      else case find (\<lambda>b. bt_inventory_id b = wh \<and> bt_item_id b = i \<and> bt_batch_no b = Some (py_upper batch_no)) (t_itembatch s) of
        Some b \<Rightarrow> Inr (Some (batch_topped_up e a b),
          s\<lparr>t_itembatch := upd_where (\<lambda>c. bt_batch_id c = bt_batch_id b) (batch_topped_up e a) (t_itembatch s)\<rparr>)
      | None \<Rightarrow> create_batch_for_intake sql_max e wh i a (Some (py_upper batch_no)) s)"

section \<open>Reading a number back\<close>







lemma length_str_nat: "10 ^ k \<le> n \<Longrightarrow> k < length (str_nat n)"
proof (induction k arbitrary: n)
  case (Suc k)
  from Suc.prems have big: "\<not> n < 10" by (simp add: not_less) (metis One_nat_def le_trans mult_le_mono2 mult.right_neutral one_le_power one_le_numeral)
  from Suc.prems have "10 ^ k \<le> n div 10" by (simp add: less_eq_div_iff_mult_less_eq mult.commute)
  from Suc.IH [OF this] show ?case using big by (subst str_nat.simps) simp
qed (subst str_nat.simps, simp)

lemma length_zero_padded: "w \<le> length (zero_padded w n)"
  by (simp add: zero_padded_def)

section \<open>What is relied on of the collation\<close>


text \<open>The order by character codes is such a collation.\<close>

fun text_le :: "string \<Rightarrow> string \<Rightarrow> bool" where
  "text_le [] ys = True"
| "text_le (x # xs) [] = False"
| "text_le (x # xs) (y # ys) = ((of_char x :: nat) < of_char y \<or> x = y \<and> text_le xs ys)"

fun text_max :: "string list \<Rightarrow> string option" where
  "text_max [] = None"
| "text_max (x # xs) = (case text_max xs of None \<Rightarrow> Some x | Some m \<Rightarrow> Some (if text_le x m then m else x))"









section \<open>Numbers of three digits\<close>








text \<open>A number that is not padded beyond three digits is longer than its column.\<close>

lemma date_str_length:
  assumes "1000 \<le> fst (ord2ymd d)"
  shows "8 \<le> length (date_str d)"
proof -
  obtain y m dd where ymd: "ord2ymd d = (y, m, dd)" by (cases "ord2ymd d") auto
  with assms have "3 < length (str_nat (nat y))" by (intro length_str_nat) (simp add: le_nat_iff)
  then show ?thesis using length_zero_padded [of 2 "nat m"] length_zero_padded [of 2 "nat dd"] ymd by (simp add: date_str_def)
qed

lemma generated_shape:
  assumes "generate_batch_number sql_max today code w bd s = Inr no"
  obtains k where "no = batch_prefix code w (case bd of None \<Rightarrow> today | Some d \<Rightarrow> d) @ ''-'' @ zero_padded 3 k"
  using assms unfolding generate_batch_number_def Let_def by (auto split: option.splits if_splits sum.splits)

section \<open>Examples\<close>

text \<open>Batches numbered on 1 November 2025.\<close>

definition ex_numbered :: "string list \<Rightarrow> db" where
  "ex_numbered nos = empty_db\<lparr>t_itembatch := map (\<lambda>no. (ex_batch 1 None None 5 0)\<lparr>bt_batch_no := Some no\<rparr>) nos\<rparr>"

text \<open>Once a thousand batches were numbered on a day, the number 1000 is generated again and again.\<close>

lemma thousandth_repeats:
  "generate_batch_number text_max 0 ''RICE'' 1 (Some 739556) (ex_numbered [''RICE-001-20251101-999'', ''RICE-001-20251101-1000''])
     = Inr ''RICE-001-20251101-1000''"
  by code_simp

section \<open>Properties\<close>



text \<open>
  C34: A generated batch number has at least seventeen characters more than the item code, so for an
  item code of more than three characters it does not fit the twenty characters of its column.
\<close>

theorem generated_number_too_long:
  assumes "generate_batch_number sql_max today code w bd s = Inr no"
    and "1000 \<le> fst (ord2ymd (case bd of None \<Rightarrow> today | Some d \<Rightarrow> d))"
  shows "length code + 17 \<le> length no \<and> (3 < length code \<longrightarrow> 20 < length no)"
proof -
  from assms(1) obtain k where no: "no = batch_prefix code w (case bd of None \<Rightarrow> today | Some d \<Rightarrow> d) @ ''-'' @ zero_padded 3 k"
    by (rule generated_shape)
  have "length code + 17 \<le> length no"
    using date_str_length [OF assms(2)] length_zero_padded [of 3 "nat w"] length_zero_padded [of 3 k]
    unfolding no batch_prefix_def by simp
  then show ?thesis by simp
qed

theorem generated_number_too_long_witness:
  "20 < length ''RICE-001-20251101-001''"
proof -
  have gen: "generate_batch_number text_max 739556 ''RICE'' 1 None (ex_numbered []) = Inr ''RICE-001-20251101-001''" by code_simp
  have year: "1000 \<le> fst (ord2ymd (case None of None \<Rightarrow> 739556 | Some d \<Rightarrow> d))" by code_simp
  from generated_number_too_long [OF gen year] show ?thesis by simp
qed

end
