(* ===== verification/Receiving.thy ===== *)
theory Receiving
  imports Digits Forms
begin

text \<open>
  Two pages that move stock outside packages: \<^verbatim>\<open>app/features/intake_aidmgmt.py\<close> (receiving a
  dispatched package at a warehouse) and \<^verbatim>\<open>app/features/transfers.py\<close> (transfers between
  warehouses). Both use columns their tables do not have, so the statements that would change the
  stock raise; the model ends a handler there, and what comes after such a statement is not
  translated. Quantities that \<^verbatim>\<open>float\<close> reads as infinite or not a number are left out.
\<close>

section \<open>Receiving a package\<close>

record goods_form =
  gf_reliefpkg_id :: vfield
  gf_warehouse_id :: vfield
  gf_intake_date :: dfield
  gf_item_ids :: "vfield list"
  gf_usable_qtys :: "qfield list"
  gf_defective_qtys :: "qfield list"
  gf_expired_qtys :: "qfield list"

text \<open>\<^verbatim>\<open>float(q) if q else 0\<close>.\<close>

definition float_or_zero :: "qfield \<Rightarrow> exc + qty" where
  "float_or_zero q = (case q of NoQty \<Rightarrow> Inr 0 | BadQty \<Rightarrow> Inl ValueError | Qty x \<Rightarrow> Inr x)"

definition three_floats :: "qfield \<Rightarrow> qfield \<Rightarrow> qfield \<Rightarrow> exc + qty \<times> qty \<times> qty" where
  "three_floats u d x =
     (case float_or_zero u of Inl y \<Rightarrow> Inl y | Inr a \<Rightarrow>
      case float_or_zero d of Inl y \<Rightarrow> Inl y | Inr b \<Rightarrow>
      case float_or_zero x of Inl y \<Rightarrow> Inl y | Inr c \<Rightarrow> Inr (a, b, c))"

fun any_positive :: "(qfield \<times> qfield \<times> qfield) list \<Rightarrow> exc + bool" where
  "any_positive [] = Inr False"
| "any_positive ((u, d, x) # rows) =
     (case three_floats u d x of
        Inl y \<Rightarrow> Inl y
      | Inr (a, b, c) \<Rightarrow> if a > 0 \<or> b > 0 \<or> c > 0 then Inr True else any_positive rows)"

text \<open>
  The loop over the lines, up to the first one that has a quantity: a new \<^verbatim>\<open>Inventory\<close> is constructed
  with \<^verbatim>\<open>on_hand_qty\<close>, \<^verbatim>\<open>issue_qty\<close> and \<^verbatim>\<open>receive_qty\<close>, which it refuses; on an existing one
  \<^verbatim>\<open>on_hand_qty += usable\<close> finds no attribute. \<open>None\<close> is a loop that processed no line.
\<close>

fun receive_lines :: "db \<Rightarrow> int \<Rightarrow> int \<Rightarrow> (vfield \<times> qfield \<times> qfield \<times> qfield) list \<Rightarrow> unit reply option" where
  "receive_lines s p w [] = None"
| "receive_lines s p w ((i, u, d, x) # rows) =
     (if \<not> given i then receive_lines s p w rows
      else case three_floats u d x of
        Inl y \<Rightarrow> Some (Caught y)
      | Inr (a, b, c) \<Rightarrow>
      if a < 0 \<or> b < 0 \<or> c < 0 then Some Refused
      else if a = 0 \<and> b = 0 \<and> c = 0 then receive_lines s p w rows
      else case i of
        Number n \<Rightarrow>
          (case find (\<lambda>r. pi_reliefpkg_id r = p \<and> pi_item_id r = n) (t_reliefpkg_item s) of
             None \<Rightarrow> Some Refused
           | Some r \<Rightarrow>
               if a + b + c > pi_item_qty r then Some Refused
               else if list_ex (\<lambda>v. iv_inventory_id v = w \<and> iv_item_id v = n) (t_inventory s) then Some (Caught AttributeError)
               else Some (Caught TypeError))
      | _ \<Rightarrow> Some (Caught DataError))"

definition create_intake :: "goods_form \<Rightarrow> db \<Rightarrow> unit reply \<times> db" where
  "create_intake f s =
     (if gf_intake_date f = BadDate then (Caught ValueError, s)
      else if \<not> given (gf_reliefpkg_id f) \<or> \<not> given (gf_warehouse_id f) \<or> gf_intake_date f = NoDate then (Refused, s)
      else case gf_reliefpkg_id f of
        Number p \<Rightarrow>
          (case find (\<lambda>k. pk_reliefpkg_id k = p) (t_reliefpkg s) of
             None \<Rightarrow> (Refused, s)
           | Some k \<Rightarrow>
           if pk_status_code k \<noteq> ''D'' then (Refused, s)
           else case gf_warehouse_id f of
             Number w \<Rightarrow>
               if \<not> list_ex (\<lambda>h. wh_warehouse_id h = w) (t_warehouse s) then (Refused, s)
               else case any_positive (zip (gf_usable_qtys f) (zip (gf_defective_qtys f) (gf_expired_qtys f))) of
                 Inl y \<Rightarrow> (Caught y, s)
               | Inr pos \<Rightarrow>
                   if gf_item_ids f = [] \<or> \<not> pos then (Refused, s)
                   else case receive_lines s p w (zip (gf_item_ids f) (zip (gf_usable_qtys f) (zip (gf_defective_qtys f) (gf_expired_qtys f)))) of
                     None \<Rightarrow> (Refused, s)
                   | Some r \<Rightarrow> (r, s)
           | _ \<Rightarrow> (Caught DataError, s))
      | _ \<Rightarrow> (Caught DataError, s))"

definition get_dbintake :: "db \<Rightarrow> int \<Rightarrow> int \<Rightarrow> dbintake option" where
  "get_dbintake s p w = find (\<lambda>d. dq_reliefpkg_id d = p \<and> dq_inventory_id d = w) (t_dbintake s)"

text \<open>One row for every stock row of the warehouse, whatever its item.\<close>

definition list_intakes :: "db \<Rightarrow> (dbintake \<times> reliefpkg \<times> warehouse) list" where
  "list_intakes s =
     [(d, k, h). d \<leftarrow> t_dbintake s, k \<leftarrow> t_reliefpkg s, pk_reliefpkg_id k = dq_reliefpkg_id d,
        v \<leftarrow> t_inventory s, iv_inventory_id v = dq_inventory_id d, h \<leftarrow> t_warehouse s, wh_warehouse_id h = iv_inventory_id v]"

definition view_intake :: "int \<Rightarrow> int \<Rightarrow> db \<Rightarrow> exc + dbintake \<times> (dbintake_item \<times> item) list" where
  "view_intake p w s =
     (case get_dbintake s p w of
        None \<Rightarrow> Inl NotFound404
      | Some d \<Rightarrow> Inr (d, [(i, t). i \<leftarrow> t_dbintake_item s, t \<leftarrow> t_item s, it_item_id t = di_item_id i,
          di_reliefpkg_id i = p \<and> di_inventory_id i = w]))"

definition completed_intake :: "env \<Rightarrow> dbintake \<Rightarrow> dbintake" where
  "completed_intake e d = d\<lparr>dq_status_code := ''C'', dq_update_by_id := py_upper (str_int (us_user_id (en_user e))),
     dq_update_dtime := Some (en_now e), dq_version_nbr := dq_version_nbr d + 1\<rparr>"

definition complete_intake :: "env \<Rightarrow> int \<Rightarrow> int \<Rightarrow> db \<Rightarrow> exc + unit reply \<times> db" where
  "complete_intake e p w s =
     (case get_dbintake s p w of
        None \<Rightarrow> Inl NotFound404
      | Some d \<Rightarrow>
          if dq_status_code d \<noteq> ''I'' then Inr (Refused, s)
          else Inr (Saved, s\<lparr>t_dbintake := upd_where (\<lambda>d. dq_reliefpkg_id d = p \<and> dq_inventory_id d = w)
            (completed_intake e) (t_dbintake s)\<rparr>))"

section \<open>Transfers\<close>

text \<open>Fields read with \<^verbatim>\<open>type=int\<close> or \<^verbatim>\<open>type=float\<close> are null when they cannot be read.\<close>

record transfer_form =
  xf_from_warehouse_id :: "int option"
  xf_to_warehouse_id :: "int option"
  xf_item_id :: "int option"
  xf_quantity :: "qty option"
  xf_uom_code :: "string option"

definition list_transfers :: "db \<Rightarrow> transfer list" where
  "list_transfers s = sort_key (\<lambda>t. - tr_transfer_date t) (t_transfer s)"

definition view_transfer :: "int \<Rightarrow> db \<Rightarrow> exc + transfer" where
  "view_transfer i s = (case find (\<lambda>t. tr_transfer_id t = i) (t_transfer s) of None \<Rightarrow> Inl NotFound404 | Some t \<Rightarrow> Inr t)"

text \<open>
  A missing stock row at the destination is written first; then \<^verbatim>\<open>Transfer\<close> is constructed with
  \<^verbatim>\<open>transport_mode\<close>, which it refuses, and nothing catches the exception: the session is discarded.
\<close>

definition create_transfer :: "env \<Rightarrow> transfer_form \<Rightarrow> db \<Rightarrow> unit reply \<times> db" where
  "create_transfer e f s =
     (if \<not> (truthy_int (xf_from_warehouse_id f) \<and> truthy_int (xf_to_warehouse_id f) \<and> truthy_int (xf_item_id f)
           \<and> xf_quantity f \<noteq> None \<and> xf_quantity f \<noteq> Some 0 \<and> truthy_str (xf_uom_code f)) then (Refused, s)
      else if xf_from_warehouse_id f = xf_to_warehouse_id f then (Refused, s)
      else let fr = the (xf_from_warehouse_id f); dest = the (xf_to_warehouse_id f); i = the (xf_item_id f) in
      case find (\<lambda>v. iv_inventory_id v = fr \<and> iv_item_id v = i) (t_inventory s) of
        None \<Rightarrow> (Refused, s)
      | Some v \<Rightarrow>
          if iv_usable_qty v < the (xf_quantity f) then (Refused, s)
          else if list_ex (\<lambda>v. iv_inventory_id v = dest \<and> iv_item_id v = i) (t_inventory s) then (Crashed TypeError, s)
          else case audit_id (en_user e) of
            Inl x \<Rightarrow> (Crashed x, s)
          | Inr aid \<Rightarrow>
              if dest \<notin> wh_warehouse_id ` set (t_warehouse s) then (Crashed IntegrityError, s) else (Crashed TypeError, s))"

text \<open>A transfer has no attribute \<^verbatim>\<open>from_inventory\<close>.\<close>

definition execute_transfer :: "int \<Rightarrow> db \<Rightarrow> exc + unit reply \<times> db" where
  "execute_transfer i s =
     (case find (\<lambda>t. tr_transfer_id t = i) (t_transfer s) of
        None \<Rightarrow> Inl NotFound404
      | Some t \<Rightarrow> if tr_status_code t \<noteq> ''P'' then Inr (Refused, s) else Inr (Crashed AttributeError, s))"

text \<open>\<^verbatim>\<open>Inventory\<close> has no column \<^verbatim>\<open>warehouse_id\<close> to filter by.\<close>

definition get_inventory_quantity :: "int \<Rightarrow> int \<Rightarrow> db \<Rightarrow> exc + qty \<times> qty" where
  "get_inventory_quantity w i s = Inl InvalidRequest"

section \<open>What the pages achieve\<close>

lemma receive_lines_never_saves: "receive_lines s p w rows \<noteq> Some Saved"
  by (induction s p w rows rule: receive_lines.induct)
    (auto split: sum.splits vfield.splits option.splits if_splits)

text \<open>No form is ever saved by the intake page or the transfer pages, and none changes the database.\<close>

lemma receiving_is_inert:
  "fst (create_intake f s) \<noteq> Saved \<and> snd (create_intake f s) = s"
  "fst (create_transfer e g s) \<noteq> Saved \<and> snd (create_transfer e g s) = s"
  "execute_transfer i s = Inr (r, s') \<Longrightarrow> r \<noteq> Saved \<and> s' = s"
  by (auto simp: create_intake_def create_transfer_def execute_transfer_def Let_def receive_lines_never_saves
      split: vfield.splits option.splits sum.splits if_splits)

text \<open>An intake is completed at most once.\<close>

lemma complete_intake_once:
  assumes "complete_intake e p w s = Inr (Saved, t)"
  shows "complete_intake e' p w t = Inr (Refused, t)"
proof -
  have find: "find (\<lambda>d. dq_reliefpkg_id d = p \<and> dq_inventory_id d = w) (upd_where (\<lambda>d. dq_reliefpkg_id d = p \<and> dq_inventory_id d = w)
      (completed_intake e) rows) = map_option (completed_intake e) (find (\<lambda>d. dq_reliefpkg_id d = p \<and> dq_inventory_id d = w) rows)" for rows
    by (induction rows) (auto simp: completed_intake_def)
  from assms obtain d where "get_dbintake s p w = Some d" and t: "t = s\<lparr>t_dbintake := upd_where (\<lambda>d. dq_reliefpkg_id d = p \<and> dq_inventory_id d = w)
      (completed_intake e) (t_dbintake s)\<rparr>"
    by (auto simp: complete_intake_def split: option.splits if_splits)
  then have "get_dbintake t p w = Some (completed_intake e d)" by (simp add: get_dbintake_def find)
  then show ?thesis by (simp add: complete_intake_def completed_intake_def)
qed

text \<open>The list shows an intake once for every stock row of its warehouse.\<close>

lemma intake_listed_per_stock_row:
  assumes "t_dbintake s = [d]" and "t_reliefpkg s = [k]" and "pk_reliefpkg_id k = dq_reliefpkg_id d"
    and "t_warehouse s = [h]" and "wh_warehouse_id h = dq_inventory_id d"
  shows "length (list_intakes s) = length (filter (\<lambda>v. iv_inventory_id v = dq_inventory_id d) (t_inventory s))"
proof -
  have "length (concat (map (\<lambda>v. if iv_inventory_id v = dq_inventory_id d
      then concat (map (\<lambda>h. if wh_warehouse_id h = iv_inventory_id v then [(d, k, h)] else []) (t_warehouse s)) else []) vs))
    = length (filter (\<lambda>v. iv_inventory_id v = dq_inventory_id d) vs)" for vs
    by (induction vs) (auto simp: assms(4,5))
  then show ?thesis by (simp add: list_intakes_def assms(1-3))
qed

end
