(* ===== verification/Reports.thy ===== *)
theory Reports
  imports Rbac Donations Digits
begin

text \<open>
  Pages that only read: stock (\<^verbatim>\<open>app/features/inventory.py\<close>), reports (\<^verbatim>\<open>app/features/reports.py\<close>), the
  notifications of a user (\<^verbatim>\<open>app/features/notifications.py\<close>, whose buttons call the notification
  service) and the labels of status codes (\<^verbatim>\<open>app/core/status.py\<close>). A query with joins is a list
  comprehension over the tables, a \<^verbatim>\<open>group_by\<close> the list of its groups in order of appearance (the
  database leaves that order open). The order of names in a selection list and the CSV text of an
  export are presentation. A \<^verbatim>\<open>datetime\<close> counts from the midnight that begins day 0.
\<close>

section \<open>Grouping\<close>

definition sum_by :: "('a \<Rightarrow> 'k) \<Rightarrow> ('a \<Rightarrow> qty) \<Rightarrow> 'a list \<Rightarrow> ('k \<times> qty) list" where
  "sum_by key val rows = map (\<lambda>k. (k, sum_list (map val (filter (\<lambda>r. key r = k) rows)))) (remdups (map key rows))"

definition count_by :: "('a \<Rightarrow> 'k) \<Rightarrow> 'a list \<Rightarrow> ('k \<times> nat) list" where
  "count_by key rows = map (\<lambda>k. (k, length (filter (\<lambda>r. key r = k) rows))) (remdups (map key rows))"

definition day_of :: "datetime \<Rightarrow> date" where
  "day_of t = t div hours 24"

definition day_start :: "datetime \<Rightarrow> datetime" where
  "day_start t = day_of t * hours 24"

text \<open>\<^verbatim>\<open>weekday()\<close>: Monday is 0.\<close>

definition weekday :: "date \<Rightarrow> int" where
  "weekday d = (d + 6) mod 7"

section \<open>Stock pages\<close>

definition stock_check :: "int option \<Rightarrow> int option \<Rightarrow> db \<Rightarrow> exc + qty \<times> qty \<times> qty" where
  "stock_check w i s =
     (if \<not> truthy_int w \<or> \<not> truthy_int i then Inl BadRequest400
      else case find (\<lambda>v. Some (iv_inventory_id v) = w \<and> Some (iv_item_id v) = i \<and> iv_status_code v = ''A'') (t_inventory s) of
        None \<Rightarrow> Inr (0, 0, 0)
      | Some v \<Rightarrow> Inr (iv_usable_qty v, iv_reserved_qty v, iv_defective_qty v))"

definition joined_inventory :: "db \<Rightarrow> (inventory \<times> item \<times> warehouse) list" where
  "joined_inventory s = [(v, t, h). v \<leftarrow> t_inventory s, t \<leftarrow> t_item s, it_item_id t = iv_item_id v,
     h \<leftarrow> t_warehouse s, wh_warehouse_id h = iv_inventory_id v]"

text \<open>The rows and the warehouses offered for selection.\<close>

definition list_inventory :: "user \<Rightarrow> int option \<Rightarrow> db \<Rightarrow> (inventory \<times> item \<times> warehouse) list \<times> warehouse list" where
  "list_inventory u w s =
     (let clerk = has_role (Some u) [''INVENTORY_CLERK''] in
      if clerk \<and> us_warehouses u = [] then ([], [])
      else
       let rows = (if clerk then filter (\<lambda>(v, t, h). iv_inventory_id v \<in> set (us_warehouses u)) (joined_inventory s) else joined_inventory s);
           picked = (if truthy_int w then filter (\<lambda>(v, t, h). Some (iv_inventory_id v) = w) rows else rows) in
       (filter (\<lambda>(v, t, h). iv_status_code v = ''A'') picked,
        filter (\<lambda>h. (clerk \<longrightarrow> wh_warehouse_id h \<in> set (us_warehouses u)) \<and> wh_status_code h = ''A'') (t_warehouse s)))"

section \<open>Reports\<close>

record summary_row =
  sm_warehouse_name :: string
  sm_item_name :: string
  sm_usable :: qty
  sm_reserved :: qty
  sm_defective :: qty
  sm_expired :: qty

definition inventory_summary :: "db \<Rightarrow> summary_row list" where
  "inventory_summary s =
     (let rows = joined_inventory s; key = (\<lambda>(v, t, h). (wh_warehouse_name h, it_item_name t));
          total = (\<lambda>val k. sum_list (map (\<lambda>(v, t, h). val v) (filter (\<lambda>r. key r = k) rows))) in
      map (\<lambda>k. \<lparr>sm_warehouse_name = fst k, sm_item_name = snd k, sm_usable = total iv_usable_qty k,
        sm_reserved = total iv_reserved_qty k, sm_defective = total iv_defective_qty k,
        sm_expired = total iv_expired_qty k\<rparr>) (remdups (map key rows)))"

text \<open>
  Donor, number of donations and value of what was taken in, the greatest value first; a donor of
  whom nothing was taken in has no value and comes before the others.
\<close>

definition donation_value :: "db \<Rightarrow> donation list \<Rightarrow> qty option" where
  "donation_value s ds =
     (let js = filter (\<lambda>j. dj_donation_id j \<in> dn_donation_id ` set ds) (t_dnintake_item s) in
      if js = [] then None
      else Some (sum_list (map (\<lambda>j. (dj_usable_qty j + dj_defective_qty j + dj_expired_qty j) * dj_avg_unit_value j) js)))"

definition donations_summary :: "db \<Rightarrow> (string \<times> nat \<times> qty option) list" where
  "donations_summary s =
     (let joined = [(dr_donor_name r, d). r \<leftarrow> t_donor s, d \<leftarrow> t_donation s, dn_donor_id d = dr_donor_id r] in
      sort_key (\<lambda>(n, c, v). case v of None \<Rightarrow> (0 :: nat, 0) | Some x \<Rightarrow> (1, - x))
        (map (\<lambda>n. let ds = map snd (filter (\<lambda>(m, d). m = n) joined) in
           (n, length (remdups (map dn_donation_id ds)), donation_value s ds)) (remdups (map fst joined))))"

text \<open>Items that are short: the usable stock of all warehouses does not exceed the reorder level.\<close>

definition low_stock_items :: "db \<Rightarrow> (item \<times> qty) list" where
  "low_stock_items s =
     filter (\<lambda>(t, q). q \<le> it_reorder_qty t)
       (map (\<lambda>t. (t, sum_list (map iv_usable_qty (filter (\<lambda>v. iv_item_id v = it_item_id t) (t_inventory s)))))
         (filter (\<lambda>t. it_status_code t = ''A'' \<and> list_ex (\<lambda>v. iv_item_id v = it_item_id t) (t_inventory s)) (t_item s)))"

section \<open>Notifications of a user\<close>

record notification_page =
  np_notifications :: "notification list"
  np_low_stock_items :: "(item \<times> qty) list"
  np_unread_count :: nat
  np_read_count :: nat
  np_today_count :: nat
  np_week_count :: nat

definition unread_count :: "user \<Rightarrow> db \<Rightarrow> nat" where
  "unread_count u s = get_unread_count s (us_user_id u)"

definition notification_list :: "user \<Rightarrow> db \<Rightarrow> notification list" where
  "notification_list u s = get_recent_notifications s (us_user_id u) (Some 10)"

definition notification_index :: "env \<Rightarrow> db \<Rightarrow> notification_page" where
  "notification_index e s =
     (let ns = get_recent_notifications s (us_user_id (en_user e)) None;
          today_start = day_start (en_now e);
          week_start = today_start - weekday (day_of (en_now e)) * hours 24;
          n = (\<lambda>p. length (filter p ns)) in
      \<lparr>np_notifications = ns, np_low_stock_items = low_stock_items s,
       np_unread_count = n (\<lambda>x. nt_status x = ''unread''), np_read_count = n (\<lambda>x. nt_status x = ''read''),
       np_today_count = n (\<lambda>x. nt_created_at x \<ge> today_start), np_week_count = n (\<lambda>x. nt_created_at x \<ge> week_start)\<rparr>)"

text \<open>Where the user is sent; a notification of somebody else is turned away.\<close>

definition mark_read_page :: "user \<Rightarrow> int \<Rightarrow> db \<Rightarrow> exc + link \<times> db" where
  "mark_read_page u nid s =
     (case find (\<lambda>n. nt_id n = nid) (t_notification s) of
        None \<Rightarrow> Inl NotFound404
      | Some n \<Rightarrow>
          if nt_user_id n \<noteq> us_user_id u then Inl Forbidden403
          else Inr (nt_link_url n, snd (mark_as_read nid (us_user_id u) s)))"

definition delete_page :: "user \<Rightarrow> int \<Rightarrow> db \<Rightarrow> bool \<times> db" where
  "delete_page u nid s = delete_notification nid (us_user_id u) s"

definition clear_all_page :: "user \<Rightarrow> db \<Rightarrow> nat \<times> db" where
  "clear_all_page u s = clear_all_notifications (us_user_id u) s"

definition api_mark_read :: "user \<Rightarrow> int \<Rightarrow> db \<Rightarrow> exc + db" where
  "api_mark_read u nid s = (case mark_as_read nid (us_user_id u) s of (True, t) \<Rightarrow> Inr t | (False, t) \<Rightarrow> Inl NotFound404)"

definition api_delete_notification :: "user \<Rightarrow> int \<Rightarrow> db \<Rightarrow> exc + db" where
  "api_delete_notification u nid s =
     (case delete_notification nid (us_user_id u) s of (True, t) \<Rightarrow> Inr t | (False, t) \<Rightarrow> Inl NotFound404)"

section \<open>Labels and badges of status codes\<close>

text \<open>A status code is a number (of relief requests) or a text.\<close>

datatype status_code = IntCode int | TextCode string

definition EVENT_STATUS :: "(status_code, string) dict" where
  "EVENT_STATUS =
     [(TextCode ''A'', ''Active''), (TextCode ''C'', ''Closed'')]"

definition ITEM_STATUS :: "(status_code, string) dict" where
  "ITEM_STATUS =
     [(TextCode ''A'', ''Active''), (TextCode ''I'', ''Inactive'')]"

definition WAREHOUSE_STATUS :: "(status_code, string) dict" where
  "WAREHOUSE_STATUS =
     [(TextCode ''A'', ''Active''), (TextCode ''I'', ''Inactive'')]"

definition INVENTORY_STATUS :: "(status_code, string) dict" where
  "INVENTORY_STATUS =
     [(TextCode ''A'', ''Available''), (TextCode ''U'', ''Unavailable'')]"

definition DONATION_STATUS :: "(status_code, string) dict" where
  "DONATION_STATUS =
     [(TextCode ''A'', ''Accepted''), (TextCode ''P'', ''Pending''), (TextCode ''C'', ''Completed'')]"

definition RELIEFRQST_STATUS :: "(status_code, string) dict" where
  "RELIEFRQST_STATUS =
     [(IntCode 0, ''Pending''), (IntCode 1, ''In Review''), (IntCode 2, ''Approved''), (IntCode 3, ''Partial''),
     (IntCode 4, ''Fulfilled''), (IntCode 5, ''Rejected''), (IntCode 6, ''Cancelled''), (IntCode 7, ''Closed'')]"

definition RELIEFRQST_ITEM_STATUS :: "(status_code, string) dict" where
  "RELIEFRQST_ITEM_STATUS =
     [(TextCode ''R'', ''Requested''), (TextCode ''U'', ''Unavailable''), (TextCode ''W'', ''Waiting''),
     (TextCode ''D'', ''Denied''), (TextCode ''P'', ''Partial''), (TextCode ''L'', ''Limited''),
     (TextCode ''F'', ''Fulfilled'')]"

definition RELIEFPKG_STATUS :: "(status_code, string) dict" where
  "RELIEFPKG_STATUS =
     [(TextCode ''P'', ''Pending''), (TextCode ''D'', ''Dispatched''), (TextCode ''C'', ''Completed'')]"

definition INTAKE_STATUS :: "(status_code, string) dict" where
  "INTAKE_STATUS =
     [(TextCode ''I'', ''Incomplete''), (TextCode ''C'', ''Completed''), (TextCode ''V'', ''Verified'')]"

definition URGENCY_IND :: "(status_code, string) dict" where
  "URGENCY_IND =
     [(TextCode ''L'', ''Low''), (TextCode ''M'', ''Medium''), (TextCode ''H'', ''High''), (TextCode ''C'', ''Critical'')]"

definition DBINTAKE_ITEM_STATUS :: "(status_code, string) dict" where
  "DBINTAKE_ITEM_STATUS =
     [(TextCode ''P'', ''Pending''), (TextCode ''V'', ''Verified'')]"

definition NEEDS_LIST_STATUS :: "(status_code, string) dict" where
  "NEEDS_LIST_STATUS =
     [(TextCode ''Draft'', ''Draft''), (TextCode ''Submitted'', ''Submitted''), (TextCode ''Under Review'', ''Under Review''),
     (TextCode ''Approved'', ''Approved''), (TextCode ''Rejected'', ''Rejected''),
     (TextCode ''In Fulfilment'', ''In Fulfilment''), (TextCode ''Completed'', ''Completed'')]"

definition NEEDS_LIST_PRIORITY :: "(status_code, string) dict" where
  "NEEDS_LIST_PRIORITY =
     [(TextCode ''LOW'', ''Low''), (TextCode ''MEDIUM'', ''Medium''), (TextCode ''HIGH'', ''High''),
     (TextCode ''CRITICAL'', ''Critical'')]"

definition FULFILMENT_STATUS :: "(status_code, string) dict" where
  "FULFILMENT_STATUS =
     [(TextCode ''In Preparation'', ''In Preparation''), (TextCode ''Ready'', ''Ready''),
     (TextCode ''Dispatched'', ''Dispatched''), (TextCode ''Received'', ''Received''),
     (TextCode ''Completed'', ''Completed''), (TextCode ''Cancelled'', ''Cancelled'')]"

definition DISTRIBUTION_PACKAGE_STATUS :: "(status_code, string) dict" where
  "DISTRIBUTION_PACKAGE_STATUS =
     [(TextCode ''Draft'', ''Draft''), (TextCode ''Approved'', ''Approved''), (TextCode ''Dispatched'', ''Dispatched''),
     (TextCode ''Delivered'', ''Delivered''), (TextCode ''Cancelled'', ''Cancelled'')]"

definition STATUS_BADGE_MAP :: "(string, (status_code, string) dict) dict" where
  "STATUS_BADGE_MAP =
    [(''event'',
       [(TextCode ''A'', ''success''), (TextCode ''C'', ''secondary'')]),
     (''warehouse'',
       [(TextCode ''A'', ''success''), (TextCode ''I'', ''secondary'')]),
     (''item'',
       [(TextCode ''A'', ''success''), (TextCode ''I'', ''secondary'')]),
     (''inventory'',
       [(TextCode ''A'', ''success''), (TextCode ''I'', ''secondary'')]),
     (''donation'',
       [(TextCode ''A'', ''success''), (TextCode ''P'', ''warning''), (TextCode ''C'', ''secondary'')]),
     (''reliefpkg'',
       [(TextCode ''P'', ''warning''), (TextCode ''D'', ''primary''), (TextCode ''C'', ''success'')]),
     (''reliefrqst'',
       [(IntCode 0, ''warning''), (IntCode 1, ''info''), (IntCode 2, ''primary''), (IntCode 3, ''warning''),
       (IntCode 4, ''success''), (IntCode 5, ''danger''), (IntCode 6, ''secondary''), (IntCode 7, ''secondary'')]),
     (''reliefrqst_item'',
       [(TextCode ''R'', ''info''), (TextCode ''U'', ''danger''), (TextCode ''W'', ''warning''), (TextCode ''D'', ''danger''),
       (TextCode ''P'', ''warning''), (TextCode ''L'', ''info''), (TextCode ''F'', ''success'')]),
     (''urgency'',
       [(TextCode ''L'', ''secondary''), (TextCode ''M'', ''info''), (TextCode ''H'', ''warning''),
       (TextCode ''C'', ''danger'')]),
     (''dbintake'',
       [(TextCode ''I'', ''warning''), (TextCode ''C'', ''success''), (TextCode ''V'', ''primary'')]),
     (''dbintake_item'',
       [(TextCode ''P'', ''warning''), (TextCode ''V'', ''success'')]),
     (''needs_list'',
       [(TextCode ''Draft'', ''secondary''), (TextCode ''Submitted'', ''info''), (TextCode ''Under Review'', ''warning''),
       (TextCode ''Approved'', ''success''), (TextCode ''Rejected'', ''danger''), (TextCode ''In Fulfilment'', ''primary''),
       (TextCode ''Completed'', ''success'')]),
     (''needs_list_priority'',
       [(TextCode ''LOW'', ''secondary''), (TextCode ''MEDIUM'', ''info''), (TextCode ''HIGH'', ''warning''),
       (TextCode ''CRITICAL'', ''danger'')]),
     (''fulfilment'',
       [(TextCode ''In Preparation'', ''warning''), (TextCode ''Ready'', ''info''), (TextCode ''Dispatched'', ''primary''),
       (TextCode ''Received'', ''success''), (TextCode ''Completed'', ''success''), (TextCode ''Cancelled'', ''secondary'')]),
     (''distribution_package'',
       [(TextCode ''Draft'', ''secondary''), (TextCode ''Approved'', ''info''), (TextCode ''Dispatched'', ''primary''),
       (TextCode ''Delivered'', ''success''), (TextCode ''Cancelled'', ''danger'')])]"

definition status_mappings :: "(string, (status_code, string) dict) dict" where
  "status_mappings =
     [(''event'', EVENT_STATUS), (''item'', ITEM_STATUS), (''warehouse'', WAREHOUSE_STATUS),
      (''inventory'', INVENTORY_STATUS), (''donation'', DONATION_STATUS), (''reliefrqst'', RELIEFRQST_STATUS),
      (''reliefrqst_item'', RELIEFRQST_ITEM_STATUS), (''reliefpkg'', RELIEFPKG_STATUS), (''intake'', INTAKE_STATUS),
      (''dbintake'', INTAKE_STATUS), (''dbintake_item'', DBINTAKE_ITEM_STATUS), (''urgency'', URGENCY_IND),
      (''needs_list'', NEEDS_LIST_STATUS), (''needs_list_priority'', NEEDS_LIST_PRIORITY), (''fulfilment'', FULFILMENT_STATUS),
      (''distribution_package'', DISTRIBUTION_PACKAGE_STATUS)]"

definition str_code :: "status_code \<Rightarrow> string" where
  "str_code c = (case c of IntCode n \<Rightarrow> str_int n | TextCode t \<Rightarrow> t)"

definition get_typed_status_label :: "status_code \<Rightarrow> string \<Rightarrow> string" where
  "get_typed_status_label c ty = dict_get (dict_get status_mappings ty []) c (str_code c)"

definition get_status_badge_class :: "status_code \<Rightarrow> string \<Rightarrow> string" where
  "get_status_badge_class c ty = dict_get (dict_get STATUS_BADGE_MAP ty []) c ''secondary''"

section \<open>Totals\<close>

lemma sum_list_filter_split:
  "sum_list (map val (filter P rows)) + sum_list (map val (filter (\<lambda>r. \<not> P r) rows)) = (sum_list (map val rows) :: 'b :: comm_monoid_add)"
  by (induction rows) (auto simp: ac_simps)

lemma sum_groups:
  fixes val :: "'a \<Rightarrow> 'b :: comm_monoid_add"
  assumes "distinct ks" and "key ` set rows \<subseteq> set ks"
  shows "(\<Sum>k\<leftarrow>ks. sum_list (map val (filter (\<lambda>r. key r = k) rows))) = sum_list (map val rows)"
  using assms
proof (induction ks arbitrary: rows)
  case (Cons k ks)
  let ?rest = "filter (\<lambda>r. key r \<noteq> k) rows"
  have "(\<Sum>k\<leftarrow>ks. sum_list (map val (filter (\<lambda>r. key r = k) rows))) = (\<Sum>k\<leftarrow>ks. sum_list (map val (filter (\<lambda>r. key r = k) ?rest)))"
    using Cons.prems(1) by (intro arg_cong [of _ _ sum_list] map_cong refl arg_cong [of _ _ "\<lambda>xs. sum_list (map val xs)"])
      (auto simp: filter_filter intro: filter_cong)
  also have "\<dots> = sum_list (map val ?rest)" using Cons by (intro Cons.IH) auto
  finally show ?case using sum_list_filter_split [of val "\<lambda>r. key r = k" rows] by simp
qed simp

lemma sum_by_total: "sum_list (map snd (sum_by key val rows)) = sum_list (map val rows)"
  using sum_groups [of "remdups (map key rows)" key rows val] by (simp add: sum_by_def comp_def)

lemma count_by_total: "sum_list (map snd (count_by key rows)) = length rows"
  using sum_groups [of "remdups (map key rows)" key rows "\<lambda>_. 1 :: nat"]
  by (simp add: count_by_def comp_def sum_list_triv)

text \<open>Stock rows refer to exactly one item and one warehouse.\<close>

definition stock_refs_ok :: "db \<Rightarrow> bool" where
  "stock_refs_ok s \<longleftrightarrow> distinct (map it_item_id (t_item s)) \<and> distinct (map wh_warehouse_id (t_warehouse s))
     \<and> (\<forall>v \<in> set (t_inventory s). iv_item_id v \<in> it_item_id ` set (t_item s) \<and> iv_inventory_id v \<in> wh_warehouse_id ` set (t_warehouse s))"

lemma join_one: "distinct (map key xs) \<Longrightarrow> x \<in> set xs \<Longrightarrow> concat (map (\<lambda>y. if key y = key x then f y else []) xs) = f x"
proof (induction xs)
  case (Cons y xs)
  show ?case
  proof (cases "y = x")
    case True
    then have "\<forall>z \<in> set xs. key z \<noteq> key x" using Cons.prems by (auto simp: image_iff)
    then have "concat (map (\<lambda>y. if key y = key x then f y else []) xs) = []" by auto
    with True show ?thesis by simp
  next
    case False
    then show ?thesis using Cons by auto
  qed
qed simp

lemma joined_sum:
  fixes val :: "inventory \<Rightarrow> qty"
  assumes "stock_refs_ok s"
  shows "sum_list (map (\<lambda>(v, t, h). val v) (joined_inventory s)) = sum_list (map val (t_inventory s))"
proof -
  have one: "\<exists>t h. concat (map (\<lambda>t. if it_item_id t = iv_item_id v then
      concat (map (\<lambda>h. if wh_warehouse_id h = iv_inventory_id v then [(v, t, h)] else []) (t_warehouse s)) else []) (t_item s)) = [(v, t, h)]"
    if "v \<in> set (t_inventory s)" for v
  proof -
    from assms that obtain t h where t: "t \<in> set (t_item s)" "it_item_id t = iv_item_id v"
      and h: "h \<in> set (t_warehouse s)" "wh_warehouse_id h = iv_inventory_id v" by (force simp: stock_refs_ok_def)
    let ?wh = "\<lambda>t. concat (map (\<lambda>h. if wh_warehouse_id h = iv_inventory_id v then [(v, t, h)] else []) (t_warehouse s))"
    have "?wh t = [(v, t, h)]"
      using join_one [of wh_warehouse_id "t_warehouse s" h "\<lambda>h. [(v, t, h)]"] assms h by (simp add: stock_refs_ok_def)
    moreover have "concat (map (\<lambda>t. if it_item_id t = iv_item_id v then ?wh t else []) (t_item s)) = ?wh t"
      using join_one [of it_item_id "t_item s" t ?wh] assms t by (simp add: stock_refs_ok_def)
    ultimately show ?thesis by metis
  qed
  have "sum_list (map (\<lambda>(v, t, h). val v) (concat (map (\<lambda>v. concat (map (\<lambda>t. if it_item_id t = iv_item_id v then
      concat (map (\<lambda>h. if wh_warehouse_id h = iv_inventory_id v then [(v, t, h)] else []) (t_warehouse s)) else []) (t_item s))) vs)))
    = sum_list (map val vs)" if "set vs \<subseteq> set (t_inventory s)" for vs
    using that
  proof (induction vs)
    case (Cons v vs)
    from one [of v] Cons.prems obtain t h where "concat (map (\<lambda>t. if it_item_id t = iv_item_id v then
        concat (map (\<lambda>h. if wh_warehouse_id h = iv_inventory_id v then [(v, t, h)] else []) (t_warehouse s)) else []) (t_item s)) = [(v, t, h)]"
      by auto
    with Cons show ?case by simp
  qed simp
  from this [of "t_inventory s"] show ?thesis by (simp add: joined_inventory_def)
qed

text \<open>Every labelled state of a request has a badge of its own type, and the labels are not those of the request service.\<close>

lemma rqst_labels_differ:
  "get_typed_status_label (IntCode 3) ''reliefrqst'' = ''Partial''" "get_typed_status_label (IntCode 5) ''reliefrqst'' = ''Rejected''"
  "get_typed_status_label (IntCode 7) ''reliefrqst'' = ''Closed''" "get_typed_status_label (IntCode 8) ''reliefrqst'' = ''8''"
  by code_simp+

lemma badges_of_labelled:
  "list_all (\<lambda>(ty, d). ty = ''intake'' \<or> map fst d = map fst (dict_get STATUS_BADGE_MAP ty []) \<or> ty = ''inventory'') status_mappings"
  by code_simp

text \<open>An inventory clerk sees the stock of the clerk's own warehouses only.\<close>

lemma clerk_sees_own_stock:
  assumes "has_role (Some u) [''INVENTORY_CLERK'']" and "(v, t, h) \<in> set (fst (list_inventory u w s))"
  shows "iv_inventory_id v \<in> set (us_warehouses u)"
  using assms by (auto simp: list_inventory_def Let_def split: if_splits)

section \<open>Properties\<close>

text \<open>
  C35: The columns of the inventory summary add up to the stock: nothing is counted twice and nothing
  is left out, even if two warehouses share a name.
\<close>

theorem summary_adds_up:
  assumes "stock_refs_ok s"
  shows "sum_list (map sm_usable (inventory_summary s)) = sum_list (map iv_usable_qty (t_inventory s))
    \<and> sum_list (map sm_reserved (inventory_summary s)) = sum_list (map iv_reserved_qty (t_inventory s))
    \<and> sum_list (map sm_defective (inventory_summary s)) = sum_list (map iv_defective_qty (t_inventory s))
    \<and> sum_list (map sm_expired (inventory_summary s)) = sum_list (map iv_expired_qty (t_inventory s))"
proof -
  let ?key = "\<lambda>(v, t, h). (wh_warehouse_name h, it_item_name t)"
  have total: "(\<Sum>k\<leftarrow>remdups (map ?key (joined_inventory s)). sum_list (map (\<lambda>(v, t, h). val v) (filter (\<lambda>r. ?key r = k) (joined_inventory s))))
      = sum_list (map val (t_inventory s))" for val :: "inventory \<Rightarrow> qty"
    using sum_groups [of "remdups (map ?key (joined_inventory s))" ?key "joined_inventory s" "\<lambda>(v, t, h). val v"] joined_sum [OF assms] by simp
  show ?thesis using total [of iv_usable_qty] total [of iv_reserved_qty] total [of iv_defective_qty] total [of iv_expired_qty]
    by (simp add: inventory_summary_def Let_def comp_def)
qed

definition ex_two_stores :: db where
  "ex_two_stores = (ex_stock ''FIFO'')\<lparr>t_warehouse := [ex_warehouse, ex_warehouse\<lparr>wh_warehouse_id := 8\<rparr>],
     t_inventory := [ex_inventory 15 2, (ex_inventory 4 0)\<lparr>iv_inventory_id := 8\<rparr>]\<rparr>"

theorem summary_adds_up_witness:
  "sum_list (map sm_usable (inventory_summary ex_two_stores)) = 19 \<and> length (inventory_summary ex_two_stores) = 1"
proof
  have "stock_refs_ok ex_two_stores" by (simp add: stock_refs_ok_def ex_two_stores_def ex_simps)
  from summary_adds_up [OF this] show "sum_list (map sm_usable (inventory_summary ex_two_stores)) = 19"
    by (simp add: ex_two_stores_def ex_inventory_def)
  show "length (inventory_summary ex_two_stores) = 1" by code_simp
qed

end
