(* ===== verification/Dashboards.thy ===== *)
theory Dashboards
  imports Reports Request_Pages
begin

text \<open>
  What the dashboards show: \<^verbatim>\<open>app/services/dashboard_service.py\<close> (widgets, metrics and actions by
  role), \<^verbatim>\<open>app/features/dashboard.py\<close> (one page per role) and \<^verbatim>\<open>app/features/operations_dashboard.py\<close> (the
  executives' figures). Every figure is a query over the tables; titles, icons and links are
  presentation, percentages and averages are kept exact. Rows with equal sort keys keep the order of
  their table, which the database leaves open.
\<close>

section \<open>Widgets, metrics and actions\<close>

definition any_role :: "user \<Rightarrow> string list \<Rightarrow> bool" where
  "any_role u codes = list_ex (\<lambda>c. c \<in> set (role_codes_of u)) codes"

definition AGENCY_ROLES :: "string list" where "AGENCY_ROLES = [''AGENCY_DISTRIBUTOR'', ''AGENCY_SHELTER'']"
definition DIRECTOR_ROLES :: "string list" where "DIRECTOR_ROLES = [''ODPEM_DG'', ''ODPEM_DDG'', ''ODPEM_DIR_PEOD'']"
definition LOGISTICS_ROLES :: "string list" where "LOGISTICS_ROLES = [''LOGISTICS_OFFICER'', ''LOGISTICS_MANAGER'']"

definition own_requests :: "user \<Rightarrow> db \<Rightarrow> reliefrqst list" where
  "own_requests u s = filter (\<lambda>r. us_agency_id u = Some (rq_agency_id r)) (t_reliefrqst s)"

definition packages_with :: "string \<Rightarrow> db \<Rightarrow> reliefpkg list" where
  "packages_with st s = filter (\<lambda>p. pk_status_code p = st) (t_reliefpkg s)"

datatype widget =
    MyRequests "reliefrqst list" nat
  | PendingEligibility nat
  | PendingFulfillment nat
  | PendingApproval nat
  | UnreadNotifications nat

definition widget_priority :: "widget \<Rightarrow> int" where
  "widget_priority w = (case w of MyRequests _ _ \<Rightarrow> 20 | PendingEligibility _ \<Rightarrow> 25 | PendingFulfillment _ \<Rightarrow> 22
     | PendingApproval _ \<Rightarrow> 24 | UnreadNotifications _ \<Rightarrow> 5)"

definition build_my_requests_widget :: "user \<Rightarrow> db \<Rightarrow> widget" where
  "build_my_requests_widget u s = MyRequests (take 5 (sort_key (\<lambda>r. - rq_create_dtime r) (own_requests u s))) (length (own_requests u s))"

definition build_eligibility_widget :: "db \<Rightarrow> widget" where
  "build_eligibility_widget s = PendingEligibility (length (with_status [1] (t_reliefrqst s)))"

definition build_fulfillment_widget :: "db \<Rightarrow> widget" where
  "build_fulfillment_widget s = PendingFulfillment (length (with_status [3] (t_reliefrqst s)))"

definition build_approval_widget :: "db \<Rightarrow> widget" where
  "build_approval_widget s = PendingApproval (length (packages_with ''P'' s))"

definition build_notifications_widget :: "user \<Rightarrow> db \<Rightarrow> widget" where
  "build_notifications_widget u s =
     UnreadNotifications (length (filter (\<lambda>n. nt_user_id n = us_user_id u \<and> nt_status n = ''unread'') (t_notification s)))"

definition get_widgets_for_user :: "user \<Rightarrow> db \<Rightarrow> widget list" where
  "get_widgets_for_user u s = sort_key (\<lambda>w. - widget_priority w)
     ((if any_role u AGENCY_ROLES then [build_my_requests_widget u s] else [])
      @ (if any_role u DIRECTOR_ROLES then [build_eligibility_widget s] else [])
      @ (if any_role u LOGISTICS_ROLES then build_fulfillment_widget s
           # (if any_role u [''LOGISTICS_MANAGER''] then [build_approval_widget s] else []) else [])
      @ [build_notifications_widget u s])"

definition get_metrics_for_user :: "user \<Rightarrow> db \<Rightarrow> (string, nat) dict" where
  "get_metrics_for_user u s =
     (let n = (\<lambda>sts rs. length (with_status sts rs)); own = own_requests u s; rs = t_reliefrqst s in
      (if any_role u AGENCY_ROLES
       then [(''total_requests'', length own), (''pending_requests'', n [0, 1] own), (''fulfilled_requests'', n [7] own)] else [])
      @ (if any_role u DIRECTOR_ROLES
         then [(''pending_reviews'', n [1] rs), (''approved_requests'', n [3] rs), (''total_active_requests'', n [1, 3, 5] rs)] else [])
      @ (if any_role u LOGISTICS_ROLES
         then [(''pending_fulfillment'', n [3] rs), (''in_progress'', n [5] rs),
           (''pending_approval'', if any_role u [''LOGISTICS_MANAGER''] then length (packages_with ''P'' s) else 0)] else []))"

definition get_quick_actions :: "user \<Rightarrow> string list" where
  "get_quick_actions u =
     (if any_role u AGENCY_ROLES then [''requests.create_request''] else [])
     @ (if any_role u DIRECTOR_ROLES then [''eligibility.pending_list'', ''director.dashboard''] else [])
     @ (if any_role u LOGISTICS_ROLES then ''packaging.pending_fulfillment''
          # (if any_role u [''LOGISTICS_MANAGER''] then [''packaging.pending_approval''] else []) else [])"

definition get_role_display_name :: "string \<Rightarrow> string" where
  "get_role_display_name code = dict_get [(''SYSTEM_ADMINISTRATOR'', ''System Administrator''), (''ODPEM_DG'', ''Director General''),
     (''ODPEM_DDG'', ''Deputy Director General''), (''ODPEM_DIR_PEOD'', ''Director, PEOD''),
     (''LOGISTICS_MANAGER'', ''Logistics Manager''), (''LOGISTICS_OFFICER'', ''Logistics Officer''),
     (''INVENTORY_CLERK'', ''Inventory Clerk''), (''AGENCY_DISTRIBUTOR'', ''Agency (Distributor)''),
     (''AGENCY_SHELTER'', ''Agency (Shelter)''), (''AUDITOR'', ''Auditor'')] code code"

record dashboard_data =
  dd_features :: "feature list"
  dd_dashboard_features :: "feature list"
  dd_widgets :: "widget list"
  dd_metrics :: "(string, nat) dict"
  dd_primary_role :: "string option"
  dd_role_display_name :: string
  dd_quick_actions :: "string list"

definition get_dashboard_data :: "(string set \<Rightarrow> string) \<Rightarrow> user \<Rightarrow> db \<Rightarrow> dashboard_data" where
  "get_dashboard_data pick u s =
     \<lparr>dd_features = get_accessible_features (Some u), dd_dashboard_features = get_dashboard_features (Some u),
      dd_widgets = get_widgets_for_user u s, dd_metrics = get_metrics_for_user u s,
      dd_primary_role = get_primary_role pick (Some u),
      dd_role_display_name = (if truthy_str (get_primary_role pick (Some u)) then get_role_display_name (the (get_primary_role pick (Some u))) else ''User''),
      dd_quick_actions = get_quick_actions u\<rparr>"

section \<open>The page of a role\<close>

datatype landing = AdminPage | OperationsPage | LogisticsPage | OfficerPage | AgencyPage | InventoryPage | GeneralPage

definition dashboard_index :: "(string set \<Rightarrow> string) \<Rightarrow> user \<Rightarrow> landing" where
  "dashboard_index pick u =
     (case get_primary_role pick (Some u) of
        None \<Rightarrow> GeneralPage
      | Some r \<Rightarrow>
          if r = ''SYSTEM_ADMINISTRATOR'' then AdminPage
          else if r \<in> set DIRECTOR_ROLES then OperationsPage
          else if r = ''LOGISTICS_MANAGER'' then LogisticsPage
          else if r = ''LOGISTICS_OFFICER'' then OfficerPage
          else if r \<in> set AGENCY_ROLES then AgencyPage
          else if r = ''INVENTORY_CLERK'' then InventoryPage
          else GeneralPage)"

text \<open>Newest first; rows without a time come before the others, as the database sorts nulls.\<close>

definition newest_opt :: "('a \<Rightarrow> int option) \<Rightarrow> 'a list \<Rightarrow> 'a list" where
  "newest_opt key rows = sort_key (\<lambda>r. case key r of None \<Rightarrow> (0 :: nat, 0) | Some t \<Rightarrow> (1, - t)) rows"

definition being_filled :: "db \<Rightarrow> reliefrqst \<Rightarrow> bool" where
  "being_filled s r = list_ex (\<lambda>l. lk_reliefrqst_id l = rq_reliefrqst_id r) (t_fulfillment_lock s)"

record logistics_counts =
  lc_pending :: nat
  lc_in_progress :: nat
  lc_ready :: nat
  lc_completed :: nat
  lc_all :: nat

definition logistics_requests :: "string \<Rightarrow> db \<Rightarrow> reliefrqst list" where
  "logistics_requests tab s =
     (let rs = t_reliefrqst s; by_date = sort_key (\<lambda>r. - rq_request_date r) in
      if tab = ''pending'' then by_date (filter (\<lambda>r. rq_status_code r = STATUS_SUBMITTED \<and> \<not> being_filled s r) rs)
      else if tab = ''in_progress'' then by_date (filter (being_filled s) rs)
      else if tab = ''ready'' then by_date (with_status [STATUS_PART_FILLED] rs)
      else if tab = ''completed'' then newest_opt rq_action_dtime (with_status [STATUS_FILLED] rs)
      else by_date (with_status [STATUS_SUBMITTED, STATUS_PART_FILLED, STATUS_FILLED] rs))"

definition logistics_counts_of :: "db \<Rightarrow> logistics_counts" where
  "logistics_counts_of s =
     (let rs = t_reliefrqst s;
          pending = length (filter (\<lambda>r. rq_status_code r = STATUS_SUBMITTED \<and> \<not> being_filled s r) rs);
          progress = length (filter (being_filled s) rs);
          ready = length (with_status [STATUS_PART_FILLED] rs);
          completed = length (with_status [STATUS_FILLED] rs) in
      \<lparr>lc_pending = pending, lc_in_progress = progress, lc_ready = ready, lc_completed = completed,
       lc_all = pending + progress + ready + completed\<rparr>)"

definition logistics_dashboard :: "user \<Rightarrow> string option \<Rightarrow> db \<Rightarrow> exc + reliefrqst list \<times> logistics_counts \<times> nat" where
  "logistics_dashboard u filter_arg s =
     (if \<not> (is_logistics_officer (Some u) \<or> is_logistics_manager (Some u)) then Inl Forbidden403
      else Inr (logistics_requests (case filter_arg of None \<Rightarrow> ''pending'' | Some t \<Rightarrow> t) s, logistics_counts_of s,
        length (low_stock_items s)))"

record agency_counts =
  ac_draft :: nat
  ac_pending :: nat
  ac_approved :: nat
  ac_completed :: nat
  ac_active :: nat

definition agency_dashboard :: "user \<Rightarrow> string option \<Rightarrow> db \<Rightarrow> reliefrqst list \<times> agency_counts" where
  "agency_dashboard u filter_arg s =
     (let own = own_requests u s; tab = (case filter_arg of None \<Rightarrow> ''active'' | Some t \<Rightarrow> t);
          draft = length (with_status [0] own); pending = length (with_status [1] own);
          approved = length (with_status [3, 5] own) in
      (if tab = ''draft'' then sort_key (\<lambda>r. - rq_create_dtime r) (with_status [0] own)
       else if tab = ''pending'' then sort_key (\<lambda>r. - rq_request_date r) (with_status [1] own)
       else if tab = ''approved'' then newest_opt rq_review_dtime (with_status [3, 5] own)
       else if tab = ''completed'' then newest_opt rq_action_dtime (with_status [7] own)
       else sort_key (\<lambda>r. - rq_create_dtime r) (with_status [0, 1, 3, 5] own),
       \<lparr>ac_draft = draft, ac_pending = pending, ac_approved = approved, ac_completed = length (with_status [7] own),
        ac_active = draft + pending + approved\<rparr>))"

record director_page_counts =
  dp_pending :: nat
  dp_approved :: nat
  dp_in_progress :: nat
  dp_completed :: nat
  dp_all :: nat

text \<open>This page asks for no role.\<close>

definition director_page :: "user \<Rightarrow> string option \<Rightarrow> db \<Rightarrow> reliefrqst list \<times> director_page_counts" where
  "director_page u filter_arg s =
     (let rs = t_reliefrqst s; tab = (case filter_arg of None \<Rightarrow> ''pending'' | Some t \<Rightarrow> t) in
      (if tab = ''pending'' then sort_key (\<lambda>r. - rq_request_date r) (with_status [1] rs)
       else if tab = ''approved'' then newest_opt rq_review_dtime (with_status [3] rs)
       else if tab = ''in_progress'' then sort_key (\<lambda>r. - rq_request_date r) (with_status [1, 3, 5] rs)
       else if tab = ''completed'' then newest_opt rq_action_dtime (with_status [7] rs)
       else sort_key (\<lambda>r. - rq_request_date r) rs,
       \<lparr>dp_pending = length (with_status [1] rs), dp_approved = length (with_status [3] rs),
        dp_in_progress = length (with_status [1, 3, 5] rs), dp_completed = length (with_status [7] rs), dp_all = length rs\<rparr>))"

record admin_page =
  ap_total_users :: nat
  ap_total_agencies :: nat
  ap_total_warehouses :: nat
  ap_total_items :: nat
  ap_total_events :: nat
  ap_recent_requests :: "reliefrqst list"
  ap_recent_users :: "user list"

definition admin_dashboard :: "db \<Rightarrow> admin_page" where
  "admin_dashboard s =
     \<lparr>ap_total_users = length (t_user s), ap_total_agencies = length (filter (\<lambda>a. ag_status_code a = ''A'') (t_agency s)),
      ap_total_warehouses = length (filter (\<lambda>h. wh_status_code h = ''A'') (t_warehouse s)),
      ap_total_items = length (filter (\<lambda>t. it_status_code t = ''A'') (t_item s)),
      ap_total_events = length (filter (\<lambda>v. ev_status_code v = ''A'') (t_event s)),
      ap_recent_requests = take 10 (sort_key (\<lambda>r. - rq_create_dtime r) (t_reliefrqst s)),
      ap_recent_users = take 5 (sort_key (\<lambda>u. - us_create_dtime u) (t_user s))\<rparr>"

definition inventory_dashboard :: "db \<Rightarrow> (item \<times> qty) list" where
  "inventory_dashboard s = take 10 (low_stock_items s)"

section \<open>The officer's own work\<close>

definition worked_on :: "string \<Rightarrow> reliefpkg \<Rightarrow> bool" where
  "worked_on n p \<longleftrightarrow> pk_create_by_id p = n \<or> pk_update_by_id p = n"

definition activity_time :: "string \<Rightarrow> reliefpkg \<Rightarrow> datetime option" where
  "activity_time n p =
     (if pk_update_by_id p = n \<and> pk_update_dtime p \<noteq> None then pk_update_dtime p
      else if pk_create_by_id p = n then Some (pk_create_dtime p) else None)"

definition requests_since :: "string \<Rightarrow> datetime \<Rightarrow> reliefpkg list \<Rightarrow> nat" where
  "requests_since n t ps =
     length (remdups (map pk_reliefrqst_id (filter (\<lambda>p. case activity_time n p of None \<Rightarrow> False | Some a \<Rightarrow> a \<ge> t) ps)))"

definition package_status_label :: "string \<Rightarrow> string" where
  "package_status_label st = dict_get [(''P'', ''Pending (Being Prepared)''), (''D'', ''Dispatched (Approved)''),
     (''C'', ''Closed (Received)''), (''X'', ''Cancelled'')] st st"

text \<open>\<^verbatim>\<open>int(q)\<close> drops the fraction.\<close>

definition truncated :: "qty \<Rightarrow> int" where
  "truncated q = (if q \<ge> 0 then \<lfloor>q\<rfloor> else - \<lfloor>- q\<rfloor>)"

record officer_page =
  op_total_requests_worked :: nat
  op_total_packages :: nat
  op_total_items_allocated :: int
  op_requests_last_7_days :: nat
  op_requests_last_30_days :: nat
  op_status_breakdown :: "(string \<times> nat) list"
  op_status_total :: nat
  op_timeline :: "(date \<times> nat) list"
  op_top_items :: "(string \<times> qty) list"
  op_recent_packages :: "reliefpkg list"

definition timeline_of :: "datetime \<Rightarrow> reliefpkg list \<Rightarrow> (date \<times> nat) list" where
  "timeline_of now ps =
     (let recent = filter (\<lambda>p. pk_create_dtime p \<ge> now - 14 * hours 24) ps in
      map (\<lambda>i. let day = day_of (now - int i * hours 24) in (day, length (filter (\<lambda>p. day_of (pk_create_dtime p) = day) recent)))
        (rev [0..<14]))"

definition lo_dashboard :: "env \<Rightarrow> db \<Rightarrow> exc + officer_page" where
  "lo_dashboard e s =
     (let n = us_user_name (en_user e); now = en_now e; ps = filter (worked_on n) (t_reliefpkg s);
          lines = [(i, t). i \<leftarrow> t_reliefpkg_item s, p \<leftarrow> ps, pk_reliefpkg_id p = pi_reliefpkg_id i, t \<leftarrow> t_item s, it_item_id t = pi_item_id i];
          breakdown = count_by pk_status_code ps in
      if \<not> is_logistics_officer (Some (en_user e)) then Inl Forbidden403
      else Inr \<lparr>op_total_requests_worked = length (remdups (map pk_reliefrqst_id ps)), op_total_packages = length ps,
        op_total_items_allocated = truncated (sum_list (map pi_item_qty [i. i \<leftarrow> t_reliefpkg_item s, p \<leftarrow> ps, pk_reliefpkg_id p = pi_reliefpkg_id i])),
        op_requests_last_7_days = requests_since n (now - 7 * hours 24) ps,
        op_requests_last_30_days = requests_since n (now - 30 * hours 24) ps,
        op_status_breakdown = map (\<lambda>(st, c). (package_status_label st, c)) breakdown,
        op_status_total = sum_list (map snd breakdown), op_timeline = timeline_of now ps,
        op_top_items = take 10 (sort_key (\<lambda>(m, q). - q) (sum_by (\<lambda>(i, t). it_item_name t) (\<lambda>(i, t). pi_item_qty i) lines)),
        op_recent_packages = take 5 (sort_key (\<lambda>p. - pk_create_dtime p) ps)\<rparr>)"

section \<open>The executives' figures\<close>

text \<open>\<^verbatim>\<open>date_trunc('week', d)\<close>: the Monday of the week.\<close>

definition week_of :: "date \<Rightarrow> date" where
  "week_of d = d - weekday d"

definition per_week :: "date list \<Rightarrow> (date \<times> nat) list" where
  "per_week ds = sort_key fst (count_by week_of ds)"

definition request_label :: "(int \<Rightarrow> string) \<Rightarrow> int \<Rightarrow> string" where
  "request_label other st = dict_get [(STATUS_DRAFT, ''Draft''), (STATUS_AWAITING_APPROVAL, ''Awaiting Approval''),
     (STATUS_CANCELLED, ''Cancelled''), (STATUS_SUBMITTED, ''Submitted''), (STATUS_DENIED, ''Denied''),
     (STATUS_PART_FILLED, ''Partly Filled''), (STATUS_CLOSED, ''Closed''), (STATUS_FILLED, ''Filled''),
     (STATUS_INELIGIBLE, ''Ineligible'')] st (other st)"

text \<open>No average is shown when there is nothing to average, nor when it is zero.\<close>

definition average_days :: "int list \<Rightarrow> qty option" where
  "average_days ts = (if sum_list ts = 0 then None else Some (rat_of_int (sum_list ts) / rat_of_int (hours 24) / of_nat (length ts)))"

definition since :: "datetime \<Rightarrow> datetime option \<Rightarrow> bool" where
  "since t a = (case a of None \<Rightarrow> False | Some x \<Rightarrow> x \<ge> t)"

record operations_page =
  ox_total_donations :: nat
  ox_total_donation_items :: nat
  ox_donations_timeline :: "(date \<times> nat) list"
  ox_total_requests :: nat
  ox_status_breakdown :: "(string \<times> nat) list"
  ox_awaiting_filling :: nat
  ox_being_prepared :: nat
  ox_awaiting_approval :: nat
  ox_approved_dispatch :: nat
  ox_completed :: nat
  ox_requests_timeline :: "(date \<times> nat) list"
  ox_fulfilled_timeline :: "(date \<times> nat) list"
  ox_total_packages :: nat
  ox_packages_dispatched :: nat
  ox_packages_received :: nat
  ox_top_agencies :: "(string \<times> nat) list"
  ox_avg_approval_time :: "qty option"
  ox_avg_dispatch_time :: "qty option"

definition donations_since :: "date \<Rightarrow> db \<Rightarrow> donation list" where
  "donations_since d s = filter (\<lambda>x. dn_received_date x \<ge> d) (t_donation s)"

definition filled_since :: "datetime \<Rightarrow> db \<Rightarrow> reliefrqst list" where
  "filled_since t s = filter (\<lambda>r. rq_status_code r = 7 \<and> since t (rq_action_dtime r)) (t_reliefrqst s)"

definition approval_times :: "datetime \<Rightarrow> db \<Rightarrow> int list" where
  "approval_times t s = [the (rq_review_dtime r) - rq_create_dtime r. r \<leftarrow> t_reliefrqst s, rq_review_dtime r \<noteq> None \<and> rq_create_dtime r \<ge> t]"

definition dispatch_times :: "datetime \<Rightarrow> db \<Rightarrow> int list" where
  "dispatch_times t s = [the (pk_dispatch_dtime p) - the (rq_review_dtime r). p \<leftarrow> t_reliefpkg s, r \<leftarrow> t_reliefrqst s,
     rq_reliefrqst_id r = pk_reliefrqst_id p \<and> since t (pk_dispatch_dtime p) \<and> rq_review_dtime r \<noteq> None]"

text \<open>
  A period that is no number raises outside any handler; a number moves the start of the window (one
  that leads outside the calendar is left out). The
  donors' ranking that the handler computes is not shown.
\<close>

definition operations_dashboard :: "(int \<Rightarrow> string) \<Rightarrow> env \<Rightarrow> vfield \<Rightarrow> db \<Rightarrow> exc + operations_page" where
  "operations_dashboard other e period s =
     (if role_required DIRECTOR_ROLES (Some (en_user e)) \<noteq> Granted then Inl Forbidden403
      else case (case period of Missing \<Rightarrow> Inr 30 | Text t \<Rightarrow> Inl ValueError | Number n \<Rightarrow> Inr n) of
        Inl x \<Rightarrow> Inl x
      | Inr days \<Rightarrow>
      let start = en_now e - days * hours 24; ds = donations_since (day_of start) s; rs = t_reliefrqst s; ps = t_reliefpkg s;
          new = filter (\<lambda>r. rq_create_dtime r \<ge> start) rs; filled = filled_since start s in
      Inr \<lparr>ox_total_donations = length ds,
        ox_total_donation_items = length [m. m \<leftarrow> t_donation_item s, d \<leftarrow> ds, dn_donation_id d = dm_donation_id m],
        ox_donations_timeline = per_week (map dn_received_date ds), ox_total_requests = length new,
        ox_status_breakdown = map (\<lambda>(st, c). (request_label other st, c)) (count_by rq_status_code new),
        ox_awaiting_filling = length (with_status [3] rs), ox_being_prepared = length (with_status [5] rs),
        ox_awaiting_approval = length (with_status [6] rs),
        ox_approved_dispatch = length (filter (\<lambda>p. pk_status_code p = ''D'' \<and> pk_received_dtime p = None) ps),
        ox_completed = length (with_status [7] rs),
        ox_requests_timeline = per_week (map (\<lambda>r. day_of (rq_create_dtime r)) new),
        ox_fulfilled_timeline = per_week (map (\<lambda>r. day_of (the (rq_action_dtime r))) filled),
        ox_total_packages = length (filter (\<lambda>p. pk_create_dtime p \<ge> start) ps),
        ox_packages_dispatched = length (filter (\<lambda>p. since start (pk_dispatch_dtime p) \<and> pk_status_code p = ''D'') ps),
        ox_packages_received = length (filter (\<lambda>p. since start (pk_received_dtime p) \<and> pk_status_code p = ''R'') ps),
        ox_top_agencies = take 10 (sort_key (\<lambda>(n, c). - int c) (count_by fst
          [(ag_agency_name a, r). a \<leftarrow> t_agency s, r \<leftarrow> filled, rq_agency_id r = ag_agency_id a])),
        ox_avg_approval_time = average_days (approval_times start s),
        ox_avg_dispatch_time = average_days (dispatch_times start s)\<rparr>)"

section \<open>Lemmas\<close>

lemma per_week_total: "sum_list (map snd (per_week ds)) = length ds"
proof -
  have "mset (map snd (per_week ds)) = mset (map snd (count_by week_of ds))" by (simp add: per_week_def)
  then have "sum_list (map snd (per_week ds)) = sum_list (map snd (count_by week_of ds))" by (metis sum_mset_sum_list)
  then show ?thesis by (simp add: count_by_total)
qed

text \<open>The figures of a breakdown add up to its total.\<close>

lemma breakdowns_add_up:
  "lo_dashboard e s = Inr pg \<Longrightarrow> op_status_total pg = op_total_packages pg \<and> sum_list (map snd (op_status_breakdown pg)) = op_total_packages pg"
  "operations_dashboard other e period s = Inr px \<Longrightarrow> sum_list (map snd (ox_status_breakdown px)) = ox_total_requests px"
  "operations_dashboard other e period s = Inr px \<Longrightarrow> sum_list (map snd (ox_donations_timeline px)) = ox_total_donations px"
  "operations_dashboard other e period s = Inr px \<Longrightarrow> sum_list (map snd (ox_requests_timeline px)) = ox_total_requests px"
  by (auto simp: lo_dashboard_def operations_dashboard_def Let_def count_by_total per_week_total comp_def case_prod_beta
      split: if_splits sum.splits)

text \<open>The page of directors shows every request to every user.\<close>

lemma director_page_is_open: "set (fst (director_page u (Some ''all'') s)) = set (t_reliefrqst s)"
  by (simp add: director_page_def Let_def)

lemma agency_page_own: "r \<in> set (fst (agency_dashboard u tab s)) \<Longrightarrow> us_agency_id u = Some (rq_agency_id r)"
  by (auto simp: agency_dashboard_def Let_def newest_opt_def with_status_def own_requests_def split: if_splits)

lemma length_filter_split: "length (filter P xs) = length (filter (\<lambda>x. P x \<and> Q x) xs) + length (filter (\<lambda>x. P x \<and> \<not> Q x) xs)"
  by (induction xs) auto

lemma length_three_states:
  "length (filter (\<lambda>r. rq_status_code r = 3 \<or> rq_status_code r = 5 \<or> rq_status_code r = 7) rs)
    = length (filter (\<lambda>r. rq_status_code r = 3) rs) + length (filter (\<lambda>r. rq_status_code r = 5) rs)
      + length (filter (\<lambda>r. rq_status_code r = 7) rs)"
  by (induction rs) auto

section \<open>Properties\<close>

text \<open>
  The number on the tab of all requests of the logistics dashboard is too high by exactly the
  number of requests that are being filled and have left the state in which filling starts: it is
  a sum over tabs that overlap.
\<close>

lemma logistics_all_overcounts:
  assumes "logistics_dashboard u (Some ''all'') s = Inr (rs, c, n)"
  shows "lc_all c = length rs + length (filter (\<lambda>r. being_filled s r \<and> rq_status_code r \<noteq> STATUS_SUBMITTED) (t_reliefrqst s))"
proof -
  let ?t = "t_reliefrqst s"
  have rs: "rs = logistics_requests ''all'' s" and c: "c = logistics_counts_of s"
    using assms by (auto simp: logistics_dashboard_def split: if_splits)
  have "length rs = length (filter (\<lambda>r. rq_status_code r = 3) ?t) + length (filter (\<lambda>r. rq_status_code r = 5) ?t)
      + length (filter (\<lambda>r. rq_status_code r = 7) ?t)"
    unfolding rs by (simp add: logistics_requests_def with_status_def length_three_states)
  moreover have "length (filter (being_filled s) ?t) = length (filter (\<lambda>r. being_filled s r \<and> rq_status_code r = 3) ?t)
      + length (filter (\<lambda>r. being_filled s r \<and> rq_status_code r \<noteq> 3) ?t)"
    by (rule length_filter_split)
  moreover have "length (filter (\<lambda>r. rq_status_code r = 3) ?t) = length (filter (\<lambda>r. rq_status_code r = 3 \<and> being_filled s r) ?t)
      + length (filter (\<lambda>r. rq_status_code r = 3 \<and> \<not> being_filled s r) ?t)"
    by (rule length_filter_split)
  moreover have "filter (\<lambda>r. rq_status_code r = 3 \<and> being_filled s r) ?t = filter (\<lambda>r. being_filled s r \<and> rq_status_code r = 3) ?t"
    by (rule filter_cong) auto
  ultimately show ?thesis unfolding c by (simp add: logistics_counts_of_def Let_def with_status_def)
qed

end
