(* ===== verification/Spec2Isabelle.thy ===== *)
theory Spec2Isabelle
  imports Packaging_Queues Master_Flow Account_Properties Request_Page_Properties Batch_Creation Receiving Dashboards
begin

text \<open>
  A verification library for DRIMS, a relief-logistics application (a Flask program over a relational
  database). Agencies draft and submit relief requests; directors decide on their eligibility;
  logistics officers and managers allocate stock batches to packages, which are approved, dispatched
  and handed over; donations are taken in and become stock. Around this stand master data, accounts
  and roles, notifications, dashboards and reports. Paths below are relative to \<^verbatim>\<open>src/app\<close>.

  \<^bold>\<open>How the program is modelled.\<close> A table is a list of records (\<open>Models\<close>, from \<^verbatim>\<open>db/models.py\<close>) and the
  database a record \<open>db\<close> of tables and key sequences; a function that changes it takes it and returns
  it. What a request brings along (user, clock, date, status cache) is the record \<open>env\<close>. An exception
  is a value of \<open>exc\<close> and a fallible function returns a sum; a handler ends in a \<open>reply\<close> (saved,
  invalid with its messages, refused, an exception caught, an exception not caught), and what it
  rolls back is the database it got. A form field is what it holds before it is parsed (\<open>Forms\<close>).
  Quantities are exact rationals, dates and times integers (days and microseconds), texts are
  Latin-1 and fit their columns unless a handler measures them. One request is one atomic step, except
  for \<open>acquire_lock\<close>, which is split at its query and its insert so that sessions interleave. Every
  recursion is structural or has its termination proof; nothing uses fuel.

  \<^bold>\<open>Theories and sources.\<close>
  \<^item> \<open>Prelude\<close>, \<open>Keyed_Loops\<close>, \<open>Example_Data\<close>: generic lemmas, the locales \<open>keyed_rows\<close> (tables with
    keys), \<open>invariant_system\<close> (reachability) and \<open>keyed_loop\<close> (loops that edit one row per key), and data
    for the examples.
  \<^item> \<open>Core_Utils\<close>, \<open>Digits\<close>: \<^verbatim>\<open>core/audit.py\<close>, \<^verbatim>\<open>core/exceptions.py\<close>, \<^verbatim>\<open>core/phone_utils.py\<close>,
    \<^verbatim>\<open>utils/timezone.py\<close>; numbers as texts.
  \<^item> \<open>Batch_Allocation\<close>, \<open>Reservation\<close>, \<open>Fulfillment_Lock\<close>, \<open>Item_Status\<close>, \<open>Notifications\<close>,
    \<open>Relief_Request\<close>, \<open>Batch_Creation\<close>: the files of \<^verbatim>\<open>services/\<close> of the same names.
  \<^item> \<open>Rbac\<close>: \<^verbatim>\<open>core/rbac.py\<close>, \<^verbatim>\<open>core/decorators.py\<close>, \<^verbatim>\<open>core/feature_registry.py\<close>.
  \<^item> \<open>Packaging\<close>, \<open>Packaging_Ledger\<close>, \<open>Packaging_Flow\<close>, \<open>Packaging_Properties\<close>, \<open>Packaging_Queues\<close>:
    \<^verbatim>\<open>features/packaging.py\<close>; the handlers first, then stock and reservations as ledgers, their steps,
    and the queues and pages.
  \<^item> \<open>Donations\<close>, \<open>Donation_Intake\<close>, \<open>Intake_Properties\<close>: \<^verbatim>\<open>features/donations.py\<close> and
    \<^verbatim>\<open>features/donation_intake.py\<close>.
  \<^item> \<open>Master_Data\<close>, \<open>Master_Properties\<close>, \<open>Master_Flow\<close>: \<^verbatim>\<open>uom.py\<close>, \<^verbatim>\<open>item_categories.py\<close>, \<^verbatim>\<open>items.py\<close>,
    \<^verbatim>\<open>custodians.py\<close>, \<^verbatim>\<open>warehouses.py\<close>, \<^verbatim>\<open>agencies.py\<close>, \<^verbatim>\<open>donors.py\<close>, \<^verbatim>\<open>events.py\<close> of \<^verbatim>\<open>features/\<close>, with the version
    check of \<^verbatim>\<open>core/optimistic_locking.py\<close>.
  \<^item> \<open>Accounts\<close>, \<open>Account_Properties\<close>: \<^verbatim>\<open>features/user_admin.py\<close>, \<^verbatim>\<open>profile.py\<close>, \<^verbatim>\<open>account_requests.py\<close> and the
    login of \<^verbatim>\<open>drims_app.py\<close>. Hashing is a parameter.
  \<^item> \<open>Request_Pages\<close>, \<open>Request_Page_Properties\<close>: \<^verbatim>\<open>features/requests_aidmgmt.py\<close>, \<^verbatim>\<open>eligibility.py\<close>,
    \<^verbatim>\<open>odpem_director.py\<close>.
  \<^item> \<open>Receiving\<close>: \<^verbatim>\<open>features/intake_aidmgmt.py\<close> and \<^verbatim>\<open>transfers.py\<close>.
  \<^item> \<open>Reports\<close>: \<^verbatim>\<open>features/inventory.py\<close>, \<^verbatim>\<open>reports.py\<close>, \<^verbatim>\<open>notifications.py\<close> and \<^verbatim>\<open>core/status.py\<close>.
  \<^item> \<open>Dashboards\<close>: \<^verbatim>\<open>services/dashboard_service.py\<close>, \<^verbatim>\<open>features/dashboard.py\<close>,
    \<^verbatim>\<open>features/operations_dashboard.py\<close>.

  \<^bold>\<open>What is shown.\<close>
  \<^item> Stock: allocation serves a request as far as stock allows and in the order of the item's policy;
    reserving refines an abstract ledger, releasing undoes it, committing deducts what was reserved;
    in every sequence of packaging and intake steps the books balance, and a donation enters once.
  \<^item> Workflow: requests keep the constraints of the schema, an eligibility decision is made once, a
    request is prepared by one session at a time, a posted form takes effect at most once and a
    failing one not at all; requests out of a user's reach, or no longer drafts, are left alone by the
    request pages.
  \<^item> Master data and accounts: keys stay unique and references valid, stale forms and closed events
    change nothing, nobody hands out a role they may not assign, account requests leave a trace.
  \<^item> Views: tabs, counts and totals agree with the rows they stand for, a user sees only their own
    notifications, and the features offered are those the guards admit.
  \<^item> Defects, stated as theorems about the code as it is: dispatching twice deducts twice, cancelling a
    preparation releases no reservation, an unnumbered batch keeps its first expiry date, and a
    generated batch number exceeds its column.

  \<^bold>\<open>Not modelled.\<close> Templates, message texts, links, icons and charts; the CSV text of a report and
  the links of the navigation; the list pages of the master data, which only filter, sort and render;
  row locks of the database; what would follow a statement that always raises in \<^verbatim>\<open>intake_aidmgmt.py\<close>
  and \<^verbatim>\<open>transfers.py\<close>; the wiring of the application (\<^verbatim>\<open>drims_app.py\<close> apart from login and logout,
  \<^verbatim>\<open>settings.py\<close>, \<^verbatim>\<open>wsgi.py\<close>, \<^verbatim>\<open>db/__init__.py\<close>), and the scripts that seed or migrate a database.
\<close>

end
